(* ===== verification/Prelude.thy ===== *)
theory Prelude
  imports Main "HOL-Library.State_Monad" "HOL-Library.Sublist"
begin

text \<open>
  Shared vocabulary of the development.

  \<^item> Effects. Every operation of the program that talks to the operating system is a value of the
    library type \<^typ>\<open>('s, 'a) state\<close>; sequencing is its bind, written with do-notation.
  \<^item> Operations that may not return (recursion over the live process tree, a copy loop driven by
    the kernel) carry a fuel argument and answer \<^typ>\<open>'a option\<close>; \<^const>\<open>None\<close> means that the fuel
    was used up. \<open>obind\<close> sequences them, \<open>olift\<close> embeds an operation that always returns.
  \<^item> Frame reasoning. A reflexive and transitive relation between the state before and the state
    after is closed under all combinators; the locale \<open>io_frame\<close> proves this once.
\<close>

named_theorems frame_intros
named_theorems run_simps

section \<open>Operations that may not return\<close>

definition oret :: "'a \<Rightarrow> ('s, 'a option) state" where
  "oret x = State_Monad.return (Some x)"

definition obind ::
  "('s, 'a option) state \<Rightarrow> ('a \<Rightarrow> ('s, 'b option) state) \<Rightarrow> ('s, 'b option) state" where
  "obind m f = do {
     r \<leftarrow> m;
     (case r of None \<Rightarrow> State_Monad.return None | Some x \<Rightarrow> f x)
   }"

definition olift :: "('s, 'a) state \<Rightarrow> ('s, 'a option) state" where
  "olift m = do { x \<leftarrow> m; State_Monad.return (Some x) }"

text \<open>Loops over a list whose body has no result, always returning or with fuel.\<close>

primrec for_each :: "('b \<Rightarrow> ('s, unit) state) \<Rightarrow> 'b list \<Rightarrow> ('s, unit) state" where
  "for_each f [] = State_Monad.return ()"
| "for_each f (x # xs) = do { _ \<leftarrow> f x; for_each f xs }"

primrec ofor_each :: "('b \<Rightarrow> ('s, unit option) state) \<Rightarrow> 'b list \<Rightarrow> ('s, unit option) state" where
  "ofor_each f [] = oret ()"
| "ofor_each f (x # xs) = obind (f x) (\<lambda>_. ofor_each f xs)"

lemma run_oret [simp, run_simps]: "run_state (oret x) s = (Some x, s)"
  by (simp add: oret_def)

lemma run_obind [simp, run_simps]:
  "run_state (obind m f) s =
     (case run_state m s of (None, t) \<Rightarrow> (None, t) | (Some x, t) \<Rightarrow> run_state (f x) t)"
  by (auto simp: obind_def split: prod.splits option.splits)

lemma run_olift [simp, run_simps]:
  "run_state (olift m) s = (case run_state m s of (x, t) \<Rightarrow> (Some x, t))"
  by (simp add: olift_def)

lemma run_bindE:
  assumes "run_state (State_Monad.bind m f) s = (r, t)"
  obtains x u where "run_state m s = (x, u)" and "run_state (f x) u = (r, t)"
  using assms by (auto split: prod.splits)

lemma run_obindE:
  assumes "run_state (obind m f) s = (Some r, t)"
  obtains x u where "run_state m s = (Some x, u)" and "run_state (f x) u = (Some r, t)"
  using assms by (auto split: prod.splits option.splits)

lemma run_if [run_simps]:
  "run_state (if b then m else n) s = (if b then run_state m s else run_state n s)"
  by simp

text \<open>An operation returns from a state when it does not run out of fuel there.\<close>

definition returns :: "('s, 'a option) state \<Rightarrow> bool" where
  "returns m \<longleftrightarrow> (\<forall>s. \<exists>x t. run_state m s = (Some x, t))"

lemma returnsI: "(\<And>s. \<exists>x t. run_state m s = (Some x, t)) \<Longrightarrow> returns m"
  by (simp add: returns_def)

lemma returnsE:
  assumes "returns m"
  obtains x t where "run_state m s = (Some x, t)"
  using assms unfolding returns_def by blast

lemma returns_oret [simp]: "returns (oret x)"
  by (simp add: returns_def)

lemma returns_olift [simp]: "returns (olift m)"
  by (auto simp: returns_def split: prod.splits)

lemma returns_obind:
  assumes m: "returns m" and f: "\<And>x. returns (f x)"
  shows "returns (obind m f)"
proof (rule returnsI)
  fix s
  obtain x t where "run_state m s = (Some x, t)"
    using m by (rule returnsE)
  moreover obtain y u where "run_state (f x) t = (Some y, u)"
    using f by (rule returnsE)
  ultimately show "\<exists>y u. run_state (obind m f) s = (Some y, u)" by simp
qed

lemma returns_bind:
  assumes "\<And>x. returns (f x)"
  shows "returns (State_Monad.bind m f)"
  using assms by (auto simp: returns_def split: prod.splits)

lemma returns_ofor_each:
  "(\<And>x. x \<in> set xs \<Longrightarrow> returns (f x)) \<Longrightarrow> returns (ofor_each f xs)"
  by (induction xs) (auto intro!: returns_obind)

lemma returns_if: "(b \<Longrightarrow> returns m) \<Longrightarrow> (\<not> b \<Longrightarrow> returns n) \<Longrightarrow> returns (if b then m else n)"
  by simp

lemmas returns_rules =
  returns_oret returns_olift returns_obind returns_bind returns_ofor_each returns_if

section \<open>Frames: what an operation may change\<close>

text \<open>
  \<^const>\<open>state_io_rel\<close> \<open>R m\<close> (library) says that every run of \<open>m\<close> relates the state before to the
  state after by \<open>R\<close>. For a preorder \<open>R\<close> this is compositional.
\<close>

definition state_ret_rel :: "('s \<Rightarrow> 's \<Rightarrow> bool) \<Rightarrow> ('s, 'a option) state \<Rightarrow> bool" where
  \<comment> \<open>every run of \<open>m\<close> that returns relates its two states\<close>
  "state_ret_rel R m \<longleftrightarrow> (\<forall>s x t. run_state m s = (Some x, t) \<longrightarrow> R s t)"

lemma state_ret_relI: "(\<And>s x t. run_state m s = (Some x, t) \<Longrightarrow> R s t) \<Longrightarrow> state_ret_rel R m"
  by (simp add: state_ret_rel_def)

lemma state_ret_relD: "state_ret_rel R m \<Longrightarrow> run_state m s = (Some x, t) \<Longrightarrow> R s t"
  by (auto simp: state_ret_rel_def)

lemma state_io_imp_ret: "state_io_rel R m \<Longrightarrow> state_ret_rel R m"
  by (rule state_ret_relI) (rule state_io_relD)

lemma state_ret_rel_if:
  "(b \<Longrightarrow> state_ret_rel R m) \<Longrightarrow> (\<not> b \<Longrightarrow> state_ret_rel R n) \<Longrightarrow> state_ret_rel R (if b then m else n)"
  by simp

locale io_frame =
  fixes R :: "'s \<Rightarrow> 's \<Rightarrow> bool"
  assumes frame_refl: "R s s"
    and frame_trans: "R s t \<Longrightarrow> R t u \<Longrightarrow> R s u"
begin

lemma frame_return: "state_io_rel R (State_Monad.return x)"
  by (simp add: state_io_rel_def frame_refl)

lemma frame_get: "state_io_rel R State_Monad.get"
  by (simp add: state_io_rel_def frame_refl)

lemma frame_bind:
  assumes m: "state_io_rel R m" and f: "\<And>x. state_io_rel R (f x)"
  shows "state_io_rel R (State_Monad.bind m f)"
proof (rule state_io_relI)
  fix a s u
  assume "run_state (State_Monad.bind m f) s = (a, u)"
  then obtain x t where mt: "run_state m s = (x, t)" and fu: "run_state (f x) t = (a, u)"
    by (auto split: prod.splits)
  from m mt have "R s t" by (rule state_io_relD)
  moreover from f fu have "R t u" by (rule state_io_relD)
  ultimately show "R s u" by (rule frame_trans)
qed

lemma frame_oret: "state_io_rel R (oret x)"
  by (simp add: oret_def frame_return)

lemma frame_obind:
  assumes "state_io_rel R m" and "\<And>x. state_io_rel R (f x)"
  shows "state_io_rel R (obind m f)"
  unfolding obind_def
  by (rule frame_bind) (auto simp: assms frame_return split: option.splits)

lemma frame_olift: "state_io_rel R m \<Longrightarrow> state_io_rel R (olift m)"
  unfolding olift_def by (rule frame_bind) (auto simp: frame_return)

lemma frame_for_each:
  "(\<And>x. state_io_rel R (f x)) \<Longrightarrow> state_io_rel R (for_each f xs)"
  by (induction xs) (simp_all add: frame_return frame_bind)

lemma frame_ofor_each:
  "(\<And>x. state_io_rel R (f x)) \<Longrightarrow> state_io_rel R (ofor_each f xs)"
  by (induction xs) (simp_all add: frame_oret frame_obind)

lemma ret_oret: "state_ret_rel R (oret x)"
  by (rule state_io_imp_ret) (rule frame_oret)

lemma ret_none: "state_ret_rel R (State_Monad.return None)"
  by (rule state_io_imp_ret) (rule frame_return)

lemma ret_olift: "state_io_rel R m \<Longrightarrow> state_ret_rel R (olift m)"
  by (rule state_io_imp_ret) (rule frame_olift)

lemma ret_bind:
  assumes m: "state_io_rel R m" and f: "\<And>x. state_ret_rel R (f x)"
  shows "state_ret_rel R (State_Monad.bind m f)"
proof (rule state_ret_relI)
  fix s x u
  assume "run_state (State_Monad.bind m f) s = (Some x, u)"
  then obtain y t where mt: "run_state m s = (y, t)" and fu: "run_state (f y) t = (Some x, u)"
    by (auto split: prod.splits)
  from m mt have "R s t" by (rule state_io_relD)
  moreover from f fu have "R t u" by (rule state_ret_relD)
  ultimately show "R s u" by (rule frame_trans)
qed

lemma ret_obind:
  assumes m: "state_ret_rel R m" and f: "\<And>x. state_ret_rel R (f x)"
  shows "state_ret_rel R (obind m f)"
proof (rule state_ret_relI)
  fix s x u
  assume "run_state (obind m f) s = (Some x, u)"
  then obtain y t where mt: "run_state m s = (Some y, t)" and fu: "run_state (f y) t = (Some x, u)"
    by (auto split: prod.splits option.splits)
  from m mt have "R s t" by (rule state_ret_relD)
  moreover from f fu have "R t u" by (rule state_ret_relD)
  ultimately show "R s u" by (rule frame_trans)
qed

lemma ret_ofor_each:
  "(\<And>x. state_ret_rel R (f x)) \<Longrightarrow> state_ret_rel R (ofor_each f xs)"
  by (induction xs) (simp_all add: ret_oret ret_obind)

lemmas ret_combinators = ret_oret ret_none ret_olift ret_bind ret_obind ret_ofor_each

lemmas frame_combinators =
  frame_return frame_get frame_bind frame_oret frame_obind frame_olift
  frame_for_each frame_ofor_each

end

lemma state_io_rel_if:
  "(b \<Longrightarrow> state_io_rel R m) \<Longrightarrow> (\<not> b \<Longrightarrow> state_io_rel R n) \<Longrightarrow> state_io_rel R (if b then m else n)"
  by simp

lemma state_io_rel_option:
  "state_io_rel R a \<Longrightarrow> (\<And>y. state_io_rel R (b y)) \<Longrightarrow>
     state_io_rel R (case x of None \<Rightarrow> a | Some y \<Rightarrow> b y)"
  by (cases x) simp_all

lemma state_io_rel_sum:
  "(\<And>y. state_io_rel R (a y)) \<Longrightarrow> (\<And>y. state_io_rel R (b y)) \<Longrightarrow>
     state_io_rel R (case x of Inl y \<Rightarrow> a y | Inr y \<Rightarrow> b y)"
  by (cases x) simp_all

lemma state_io_rel_prod:
  "(\<And>y z. state_io_rel R (a y z)) \<Longrightarrow> state_io_rel R (case x of (y, z) \<Rightarrow> a y z)"
  by (cases x) simp_all

lemmas state_io_rel_cases =
  state_io_rel_if state_io_rel_option state_io_rel_sum state_io_rel_prod

lemma state_io_rel_run: "state_io_rel R m \<Longrightarrow> R s (snd (run_state m s))"
  by (simp add: state_io_rel_def)

section \<open>Lists\<close>

lemma find_Some_iff_mem: "List.find P xs = Some x \<Longrightarrow> x \<in> set xs \<and> P x"
  by (induction xs) (auto split: if_splits)

primrec index_of :: "('a \<Rightarrow> bool) \<Rightarrow> 'a list \<Rightarrow> nat option" where
  \<comment> \<open>the position of the first element that satisfies \<open>P\<close>: a pointer into an array\<close>
  "index_of P [] = None"
| "index_of P (x # xs) = (if P x then Some 0 else map_option Suc (index_of P xs))"

lemma index_of_None: "index_of P xs = None \<longleftrightarrow> (\<forall>x\<in>set xs. \<not> P x)"
  by (induction xs) auto

lemma index_of_Some:
  "index_of P xs = Some i \<Longrightarrow> i < length xs \<and> P (xs ! i) \<and> (\<forall>j<i. \<not> P (xs ! j))"
proof (induction xs arbitrary: i)
  case Nil
  then show ?case by simp
next
  case (Cons x xs)
  then show ?case by (auto split: if_splits simp: nth_Cons split: nat.splits)
qed

lemma index_of_snoc:
  "index_of P (xs @ [x]) =
     (case index_of P xs of Some i \<Rightarrow> Some i | None \<Rightarrow> if P x then Some (length xs) else None)"
  by (induction xs) (auto split: option.splits)

text \<open>Removing the element at an index closes the gap.\<close>

definition remove_nth :: "nat \<Rightarrow> 'a list \<Rightarrow> 'a list" where
  "remove_nth i xs = take i xs @ drop (Suc i) xs"

lemma map_remove_nth: "map f (remove_nth i xs) = remove_nth i (map f xs)"
  by (simp add: remove_nth_def take_map drop_map)

lemma set_remove_nth_subset: "set (remove_nth i xs) \<subseteq> set xs"
  unfolding remove_nth_def by (auto dest: in_set_takeD in_set_dropD)

lemma remove_nth_split:
  "i < length xs \<Longrightarrow> \<exists>ys zs. xs = ys @ xs ! i # zs \<and> remove_nth i xs = ys @ zs"
  unfolding remove_nth_def using id_take_nth_drop by blast

lemma distinct_remove_nth:
  assumes "distinct xs" and "i < length xs"
  shows "distinct (remove_nth i xs)" and "set (remove_nth i xs) = set xs - {xs ! i}"
proof -
  obtain ys zs x where xs: "xs = ys @ x # zs" "remove_nth i xs = ys @ zs" "x = xs ! i"
    using remove_nth_split [OF assms(2)] by blast
  show "distinct (remove_nth i xs)" using assms(1) unfolding xs(2) by (simp add: xs(1))
  show "set (remove_nth i xs) = set xs - {xs ! i}"
    using assms(1) unfolding xs(2) xs(3) [symmetric] by (auto simp: xs(1))
qed

lemma length_remove_nth: "i < length xs \<Longrightarrow> length (remove_nth i xs) = length xs - 1"
  by (simp add: remove_nth_def)

end
