(* ===== verification/C_Library.thy ===== *)
theory C_Library
  imports Prelude "HOL-Library.Word"
begin

text \<open>
  The parts of the C library the sources call that compute on values only: integer widths, the
  conversions \<open>%d\<close>, \<open>%ld\<close> and \<open>%lu\<close> of the printf family, \<open>snprintf\<close> with its truncation,
  \<open>strtol\<close>, \<open>strtoul\<close>, \<open>atoi\<close>, the integer conversion of \<open>scanf\<close>, \<open>strstr\<close> and \<open>dirname\<close>.
  A C string is a \<^typ>\<open>string\<close> without the terminating NUL; a nullable \<open>char *\<close> is a
  \<^typ>\<open>string option\<close>. \<open>int\<close>, \<open>pid_t\<close> (32 bit) and \<open>long\<close>, \<open>time_t\<close> (64 bit, LP64) are
  \<^typ>\<open>int\<close>, with the conversions between the widths written out; \<open>unsigned long\<close> is
  \<^typ>\<open>64 word\<close>. Printing and scanning are tied together by the locale \<open>decimal_format\<close>.
\<close>

section \<open>Integer widths\<close>

type_synonym ulong = "64 word"

definition to_int32 :: "int \<Rightarrow> int" where
  \<comment> \<open>conversion to \<open>int\<close>: two's complement wrap-around\<close>
  "to_int32 x = (x + 2 ^ 31) mod 2 ^ 32 - 2 ^ 31"

definition int32_range :: "int \<Rightarrow> bool" where
  "int32_range x \<longleftrightarrow> - (2 ^ 31) \<le> x \<and> x < 2 ^ 31"

definition int64_range :: "int \<Rightarrow> bool" where
  "int64_range x \<longleftrightarrow> - (2 ^ 63) \<le> x \<and> x < 2 ^ 63"

definition clamp_long :: "int \<Rightarrow> int" where
  \<comment> \<open>\<open>strtol\<close> answers LONG_MIN or LONG_MAX out of range\<close>
  "clamp_long x = max (- (2 ^ 63)) (min (2 ^ 63 - 1) x)"

definition c_div :: "int \<Rightarrow> int \<Rightarrow> int" where
  \<comment> \<open>integer division of C: towards zero\<close>
  "c_div a b = sgn a * sgn b * (\<bar>a\<bar> div \<bar>b\<bar>)"

lemma c_div_nonneg: "0 \<le> a \<Longrightarrow> 0 < b \<Longrightarrow> c_div a b = a div b"
  by (cases "a = 0") (simp_all add: c_div_def)

lemma c_div_neg: "a < 0 \<Longrightarrow> 0 < b \<Longrightarrow> c_div a b \<le> 0"
  by (simp add: c_div_def pos_imp_zdiv_nonneg_iff)

lemma to_int32_id [simp]: "int32_range x \<Longrightarrow> to_int32 x = x"
  by (simp add: to_int32_def int32_range_def)

lemma to_int32_range [simp]: "int32_range (to_int32 x)"
proof -
  have "0 \<le> (x + 2 ^ 31) mod 2 ^ 32" "(x + 2 ^ 31) mod 2 ^ 32 < 2 ^ 32"
    by simp_all
  then show ?thesis by (simp add: to_int32_def int32_range_def)
qed

lemma clamp_long_id [simp]: "int64_range x \<Longrightarrow> clamp_long x = x"
  by (simp add: clamp_long_def int64_range_def)

lemma int32_imp_int64 [simp]: "int32_range x \<Longrightarrow> int64_range x"
  by (simp add: int32_range_def int64_range_def)

section \<open>Characters\<close>

definition isdigit :: "char \<Rightarrow> bool" where
  "isdigit c \<longleftrightarrow> 48 \<le> (of_char c :: nat) \<and> (of_char c :: nat) \<le> 57"

definition isspace :: "char \<Rightarrow> bool" where
  "isspace c \<longleftrightarrow> c = CHR '' '' \<or> (9 \<le> (of_char c :: nat) \<and> (of_char c :: nat) \<le> 13)"

definition digit_char :: "nat \<Rightarrow> char" where
  "digit_char d = char_of (48 + d)"

definition digit_val :: "char \<Rightarrow> nat" where
  "digit_val c = of_char c - 48"

lemma of_digit_char: "d < 10 \<Longrightarrow> (of_char (digit_char d) :: nat) = 48 + d"
  by (simp add: digit_char_def)

lemma isdigit_digit_char [simp]: "d < 10 \<Longrightarrow> isdigit (digit_char d)"
  by (simp add: isdigit_def of_digit_char)

lemma digit_val_digit_char [simp]: "d < 10 \<Longrightarrow> digit_val (digit_char d) = d"
  by (simp add: digit_val_def of_digit_char)

lemma digit_chars:
  "digit_char 0 = CHR ''0''" "digit_char (Suc 0) = CHR ''1''" "digit_char 1 = CHR ''1''"
  "digit_char 2 = CHR ''2''" "digit_char 3 = CHR ''3''" "digit_char 4 = CHR ''4''"
  "digit_char 5 = CHR ''5''" "digit_char 6 = CHR ''6''" "digit_char 7 = CHR ''7''"
  "digit_char 8 = CHR ''8''" "digit_char 9 = CHR ''9''"
  by (simp_all add: digit_char_def char_of_def bit_0)

lemma digit_not_space: "isdigit c \<Longrightarrow> \<not> isspace c"
  by (auto simp: isdigit_def isspace_def)

lemma digit_not_sign: "isdigit c \<Longrightarrow> c \<noteq> CHR ''-'' \<and> c \<noteq> CHR ''+''"
  by (auto simp: isdigit_def)

definition no_digit_ahead :: "string \<Rightarrow> bool" where
  "no_digit_ahead r \<longleftrightarrow> (case r of [] \<Rightarrow> True | c # _ \<Rightarrow> \<not> isdigit c)"

lemma no_digit_ahead_simps [simp]:
  "no_digit_ahead []" "no_digit_ahead (c # cs) \<longleftrightarrow> \<not> isdigit c"
  by (simp_all add: no_digit_ahead_def)

section \<open>Printing\<close>

fun show_nat :: "nat \<Rightarrow> string" where
  "show_nat n = (if n < 10 then [digit_char n] else show_nat (n div 10) @ [digit_char (n mod 10)])"

declare show_nat.simps [simp del]

definition show_int :: "int \<Rightarrow> string" where
  \<comment> \<open>\<open>%d\<close> and \<open>%ld\<close>\<close>
  "show_int i = (if i < 0 then CHR ''-'' # show_nat (nat (- i)) else show_nat (nat i))"

definition show_ulong :: "ulong \<Rightarrow> string" where
  \<comment> \<open>\<open>%lu\<close>\<close>
  "show_ulong w = show_nat (unat w)"

definition snprintf :: "nat \<Rightarrow> string \<Rightarrow> string" where
  \<comment> \<open>what a buffer of \<open>n\<close> bytes holds after printing \<open>s\<close> into it\<close>
  "snprintf n s = take (n - 1) s"

lemma snprintf_fits [simp]: "length s < n \<Longrightarrow> snprintf n s = s"
  by (simp add: snprintf_def)

lemma length_snprintf: "length (snprintf n s) \<le> n - 1"
  by (simp add: snprintf_def)

section \<open>Scanning\<close>

fun scan_digits :: "nat \<Rightarrow> string \<Rightarrow> nat \<times> string" where
  "scan_digits acc [] = (acc, [])"
| "scan_digits acc (c # cs) =
     (if isdigit c then scan_digits (10 * acc + digit_val c) cs else (acc, c # cs))"

definition scan_sign :: "string \<Rightarrow> bool \<times> string" where
  \<comment> \<open>an optional sign, after white space: whether it was a minus, and the rest\<close>
  "scan_sign s =
     (case dropWhile isspace s of
        [] \<Rightarrow> (False, [])
      | c # cs \<Rightarrow> if c = CHR ''-'' then (True, cs) else if c = CHR ''+'' then (False, cs)
                  else (False, c # cs))"

definition scan_integer :: "string \<Rightarrow> (int \<times> string) option" where
  \<comment> \<open>white space, sign, digits: the value and what follows; \<open>None\<close> without a digit\<close>
  "scan_integer s =
     (case scan_sign s of (neg, u) \<Rightarrow>
        if no_digit_ahead u then None
        else (case scan_digits 0 u of (n, r) \<Rightarrow> Some (if neg then - int n else int n, r)))"

definition strtol :: "string \<Rightarrow> int \<times> string" where
  \<comment> \<open>base 10: the value and the text \<open>endptr\<close> points to\<close>
  "strtol s = (case scan_integer s of None \<Rightarrow> (0, s) | Some (v, r) \<Rightarrow> (clamp_long v, r))"

definition strtoul :: "string \<Rightarrow> ulong \<times> string" where
  \<comment> \<open>base 10; a minus sign negates in \<open>unsigned long\<close>, out of range is ULONG_MAX\<close>
  "strtoul s =
     (case scan_integer s of None \<Rightarrow> (0, s)
      | Some (v, r) \<Rightarrow> (if \<bar>v\<bar> < 2 ^ 64 then word_of_int v else - 1, r))"

definition atoi :: "string \<Rightarrow> int" where
  "atoi s = to_int32 (fst (strtol s))"

definition sscanf_d :: "string \<Rightarrow> int option" where
  \<comment> \<open>one \<open>%d\<close> conversion\<close>
  "sscanf_d s = map_option (\<lambda>(v, _). to_int32 (clamp_long v)) (scan_integer s)"

definition sscanf_ld :: "string \<Rightarrow> int option" where
  \<comment> \<open>one \<open>%ld\<close> conversion\<close>
  "sscanf_ld s = map_option (\<lambda>(v, _). clamp_long v) (scan_integer s)"

text \<open>
  The loop \<open>while (fscanf(fp, "%d", &x) == 1)\<close> over the text of a stream: each conversion consumes
  at least one digit, so the loop ends.
\<close>

lemma scan_digits_length: "length (snd (scan_digits a s)) \<le> length s"
  by (induction a s rule: scan_digits.induct) auto

lemma scan_sign_length: "length (snd (scan_sign s)) \<le> length s"
proof -
  have "length (dropWhile isspace s) \<le> length s" by (rule length_dropWhile_le)
  then show ?thesis by (auto simp: scan_sign_def split: list.splits)
qed

lemma scan_integer_length:
  assumes "scan_integer s = Some (v, r)"
  shows "length r < length s"
proof -
  obtain neg u where su: "scan_sign s = (neg, u)" by fastforce
  obtain n r' where d: "scan_digits 0 u = (n, r')" by fastforce
  from assms su d have u: "\<not> no_digit_ahead u" and r: "r = r'"
    by (auto simp: scan_integer_def split: if_splits)
  from u obtain c cs where c: "u = c # cs" "isdigit c" by (cases u) auto
  with d r have "length r \<le> length cs"
    using scan_digits_length [of "digit_val c" cs] by simp
  moreover have "length u \<le> length s" using scan_sign_length [of s] su by simp
  ultimately show ?thesis using c by simp
qed

function fscanf_ints :: "string \<Rightarrow> int list" where
  "fscanf_ints s =
     (case scan_integer s of None \<Rightarrow> []
      | Some (v, r) \<Rightarrow> to_int32 (clamp_long v) # fscanf_ints r)"
  by pat_completeness auto
termination
  by (relation "measure length") (auto dest: scan_integer_length)

declare fscanf_ints.simps [simp del]

section \<open>Printed numbers scan back\<close>

lemma show_nat_digits: "c \<in> set (show_nat n) \<Longrightarrow> isdigit c"
proof (induction n rule: show_nat.induct)
  case (1 n)
  then show ?case
    by (cases "n < 10") (auto simp: show_nat.simps [of n])
qed

lemma show_nat_nonempty [simp]: "show_nat n \<noteq> []"
  by (subst show_nat.simps) simp

lemma show_nat_head:
  obtains c cs where "show_nat n = c # cs" "isdigit c"
  using show_nat_nonempty [of n] show_nat_digits [of _ n] by (cases "show_nat n") auto

lemma scan_digits_append:
  "scan_digits a (show_nat n @ r) =
     scan_digits (a * 10 ^ length (show_nat n) + n) r"
proof (induction n arbitrary: a r rule: show_nat.induct)
  case (1 n)
  show ?case
  proof (cases "n < 10")
    case True
    then show ?thesis by (simp add: show_nat.simps [of n] mult.commute)
  next
    case False
    define h where "h = show_nat (n div 10)"
    have n: "n = 10 * (n div 10) + n mod 10" by simp
    have "scan_digits a (show_nat n @ r) =
        scan_digits (a * 10 ^ length h + n div 10) (digit_char (n mod 10) # r)"
      using False "1.IH" [OF False] by (simp add: show_nat.simps [of n] h_def)
    also have "\<dots> = scan_digits (10 * (a * 10 ^ length h + n div 10) + n mod 10) r"
      by simp
    also have "10 * (a * 10 ^ length h + n div 10) + n mod 10 = a * 10 ^ Suc (length h) + n"
      by (simp add: algebra_simps)
    also have "Suc (length h) = length (show_nat n)"
      using False by (simp add: show_nat.simps [of n] h_def)
    finally show ?thesis .
  qed
qed

lemma scan_digits_stop: "no_digit_ahead r \<Longrightarrow> scan_digits a r = (a, r)"
  by (cases r) auto

lemma scan_digits_show_nat:
  "no_digit_ahead r \<Longrightarrow> scan_digits 0 (show_nat n @ r) = (n, r)"
  by (simp add: scan_digits_append scan_digits_stop)

lemma scan_sign_show_nat: "scan_sign (show_nat n @ r) = (False, show_nat n @ r)"
proof -
  obtain c cs where c: "show_nat n = c # cs" "isdigit c" by (rule show_nat_head)
  then show ?thesis
    using digit_not_space digit_not_sign by (auto simp: scan_sign_def)
qed

lemma scan_integer_show_nat:
  assumes "no_digit_ahead r"
  shows "scan_integer (show_nat n @ r) = Some (int n, r)"
proof -
  obtain c cs where "show_nat n = c # cs" "isdigit c" by (rule show_nat_head)
  then have "\<not> no_digit_ahead (show_nat n @ r)" by simp
  then show ?thesis
    using assms by (simp add: scan_integer_def scan_sign_show_nat scan_digits_show_nat)
qed

lemma scan_integer_show_int:
  assumes "no_digit_ahead r"
  shows "scan_integer (show_int i @ r) = Some (i, r)"
proof (cases "i < 0")
  case True
  obtain c cs where c: "show_nat (nat (- i)) = c # cs" "isdigit c" by (rule show_nat_head)
  have "scan_sign (show_int i @ r) = (True, show_nat (nat (- i)) @ r)"
    using True by (simp add: show_int_def scan_sign_def isspace_def)
  moreover have "\<not> no_digit_ahead (show_nat (nat (- i)) @ r)" using c by simp
  ultimately show ?thesis
    using True assms by (simp add: scan_integer_def scan_digits_show_nat)
next
  case False
  then show ?thesis using assms by (simp add: show_int_def scan_integer_show_nat)
qed

text \<open>
  The contract between a printing conversion and the scanner that reads it back, for the values in
  \<open>dom\<close>: whatever follows the number, the scanner answers the value and stops right after it.
\<close>

locale decimal_format =
  fixes sh :: "'a \<Rightarrow> string" and sc :: "string \<Rightarrow> 'a \<times> string" and dom :: "'a \<Rightarrow> bool"
  assumes scan_show: "dom x \<Longrightarrow> no_digit_ahead r \<Longrightarrow> sc (sh x @ r) = (x, r)"
begin

lemma scan_show_end: "dom x \<Longrightarrow> sc (sh x) = (x, [])"
  using scan_show [of x "[]"] by simp

lemma show_inj: "dom x \<Longrightarrow> dom y \<Longrightarrow> sh x = sh y \<Longrightarrow> x = y"
  by (metis scan_show_end fst_conv)

end

interpretation long_format: decimal_format show_int strtol int64_range
  by unfold_locales (simp add: strtol_def scan_integer_show_int)

interpretation ulong_format: decimal_format show_ulong strtoul "\<lambda>_. True"
proof
  fix x :: ulong and r :: string
  assume "no_digit_ahead r"
  moreover have "uint x < 2 ^ 64"
    using unsigned_less [where 'a = int, of x] by simp
  ultimately show "strtoul (show_ulong x @ r) = (x, r)"
    by (simp add: strtoul_def show_ulong_def scan_integer_show_nat)
qed

section \<open>Searching and splitting strings\<close>

fun strstr :: "string \<Rightarrow> string \<Rightarrow> string option" where
  \<comment> \<open>the suffix that starts at the first occurrence\<close>
  "strstr hay needle =
     (if prefix needle hay then Some hay
      else case hay of [] \<Rightarrow> None | _ # t \<Rightarrow> strstr t needle)"

declare strstr.simps [simp del]

definition contains :: "string \<Rightarrow> string \<Rightarrow> bool" where
  "contains hay needle \<longleftrightarrow> strstr hay needle \<noteq> None"

lemma contains_Cons:
  "contains (c # cs) needle \<longleftrightarrow> prefix needle (c # cs) \<or> contains cs needle"
  by (simp add: contains_def strstr.simps [of "c # cs"])

lemma contains_Nil: "contains [] needle \<longleftrightarrow> needle = []"
  by (simp add: contains_def strstr.simps [of "[]"])

lemma contains_iff_sublist: "contains hay needle \<longleftrightarrow> sublist needle hay"
  by (induction hay) (auto simp: contains_Nil contains_Cons sublist_Cons_right)

lemma strstr_suffix: "strstr hay needle = Some t \<Longrightarrow> suffix t hay \<and> prefix needle t"
proof (induction hay)
  case Nil
  then show ?case by (simp add: strstr.simps [of "[]"] split: if_splits)
next
  case (Cons c cs)
  then show ?case
    by (auto simp: strstr.simps [of "c # cs"] suffix_ConsI split: if_splits)
qed

definition c_str :: "string \<Rightarrow> string" where
  \<comment> \<open>a byte buffer read as a C string: up to the first NUL\<close>
  "c_str bytes = takeWhile (\<lambda>c. c \<noteq> CHR 0x00) bytes"

definition strip_slashes :: "string \<Rightarrow> string" where
  "strip_slashes p = rev (dropWhile (\<lambda>c. c = CHR ''/'') (rev p))"

definition dirname :: "string \<Rightarrow> string" where
  \<comment> \<open>glibc's \<open>dirname\<close>; exactly two leading slashes are kept\<close>
  "dirname p =
     (let p1 = strip_slashes p in
      if p1 = [] then
        (if p = [] then ''.'' else if p = ''//'' then ''//'' else ''/'')
      else
        (let p2 = rev (dropWhile (\<lambda>c. c \<noteq> CHR ''/'') (rev p1)) in
         if p2 = [] then ''.''
         else let p3 = strip_slashes p2 in
              if p3 = [] then (if p2 = ''//'' then ''//'' else ''/'') else p3))"

definition top_dir :: "string \<Rightarrow> bool" where
  \<comment> \<open>the directories \<open>dirname\<close> cannot leave\<close>
  "top_dir p \<longleftrightarrow> p = ''.'' \<or> p = ''/'' \<or> p = ''//''"

lemma strip_slashes_length: "length (strip_slashes p) \<le> length p"
  by (metis strip_slashes_def length_dropWhile_le length_rev)

lemma dirname_shorter: "\<not> top_dir (dirname p) \<Longrightarrow> length (dirname p) < length p"
proof -
  assume nt: "\<not> top_dir (dirname p)"
  define p1 where "p1 = strip_slashes p"
  define p2 where "p2 = rev (dropWhile (\<lambda>c. c \<noteq> CHR ''/'') (rev p1))"
  define p3 where "p3 = strip_slashes p2"
  have p3: "p1 \<noteq> []" "p2 \<noteq> []" "dirname p = p3"
    using nt unfolding dirname_def p1_def [symmetric] Let_def p2_def [symmetric] p3_def [symmetric]
    by (auto simp: top_dir_def split: if_splits)
  have hd1: "rev p1 = dropWhile (\<lambda>c. c = CHR ''/'') (rev p)" by (simp add: p1_def strip_slashes_def)
  then have "dropWhile (\<lambda>c. c = CHR ''/'') (rev p) \<noteq> []" using p3(1) by (metis rev_is_Nil_conv)
  then have "hd (rev p1) \<noteq> CHR ''/''" unfolding hd1 by (rule hd_dropWhile)
  then obtain c cs where c: "rev p1 = c # cs" "c \<noteq> CHR ''/''"
    using p3(1) by (cases "rev p1") auto
  then have "length p2 \<le> length cs"
    unfolding p2_def by (simp add: length_dropWhile_le)
  also have "length cs < length p1" using c by (metis length_Cons length_rev lessI)
  also have "length p1 \<le> length p" unfolding p1_def by (rule strip_slashes_length)
  finally have "length p2 < length p" .
  moreover have "length p3 \<le> length p2" unfolding p3_def by (rule strip_slashes_length)
  ultimately show ?thesis using p3(3) by simp
qed

section \<open>Round trips of single conversions\<close>

lemma sscanf_d_show: "int32_range i \<Longrightarrow> no_digit_ahead r \<Longrightarrow> sscanf_d (show_int i @ r) = Some i"
  by (simp add: sscanf_d_def scan_integer_show_int)

lemma sscanf_ld_show: "int64_range i \<Longrightarrow> no_digit_ahead r \<Longrightarrow> sscanf_ld (show_int i @ r) = Some i"
  by (simp add: sscanf_ld_def scan_integer_show_int)

lemma atoi_show_int: "int32_range i \<Longrightarrow> atoi (show_int i) = i"
  by (simp add: atoi_def long_format.scan_show_end)

end
