(* ===== verification/Kernel.thy ===== *)
theory Kernel
  imports C_Library
begin

text \<open>
  The operating system under the program. The sources reach it only through system calls and the
  libc calls that wrap them; none of that code is in the repository. It is therefore a parameter:
  a record \<open>kernel\<close> of functions over an arbitrary type \<^typ>\<open>'w\<close> of kernel states, an argument of
  every definition that makes a call. What a property needs of the kernel is stated as a named
  hypothesis on this record.

  The program state \<open>os\<close> holds the kernel state and a trace: the calls made so far that change
  something outside the process (and the descriptor calls \<open>open\<close>, \<open>read\<close>, \<open>close\<close>), each with
  its result. Calls that only ask (\<open>access\<close>, \<open>stat\<close>, \<open>time\<close>, reading a stream, listing a
  directory, allocating memory) pass the kernel state on but leave no entry. \<open>os\<close> is an
  extensible record; the components above add their own state to it.
\<close>

section \<open>Results and flags\<close>

datatype errno = EEXIST | ENOENT | EBUSY | EINVAL | ENOTEMPTY | ESRCH | ENOMEM | E_other nat

type_synonym 'a res = "errno + 'a"

datatype amode = F_OK | R_OK

datatype oflag = O_RDONLY | O_WRONLY | O_WRONLY_CREAT_TRUNC

datatype mount_flag = MS_REC | MS_PRIVATE | MS_NOSUID | MS_NOEXEC | MS_NODEV

datatype signal = SIG0 | SIGTERM | SIGKILL

datatype event =
    EMkdir string "unit res"
  | ERmdir string "unit res"
  | EMknod string nat "nat \<times> nat" "unit res"
  | EOpen string oflag "int res"
  | ERead int nat "string res"
  | EWrite int string "nat res"
  | EClose int
  | ESave string string bool
  | EMount "string option" string "string option" "mount_flag list" "unit res"
  | EUmount string "unit res"
  | EChdir string "unit res"
  | EChroot string "unit res"
  | EKill int signal "unit res"
  | EWait int
  | EFork "int res"
  | EClone int "int res"
  | EExec "string list" "errno option"
  | ESetns int int "unit res"
  | EPrint string
  | ESocket "int res"
  | EBind int int "unit res"
  | EListen int "unit res"
  | EAccept int "int res"

record 'w kernel =
  k_access :: "string \<Rightarrow> amode \<Rightarrow> 'w \<Rightarrow> unit res \<times> 'w"
  k_stat :: "string \<Rightarrow> 'w \<Rightarrow> unit res \<times> 'w"
  k_mkdir :: "string \<Rightarrow> 'w \<Rightarrow> unit res \<times> 'w"
  k_rmdir :: "string \<Rightarrow> 'w \<Rightarrow> unit res \<times> 'w"
  k_mknod :: "string \<Rightarrow> nat \<Rightarrow> nat \<times> nat \<Rightarrow> 'w \<Rightarrow> unit res \<times> 'w"
  k_open :: "string \<Rightarrow> oflag \<Rightarrow> 'w \<Rightarrow> int res \<times> 'w"
  k_read :: "int \<Rightarrow> nat \<Rightarrow> 'w \<Rightarrow> string res \<times> 'w"
  k_write :: "int \<Rightarrow> string \<Rightarrow> 'w \<Rightarrow> nat res \<times> 'w"
  k_close :: "int \<Rightarrow> 'w \<Rightarrow> unit \<times> 'w"
  k_opendir :: "string \<Rightarrow> 'w \<Rightarrow> string list option \<times> 'w"
  k_fopen_r :: "string \<Rightarrow> 'w \<Rightarrow> string option \<times> 'w"
  k_save :: "string \<Rightarrow> string \<Rightarrow> 'w \<Rightarrow> bool \<times> 'w"
  k_mount :: "string option \<Rightarrow> string \<Rightarrow> string option \<Rightarrow> mount_flag list \<Rightarrow> 'w \<Rightarrow> unit res \<times> 'w"
  k_umount2 :: "string \<Rightarrow> 'w \<Rightarrow> unit res \<times> 'w"
  k_chdir :: "string \<Rightarrow> 'w \<Rightarrow> unit res \<times> 'w"
  k_chroot :: "string \<Rightarrow> 'w \<Rightarrow> unit res \<times> 'w"
  k_kill :: "int \<Rightarrow> signal \<Rightarrow> 'w \<Rightarrow> unit res \<times> 'w"
  k_waitpid_nohang :: "int \<Rightarrow> 'w \<Rightarrow> int \<times> 'w"
  k_waitpid :: "int \<Rightarrow> 'w \<Rightarrow> int res \<times> 'w"
  k_fork :: "'w \<Rightarrow> int res \<times> 'w"
  k_clone :: "int \<Rightarrow> 'w \<Rightarrow> int res \<times> 'w"
  k_execvp :: "string list \<Rightarrow> 'w \<Rightarrow> errno option \<times> 'w"
  k_setns :: "int \<Rightarrow> int \<Rightarrow> 'w \<Rightarrow> unit res \<times> 'w"
  k_time :: "'w \<Rightarrow> int \<times> 'w"
  k_usleep :: "nat \<Rightarrow> 'w \<Rightarrow> unit \<times> 'w"
  k_alloc :: "'w \<Rightarrow> bool \<times> 'w"

text \<open>
  Reading of the less obvious entries: \<open>k_opendir\<close> answers the names a complete \<open>readdir\<close> loop
  yields (\<open>None\<close> when \<open>opendir\<close> fails); \<open>k_fopen_r\<close> the text a stream opened for reading
  delivers; \<open>k_save\<close> opens a stream for writing, writes the text and closes it, answering
  whether the stream could be opened; \<open>k_execvp\<close> answers \<open>None\<close> when the process image was
  replaced; \<open>k_alloc\<close> whether \<open>malloc\<close>, \<open>calloc\<close>, \<open>realloc\<close> or \<open>strdup\<close> got its memory;
  \<open>k_waitpid_nohang\<close> the return value of \<open>waitpid\<close> with \<open>WNOHANG\<close>; \<open>k_waitpid\<close> the status
  of a blocking wait.
\<close>

section \<open>Program states and calls\<close>

record 'w os =
  kst :: 'w
  trace :: "event list"

type_synonym ('w, 'z, 'a) io = "(('w, 'z) os_scheme, 'a) state"

definition ask :: "('w \<Rightarrow> 'a \<times> 'w) \<Rightarrow> ('w, 'z, 'a) io" where
  \<comment> \<open>a call that leaves no entry in the trace\<close>
  "ask f = State (\<lambda>s. case f (kst s) of (a, w) \<Rightarrow> (a, s\<lparr>kst := w\<rparr>))"

definition sys :: "('a \<Rightarrow> event) \<Rightarrow> ('w \<Rightarrow> 'a \<times> 'w) \<Rightarrow> ('w, 'z, 'a) io" where
  \<comment> \<open>a call recorded with its result\<close>
  "sys e f = State (\<lambda>s. case f (kst s) of (a, w) \<Rightarrow> (a, s\<lparr>kst := w, trace := trace s @ [e a]\<rparr>))"

lemma run_ask [simp, run_simps]:
  "run_state (ask f) s = (case f (kst s) of (a, w) \<Rightarrow> (a, s\<lparr>kst := w\<rparr>))"
  by (simp add: ask_def)

lemma run_sys [simp, run_simps]:
  "run_state (sys e f) s =
     (case f (kst s) of (a, w) \<Rightarrow> (a, s\<lparr>kst := w, trace := trace s @ [e a]\<rparr>))"
  by (simp add: sys_def)

abbreviation c_access :: "'w kernel \<Rightarrow> string \<Rightarrow> amode \<Rightarrow> ('w, 'z, unit res) io" where
  "c_access K p m \<equiv> ask (k_access K p m)"
abbreviation c_stat :: "'w kernel \<Rightarrow> string \<Rightarrow> ('w, 'z, unit res) io" where
  "c_stat K p \<equiv> ask (k_stat K p)"
abbreviation c_mkdir :: "'w kernel \<Rightarrow> string \<Rightarrow> ('w, 'z, unit res) io" where
  "c_mkdir K p \<equiv> sys (EMkdir p) (k_mkdir K p)"
abbreviation c_rmdir :: "'w kernel \<Rightarrow> string \<Rightarrow> ('w, 'z, unit res) io" where
  "c_rmdir K p \<equiv> sys (ERmdir p) (k_rmdir K p)"
abbreviation c_mknod :: "'w kernel \<Rightarrow> string \<Rightarrow> nat \<Rightarrow> nat \<times> nat \<Rightarrow> ('w, 'z, unit res) io" where
  "c_mknod K p m d \<equiv> sys (EMknod p m d) (k_mknod K p m d)"
abbreviation c_open :: "'w kernel \<Rightarrow> string \<Rightarrow> oflag \<Rightarrow> ('w, 'z, int res) io" where
  "c_open K p f \<equiv> sys (EOpen p f) (k_open K p f)"
abbreviation c_read :: "'w kernel \<Rightarrow> int \<Rightarrow> nat \<Rightarrow> ('w, 'z, string res) io" where
  "c_read K fd n \<equiv> sys (ERead fd n) (k_read K fd n)"
abbreviation c_write :: "'w kernel \<Rightarrow> int \<Rightarrow> string \<Rightarrow> ('w, 'z, nat res) io" where
  "c_write K fd v \<equiv> sys (EWrite fd v) (k_write K fd v)"
abbreviation c_close :: "'w kernel \<Rightarrow> int \<Rightarrow> ('w, 'z, unit) io" where
  "c_close K fd \<equiv> sys (\<lambda>_. EClose fd) (k_close K fd)"
abbreviation c_opendir :: "'w kernel \<Rightarrow> string \<Rightarrow> ('w, 'z, string list option) io" where
  "c_opendir K p \<equiv> ask (k_opendir K p)"
abbreviation c_fopen_r :: "'w kernel \<Rightarrow> string \<Rightarrow> ('w, 'z, string option) io" where
  "c_fopen_r K p \<equiv> ask (k_fopen_r K p)"
abbreviation c_save :: "'w kernel \<Rightarrow> string \<Rightarrow> string \<Rightarrow> ('w, 'z, bool) io" where
  "c_save K p t \<equiv> sys (ESave p t) (k_save K p t)"
abbreviation c_mount ::
  "'w kernel \<Rightarrow> string option \<Rightarrow> string \<Rightarrow> string option \<Rightarrow> mount_flag list \<Rightarrow> ('w, 'z, unit res) io" where
  "c_mount K src tgt ty fl \<equiv> sys (EMount src tgt ty fl) (k_mount K src tgt ty fl)"
abbreviation c_umount2 :: "'w kernel \<Rightarrow> string \<Rightarrow> ('w, 'z, unit res) io" where
  "c_umount2 K p \<equiv> sys (EUmount p) (k_umount2 K p)"
abbreviation c_chdir :: "'w kernel \<Rightarrow> string \<Rightarrow> ('w, 'z, unit res) io" where
  "c_chdir K p \<equiv> sys (EChdir p) (k_chdir K p)"
abbreviation c_chroot :: "'w kernel \<Rightarrow> string \<Rightarrow> ('w, 'z, unit res) io" where
  "c_chroot K p \<equiv> sys (EChroot p) (k_chroot K p)"
abbreviation c_kill :: "'w kernel \<Rightarrow> int \<Rightarrow> signal \<Rightarrow> ('w, 'z, unit res) io" where
  "c_kill K pid sig \<equiv> sys (EKill pid sig) (k_kill K pid sig)"
abbreviation c_waitpid_nohang :: "'w kernel \<Rightarrow> int \<Rightarrow> ('w, 'z, int) io" where
  "c_waitpid_nohang K pid \<equiv> sys (\<lambda>_. EWait pid) (k_waitpid_nohang K pid)"
abbreviation c_waitpid :: "'w kernel \<Rightarrow> int \<Rightarrow> ('w, 'z, int res) io" where
  "c_waitpid K pid \<equiv> sys (\<lambda>_. EWait pid) (k_waitpid K pid)"
abbreviation c_fork :: "'w kernel \<Rightarrow> ('w, 'z, int res) io" where
  "c_fork K \<equiv> sys EFork (k_fork K)"
abbreviation c_clone :: "'w kernel \<Rightarrow> int \<Rightarrow> ('w, 'z, int res) io" where
  "c_clone K fl \<equiv> sys (EClone fl) (k_clone K fl)"
abbreviation c_execvp :: "'w kernel \<Rightarrow> string list \<Rightarrow> ('w, 'z, errno option) io" where
  "c_execvp K cmd \<equiv> sys (EExec cmd) (k_execvp K cmd)"
abbreviation c_setns :: "'w kernel \<Rightarrow> int \<Rightarrow> int \<Rightarrow> ('w, 'z, unit res) io" where
  "c_setns K fd ty \<equiv> sys (ESetns fd ty) (k_setns K fd ty)"
abbreviation c_time :: "'w kernel \<Rightarrow> ('w, 'z, int) io" where
  "c_time K \<equiv> ask (k_time K)"
abbreviation c_usleep :: "'w kernel \<Rightarrow> nat \<Rightarrow> ('w, 'z, unit) io" where
  "c_usleep K n \<equiv> ask (k_usleep K n)"
abbreviation c_alloc :: "'w kernel \<Rightarrow> ('w, 'z, bool) io" where
  "c_alloc K \<equiv> ask (k_alloc K)"

section \<open>Frames over the trace\<close>

text \<open>\<open>only P\<close>: the trace grows, and only by events that satisfy \<open>P\<close>.\<close>

definition only :: "(event \<Rightarrow> bool) \<Rightarrow> ('w, 'z) os_scheme \<Rightarrow> ('w, 'z) os_scheme \<Rightarrow> bool" where
  "only P s t \<longleftrightarrow> (\<exists>es. trace t = trace s @ es \<and> list_all P es)"

text \<open>The state the components above keep is untouched.\<close>

definition same_more :: "('w, 'z) os_scheme \<Rightarrow> ('w, 'z) os_scheme \<Rightarrow> bool" where
  "same_more s t \<longleftrightarrow> os.more t = os.more s"

text \<open>
  Descriptors: the number of successful \<open>open\<close>, \<open>socket\<close> and \<open>accept\<close> calls that answered \<open>fd\<close>
  minus the number of \<open>close\<close> calls for it. An operation that leaves all counts unchanged closes
  what it opens, on every path.
\<close>

fun fd_delta :: "int \<Rightarrow> event \<Rightarrow> int" where
  "fd_delta fd (EOpen _ _ (Inr fd')) = (if fd' = fd then 1 else 0)"
| "fd_delta fd (ESocket (Inr fd')) = (if fd' = fd then 1 else 0)"
| "fd_delta fd (EAccept _ (Inr fd')) = (if fd' = fd then 1 else 0)"
| "fd_delta fd (EClose fd') = (if fd' = fd then - 1 else 0)"
| "fd_delta _ _ = 0"

definition fd_count :: "int \<Rightarrow> event list \<Rightarrow> int" where
  "fd_count fd es = sum_list (map (fd_delta fd) es)"

definition fd_balanced :: "('w, 'z) os_scheme \<Rightarrow> ('w, 'z) os_scheme \<Rightarrow> bool" where
  "fd_balanced s t \<longleftrightarrow> (\<forall>fd. fd_count fd (trace t) = fd_count fd (trace s))"

lemma fd_count_simps [simp]:
  "fd_count fd [] = 0"
  "fd_count fd (e # es) = fd_delta fd e + fd_count fd es"
  "fd_count fd (es @ es') = fd_count fd es + fd_count fd es'"
  by (simp_all add: fd_count_def)

definition ret_code :: "'a res \<Rightarrow> int" where
  \<comment> \<open>the usual C encoding of success and failure\<close>
  "ret_code r = (case r of Inl _ \<Rightarrow> - 1 | Inr _ \<Rightarrow> 0)"

lemma ret_code_simps [simp]: "ret_code (Inl e) = - 1" "ret_code (Inr x) = 0"
  by (simp_all add: ret_code_def)

interpretation only_frame: io_frame "only P" for P
proof
  show "only P s s" for s :: "('a, 'b) os_scheme" by (simp add: only_def)
  show "only P s u" if "only P s t" "only P t u" for s t u :: "('a, 'b) os_scheme"
    using that by (auto simp: only_def)
qed

interpretation more_frame: io_frame same_more
  by unfold_locales (auto simp: same_more_def)

interpretation fd_frame: io_frame fd_balanced
  by unfold_locales (auto simp: fd_balanced_def)

lemma only_ask [simp]: "state_io_rel (only P) (ask f)"
  by (simp add: state_io_rel_def only_def split: prod.split)

lemma only_sys: "(\<And>a. P (e a)) \<Longrightarrow> state_io_rel (only P) (sys e f)"
  by (simp add: state_io_rel_def only_def split: prod.split)

lemma more_ask [simp]: "state_io_rel same_more (ask f)"
  by (simp add: state_io_rel_def same_more_def split: prod.split)

lemma more_sys [simp]: "state_io_rel same_more (sys e f)"
  by (simp add: state_io_rel_def same_more_def split: prod.split)

lemma fd_ask [simp]: "state_io_rel fd_balanced (ask f)"
  by (simp add: state_io_rel_def fd_balanced_def split: prod.split)

lemma fd_sys: "(\<And>fd a. fd_delta fd (e a) = 0) \<Longrightarrow> state_io_rel fd_balanced (sys e f)"
  by (simp add: state_io_rel_def fd_balanced_def split: prod.split)

lemma onlyD: "only P s t \<Longrightarrow> e \<in> set (trace t) \<Longrightarrow> e \<in> set (trace s) \<or> P e"
  by (auto simp: only_def list_all_iff)

lemma only_mono: "only P s t \<Longrightarrow> (\<And>e. P e \<Longrightarrow> Q e) \<Longrightarrow> only Q s t"
  by (auto simp: only_def list_all_iff)

lemma only_weaken:
  "state_io_rel (only Q) m \<Longrightarrow> (\<And>e. Q e \<Longrightarrow> P e) \<Longrightarrow> state_io_rel (only P) m"
  by (auto simp: state_io_rel_def intro: only_mono)

definition new_events :: "('w, 'z) os_scheme \<Rightarrow> ('w, 'y) os_scheme \<Rightarrow> event list" where
  \<comment> \<open>what was added to the trace between two states of one run\<close>
  "new_events s t = drop (length (trace s)) (trace t)"

lemma new_events_append [simp]: "trace t = trace s @ es \<Longrightarrow> new_events s t = es"
  by (simp add: new_events_def)

lemma only_trace: "only P s t \<Longrightarrow> trace t = trace s @ new_events s t"
  by (auto simp: only_def)

lemma only_all: "only P s t \<Longrightarrow> list_all P (new_events s t)"
  by (auto simp: only_def)

lemma only_run: "state_io_rel (only P) m \<Longrightarrow> run_state m s = (a, t) \<Longrightarrow> only P s t"
  by (rule state_io_relD)

lemma only_run_all:
  "state_io_rel (only P) m \<Longrightarrow> run_state m s = (a, t) \<Longrightarrow> list_all P (new_events s t)"
  by (rule only_all) (rule only_run)

lemma only_run_snd: "state_io_rel (only P) m \<Longrightarrow> list_all P (new_events s (snd (run_state m s)))"
  by (erule only_run_all) (rule prod.collapse [symmetric])

lemma fd_balanced_run: "state_io_rel fd_balanced m \<Longrightarrow> fd_balanced s (snd (run_state m s))"
  by (rule state_io_rel_run)

lemma new_events_trans:
  "only P s t \<Longrightarrow> only Q t u \<Longrightarrow> new_events s u = new_events s t @ new_events t u"
  by (auto simp: only_def new_events_def)

lemmas only_rules = only_frame.frame_combinators only_ask only_sys state_io_rel_if
lemmas more_rules = more_frame.frame_combinators more_ask more_sys state_io_rel_if
lemmas fd_rules = fd_frame.frame_combinators fd_ask fd_sys state_io_rel_if
lemmas fd_ret_rules = fd_frame.ret_combinators state_ret_rel_if

end
