(* ===== verification/Mem_Kernel.thy ===== *)
theory Mem_Kernel
  imports Kernel
begin

text \<open>
  A small in-memory operating system: directories, files, one descriptor open for reading (3) and
  one for writing (4), live processes and a clock. It is an instance of the kernel parameter on
  which the hypotheses of the properties are shown to hold and scenarios are evaluated; no
  property is restricted to it.
\<close>

record mem =
  dirs :: "string list"
  files :: "(string \<times> string) list"
  unread :: string
  target :: string
  procs :: "int list"
  next_pid :: int
  clock :: int

definition mem_exists :: "string \<Rightarrow> mem \<Rightarrow> bool" where
  "mem_exists p m \<longleftrightarrow> top_dir p \<or> p \<in> set (dirs m) \<or> map_of (files m) p \<noteq> None"

definition mem_mkdir :: "string \<Rightarrow> mem \<Rightarrow> unit res \<times> mem" where
  "mem_mkdir p m =
     (if mem_exists p m then (Inl EEXIST, m)
      else if \<not> mem_exists (dirname p) m then (Inl ENOENT, m)
      else (Inr (), m\<lparr>dirs := p # dirs m\<rparr>))"

definition mem_rmdir :: "string \<Rightarrow> mem \<Rightarrow> unit res \<times> mem" where
  "mem_rmdir p m =
     (if p \<in> set (dirs m) then (Inr (), m\<lparr>dirs := removeAll p (dirs m)\<rparr>) else (Inl ENOENT, m))"

definition mem_open :: "string \<Rightarrow> oflag \<Rightarrow> mem \<Rightarrow> int res \<times> mem" where
  "mem_open p f m =
     (if f = O_RDONLY then
        (case map_of (files m) p of
           None \<Rightarrow> (Inl ENOENT, m)
         | Some t \<Rightarrow> (Inr 3, m\<lparr>unread := t\<rparr>))
      else if mem_exists (dirname p) m then (Inr 4, m\<lparr>target := p\<rparr>) else (Inl ENOENT, m))"

definition mem_read :: "int \<Rightarrow> nat \<Rightarrow> mem \<Rightarrow> string res \<times> mem" where
  "mem_read fd n m = (Inr (unread m), m\<lparr>unread := []\<rparr>)"

definition mem_write :: "int \<Rightarrow> string \<Rightarrow> mem \<Rightarrow> nat res \<times> mem" where
  "mem_write fd v m = (Inr (length v), m\<lparr>files := (target m, v) # files m\<rparr>)"

definition mem_kill :: "int \<Rightarrow> signal \<Rightarrow> mem \<Rightarrow> unit res \<times> mem" where
  "mem_kill pid sig m =
     (if pid \<in> set (procs m)
      then (Inr (), if sig = SIG0 then m else m\<lparr>procs := removeAll pid (procs m)\<rparr>)
      else (Inl ESRCH, m))"

definition mem_clone :: "mem \<Rightarrow> int res \<times> mem" where
  "mem_clone m = (Inr (next_pid m), m\<lparr>procs := next_pid m # procs m, next_pid := next_pid m + 1\<rparr>)"

definition mem_kernel :: "mem kernel" where
  "mem_kernel = \<lparr>
     k_access = (\<lambda>p _ m. (if mem_exists p m then Inr () else Inl ENOENT, m)),
     k_stat = (\<lambda>p m. (if mem_exists p m then Inr () else Inl ENOENT, m)),
     k_mkdir = mem_mkdir,
     k_rmdir = mem_rmdir,
     k_mknod = (\<lambda>p _ _ m. (if mem_exists p m then Inl EEXIST else Inr (), m\<lparr>files := (p, []) # files m\<rparr>)),
     k_open = mem_open,
     k_read = mem_read,
     k_write = mem_write,
     k_close = (\<lambda>_ m. ((), m)),
     k_opendir = (\<lambda>_ m. (None, m)),
     k_fopen_r = (\<lambda>p m. (map_of (files m) p, m)),
     k_save = (\<lambda>p t m. (True, m\<lparr>files := (p, t) # files m\<rparr>)),
     k_mount = (\<lambda>_ _ _ _ m. (Inr (), m)),
     k_umount2 = (\<lambda>_ m. (Inr (), m)),
     k_chdir = (\<lambda>_ m. (Inr (), m)),
     k_chroot = (\<lambda>_ m. (Inr (), m)),
     k_kill = mem_kill,
     k_waitpid_nohang = (\<lambda>pid m. (if pid \<in> set (procs m) then 0 else pid, m)),
     k_waitpid = (\<lambda>_ m. (Inr 0, m)),
     k_fork = mem_clone,
     k_clone = (\<lambda>_. mem_clone),
     k_execvp = (\<lambda>_ m. (None, m)),
     k_setns = (\<lambda>_ _ m. (Inr (), m)),
     k_time = (\<lambda>m. (clock m, m)),
     k_usleep = (\<lambda>_ m. ((), m)),
     k_alloc = (\<lambda>m. (True, m)) \<rparr>"

definition mem_init :: mem where
  \<comment> \<open>a machine with the unified cgroup hierarchy and a shell\<close>
  "mem_init = \<lparr>
     dirs = [''/bin'', ''/tmp'', ''/var'', ''/var/run'', ''/sys'', ''/sys/fs'', ''/sys/fs/cgroup''],
     files = [(''/sys/fs/cgroup/cgroup.controllers'', ''cpu memory''), (''/bin/sh'', ''shell'')],
     unread = [], target = [], procs = [], next_pid = 100, clock = 1000 \<rparr>"

definition mem_start :: "mem os" where
  "mem_start = \<lparr>kst = mem_init, trace = []\<rparr>"

lemma mem_kernel_calls [simp]:
  "k_mkdir mem_kernel = mem_mkdir" "k_rmdir mem_kernel = mem_rmdir"
  "k_open mem_kernel = mem_open" "k_read mem_kernel = mem_read" "k_write mem_kernel = mem_write"
  "k_kill mem_kernel = mem_kill" "k_clone mem_kernel fl = mem_clone"
  by (simp_all add: mem_kernel_def)

text \<open>The simplest instance: every call succeeds, every file is empty, the state never changes.\<close>

definition calm_kernel :: "unit kernel" where
  "calm_kernel = \<lparr>
     k_access = (\<lambda>_ _ m. (Inr (), m)), k_stat = (\<lambda>_ m. (Inr (), m)),
     k_mkdir = (\<lambda>_ m. (Inr (), m)), k_rmdir = (\<lambda>_ m. (Inr (), m)),
     k_mknod = (\<lambda>_ _ _ m. (Inr (), m)), k_open = (\<lambda>_ _ m. (Inr 3, m)),
     k_read = (\<lambda>_ _ m. (Inr [], m)), k_write = (\<lambda>_ v m. (Inr (length v), m)),
     k_close = (\<lambda>_ m. ((), m)), k_opendir = (\<lambda>_ m. (None, m)),
     k_fopen_r = (\<lambda>_ m. (None, m)), k_save = (\<lambda>_ _ m. (True, m)),
     k_mount = (\<lambda>_ _ _ _ m. (Inr (), m)), k_umount2 = (\<lambda>_ m. (Inr (), m)),
     k_chdir = (\<lambda>_ m. (Inr (), m)), k_chroot = (\<lambda>_ m. (Inr (), m)),
     k_kill = (\<lambda>_ _ m. (Inr (), m)), k_waitpid_nohang = (\<lambda>pid m. (pid, m)),
     k_waitpid = (\<lambda>_ m. (Inr 0, m)), k_fork = (\<lambda>m. (Inr 100, m)),
     k_clone = (\<lambda>_ m. (Inr 100, m)), k_execvp = (\<lambda>_ m. (None, m)),
     k_setns = (\<lambda>_ _ m. (Inr (), m)), k_time = (\<lambda>m. (1000, m)),
     k_usleep = (\<lambda>_ m. ((), m)), k_alloc = (\<lambda>m. (True, m)) \<rparr>"

lemma calm_calls:
  "k_access calm_kernel p a w = (Inr (), w)" "k_stat calm_kernel p w = (Inr (), w)"
  "k_mkdir calm_kernel p w = (Inr (), w)" "k_rmdir calm_kernel p w = (Inr (), w)"
  "k_mknod calm_kernel p i d w = (Inr (), w)" "k_open calm_kernel p fl w = (Inr 3, w)"
  "k_read calm_kernel fd n w = (Inr [], w)" "k_write calm_kernel fd v w = (Inr (length v), w)"
  "k_close calm_kernel fd w = ((), w)" "k_opendir calm_kernel p w = (None, w)"
  "k_fopen_r calm_kernel p w = (None, w)" "k_save calm_kernel p v w = (True, w)"
  "k_kill calm_kernel q sg w = (Inr (), w)" "k_waitpid_nohang calm_kernel q w = (q, w)"
  "k_waitpid calm_kernel q w = (Inr 0, w)" "k_fork calm_kernel w = (Inr 100, w)"
  "k_clone calm_kernel g w = (Inr 100, w)" "k_execvp calm_kernel x w = (None, w)"
  "k_setns calm_kernel fd g w = (Inr (), w)" "k_time calm_kernel w = (1000, w)"
  "k_usleep calm_kernel n w = ((), w)" "k_alloc calm_kernel w = (True, w)"
  by (simp_all add: calm_kernel_def)

definition calm_start :: "unit os" where
  "calm_start = \<lparr>kst = (), trace = []\<rparr>"

end
