(* ===== verification/Filesystem_Manager.thy ===== *)
theory Filesystem_Manager
  imports Kernel Mem_Kernel
begin

text \<open>
  The filesystem manager, \<open>src/src/filesystem_manager.cpp\<close>: creating a minimal root filesystem
  (directories and device nodes), copying the shell and the loader into it, changing root,
  mounting and unmounting the virtual filesystems.
\<close>

section \<open>Model\<close>

datatype fs_isolation_method = FS_CHROOT

record fs_config =
  fs_root_path :: "string option"
  fs_method :: fs_isolation_method
  create_minimal_fs :: int

definition PATH_MAX :: nat where "PATH_MAX = 4096"

definition essential_dirs :: "string list" where
  "essential_dirs =
     [''/bin'', ''/sbin'', ''/lib'', ''/lib64'', ''/usr'', ''/usr/bin'', ''/usr/sbin'',
      ''/usr/lib'', ''/usr/lib64'', ''/etc'', ''/proc'', ''/sys'', ''/dev'', ''/tmp'', ''/var'',
      ''/var/tmp'']"

definition S_IFCHR :: nat where "S_IFCHR = 8192"

definition essential_devices :: "(string \<times> nat \<times> nat \<times> nat) list" where
  \<comment> \<open>path, mode (\<open>0666 = 438\<close>, \<open>0600 = 384\<close>), major and minor number\<close>
  "essential_devices =
     [(''/dev/null'', S_IFCHR + 438, 1, 3), (''/dev/zero'', S_IFCHR + 438, 1, 5),
      (''/dev/random'', S_IFCHR + 438, 1, 8), (''/dev/urandom'', S_IFCHR + 438, 1, 9),
      (''/dev/tty'', S_IFCHR + 438, 5, 0), (''/dev/console'', S_IFCHR + 384, 5, 1)]"

text \<open>
  \<open>mkdir_p\<close> recurses on the parent as long as \<open>mkdir\<close> answers \<open>ENOENT\<close>; nothing in the code
  bounds that, so it carries fuel.
\<close>

primrec mkdir_p :: "'w kernel \<Rightarrow> nat \<Rightarrow> string option \<Rightarrow> ('w, 'z, int option) io" where
  "mkdir_p K 0 path = State_Monad.return None"
| "mkdir_p K (Suc n) path =
     (case path of
        None \<Rightarrow> oret (- 1)
      | Some p \<Rightarrow> do {
          r \<leftarrow> c_mkdir K p;
          (case r of
             Inr _ \<Rightarrow> oret 0
           | Inl e \<Rightarrow>
               if e = ENOENT then
                 obind (mkdir_p K n (Some (dirname p))) (\<lambda>c.
                   if c \<noteq> 0 then oret (- 1)
                   else do { r2 \<leftarrow> c_mkdir K p; oret (ret_code r2) })
               else if e = EEXIST then oret 0
               else oret (- 1))
        })"

primrec copy_loop :: "'w kernel \<Rightarrow> nat \<Rightarrow> int \<Rightarrow> int \<Rightarrow> ('w, 'z, int option) io" where
  "copy_loop K 0 src_fd dst_fd = State_Monad.return None"
| "copy_loop K (Suc n) src_fd dst_fd = do {
     r \<leftarrow> c_read K src_fd 8192;
     (case r of
        Inl _ \<Rightarrow> do { _ \<leftarrow> c_close K src_fd; _ \<leftarrow> c_close K dst_fd; oret (- 1) }
      | Inr bytes \<Rightarrow>
          if bytes = [] then do { _ \<leftarrow> c_close K src_fd; _ \<leftarrow> c_close K dst_fd; oret 0 }
          else do {
            w \<leftarrow> c_write K dst_fd bytes;
            if w \<noteq> Inr (length bytes)
            then do { _ \<leftarrow> c_close K src_fd; _ \<leftarrow> c_close K dst_fd; oret (- 1) }
            else copy_loop K n src_fd dst_fd
          })
   }"

definition copy_file :: "'w kernel \<Rightarrow> nat \<Rightarrow> string \<Rightarrow> string \<Rightarrow> ('w, 'z, int option) io" where
  "copy_file K n src dst = do {
     r \<leftarrow> c_open K src O_RDONLY;
     (case r of
        Inl _ \<Rightarrow> oret (- 1)
      | Inr src_fd \<Rightarrow> do {
          d \<leftarrow> c_open K dst O_WRONLY_CREAT_TRUNC;
          (case d of
             Inl _ \<Rightarrow> do { _ \<leftarrow> c_close K src_fd; oret (- 1) }
           | Inr dst_fd \<Rightarrow> copy_loop K n src_fd dst_fd)
        })
   }"

definition fs_config_init :: "fs_config option \<Rightarrow> fs_config option" where
  "fs_config_init config =
     map_option (\<lambda>c. c\<lparr>fs_root_path := None, fs_method := FS_CHROOT, create_minimal_fs := 0\<rparr>) config"

primrec create_dirs :: "'w kernel \<Rightarrow> nat \<Rightarrow> string \<Rightarrow> string list \<Rightarrow> ('w, 'z, int option) io" where
  "create_dirs K n root [] = oret 0"
| "create_dirs K n root (d # ds) =
     obind (mkdir_p K n (Some (snprintf PATH_MAX (root @ d)))) (\<lambda>c.
       if c \<noteq> 0 then oret (- 1) else create_dirs K n root ds)"

primrec create_devices ::
  "'w kernel \<Rightarrow> string \<Rightarrow> (string \<times> nat \<times> nat \<times> nat) list \<Rightarrow> ('w, 'z, int) io" where
  "create_devices K root [] = State_Monad.return 0"
| "create_devices K root (dev # devs) =
     (case dev of (path, mode, major, minor) \<Rightarrow> do {
        r \<leftarrow> c_mknod K (snprintf PATH_MAX (root @ path)) mode (major, minor);
        (case r of
           Inl e \<Rightarrow> if e \<noteq> EEXIST then State_Monad.return (- 1) else create_devices K root devs
         | Inr _ \<Rightarrow> create_devices K root devs)
      })"

definition fs_create_minimal_root ::
  "'w kernel \<Rightarrow> nat \<Rightarrow> string option \<Rightarrow> ('w, 'z, int option) io" where
  "fs_create_minimal_root K n root_path =
     (case root_path of
        None \<Rightarrow> oret (- 1)
      | Some root \<Rightarrow>
          obind (create_dirs K n root essential_dirs) (\<lambda>c.
            if c \<noteq> 0 then oret (- 1) else olift (create_devices K root essential_devices)))"

definition fs_setup_chroot :: "'w kernel \<Rightarrow> string option \<Rightarrow> ('w, 'z, int) io" where
  "fs_setup_chroot K root_path =
     (case root_path of
        None \<Rightarrow> State_Monad.return (- 1)
      | Some root \<Rightarrow> do {
          r \<leftarrow> c_chdir K root;
          if ret_code r = - 1 then State_Monad.return (- 1)
          else do {
            r \<leftarrow> c_chroot K root;
            if ret_code r = - 1 then State_Monad.return (- 1)
            else do {
              r \<leftarrow> c_chdir K ''/'';
              if ret_code r = - 1 then State_Monad.return (- 1) else State_Monad.return 0
            }
          }
        })"

definition container_mounts :: "(string \<times> string \<times> string) list" where
  \<comment> \<open>source, mount point below the root, file system type; in mounting order\<close>
  "container_mounts =
     [(''proc'', ''/proc'', ''proc''), (''sysfs'', ''/sys'', ''sysfs''),
      (''tmpfs'', ''/tmp'', ''tmpfs''), (''dev'', ''/dev'', ''devtmpfs'')]"

primrec mount_all ::
  "'w kernel \<Rightarrow> string \<Rightarrow> (string \<times> string \<times> string) list \<Rightarrow> ('w, 'z, int) io" where
  "mount_all K root [] = State_Monad.return 0"
| "mount_all K root (m # ms) =
     (case m of (src, dir, ty) \<Rightarrow> do {
        r \<leftarrow> c_mount K (Some src) (snprintf PATH_MAX (root @ dir)) (Some ty) [];
        if ret_code r = - 1 then State_Monad.return (- 1) else mount_all K root ms
      })"

definition fs_mount_container_filesystems :: "'w kernel \<Rightarrow> string option \<Rightarrow> ('w, 'z, int) io" where
  "fs_mount_container_filesystems K root_path =
     (case root_path of
        None \<Rightarrow> State_Monad.return (- 1)
      | Some root \<Rightarrow> mount_all K root container_mounts)"

definition essential_files :: "string list" where
  "essential_files =
     [''/bin/sh'', ''/bin/bash'', ''/lib/ld-linux.so.2'', ''/lib64/ld-linux-x86-64.so.2'']"

definition fs_populate_container_root ::
  "'w kernel \<Rightarrow> nat \<Rightarrow> string option \<Rightarrow> string option \<Rightarrow> ('w, 'z, int option) io" where
  "fs_populate_container_root K n root_path host_root =
     (case (root_path, host_root) of
        (Some root, Some host) \<Rightarrow>
          obind
            (ofor_each (\<lambda>f. obind (copy_file K n (snprintf PATH_MAX (host @ f))
                                    (snprintf PATH_MAX (root @ f))) (\<lambda>_. oret ()))
               essential_files)
            (\<lambda>_. oret 0)
      | _ \<Rightarrow> oret (- 1))"

definition mounts_to_unmount :: "string list" where
  "mounts_to_unmount = [''/dev'', ''/tmp'', ''/sys'', ''/proc'']"

definition fs_cleanup_container_root :: "'w kernel \<Rightarrow> string option \<Rightarrow> ('w, 'z, int) io" where
  "fs_cleanup_container_root K root_path =
     (case root_path of
        None \<Rightarrow> State_Monad.return (- 1)
      | Some root \<Rightarrow> do {
          _ \<leftarrow> for_each (\<lambda>m. do { _ \<leftarrow> c_umount2 K (snprintf PATH_MAX (root @ m));
                                   State_Monad.return () }) mounts_to_unmount;
          r \<leftarrow> c_rmdir K root;
          (case r of
             Inl e \<Rightarrow> if e \<noteq> ENOTEMPTY then State_Monad.return (- 1) else State_Monad.return 0
           | Inr _ \<Rightarrow> State_Monad.return 0)
        })"

section \<open>Directories and devices\<close>

definition is_mkdir :: "event \<Rightarrow> bool" where
  "is_mkdir e \<longleftrightarrow> (case e of EMkdir _ _ \<Rightarrow> True | _ \<Rightarrow> False)"

definition mkdir_done :: "string \<Rightarrow> event list \<Rightarrow> bool" where
  \<comment> \<open>some \<open>mkdir\<close> of \<open>p\<close> succeeded or found it in place\<close>
  "mkdir_done p es \<longleftrightarrow> EMkdir p (Inr ()) \<in> set es \<or> EMkdir p (Inl EEXIST) \<in> set es"

definition mknod_done :: "string \<Rightarrow> nat \<Rightarrow> nat \<times> nat \<Rightarrow> event list \<Rightarrow> bool" where
  "mknod_done p m d es \<longleftrightarrow> EMknod p m d (Inr ()) \<in> set es \<or> EMknod p m d (Inl EEXIST) \<in> set es"

lemma mkdir_done_append [simp]:
  "mkdir_done p (xs @ ys) \<longleftrightarrow> mkdir_done p xs \<or> mkdir_done p ys"
  by (auto simp: mkdir_done_def)

lemma mknod_done_append [simp]:
  "mknod_done p m d (xs @ ys) \<longleftrightarrow> mknod_done p m d xs \<or> mknod_done p m d ys"
  by (auto simp: mknod_done_def)

lemma mkdir_p_only: "state_io_rel (only is_mkdir) (mkdir_p K n path)"
proof (induction n arbitrary: path)
  case 0
  then show ?case by (simp add: only_rules)
next
  case (Suc n)
  then show ?case
    by (auto simp: is_mkdir_def intro!: only_rules split: option.splits sum.splits)
qed

lemma mkdir_p_done:
  "run_state (mkdir_p K n (Some p)) s = (Some 0, t) \<Longrightarrow> mkdir_done p (new_events s t)"
proof (cases n)
  case (Suc m)
  assume run: "run_state (mkdir_p K n (Some p)) s = (Some 0, t)"
  obtain r w where r: "k_mkdir K p (kst s) = (r, w)" by fastforce
  let ?s1 = "s\<lparr>kst := w, trace := trace s @ [EMkdir p r]\<rparr>"
  show ?thesis
  proof (cases "r = Inl ENOENT")
    case False
    then show ?thesis
      using run r Suc
      by (cases r) (auto simp: mkdir_done_def new_events_def split: if_splits)
  next
    case True
    then obtain t1 r2 w2 where
      mk: "run_state (mkdir_p K m (Some (dirname p))) ?s1 = (Some 0, t1)"
      and r2: "k_mkdir K p (kst t1) = (r2, w2)" and ok: "ret_code r2 = 0"
      and t: "t = t1\<lparr>kst := w2, trace := trace t1 @ [EMkdir p r2]\<rparr>"
      using run r Suc by (auto split: option.splits prod.splits if_splits)
    have "only is_mkdir ?s1 t1" using mkdir_p_only mk by (rule state_io_relD)
    then obtain es where "trace t1 = trace ?s1 @ es" by (auto simp: only_def)
    moreover have "r2 = Inr ()" using ok by (cases r2) auto
    ultimately show ?thesis using t by (simp add: mkdir_done_def new_events_def)
  qed
qed simp

lemma create_dirs_only: "state_io_rel (only is_mkdir) (create_dirs K n root ds)"
  by (induction ds) (auto intro!: only_rules mkdir_p_only)

lemma create_dirs_done:
  "run_state (create_dirs K n root ds) s = (Some 0, t) \<Longrightarrow> d \<in> set ds \<Longrightarrow>
     mkdir_done (snprintf PATH_MAX (root @ d)) (new_events s t)"
proof (induction ds arbitrary: s)
  case (Cons d' ds)
  then obtain u where
    mk: "run_state (mkdir_p K n (Some (snprintf PATH_MAX (root @ d')))) s = (Some 0, u)"
    and rest: "run_state (create_dirs K n root ds) u = (Some 0, t)"
    by (auto split: option.splits prod.splits if_splits)
  have "only is_mkdir s u" using mkdir_p_only mk by (rule state_io_relD)
  moreover have "only is_mkdir u t" using create_dirs_only rest by (rule state_io_relD)
  ultimately have "new_events s t = new_events s u @ new_events u t" by (rule new_events_trans)
  then show ?case
    using Cons.IH [OF rest] mkdir_p_done [OF mk] Cons.prems(2) by auto
qed simp

definition is_mknod :: "event \<Rightarrow> bool" where
  "is_mknod e \<longleftrightarrow> (case e of EMknod _ _ _ _ \<Rightarrow> True | _ \<Rightarrow> False)"

lemma create_devices_only: "state_io_rel (only is_mknod) (create_devices K root devs)"
  by (induction devs) (auto simp: is_mknod_def intro!: only_rules split: sum.splits)

lemma create_devices_done:
  "run_state (create_devices K root devs) s = (0, t) \<Longrightarrow> (p, m, d) \<in> set devs \<Longrightarrow>
     mknod_done (snprintf PATH_MAX (root @ p)) m d (new_events s t)"
proof (induction devs arbitrary: s)
  case (Cons dev devs)
  obtain p' m' maj min where dev: "dev = (p', m', maj, min)" by (cases dev)
  let ?p = "snprintf PATH_MAX (root @ p')"
  obtain r w where r: "k_mknod K ?p m' (maj, min) (kst s) = (r, w)" by fastforce
  let ?s1 = "s\<lparr>kst := w, trace := trace s @ [EMknod ?p m' (maj, min) r]\<rparr>"
  have ok: "r = Inr () \<or> r = Inl EEXIST" and rest: "run_state (create_devices K root devs) ?s1 = (0, t)"
    using Cons.prems(1) dev r by (auto split: sum.splits if_splits)
  have "only is_mknod ?s1 t" using create_devices_only rest by (rule state_io_relD)
  then have ev: "new_events s t = EMknod ?p m' (maj, min) r # new_events ?s1 t"
    by (auto simp: only_def new_events_def)
  show ?case
  proof (cases "(p, m, d) = dev")
    case True
    then show ?thesis using ev ok dev by (auto simp: mknod_done_def)
  next
    case False
    then have "mknod_done (snprintf PATH_MAX (root @ p)) m d (new_events ?s1 t)"
      using Cons.IH [OF rest] Cons.prems(2) by simp
    then show ?thesis using ev by (auto simp: mknod_done_def)
  qed
qed simp

section \<open>Termination\<close>

text \<open>
  The recursion of \<open>mkdir_p\<close> climbs to the parent directory, which is shorter until it reaches
  one of the directories \<open>dirname\<close> maps to themselves. \<open>mkdir(2)\<close> reports \<open>ENOENT\<close> only for a
  missing path prefix, which those do not have.
\<close>

definition top_dirs_exist :: "'w kernel \<Rightarrow> bool" where
  "top_dirs_exist K \<longleftrightarrow> (\<forall>d w. top_dir d \<longrightarrow> fst (k_mkdir K d w) \<noteq> Inl ENOENT)"

lemma mkdir_p_returns_top:
  assumes "top_dirs_exist K" and "top_dir p"
  shows "returns (mkdir_p K (Suc n) (Some p))"
proof (rule returnsI)
  fix s
  obtain r w where r: "k_mkdir K p (kst s) = (r, w)" by fastforce
  have "r \<noteq> Inl ENOENT" using assms r unfolding top_dirs_exist_def by (metis fst_conv)
  then show "\<exists>x t. run_state (mkdir_p K (Suc n) (Some p)) s = (Some x, t)"
    using r by (cases r) auto
qed

lemma mkdir_p_returns:
  fixes K :: "'w kernel"
  assumes K: "top_dirs_exist K"
  shows "length p + 2 \<le> n \<Longrightarrow> returns (mkdir_p K n (Some p) :: ('w, 'z, int option) io)"
proof (induction n arbitrary: p)
  case (Suc n)
  have "returns (mkdir_p K n (Some (dirname p)) :: ('w, 'z, int option) io)"
  proof (cases "top_dir (dirname p)")
    case True
    then show ?thesis using Suc.prems mkdir_p_returns_top [OF K] by (cases n) auto
  next
    case False
    then have "length (dirname p) < length p" by (rule dirname_shorter)
    then show ?thesis using Suc.prems by (intro Suc.IH) simp
  qed
  then show ?case by (auto intro!: returns_rules split: sum.splits)
qed simp

lemma create_dirs_returns:
  fixes K :: "'w kernel"
  assumes "\<And>d. d \<in> set ds \<Longrightarrow>
    returns (mkdir_p K n (Some (snprintf PATH_MAX (root @ d))) :: ('w, 'z, int option) io)"
  shows "returns (create_dirs K n root ds :: ('w, 'z, int option) io)"
  using assms by (induction ds) (auto intro!: returns_rules)

lemma essential_dirs_short: "d \<in> set essential_dirs \<Longrightarrow> length d \<le> 10"
  by (auto simp: essential_dirs_def)

lemma fs_create_minimal_root_returns_aux:
  fixes K :: "'w kernel"
  assumes "top_dirs_exist K" and "length root + 12 \<le> n"
  shows "returns (fs_create_minimal_root K n (Some root) :: ('w, 'z, int option) io)"
proof -
  have "returns (mkdir_p K n (Some (snprintf PATH_MAX (root @ d))) :: ('w, 'z, int option) io)"
    if "d \<in> set essential_dirs" for d
  proof -
    have "length (snprintf PATH_MAX (root @ d)) \<le> length root + length d"
      by (simp add: snprintf_def)
    then show ?thesis
      using assms essential_dirs_short [OF that] by (intro mkdir_p_returns) auto
  qed
  then have "returns (create_dirs K n root essential_dirs :: ('w, 'z, int option) io)"
    by (rule create_dirs_returns)
  then show ?thesis by (auto simp: fs_create_minimal_root_def intro!: returns_rules)
qed

text \<open>
  A copy ends when the source is finite: \<open>left\<close> bounds how many reads can still deliver data; no
  call raises it beyond the bound \<open>N\<close>.
\<close>

definition finite_files :: "'w kernel \<Rightarrow> ('w \<Rightarrow> nat) \<Rightarrow> nat \<Rightarrow> bool" where
  "finite_files K left N \<longleftrightarrow>
     (\<forall>w. left w < N) \<and>
     (\<forall>fd w c cs w'. k_read K fd 8192 w = (Inr (c # cs), w') \<longrightarrow> left w' < left w) \<and>
     (\<forall>fd v w. left (snd (k_write K fd v w)) \<le> left w)"

lemma copy_loop_returns_from:
  assumes K: "finite_files K left N"
  shows "left (kst s) < n \<Longrightarrow> \<exists>x t. run_state (copy_loop K n sfd dfd) s = (Some x, t)"
proof (induction n arbitrary: s)
  case (Suc n)
  obtain r w where r: "k_read K sfd 8192 (kst s) = (r, w)" by fastforce
  show ?case
  proof (cases "\<exists>c cs. r = Inr (c # cs)")
    case True
    then obtain c cs where c: "r = Inr (c # cs)" by blast
    obtain q v where q: "k_write K dfd (c # cs) w = (q, v)" by fastforce
    have "left w < left (kst s)" using K r c unfolding finite_files_def by blast
    moreover have "left v \<le> left w"
      using K q unfolding finite_files_def by (metis snd_conv)
    ultimately have "left v < n" using Suc.prems by simp
    then show ?thesis
      using r c q
        Suc.IH [of "s\<lparr>kst := v, trace := trace s @ [ERead sfd 8192 r, EWrite dfd (c # cs) q]\<rparr>"]
      by (cases "q = Inr (length (c # cs))") (auto split: prod.split)
  next
    case False
    then have "(\<exists>e. r = Inl e) \<or> r = Inr []" by (metis list.exhaust sum.exhaust)
    then show ?thesis using r by (auto split: prod.split)
  qed
qed simp

lemma copy_file_returns:
  assumes K: "finite_files K left N"
  shows "returns (copy_file K N src dst)"
proof (rule returnsI)
  fix s :: "('a, 'b) os_scheme"
  have "\<exists>x t. run_state (copy_loop K N sfd dfd) s' = (Some x, t)" for sfd dfd and s' :: "('a, 'b) os_scheme"
    using K by (intro copy_loop_returns_from [OF K]) (auto simp: finite_files_def)
  then show "\<exists>x t. run_state (copy_file K N src dst) s = (Some x, t)"
    by (auto simp: copy_file_def split: prod.split sum.split)
qed

lemma fs_populate_returns:
  "finite_files K left N \<Longrightarrow> returns (fs_populate_container_root K N root host)"
  by (auto simp: fs_populate_container_root_def
      intro!: returns_rules intro: copy_file_returns split: option.splits)

section \<open>Copying\<close>

fun read_data :: "int \<Rightarrow> event list \<Rightarrow> string" where
  "read_data fd [] = []"
| "read_data fd (ERead fd' _ (Inr v) # es) = (if fd' = fd then v else []) @ read_data fd es"
| "read_data fd (_ # es) = read_data fd es"

fun written_data :: "int \<Rightarrow> event list \<Rightarrow> string" where
  "written_data fd [] = []"
| "written_data fd (EWrite fd' v _ # es) = (if fd' = fd then v else []) @ written_data fd es"
| "written_data fd (_ # es) = written_data fd es"

lemma copy_loop_trace:
  "run_state (copy_loop K n sfd dfd) s = (Some c, t) \<Longrightarrow>
     \<exists>es. trace t = trace s @ es @ [EClose sfd, EClose dfd] \<and> (\<forall>fd. fd_count fd es = 0) \<and>
          (c = 0 \<longrightarrow> read_data sfd es = written_data dfd es)"
proof (induction n arbitrary: s)
  case (Suc n)
  obtain r w where r: "k_read K sfd 8192 (kst s) = (r, w)" by fastforce
  show ?case
  proof (cases "\<exists>b bs. r = Inr (b # bs)")
    case True
    then obtain b bs where b: "r = Inr (b # bs)" by blast
    obtain q v where q: "k_write K dfd (b # bs) w = (q, v)" by fastforce
    let ?new = "[ERead sfd 8192 r, EWrite dfd (b # bs) q]"
    let ?s1 = "s\<lparr>kst := v, trace := trace s @ ?new\<rparr>"
    show ?thesis
    proof (cases "q = Inr (length (b # bs))")
      case True
      then have "run_state (copy_loop K n sfd dfd) ?s1 = (Some c, t)"
        using Suc.prems r b q by (simp split: prod.splits)
      then obtain es where es: "trace t = trace ?s1 @ es @ [EClose sfd, EClose dfd]"
        "\<forall>fd. fd_count fd es = 0" "c = 0 \<longrightarrow> read_data sfd es = written_data dfd es"
        using Suc.IH by blast
      then show ?thesis using b by (intro exI [of _ "?new @ es"]) auto
    next
      case False
      then show ?thesis using Suc.prems r b q
        by (intro exI [of _ ?new]) (auto split: prod.splits)
    qed
  next
    case False
    then have "(\<exists>e. r = Inl e) \<or> r = Inr []" by (metis list.exhaust sum.exhaust)
    then show ?thesis using Suc.prems r
      by (intro exI [of _ "[ERead sfd 8192 r]"]) (auto split: prod.splits)
  qed
qed simp

lemma copy_file_balanced: "state_ret_rel fd_balanced (copy_file K n src dst)"
proof (rule state_ret_relI)
  fix s c t
  assume run: "run_state (copy_file K n src dst) s = (Some c, t)"
  obtain r w where r: "k_open K src O_RDONLY (kst s) = (r, w)" by fastforce
  show "fd_balanced s t"
  proof (cases r)
    case (Inl e)
    then show ?thesis using run r by (auto simp: copy_file_def fd_balanced_def)
  next
    case (Inr sfd)
    obtain d v where d: "k_open K dst O_WRONLY_CREAT_TRUNC w = (d, v)" by fastforce
    show ?thesis
    proof (cases d)
      case Inl_d: (Inl e)
      then show ?thesis
        using run r Inr d by (auto simp: copy_file_def fd_balanced_def split: prod.splits)
    next
      case Inr_d: (Inr dfd)
      let ?s2 = "s\<lparr>kst := v, trace := trace s @ [EOpen src O_RDONLY r, EOpen dst O_WRONLY_CREAT_TRUNC d]\<rparr>"
      have "run_state (copy_loop K n sfd dfd) ?s2 = (Some c, t)"
        using run r Inr d Inr_d by (simp add: copy_file_def)
      from copy_loop_trace [OF this] obtain es where
        "trace t = trace ?s2 @ es @ [EClose sfd, EClose dfd]" "\<forall>fd. fd_count fd es = 0" by blast
      then show ?thesis using Inr Inr_d by (simp add: fd_balanced_def)
    qed
  qed
qed

lemma fs_populate_balanced:
  "state_ret_rel fd_balanced (fs_populate_container_root K n root host)"
  unfolding fs_populate_container_root_def
  by (auto intro!: fd_ret_rules copy_file_balanced split: option.splits)

lemma mkdir_p_balanced: "state_io_rel fd_balanced (mkdir_p K n p)"
  by (induction n arbitrary: p) (auto intro!: fd_rules split: option.splits sum.splits)

lemma create_dirs_balanced: "state_io_rel fd_balanced (create_dirs K n root ds)"
  by (induction ds) (auto intro!: fd_rules mkdir_p_balanced)

lemma create_devices_balanced: "state_io_rel fd_balanced (create_devices K root devs)"
  by (induction devs) (auto intro!: fd_rules split: sum.splits)

lemma fs_create_minimal_root_balanced:
  "state_io_rel fd_balanced (fs_create_minimal_root K n root)"
  by (auto simp: fs_create_minimal_root_def intro!: fd_rules create_dirs_balanced create_devices_balanced
      split: option.splits)

section \<open>Mounting and unmounting\<close>

definition mount_targets :: "event list \<Rightarrow> string list" where
  "mount_targets es = List.map_filter (\<lambda>e. case e of EMount _ p _ _ _ \<Rightarrow> Some p | _ \<Rightarrow> None) es"

definition umount_targets :: "event list \<Rightarrow> string list" where
  "umount_targets es = List.map_filter (\<lambda>e. case e of EUmount p _ \<Rightarrow> Some p | _ \<Rightarrow> None) es"

lemma mount_all_targets:
  "run_state (mount_all K root ms) s = (0, t) \<Longrightarrow>
     \<exists>es. trace t = trace s @ es \<and>
       mount_targets es = map (\<lambda>(_, dir, _). snprintf PATH_MAX (root @ dir)) ms"
proof (induction ms arbitrary: s)
  case Nil
  then show ?case by (simp add: mount_targets_def)
next
  case (Cons m ms)
  obtain src dir ty where m: "m = (src, dir, ty)" by (cases m)
  let ?p = "snprintf PATH_MAX (root @ dir)"
  obtain r w where r: "k_mount K (Some src) ?p (Some ty) [] (kst s) = (r, w)" by fastforce
  let ?s1 = "s\<lparr>kst := w, trace := trace s @ [EMount (Some src) ?p (Some ty) [] r]\<rparr>"
  have "run_state (mount_all K root ms) ?s1 = (0, t)"
    using Cons.prems m r by (auto split: if_splits)
  from Cons.IH [OF this] obtain es where es: "trace t = trace ?s1 @ es"
    "mount_targets es = map (\<lambda>(_, dir, _). snprintf PATH_MAX (root @ dir)) ms" by blast
  then show ?case
    using m by (intro exI [of _ "EMount (Some src) ?p (Some ty) [] r # es"])
      (simp add: mount_targets_def map_filter_simps)
qed

lemma for_each_umount:
  "run_state (for_each (\<lambda>m. do { _ \<leftarrow> c_umount2 K (snprintf PATH_MAX (root @ m));
                                 State_Monad.return () }) ms) s = (u, t) \<Longrightarrow>
     \<exists>es. trace t = trace s @ es \<and>
       umount_targets es = map (\<lambda>m. snprintf PATH_MAX (root @ m)) ms"
proof (induction ms arbitrary: s)
  case Nil
  then show ?case by (simp add: umount_targets_def)
next
  case (Cons m ms)
  let ?p = "snprintf PATH_MAX (root @ m)"
  obtain r w where r: "k_umount2 K ?p (kst s) = (r, w)" by fastforce
  let ?s1 = "s\<lparr>kst := w, trace := trace s @ [EUmount ?p r]\<rparr>"
  from Cons.prems r have "run_state (for_each (\<lambda>m. do { _ \<leftarrow> c_umount2 K (snprintf PATH_MAX (root @ m));
                                 State_Monad.return () }) ms) ?s1 = (u, t)"
    by simp
  from Cons.IH [OF this] obtain es where es: "trace t = trace ?s1 @ es"
    "umount_targets es = map (\<lambda>m. snprintf PATH_MAX (root @ m)) ms" by blast
  then show ?case
    by (intro exI [of _ "EUmount ?p r # es"]) (simp add: umount_targets_def map_filter_simps)
qed

lemma fs_cleanup_umounts:
  "umount_targets (new_events s (snd (run_state (fs_cleanup_container_root K (Some root)) s)))
     = map (\<lambda>m. snprintf PATH_MAX (root @ m)) mounts_to_unmount"
proof -
  let ?loop = "for_each (\<lambda>m. do { _ \<leftarrow> c_umount2 K (snprintf PATH_MAX (root @ m));
                 State_Monad.return () }) mounts_to_unmount"
  obtain u t where ut: "run_state ?loop s = (u, t)" by (rule prod.exhaust)
  from for_each_umount [OF this] obtain es where es: "trace t = trace s @ es"
    "umount_targets es = map (\<lambda>m. snprintf PATH_MAX (root @ m)) mounts_to_unmount" by blast
  obtain r w where r: "k_rmdir K root (kst t) = (r, w)" by fastforce
  have "trace (snd (run_state (fs_cleanup_container_root K (Some root)) s)) =
      trace s @ es @ [ERmdir root r]"
    using ut r es(1) by (auto simp: fs_cleanup_container_root_def split: sum.split)
  then have "new_events s (snd (run_state (fs_cleanup_container_root K (Some root)) s)) =
      es @ [ERmdir root r]"
    by (rule new_events_append)
  then show ?thesis
    using es(2) by (simp add: umount_targets_def map_filter_def)
qed

section \<open>Properties\<close>

text \<open>
  Property C37. When \<open>fs_create_minimal_root\<close> reports success, every essential directory was
  created or already there, and every device node was made with its mode and device number or
  already there; nothing was skipped.
\<close>
theorem fs_create_minimal_root_complete:
  assumes "run_state (fs_create_minimal_root K n (Some root)) s = (Some 0, t)"
  shows "(\<forall>d \<in> set essential_dirs. mkdir_done (snprintf PATH_MAX (root @ d)) (new_events s t)) \<and>
    (\<forall>(p, m, maj, min) \<in> set essential_devices.
       mknod_done (snprintf PATH_MAX (root @ p)) m (maj, min) (new_events s t))"
proof -
  from assms obtain u where
    dirs: "run_state (create_dirs K n root essential_dirs) s = (Some 0, u)" and
    devs: "run_state (create_devices K root essential_devices) u = (0, t)"
    by (auto simp: fs_create_minimal_root_def split: option.splits prod.splits if_splits)
  have "only is_mkdir s u" using create_dirs_only dirs by (rule state_io_relD)
  moreover have "only is_mknod u t" using create_devices_only devs by (rule state_io_relD)
  ultimately have "new_events s t = new_events s u @ new_events u t" by (rule new_events_trans)
  then show ?thesis
    using create_dirs_done [OF dirs] create_devices_done [OF devs] by auto
qed

lemma calm_minimal_root:
  "run_state (fs_create_minimal_root calm_kernel 1 (Some ''/c'')) calm_start =
     (Some 0, snd (run_state (fs_create_minimal_root calm_kernel 1 (Some ''/c'')) calm_start))"
  by (simp add: fs_create_minimal_root_def essential_dirs_def essential_devices_def calm_kernel_def
      calm_start_def)

theorem fs_create_minimal_root_complete_witness:
  "mkdir_done ''/c/usr/bin'' (new_events calm_start
     (snd (run_state (fs_create_minimal_root calm_kernel 1 (Some ''/c'')) calm_start)))"
proof -
  have "snprintf PATH_MAX (''/c'' @ ''/usr/bin'') = ''/c/usr/bin''"
    by (simp add: PATH_MAX_def)
  moreover have "''/usr/bin'' \<in> set essential_dirs" by (simp add: essential_dirs_def)
  ultimately show ?thesis
    using fs_create_minimal_root_complete [OF calm_minimal_root] by fastforce
qed

text \<open>
  Property C38. \<open>fs_create_minimal_root\<close> returns: on a kernel where the top directories exist,
  the recursion of \<open>mkdir_p\<close> needs at most one level per character of the path (plus the longest
  essential directory), whatever the other calls answer.
\<close>
theorem fs_create_minimal_root_returns:
  assumes "top_dirs_exist K" and "length root + 12 \<le> n"
  shows "\<exists>c t. run_state (fs_create_minimal_root K n (Some root)) s = (Some c, t)"
  using fs_create_minimal_root_returns_aux [OF assms] by (rule returnsE) blast

lemma mem_top_dirs_exist: "top_dirs_exist mem_kernel"
  by (auto simp: top_dirs_exist_def mem_mkdir_def mem_exists_def)

theorem fs_create_minimal_root_returns_witness:
  "\<exists>c t. run_state (fs_create_minimal_root mem_kernel 20 (Some ''/c'')) mem_start = (Some c, t)"
  by (rule fs_create_minimal_root_returns [OF mem_top_dirs_exist]) simp

text \<open>
  Property C39. A copy that reports success wrote to the destination exactly the bytes it read from
  the source, in order, and closed both descriptors.
\<close>
theorem copy_file_exact:
  assumes "run_state (copy_file K n src dst) s = (Some 0, t)"
  shows "\<exists>sfd dfd es. new_events s t =
      [EOpen src O_RDONLY (Inr sfd), EOpen dst O_WRONLY_CREAT_TRUNC (Inr dfd)] @ es
        @ [EClose sfd, EClose dfd] \<and>
    written_data dfd es = read_data sfd es"
proof -
  from assms obtain sfd w dfd v where
    "k_open K src O_RDONLY (kst s) = (Inr sfd, w)" "k_open K dst O_WRONLY_CREAT_TRUNC w = (Inr dfd, v)"
    and loop: "run_state (copy_loop K n sfd dfd)
      (s\<lparr>kst := v, trace := trace s @ [EOpen src O_RDONLY (Inr sfd),
         EOpen dst O_WRONLY_CREAT_TRUNC (Inr dfd)]\<rparr>) = (Some 0, t)"
    by (auto simp: copy_file_def split: prod.splits sum.splits)
  from copy_loop_trace [OF loop] obtain es where
    "trace t = (trace s @ [EOpen src O_RDONLY (Inr sfd), EOpen dst O_WRONLY_CREAT_TRUNC (Inr dfd)]) @ es
       @ [EClose sfd, EClose dfd]"
    "read_data sfd es = written_data dfd es"
    by auto
  then show ?thesis
    by (intro exI [of _ sfd] exI [of _ dfd] exI [of _ es]) (simp add: new_events_def)
qed

theorem copy_file_exact_witness:
  "\<exists>sfd dfd es. new_events mem_start
      (snd (run_state (copy_file mem_kernel 3 ''/bin/sh'' ''/tmp/sh'') mem_start)) =
      [EOpen ''/bin/sh'' O_RDONLY (Inr sfd), EOpen ''/tmp/sh'' O_WRONLY_CREAT_TRUNC (Inr dfd)] @ es
        @ [EClose sfd, EClose dfd] \<and>
    written_data dfd es = read_data sfd es"
proof (rule copy_file_exact [where K = mem_kernel and n = 3])
  have "fst (run_state (copy_file mem_kernel 3 ''/bin/sh'' ''/tmp/sh'') mem_start) = Some 0"
    by (simp add: copy_file_def mem_open_def mem_read_def mem_write_def mem_exists_def top_dir_def
        dirname_def strip_slashes_def mem_kernel_def mem_start_def mem_init_def numeral_3_eq_3)
  then show "run_state (copy_file mem_kernel 3 ''/bin/sh'' ''/tmp/sh'') mem_start =
      (Some 0, snd (run_state (copy_file mem_kernel 3 ''/bin/sh'' ''/tmp/sh'') mem_start))"
    by (metis prod.collapse)
qed

text \<open>
  \<open>fs_setup_chroot\<close> succeeds exactly when it entered the new root, changed root to it
  and then moved to its top, in that order, each call succeeding.
\<close>
theorem fs_setup_chroot_sequence:
  "fst (run_state (fs_setup_chroot K (Some root)) s) = 0 \<longleftrightarrow>
     new_events s (snd (run_state (fs_setup_chroot K (Some root)) s)) =
       [EChdir root (Inr ()), EChroot root (Inr ()), EChdir ''/'' (Inr ())]"
  by (auto simp: fs_setup_chroot_def new_events_def ret_code_def split: prod.splits sum.splits)

text \<open>
  Cleaning up unmounts the virtual filesystems in the reverse of the order in which a
  successful \<open>fs_mount_container_filesystems\<close> mounted them.
\<close>
theorem fs_cleanup_reverses_mounts:
  assumes "run_state (fs_mount_container_filesystems K (Some root)) s = (0, t)"
  shows "umount_targets (new_events u (snd (run_state (fs_cleanup_container_root K' (Some root)) u)))
     = rev (mount_targets (new_events s t))"
proof -
  from assms have "run_state (mount_all K root container_mounts) s = (0, t)"
    by (simp add: fs_mount_container_filesystems_def)
  from mount_all_targets [OF this]
  have "mount_targets (new_events s t) =
      map (\<lambda>(_, dir, _). snprintf PATH_MAX (root @ dir)) container_mounts"
    by (auto simp: new_events_def)
  then show ?thesis
    by (simp add: fs_cleanup_umounts container_mounts_def mounts_to_unmount_def)
qed

theorem fs_cleanup_reverses_mounts_witness:
  "umount_targets (new_events calm_start
       (snd (run_state (fs_cleanup_container_root calm_kernel (Some ''/c'')) calm_start)))
     = rev (mount_targets (new_events calm_start
         (snd (run_state (fs_mount_container_filesystems calm_kernel (Some ''/c'')) calm_start))))"
  by (rule fs_cleanup_reverses_mounts [where K = calm_kernel])
    (simp add: fs_mount_container_filesystems_def container_mounts_def calm_kernel_def calm_start_def)

end
