(* ===== verification/Namespace_Handler.thy ===== *)
theory Namespace_Handler
  imports Kernel Mem_Kernel
begin

text \<open>
  The namespace handler, \<open>src/src/namespace_handler.cpp\<close>: creating a process in new PID and mount
  namespaces, what that process does before it becomes the container's command, and joining the
  namespaces of a running container. The cloned child has its own copy of memory, so its steps are
  a program of their own (\<open>container_child\<close>); the parent sees the process id only.
\<close>

unbundle bit_operations_syntax

section \<open>Model\<close>

definition CLONE_NEWPID :: int where "CLONE_NEWPID = 0x20000000"
definition CLONE_NEWNS :: int where "CLONE_NEWNS = 0x00020000"
definition SIGCHLD :: int where "SIGCHLD = 17"

definition CONTAINER_NAMESPACES :: int where
  "CONTAINER_NAMESPACES = (CLONE_NEWPID OR CLONE_NEWNS)"

record namespace_config =
  ns_flags :: int

text \<open>
  A \<open>char **\<close> command is the list of its entries, each possibly null; the program passed to
  \<open>execvp\<close> ends at the first null entry.
\<close>

type_synonym command = "string option list"

definition argv_of :: "command \<Rightarrow> string list" where
  "argv_of cmd = map the (takeWhile (\<lambda>a. a \<noteq> None) cmd)"

definition namespace_config_init :: "namespace_config option \<Rightarrow> namespace_config option" where
  "namespace_config_init config = map_option (\<lambda>c. c\<lparr>ns_flags := CONTAINER_NAMESPACES\<rparr>) config"

definition mount_or_ignore_ebusy ::
  "'w kernel \<Rightarrow> string \<Rightarrow> string \<Rightarrow> string \<Rightarrow> mount_flag list \<Rightarrow> ('w, 'z, int) io" where
  "mount_or_ignore_ebusy K source tgt fstype flags = do {
     r \<leftarrow> c_mount K (Some source) tgt (Some fstype) flags;
     (case r of
        Inl e \<Rightarrow> State_Monad.return (if e = EBUSY then 0 else - 1)
      | Inr _ \<Rightarrow> State_Monad.return 0)
   }"

definition setup_container_filesystem :: "'w kernel \<Rightarrow> ('w, 'z, int) io" where
  "setup_container_filesystem K = do {
     r \<leftarrow> c_mount K None ''/'' None [MS_REC, MS_PRIVATE];
     if ret_code r = - 1 then State_Monad.return (- 1)
     else do {
       r \<leftarrow> mount_or_ignore_ebusy K ''proc'' ''/proc'' ''proc'' [];
       if r = - 1 then State_Monad.return (- 1)
       else do {
         r \<leftarrow> mount_or_ignore_ebusy K ''sysfs'' ''/sys'' ''sysfs'' [MS_NOSUID, MS_NOEXEC, MS_NODEV];
         if r = - 1 then State_Monad.return (- 1)
         else do {
           r \<leftarrow> mount_or_ignore_ebusy K ''tmpfs'' ''/tmp'' ''tmpfs'' [];
           if r = - 1 then State_Monad.return (- 1)
           else do {
             r \<leftarrow> mount_or_ignore_ebusy K ''dev'' ''/dev'' ''devtmpfs'' [];
             if r = - 1 then State_Monad.return (- 1) else State_Monad.return 0
           }
         }
       }
     }
   }"

definition namespace_setup_isolation :: "'w kernel \<Rightarrow> ('w, 'z, int) io" where
  "namespace_setup_isolation K = do {
     r \<leftarrow> setup_container_filesystem K;
     State_Monad.return (if r \<noteq> 0 then - 1 else 0)
   }"

datatype child_result = Replaced | Exited int

definition EXIT_SUCCESS :: int where "EXIT_SUCCESS = 0"
definition EXIT_FAILURE :: int where "EXIT_FAILURE = 1"

definition container_child :: "'w kernel \<Rightarrow> command \<Rightarrow> ('w, 'z, child_result) io" where
  "container_child K cmd = do {
     r \<leftarrow> namespace_setup_isolation K;
     if r \<noteq> 0 then State_Monad.return (Exited EXIT_FAILURE)
     else do {
       e \<leftarrow> c_execvp K (argv_of cmd);
       State_Monad.return (if e = None then Replaced else Exited EXIT_FAILURE)
     }
   }"

definition namespace_clone_process :: "'w kernel \<Rightarrow> int \<Rightarrow> ('w, 'z, int) io" where
  "namespace_clone_process K flags = do {
     r \<leftarrow> c_clone K (flags OR SIGCHLD);
     State_Monad.return (case r of Inl _ \<Rightarrow> - 1 | Inr pid \<Rightarrow> pid)
   }"

definition namespace_create_container_with_cgroup ::
  "'w kernel \<Rightarrow> namespace_config option \<Rightarrow> command option \<Rightarrow> int \<Rightarrow>
     (int \<Rightarrow> ('w, 'z, unit) io) option \<Rightarrow> ('w, 'z, int) io" where
  "namespace_create_container_with_cgroup K config command argc add_to_cgroup_callback =
     (case (config, command) of
        (Some cfg, Some _) \<Rightarrow>
          if argc \<le> 0 then State_Monad.return (- 1)
          else do {
            pid \<leftarrow> namespace_clone_process K (ns_flags cfg);
            _ \<leftarrow> (case add_to_cgroup_callback of
                    Some callback \<Rightarrow>
                      if pid > 0 then do { _ \<leftarrow> c_usleep K 1000; callback pid }
                      else State_Monad.return ()
                  | None \<Rightarrow> State_Monad.return ());
            State_Monad.return pid
          }
      | _ \<Rightarrow> State_Monad.return (- 1))"

definition namespace_create_container ::
  "'w kernel \<Rightarrow> namespace_config option \<Rightarrow> command option \<Rightarrow> int \<Rightarrow> ('w, 'z, int) io" where
  "namespace_create_container K config command argc =
     namespace_create_container_with_cgroup K config command argc None"

definition namespace_join :: "'w kernel \<Rightarrow> int \<Rightarrow> int \<Rightarrow> ('w, 'z, int) io" where
  "namespace_join K target_pid ns_type = do {
     let ns_path = snprintf 256 (''/proc/'' @ show_int target_pid @ ''/ns/'' @
       (if ns_type = CLONE_NEWPID then ''pid'' else if ns_type = CLONE_NEWNS then ''mnt''
        else ''unknown''));
     r \<leftarrow> c_open K ns_path O_RDONLY;
     (case r of
        Inl _ \<Rightarrow> State_Monad.return (- 1)
      | Inr fd \<Rightarrow> do {
          r \<leftarrow> c_setns K fd ns_type;
          _ \<leftarrow> c_close K fd;
          State_Monad.return (ret_code r)
        })
   }"

section \<open>Lemmas\<close>

definition is_mount_ok :: "event \<Rightarrow> bool" where
  \<comment> \<open>a mount that succeeded or found its target busy\<close>
  "is_mount_ok e \<longleftrightarrow> (case e of EMount _ _ _ _ r \<Rightarrow> r = Inr () \<or> r = Inl EBUSY | _ \<Rightarrow> False)"

definition is_mount_or_exec :: "event \<Rightarrow> bool" where
  "is_mount_or_exec e \<longleftrightarrow> (case e of EMount _ _ _ _ _ \<Rightarrow> True | EExec _ _ \<Rightarrow> True | _ \<Rightarrow> False)"

lemma mount_or_ignore_ebusy_run:
  "run_state (mount_or_ignore_ebusy K src tgt ty fl) s = (c, t) \<Longrightarrow>
     \<exists>r. trace t = trace s @ [EMount (Some src) tgt (Some ty) fl r] \<and>
       (c = 0 \<or> c = - 1) \<and> (c = 0 \<longleftrightarrow> r = Inr () \<or> r = Inl EBUSY)"
  by (auto simp: mount_or_ignore_ebusy_def split: prod.splits sum.splits if_splits)

lemma setup_container_filesystem_success:
  assumes "run_state (setup_container_filesystem K) s = (0, t)"
  shows "\<exists>r1 r2 r3 r4. trace t = trace s @
     [EMount None ''/'' None [MS_REC, MS_PRIVATE] (Inr ()),
      EMount (Some ''proc'') ''/proc'' (Some ''proc'') [] r1,
      EMount (Some ''sysfs'') ''/sys'' (Some ''sysfs'') [MS_NOSUID, MS_NOEXEC, MS_NODEV] r2,
      EMount (Some ''tmpfs'') ''/tmp'' (Some ''tmpfs'') [] r3,
      EMount (Some ''dev'') ''/dev'' (Some ''devtmpfs'') [] r4] \<and>
     {r1, r2, r3, r4} \<subseteq> {Inr (), Inl EBUSY}"
  using assms
  by (auto simp: setup_container_filesystem_def ret_code_def
      dest!: mount_or_ignore_ebusy_run split: prod.splits sum.splits if_splits)

lemma setup_container_filesystem_codes:
  "fst (run_state (setup_container_filesystem K) s) \<in> {0, - 1}"
  by (auto simp: setup_container_filesystem_def mount_or_ignore_ebusy_def
      split: prod.splits sum.splits if_splits)

lemma setup_container_filesystem_only:
  "state_io_rel (only (\<lambda>e. is_mount_or_exec e \<and> (\<forall>a r. e \<noteq> EExec a r))) (setup_container_filesystem K)"
  unfolding setup_container_filesystem_def mount_or_ignore_ebusy_def
  by (auto simp: is_mount_or_exec_def intro!: only_rules split: sum.splits)

lemma container_child_only: "state_io_rel (only is_mount_or_exec) (container_child K cmd)"
  unfolding container_child_def namespace_setup_isolation_def setup_container_filesystem_def
    mount_or_ignore_ebusy_def
  by (auto simp: is_mount_or_exec_def intro!: only_rules split: sum.splits)

lemma namespace_join_run:
  obtains (closed) p e where
      "run_state (namespace_join K pid ty) s =
         (- 1, s\<lparr>kst := snd (k_open K p O_RDONLY (kst s)), trace := trace s @ [EOpen p O_RDONLY (Inl e)]\<rparr>)"
  | (joined) p fd r w where
      "run_state (namespace_join K pid ty) s =
         (ret_code r, s\<lparr>kst := w, trace := trace s @ [EOpen p O_RDONLY (Inr fd), ESetns fd ty r, EClose fd]\<rparr>)"
proof -
  define p where "p = snprintf 256 (''/proc/'' @ show_int pid @ ''/ns/'' @
       (if ty = CLONE_NEWPID then ''pid'' else if ty = CLONE_NEWNS then ''mnt'' else ''unknown''))"
  obtain r w where r: "k_open K p O_RDONLY (kst s) = (r, w)" by fastforce
  show thesis
  proof (cases r)
    case (Inl e)
    then show ?thesis
      using r by (intro closed [where p = p and e = e]) (simp add: namespace_join_def Let_def p_def)
  next
    case (Inr fd)
    obtain r2 w2 where r2: "k_setns K fd ty w = (r2, w2)" by fastforce
    obtain w3 where "k_close K fd w2 = ((), w3)" by (metis (full_types) old.unit.exhaust surj_pair)
    then show ?thesis
      using r r2 Inr by (intro joined [where r = r2 and w = w3 and p = p and fd = fd]) (simp add: namespace_join_def Let_def p_def)
  qed
qed

lemma namespace_join_balanced: "state_io_rel fd_balanced (namespace_join K pid ty)"
proof (rule state_io_relI)
  fix a s t
  assume "run_state (namespace_join K pid ty) s = (a, t)"
  then show "fd_balanced s t"
    by (cases rule: namespace_join_run [of K pid ty s]) (auto simp: fd_balanced_def)
qed

lemma namespace_clone_process_balanced: "state_io_rel fd_balanced (namespace_clone_process K fl)"
  by (auto simp: namespace_clone_process_def intro!: fd_rules)

section \<open>Properties\<close>

text \<open>
  Property C12. The container's command starts only in an isolated mount namespace: whenever the
  child calls \<open>execvp\<close>, mount propagation of \<open>/\<close> was made private first and \<open>/proc\<close>, \<open>/sys\<close>,
  \<open>/tmp\<close> and \<open>/dev\<close> were each mounted or already busy; a failed set-up exits instead.
\<close>
theorem container_child_isolated_before_exec:
  assumes "run_state (container_child K cmd) s = (c, t)"
    and "EExec a r \<in> set (new_events s t)"
  shows "a = argv_of cmd \<and> (\<exists>ms. new_events s t = ms @ [EExec a r] \<and>
     list_all is_mount_ok ms \<and>
     map (\<lambda>e. case e of EMount _ p _ _ _ \<Rightarrow> p | _ \<Rightarrow> []) ms = [''/'', ''/proc'', ''/sys'', ''/tmp'', ''/dev''] \<and>
     hd ms = EMount None ''/'' None [MS_REC, MS_PRIVATE] (Inr ()))"
proof -
  obtain c1 u where fs: "run_state (setup_container_filesystem K) s = (c1, u)" by fastforce
  have only: "only (\<lambda>e. is_mount_or_exec e \<and> (\<forall>a r. e \<noteq> EExec a r)) s u"
    using setup_container_filesystem_only fs by (rule state_io_relD)
  have c1: "c1 = 0"
  proof (rule ccontr)
    assume "c1 \<noteq> 0"
    then have "t = u"
      using assms(1) fs by (simp add: container_child_def namespace_setup_isolation_def)
    then show False using only_all [OF only] assms(2) by (auto simp: list_all_iff)
  qed
  obtain e w where "k_execvp K (argv_of cmd) (kst u) = (e, w)" by fastforce
  then have t: "t = u\<lparr>kst := w, trace := trace u @ [EExec (argv_of cmd) e]\<rparr>"
    using assms(1) fs c1 by (simp add: container_child_def namespace_setup_isolation_def)
  from setup_container_filesystem_success [OF fs [unfolded c1]]
  obtain r1 r2 r3 r4 where tu: "trace u = trace s @
     [EMount None ''/'' None [MS_REC, MS_PRIVATE] (Inr ()),
      EMount (Some ''proc'') ''/proc'' (Some ''proc'') [] r1,
      EMount (Some ''sysfs'') ''/sys'' (Some ''sysfs'') [MS_NOSUID, MS_NOEXEC, MS_NODEV] r2,
      EMount (Some ''tmpfs'') ''/tmp'' (Some ''tmpfs'') [] r3,
      EMount (Some ''dev'') ''/dev'' (Some ''devtmpfs'') [] r4]"
      (is "_ = _ @ ?ms") and ok: "{r1, r2, r3, r4} \<subseteq> {Inr (), Inl EBUSY}" by blast
  have ev: "new_events s t = ?ms @ [EExec (argv_of cmd) e]"
    using t tu by (simp add: new_events_def)
  then have "a = argv_of cmd" "r = e" using assms(2) by simp_all
  moreover have "list_all is_mount_ok ?ms" using ok by (simp add: is_mount_ok_def)
  ultimately show ?thesis using ev by (intro conjI exI [of _ ?ms]) simp_all
qed

theorem container_child_isolated_before_exec_witness:
  "\<exists>ms. new_events calm_start (snd (run_state (container_child calm_kernel [Some ''/bin/sh'']) calm_start))
     = ms @ [EExec [''/bin/sh''] None]"
  using container_child_isolated_before_exec
    [where K = calm_kernel and cmd = "[Some ''/bin/sh'']" and s = calm_start and r = None
      and a = "[''/bin/sh'']", OF prod.collapse [symmetric]]
  by (auto simp: container_child_def namespace_setup_isolation_def setup_container_filesystem_def
      mount_or_ignore_ebusy_def calm_kernel_def calm_start_def new_events_def argv_of_def)

text \<open>
  Property C36. Before its command runs, the child only mounts: it never calls \<open>chroot\<close>, \<open>chdir\<close>,
  \<open>mknod\<close> or \<open>pivot_root\<close>, so the root path of the configuration has no effect on what the
  container sees, although the documentation promises a changed root.
\<close>
theorem container_child_never_chroots:
  "list_all is_mount_or_exec (new_events s (snd (run_state (container_child K cmd) s)))"
proof -
  have "only is_mount_or_exec s (snd (run_state (container_child K cmd) s))"
    using container_child_only by (rule state_io_rel_run)
  then show ?thesis by (rule only_all)
qed



text \<open>
  \<open>namespace_join\<close> leaks no descriptor, on any path, and reports success exactly when
  the namespace file was opened and \<open>setns\<close> accepted it.
\<close>
theorem namespace_join_outcome:
  "fd_balanced s (snd (run_state (namespace_join K pid ty) s)) \<and>
   (fst (run_state (namespace_join K pid ty) s) = 0 \<longleftrightarrow>
      (\<exists>p fd. new_events s (snd (run_state (namespace_join K pid ty) s)) =
         [EOpen p O_RDONLY (Inr fd), ESetns fd ty (Inr ()), EClose fd]))"
proof (cases rule: namespace_join_run [of K pid ty s])
  case (closed p e)
  then show ?thesis by (simp add: fd_balanced_def new_events_def)
next
  case (joined p fd r w)
  then show ?thesis by (cases r) (simp_all add: fd_balanced_def new_events_def)
qed

end
