(* ===== verification/Resource_Manager.thy ===== *)
theory Resource_Manager
  imports Kernel Mem_Kernel
begin

text \<open>
  The resource manager, \<open>src/src/resource_manager.cpp\<close>: one cgroup per container in the unified
  (v2) or in the split (v1) hierarchy, its CPU and memory limits, the processes placed into it and
  its usage statistics.
\<close>

section \<open>Data\<close>

record cpu_limits =
  shares :: int
  quota_us :: int
  period_us :: int

record memory_limits =
  limit_bytes :: ulong
  swap_limit_bytes :: ulong

record resource_limits =
  cpu :: cpu_limits
  memory :: memory_limits
  enabled :: int

datatype cgroup_version = CGROUP_V1 | CGROUP_V2

record resource_manager =
  cgroup_path :: string
  initialized :: int
  version :: cgroup_version
  debug_log_callback :: "unit option"

definition CGROUP_ROOT :: string where "CGROUP_ROOT = ''/sys/fs/cgroup''"
definition CGROUP_V2_CONTROLLERS :: string where
  "CGROUP_V2_CONTROLLERS = CGROUP_ROOT @ ''/cgroup.controllers''"
definition CPU_CGROUP_PATH :: string where "CPU_CGROUP_PATH = CGROUP_ROOT @ ''/cpu''"
definition CPUACCT_CGROUP_PATH :: string where "CPUACCT_CGROUP_PATH = CGROUP_ROOT @ ''/cpuacct''"
definition CPU_CPUACCT_CGROUP_PATH :: string where
  "CPU_CPUACCT_CGROUP_PATH = CGROUP_ROOT @ ''/cpu,cpuacct''"
definition MEMORY_CGROUP_PATH :: string where "MEMORY_CGROUP_PATH = CGROUP_ROOT @ ''/memory''"
definition BUF_SIZE :: nat where "BUF_SIZE = 512"

text \<open>The path all functions print: \<open>"%s/%s_%s"\<close> followed by a file name, in a buffer of 512 bytes.\<close>

definition cg_text :: "string \<Rightarrow> resource_manager \<Rightarrow> string \<Rightarrow> string \<Rightarrow> string" where
  "cg_text base rm cid leaf = base @ ''/'' @ cgroup_path rm @ ''_'' @ cid @ leaf"

definition cg_path :: "string \<Rightarrow> resource_manager \<Rightarrow> string \<Rightarrow> string \<Rightarrow> string" where
  "cg_path base rm cid leaf = snprintf BUF_SIZE (cg_text base rm cid leaf)"

section \<open>Files\<close>

definition find_cpuacct_usage_path ::
  "'w kernel \<Rightarrow> resource_manager \<Rightarrow> string \<Rightarrow> ('w, 'z, string option) io" where
  "find_cpuacct_usage_path K rm cid = do {
     let p1 = cg_path CPU_CPUACCT_CGROUP_PATH rm cid ''/cpuacct.usage'';
     let p2 = cg_path CPUACCT_CGROUP_PATH rm cid ''/cpuacct.usage'';
     let p3 = cg_path CPU_CGROUP_PATH rm cid ''/cpuacct.usage'';
     r \<leftarrow> c_access K p1 R_OK;
     if ret_code r = 0 then State_Monad.return (Some p1)
     else do {
       r \<leftarrow> c_access K p2 R_OK;
       if ret_code r = 0 then State_Monad.return (Some p2)
       else do {
         r \<leftarrow> c_access K p3 R_OK;
         State_Monad.return (if ret_code r = 0 then Some p3 else None)
       }
     }
   }"

definition detect_cgroup_version :: "'w kernel \<Rightarrow> ('w, 'z, cgroup_version) io" where
  "detect_cgroup_version K = do {
     r \<leftarrow> c_access K CGROUP_V2_CONTROLLERS F_OK;
     if ret_code r = 0 then State_Monad.return CGROUP_V2
     else do {
       r \<leftarrow> c_access K CPU_CGROUP_PATH F_OK;
       if ret_code r = 0 then do { _ \<leftarrow> c_access K MEMORY_CGROUP_PATH F_OK;
                                    State_Monad.return CGROUP_V1 }
       else State_Monad.return CGROUP_V1
     }
   }"

definition write_file :: "'w kernel \<Rightarrow> string \<Rightarrow> string \<Rightarrow> ('w, 'z, int) io" where
  "write_file K path value = do {
     r \<leftarrow> c_open K path O_WRONLY;
     (case r of
        Inl _ \<Rightarrow> State_Monad.return (- 1)
      | Inr fd \<Rightarrow> do {
          written \<leftarrow> c_write K fd value;
          _ \<leftarrow> c_close K fd;
          State_Monad.return (ret_code written)
        })
   }"

definition read_file :: "'w kernel \<Rightarrow> string \<Rightarrow> nat \<Rightarrow> ('w, 'z, string option) io" where
  \<comment> \<open>\<open>None\<close> for the return value -1, else the buffer as a C string\<close>
  "read_file K path n = do {
     r \<leftarrow> c_open K path O_RDONLY;
     (case r of
        Inl _ \<Rightarrow> State_Monad.return None
      | Inr fd \<Rightarrow> do {
          bytes \<leftarrow> c_read K fd (n - 1);
          _ \<leftarrow> c_close K fd;
          State_Monad.return (case bytes of
             Inl _ \<Rightarrow> None
           | Inr b \<Rightarrow> if b = [] then None else Some (c_str b))
        })
   }"

section \<open>Limits\<close>

definition cpu_period :: "cpu_limits \<Rightarrow> int" where
  "cpu_period limits = (if period_us limits > 0 then period_us limits else 100000)"

text \<open>
  The quota the code derives from the shares. The product \<open>shares * period_us\<close> is computed in
  \<open>int\<close>; beyond 31 bits C++ leaves it undefined and the generated code wraps.
\<close>

definition cpu_quota :: "cpu_limits \<Rightarrow> int" where
  "cpu_quota limits =
     (if quota_us limits \<le> 0 \<and> shares limits > 0 then
        (let q = c_div (to_int32 (shares limits * cpu_period limits)) 1024
         in if q < 1000 then 1000 else q)
      else quota_us limits)"

definition write_leaf :: "'w kernel \<Rightarrow> string \<Rightarrow> string \<Rightarrow> string \<Rightarrow> ('w, 'z, int) io" where
  \<comment> \<open>print \<open>dir/leaf\<close>, give up when it does not fit, write the value\<close>
  "write_leaf K dir leaf value =
     (if length (dir @ leaf) \<ge> BUF_SIZE then State_Monad.return (- 1)
      else write_file K (dir @ leaf) value)"

definition set_cpu_limits ::
  "'w kernel \<Rightarrow> resource_manager \<Rightarrow> string \<Rightarrow> cpu_limits \<Rightarrow> ('w, 'z, int) io" where
  "set_cpu_limits K rm cid limits = (
     let quota = cpu_quota limits; period = cpu_period limits in
     if version rm = CGROUP_V2 then do {
       r \<leftarrow> write_file K (cg_path CGROUP_ROOT rm cid ''/cpu.max'')
              (if quota > 0 then snprintf 64 (show_int quota @ '' '' @ show_int period) else ''max'');
       State_Monad.return (if r \<noteq> 0 then - 1 else 0)
     }
     else do {
       r \<leftarrow> c_access K (cg_path CPU_CPUACCT_CGROUP_PATH rm cid []) F_OK;
       let cpu_path = (if ret_code r \<noteq> 0 then cg_path CPU_CGROUP_PATH rm cid []
                       else cg_path CPU_CPUACCT_CGROUP_PATH rm cid []);
       r \<leftarrow> (if quota > 0 then do {
                r \<leftarrow> write_leaf K cpu_path ''/cpu.cfs_quota_us'' (snprintf 64 (show_int quota));
                if r \<noteq> 0 then State_Monad.return (- 1)
                else write_leaf K cpu_path ''/cpu.cfs_period_us'' (snprintf 64 (show_int period))
              } else State_Monad.return 0);
       if r \<noteq> 0 then State_Monad.return (- 1)
       else if shares limits > 0 then do {
         r \<leftarrow> write_leaf K cpu_path ''/cpu.shares'' (snprintf 64 (show_int (shares limits)));
         State_Monad.return (if r \<noteq> 0 then - 1 else 0)
       }
       else State_Monad.return 0
     })"

definition set_memory_limits ::
  "'w kernel \<Rightarrow> resource_manager \<Rightarrow> string \<Rightarrow> memory_limits \<Rightarrow> ('w, 'z, int) io" where
  "set_memory_limits K rm cid limits = (
     if version rm = CGROUP_V2 then do {
       r \<leftarrow> write_file K (cg_path CGROUP_ROOT rm cid ''/memory.max'')
              (if limit_bytes limits > 0 then snprintf 64 (show_ulong (limit_bytes limits)) else ''max'');
       if r \<noteq> 0 then State_Monad.return (- 1)
       else if swap_limit_bytes limits > 0 then do {
         r \<leftarrow> write_file K (cg_path CGROUP_ROOT rm cid ''/memory.swap.max'')
                (snprintf 64 (show_ulong (swap_limit_bytes limits)));
         State_Monad.return (if r \<noteq> 0 then - 1 else 0)
       }
       else State_Monad.return 0
     }
     else do {
       r \<leftarrow> (if limit_bytes limits > 0
             then write_file K (cg_path MEMORY_CGROUP_PATH rm cid ''/memory.limit_in_bytes'')
                    (snprintf 64 (show_ulong (limit_bytes limits)))
             else State_Monad.return 0);
       if r \<noteq> 0 then State_Monad.return (- 1)
       else if swap_limit_bytes limits > 0 then do {
         r \<leftarrow> write_file K (cg_path MEMORY_CGROUP_PATH rm cid ''/memory.memsw.limit_in_bytes'')
                (snprintf 64 (show_ulong (swap_limit_bytes limits)));
         State_Monad.return (if r \<noteq> 0 then - 1 else 0)
       }
       else State_Monad.return 0
     })"

definition resource_limits_init :: "resource_limits option \<Rightarrow> resource_limits option" where
  "resource_limits_init limits = map_option (\<lambda>l.
     l\<lparr>cpu := \<lparr>shares = 1024, quota_us = - 1, period_us = 100000\<rparr>,
       memory := \<lparr>limit_bytes = 128 * 1024 * 1024, swap_limit_bytes = 0\<rparr>,
       enabled := 1\<rparr>) limits"

section \<open>The manager\<close>

definition resource_manager_init ::
  "'w kernel \<Rightarrow> resource_manager option \<Rightarrow> string option \<Rightarrow> ('w, 'z, int \<times> resource_manager option) io" where
  "resource_manager_init K rm0 base_path =
     (case rm0 of
        None \<Rightarrow> State_Monad.return (- 1, None)
      | Some rm \<Rightarrow> do {
          r \<leftarrow> c_access K CGROUP_ROOT F_OK;
          if ret_code r \<noteq> 0 then State_Monad.return (- 1, Some rm)
          else do {
            v \<leftarrow> detect_cgroup_version K;
            let rm = rm\<lparr>version := v\<rparr>;
            ok \<leftarrow> (if v = CGROUP_V2 then do {
                     let controllers_path = snprintf BUF_SIZE (CGROUP_ROOT @ ''/cgroup.controllers'');
                     r \<leftarrow> c_access K controllers_path F_OK;
                     if ret_code r \<noteq> 0 then State_Monad.return False
                     else do {
                       b \<leftarrow> read_file K controllers_path BUF_SIZE;
                       State_Monad.return (case b of
                          None \<Rightarrow> True
                        | Some buffer \<Rightarrow> contains buffer ''cpu'' \<and> contains buffer ''memory'')
                     }
                   }
                   else do {
                     r \<leftarrow> c_access K CPU_CGROUP_PATH F_OK;
                     if ret_code r \<noteq> 0 then State_Monad.return False
                     else do {
                       r \<leftarrow> c_access K MEMORY_CGROUP_PATH F_OK;
                       State_Monad.return (ret_code r = 0)
                     }
                   });
            if \<not> ok then State_Monad.return (- 1, Some rm)
            else do {
              got \<leftarrow> c_alloc K;
              State_Monad.return
                (if \<not> got then (- 1, Some rm)
                 else (0, Some (rm\<lparr>
                   cgroup_path := (case base_path of Some b \<Rightarrow> b | None \<Rightarrow> ''mini_container''),
                   debug_log_callback := None, initialized := 1\<rparr>)))
            }
          }
        })"

definition mkdir_exist_ok :: "'w kernel \<Rightarrow> string \<Rightarrow> ('w, 'z, bool) io" where
  \<comment> \<open>\<open>mkdir(path, 0755) == -1 && errno != EEXIST\<close>, negated\<close>
  "mkdir_exist_ok K path = do {
     r \<leftarrow> c_mkdir K path;
     State_Monad.return (r = Inr () \<or> r = Inl EEXIST)
   }"

definition make_cgroup_dirs :: "'w kernel \<Rightarrow> resource_manager \<Rightarrow> string \<Rightarrow> ('w, 'z, int) io" where
  "make_cgroup_dirs K rm cid = (
     if version rm = CGROUP_V2 then do {
       ok \<leftarrow> mkdir_exist_ok K (cg_path CGROUP_ROOT rm cid []);
       State_Monad.return (if ok then 0 else - 1)
     }
     else do {
       ok \<leftarrow> mkdir_exist_ok K (cg_path CPU_CPUACCT_CGROUP_PATH rm cid []);
       ok \<leftarrow> (if ok then State_Monad.return True
              else do {
                ok \<leftarrow> mkdir_exist_ok K (cg_path CPU_CGROUP_PATH rm cid []);
                if \<not> ok then State_Monad.return False
                else do {
                  _ \<leftarrow> mkdir_exist_ok K (cg_path CPUACCT_CGROUP_PATH rm cid []);
                  State_Monad.return True
                }
              });
       if \<not> ok then State_Monad.return (- 1)
       else do {
         ok \<leftarrow> mkdir_exist_ok K (cg_path MEMORY_CGROUP_PATH rm cid []);
         State_Monad.return (if ok then 0 else - 1)
       }
     })"

definition set_limits ::
  "'w kernel \<Rightarrow> resource_manager \<Rightarrow> string \<Rightarrow> resource_limits \<Rightarrow> ('w, 'z, int) io" where
  \<comment> \<open>a limit that cannot be set is reported on stderr and ignored\<close>
  "set_limits K rm cid limits = do {
     _ \<leftarrow> (if shares (cpu limits) > 0 \<or> quota_us (cpu limits) > 0
           then set_cpu_limits K rm cid (cpu limits) else State_Monad.return 0);
     _ \<leftarrow> (if limit_bytes (memory limits) > 0
           then set_memory_limits K rm cid (memory limits) else State_Monad.return 0);
     State_Monad.return 0
   }"

definition resource_manager_create_cgroup ::
  "'w kernel \<Rightarrow> resource_manager option \<Rightarrow> string option \<Rightarrow> resource_limits \<Rightarrow> ('w, 'z, int) io" where
  "resource_manager_create_cgroup K rm0 container_id limits =
     (case (rm0, container_id) of
        (Some rm, Some cid) \<Rightarrow>
          if initialized rm = 0 then State_Monad.return (- 1)
          else do {
            r \<leftarrow> make_cgroup_dirs K rm cid;
            if r \<noteq> 0 then State_Monad.return (- 1) else set_limits K rm cid limits
          }
      | _ \<Rightarrow> State_Monad.return (- 1))"

primrec add_tids :: "'w kernel \<Rightarrow> string \<Rightarrow> string list \<Rightarrow> bool \<Rightarrow> ('w, 'z, bool) io" where
  "add_tids K path [] added = State_Monad.return added"
| "add_tids K path (d_name # entries) added =
     (if take 1 d_name = ''.'' then add_tids K path entries added
      else do {
        r \<leftarrow> write_file K path (take 31 d_name);
        add_tids K path entries (added \<or> r = 0)
      })"

definition add_all_threads_to_cgroup :: "'w kernel \<Rightarrow> int \<Rightarrow> string \<Rightarrow> ('w, 'z, int) io" where
  "add_all_threads_to_cgroup K pid path = do {
     dir \<leftarrow> c_opendir K (snprintf BUF_SIZE (''/proc/'' @ show_int pid @ ''/task''));
     (case dir of
        None \<Rightarrow> write_file K path (snprintf 32 (show_int pid))
      | Some entries \<Rightarrow> do {
          added \<leftarrow> add_tids K path entries False;
          State_Monad.return (if added then 0 else - 1)
        })
   }"

definition resource_manager_add_process ::
  "'w kernel \<Rightarrow> resource_manager option \<Rightarrow> string option \<Rightarrow> int \<Rightarrow> ('w, 'z, int) io" where
  "resource_manager_add_process K rm0 container_id pid =
     (case (rm0, container_id) of
        (Some rm, Some cid) \<Rightarrow>
          if initialized rm = 0 \<or> pid \<le> 0 then State_Monad.return (- 1)
          else if version rm = CGROUP_V2 then do {
            r \<leftarrow> write_file K (cg_path CGROUP_ROOT rm cid ''/cgroup.procs'')
                   (snprintf 32 (show_int pid));
            State_Monad.return (if r \<noteq> 0 then - 1 else 0)
          }
          else do {
            r \<leftarrow> add_all_threads_to_cgroup K pid (cg_path CPU_CPUACCT_CGROUP_PATH rm cid ''/tasks'');
            added \<leftarrow> (if r = 0 then State_Monad.return True
                      else do {
                        r1 \<leftarrow> add_all_threads_to_cgroup K pid (cg_path CPU_CGROUP_PATH rm cid ''/tasks'');
                        r2 \<leftarrow> add_all_threads_to_cgroup K pid (cg_path CPUACCT_CGROUP_PATH rm cid ''/tasks'');
                        State_Monad.return (r1 = 0 \<or> r2 = 0)
                      });
            if \<not> added then State_Monad.return (- 1)
            else do {
              r \<leftarrow> add_all_threads_to_cgroup K pid (cg_path MEMORY_CGROUP_PATH rm cid ''/tasks'');
              State_Monad.return (if r \<noteq> 0 then - 1 else 0)
            }
          }
      | _ \<Rightarrow> State_Monad.return (- 1))"

definition resource_manager_remove_process ::
  "resource_manager option \<Rightarrow> string option \<Rightarrow> int \<Rightarrow> ('w, 'z, int) io" where
  "resource_manager_remove_process rm0 container_id pid = State_Monad.return 0"

definition resource_manager_destroy_cgroup ::
  "'w kernel \<Rightarrow> resource_manager option \<Rightarrow> string option \<Rightarrow> ('w, 'z, int) io" where
  "resource_manager_destroy_cgroup K rm0 container_id =
     (case (rm0, container_id) of
        (Some rm, Some cid) \<Rightarrow>
          if initialized rm = 0 then State_Monad.return (- 1)
          else if version rm = CGROUP_V2 then do {
            _ \<leftarrow> c_rmdir K (cg_path CGROUP_ROOT rm cid []);
            State_Monad.return 0
          }
          else do {
            _ \<leftarrow> c_rmdir K (cg_path CPU_CPUACCT_CGROUP_PATH rm cid []);
            _ \<leftarrow> c_rmdir K (cg_path CPU_CGROUP_PATH rm cid []);
            _ \<leftarrow> c_rmdir K (cg_path CPUACCT_CGROUP_PATH rm cid []);
            _ \<leftarrow> c_rmdir K (cg_path MEMORY_CGROUP_PATH rm cid []);
            State_Monad.return 0
          }
      | _ \<Rightarrow> State_Monad.return (- 1))"

section \<open>Statistics\<close>

definition is_blank :: "char \<Rightarrow> bool" where
  "is_blank c \<longleftrightarrow> c = CHR '' '' \<or> c = CHR 0x09"

definition parse_cpu_stat :: "string \<Rightarrow> ulong" where
  \<comment> \<open>the \<open>usage_usec\<close> entry of \<open>cpu.stat\<close>, in nanoseconds; 0 when it is not there\<close>
  "parse_cpu_stat buffer =
     (case strstr buffer ''usage_usec'' of
        None \<Rightarrow> 0
      | Some usage_line \<Rightarrow>
          (let value_start = dropWhile is_blank (dropWhile (\<lambda>c. \<not> is_blank c) usage_line) in
           if value_start = [] then 0
           else (case strtoul value_start of (val, endptr) \<Rightarrow>
                   if endptr \<noteq> value_start then val * 1000 else 0)))"

definition parse_usage :: "string \<Rightarrow> ulong" where
  \<comment> \<open>a file that holds one number\<close>
  "parse_usage buffer =
     (case strtoul buffer of (val, endptr) \<Rightarrow>
        if endptr \<noteq> buffer \<and> (endptr = [] \<or> hd endptr = CHR 0x0A \<or> hd endptr = CHR '' '')
        then val else 0)"

definition read_cpu_usage :: "'w kernel \<Rightarrow> resource_manager \<Rightarrow> string \<Rightarrow> ('w, 'z, ulong) io" where
  "read_cpu_usage K rm cid = (
     if version rm = CGROUP_V2 then do {
       b \<leftarrow> read_file K (cg_path CGROUP_ROOT rm cid ''/cpu.stat'') BUF_SIZE;
       State_Monad.return (case b of None \<Rightarrow> 0 | Some buffer \<Rightarrow> parse_cpu_stat buffer)
     }
     else do {
       p \<leftarrow> find_cpuacct_usage_path K rm cid;
       (case p of
          None \<Rightarrow> State_Monad.return 0
        | Some cpuacct_path \<Rightarrow> do {
            b \<leftarrow> read_file K cpuacct_path BUF_SIZE;
            State_Monad.return (case b of None \<Rightarrow> 0 | Some buffer \<Rightarrow> parse_usage buffer)
          })
     })"

definition read_memory_usage :: "'w kernel \<Rightarrow> resource_manager \<Rightarrow> string \<Rightarrow> ('w, 'z, ulong) io" where
  "read_memory_usage K rm cid = do {
     b \<leftarrow> read_file K (if version rm = CGROUP_V2 then cg_path CGROUP_ROOT rm cid ''/memory.current''
                      else cg_path MEMORY_CGROUP_PATH rm cid ''/memory.usage_in_bytes'') BUF_SIZE;
     State_Monad.return (case b of None \<Rightarrow> 0 | Some buffer \<Rightarrow> parse_usage buffer)
   }"

text \<open>
  The two result pointers may be null; \<open>want_cpu\<close> and \<open>want_memory\<close> say that they are not. A value
  that is not asked for is left out.
\<close>

definition resource_manager_get_stats ::
  "'w kernel \<Rightarrow> resource_manager option \<Rightarrow> string option \<Rightarrow> bool \<Rightarrow> bool \<Rightarrow>
     ('w, 'z, int \<times> ulong option \<times> ulong option) io" where
  "resource_manager_get_stats K rm0 container_id want_cpu want_memory =
     (let zero = (\<lambda>want. if want then Some 0 else None) in
      case (rm0, container_id) of
        (Some rm, Some cid) \<Rightarrow>
          if initialized rm = 0 then State_Monad.return (- 1, zero want_cpu, zero want_memory)
          else do {
            _ \<leftarrow> (if version rm = CGROUP_V2
                  then read_file K (cg_path CGROUP_ROOT rm cid ''/cgroup.procs'') BUF_SIZE
                  else State_Monad.return None);
            c \<leftarrow> (if want_cpu then do { v \<leftarrow> read_cpu_usage K rm cid; State_Monad.return (Some v) }
                  else State_Monad.return None);
            m \<leftarrow> (if want_memory then do { v \<leftarrow> read_memory_usage K rm cid; State_Monad.return (Some v) }
                  else State_Monad.return None);
            State_Monad.return (0, c, m)
          }
      | _ \<Rightarrow> State_Monad.return (- 1, zero want_cpu, zero want_memory))"

definition resource_manager_cleanup :: "resource_manager option \<Rightarrow> resource_manager option" where
  "resource_manager_cleanup rm0 = map_option (\<lambda>rm. rm\<lparr>initialized := 0\<rparr>) rm0"

section \<open>Lemmas: single files\<close>

lemma write_file_cases:
  obtains (closed) e w where
      "run_state (write_file K path v) s =
         (- 1, s\<lparr>kst := w, trace := trace s @ [EOpen path O_WRONLY (Inl e)]\<rparr>)"
  | (opened) fd r w where
      "run_state (write_file K path v) s =
         (ret_code r, s\<lparr>kst := w,
            trace := trace s @ [EOpen path O_WRONLY (Inr fd), EWrite fd v r, EClose fd]\<rparr>)"
proof -
  obtain r w where r: "k_open K path O_WRONLY (kst s) = (r, w)" by fastforce
  show thesis
  proof (cases r)
    case (Inl e)
    then show ?thesis using r by (intro closed [where e = e and w = w]) (simp add: write_file_def)
  next
    case (Inr fd)
    obtain r2 w2 where r2: "k_write K fd v w = (r2, w2)" by fastforce
    obtain w3 where "k_close K fd w2 = ((), w3)" by (metis (full_types) old.unit.exhaust surj_pair)
    then show ?thesis
      using r r2 Inr by (intro opened [where fd = fd and r = r2 and w = w3]) (simp add: write_file_def)
  qed
qed

lemma read_file_cases:
  obtains (closed) e w where
      "run_state (read_file K path n) s =
         (None, s\<lparr>kst := w, trace := trace s @ [EOpen path O_RDONLY (Inl e)]\<rparr>)"
  | (opened) fd r w where
      "run_state (read_file K path n) s =
         (case r of Inl _ \<Rightarrow> None | Inr b \<Rightarrow> if b = [] then None else Some (c_str b), s\<lparr>kst := w,
            trace := trace s @ [EOpen path O_RDONLY (Inr fd), ERead fd (n - 1) r, EClose fd]\<rparr>)"
proof -
  obtain r w where r: "k_open K path O_RDONLY (kst s) = (r, w)" by fastforce
  show thesis
  proof (cases r)
    case (Inl e)
    then show ?thesis using r by (intro closed [where e = e and w = w]) (simp add: read_file_def)
  next
    case (Inr fd)
    obtain r2 w2 where r2: "k_read K fd (n - 1) w = (r2, w2)" by fastforce
    obtain w3 where "k_close K fd w2 = ((), w3)" by (metis (full_types) old.unit.exhaust surj_pair)
    then show ?thesis
      using r r2 Inr by (intro opened [where fd = fd and r = r2 and w = w3]) (simp add: read_file_def)
  qed
qed

lemma write_file_balanced: "state_io_rel fd_balanced (write_file K path v)"
proof (rule state_io_relI)
  fix a s t
  assume "run_state (write_file K path v) s = (a, t)"
  then show "fd_balanced s t"
    by (cases rule: write_file_cases [of K path v s]) (auto simp: fd_balanced_def)
qed

lemma read_file_balanced: "state_io_rel fd_balanced (read_file K path n)"
proof (rule state_io_relI)
  fix a s t
  assume "run_state (read_file K path n) s = (a, t)"
  then show "fd_balanced s t"
    by (cases rule: read_file_cases [of K path n s]) (auto simp: fd_balanced_def)
qed

definition is_file_read :: "event \<Rightarrow> bool" where
  "is_file_read e \<longleftrightarrow>
     (case e of EOpen _ f _ \<Rightarrow> f = O_RDONLY | ERead _ _ _ \<Rightarrow> True | EClose _ \<Rightarrow> True | _ \<Rightarrow> False)"

definition is_file_write :: "event \<Rightarrow> bool" where
  "is_file_write e \<longleftrightarrow>
     (case e of EOpen _ f _ \<Rightarrow> f = O_WRONLY | EWrite _ _ _ \<Rightarrow> True | EClose _ \<Rightarrow> True | _ \<Rightarrow> False)"

lemma read_file_only: "state_io_rel (only is_file_read) (read_file K path n)"
  unfolding read_file_def by (auto simp: is_file_read_def intro!: only_rules split: sum.splits)

lemma write_file_only: "state_io_rel (only is_file_write) (write_file K path v)"
  unfolding write_file_def by (auto simp: is_file_write_def intro!: only_rules split: sum.splits)

text \<open>A value was written to \<open>path\<close>: opened, written without error, closed, in this order.\<close>

definition wrote :: "string \<Rightarrow> string \<Rightarrow> event list \<Rightarrow> bool" where
  "wrote path v es \<longleftrightarrow>
     (\<exists>fd n. sublist [EOpen path O_WRONLY (Inr fd), EWrite fd v (Inr n), EClose fd] es)"

lemma wrote_append: "wrote path v es \<Longrightarrow> wrote path v (xs @ es @ ys)"
  unfolding wrote_def sublist_def by (metis append_assoc)

lemma wrote_appendI1: "wrote path v es \<Longrightarrow> wrote path v (es @ ys)"
  using wrote_append [of path v es "[]" ys] by simp

lemma wrote_appendI2: "wrote path v es \<Longrightarrow> wrote path v (xs @ es)"
  using wrote_append [of path v es xs "[]"] by simp

lemma write_file_wrote:
  assumes "run_state (write_file K path v) s = (0, t)"
  shows "wrote path v (new_events s t)"
proof (cases rule: write_file_cases [of K path v s])
  case (closed e w)
  then show ?thesis using assms by simp
next
  case (opened fd r w)
  then obtain n where "r = Inr n" using assms by (cases r) auto
  then have "new_events s t = [EOpen path O_WRONLY (Inr fd), EWrite fd v (Inr n), EClose fd]"
    using opened assms by (auto simp: new_events_def)
  then show ?thesis by (auto simp: wrote_def)
qed

section \<open>Lemmas: frames of the operations\<close>

lemma add_tids_balanced: "state_io_rel fd_balanced (add_tids K path entries added)"
  by (induction entries arbitrary: added) (auto intro!: fd_rules write_file_balanced)

lemma add_all_threads_balanced: "state_io_rel fd_balanced (add_all_threads_to_cgroup K pid path)"
  unfolding add_all_threads_to_cgroup_def
  by (auto intro!: fd_rules write_file_balanced add_tids_balanced split: option.splits)

lemma write_leaf_balanced: "state_io_rel fd_balanced (write_leaf K dir leaf v)"
  unfolding write_leaf_def by (auto intro!: fd_rules write_file_balanced)

lemma set_cpu_limits_balanced: "state_io_rel fd_balanced (set_cpu_limits K rm cid l)"
  unfolding set_cpu_limits_def Let_def
  by (intro fd_rules write_file_balanced write_leaf_balanced)

lemma set_memory_limits_balanced: "state_io_rel fd_balanced (set_memory_limits K rm cid l)"
  unfolding set_memory_limits_def by (intro fd_rules write_file_balanced)

lemma mkdir_exist_ok_balanced: "state_io_rel fd_balanced (mkdir_exist_ok K p)"
  unfolding mkdir_exist_ok_def by (auto intro!: fd_rules)

lemma make_cgroup_dirs_balanced: "state_io_rel fd_balanced (make_cgroup_dirs K rm cid)"
  unfolding make_cgroup_dirs_def by (intro fd_rules mkdir_exist_ok_balanced)

lemma create_cgroup_balanced:
  "state_io_rel fd_balanced (resource_manager_create_cgroup K rm cid l)"
  unfolding resource_manager_create_cgroup_def set_limits_def
  by (auto intro!: fd_rules make_cgroup_dirs_balanced set_cpu_limits_balanced
      set_memory_limits_balanced split: option.splits)

lemma add_process_balanced: "state_io_rel fd_balanced (resource_manager_add_process K rm cid pid)"
  unfolding resource_manager_add_process_def
  by (auto intro!: fd_rules write_file_balanced add_all_threads_balanced split: option.splits)

lemma destroy_cgroup_balanced: "state_io_rel fd_balanced (resource_manager_destroy_cgroup K rm cid)"
  unfolding resource_manager_destroy_cgroup_def by (auto intro!: fd_rules split: option.splits)

lemma detect_cgroup_version_balanced: "state_io_rel fd_balanced (detect_cgroup_version K)"
  unfolding detect_cgroup_version_def by (intro fd_rules)

lemma resource_manager_init_balanced: "state_io_rel fd_balanced (resource_manager_init K rm base)"
  unfolding resource_manager_init_def Let_def
  by (auto intro!: fd_rules read_file_balanced detect_cgroup_version_balanced split: option.splits)

lemma find_cpuacct_balanced: "state_io_rel fd_balanced (find_cpuacct_usage_path K rm cid)"
  unfolding find_cpuacct_usage_path_def Let_def by (intro fd_rules)

lemma find_cpuacct_only: "state_io_rel (only P) (find_cpuacct_usage_path K rm cid)"
  unfolding find_cpuacct_usage_path_def Let_def by (intro only_rules)

lemma get_stats_balanced:
  "state_io_rel fd_balanced (resource_manager_get_stats K rm cid c m)"
  unfolding resource_manager_get_stats_def read_cpu_usage_def read_memory_usage_def Let_def
  by (auto intro!: fd_rules read_file_balanced find_cpuacct_balanced split: option.splits)

lemma get_stats_only:
  "state_io_rel (only is_file_read) (resource_manager_get_stats K rm cid c m)"
  unfolding resource_manager_get_stats_def read_cpu_usage_def read_memory_usage_def Let_def
  by (auto intro!: only_frame.frame_combinators state_io_rel_if read_file_only find_cpuacct_only
      split: option.splits)

section \<open>Lemmas: paths, directories and writes\<close>

definition leaf_name :: "string \<Rightarrow> bool" where
  \<comment> \<open>nothing, or a file name behind a slash\<close>
  "leaf_name l \<longleftrightarrow> l = [] \<or> hd l = CHR ''/''"

lemma takeWhile_leaf:
  assumes "CHR ''/'' \<notin> set a" and "leaf_name l"
  shows "takeWhile (\<lambda>c. c \<noteq> CHR ''/'') (a @ l) = a"
proof -
  have "takeWhile (\<lambda>c. c \<noteq> CHR ''/'') l = []" using assms(2) by (cases l) (auto simp: leaf_name_def)
  moreover have "\<forall>c\<in>set a. c \<noteq> CHR ''/''" using assms(1) by blast
  ultimately show ?thesis by (simp add: takeWhile_append2)
qed

lemma cg_path_fits:
  "length (cg_text base rm cid leaf) < BUF_SIZE \<Longrightarrow> cg_path base rm cid leaf = cg_text base rm cid leaf"
  by (simp add: cg_path_def)

definition dir_made :: "string \<Rightarrow> event list \<Rightarrow> bool" where
  \<comment> \<open>the directory was created or was there already\<close>
  "dir_made p es \<longleftrightarrow> EMkdir p (Inr ()) \<in> set es \<or> EMkdir p (Inl EEXIST) \<in> set es"

lemma dir_made_append [simp]: "dir_made p (es @ es') \<longleftrightarrow> dir_made p es \<or> dir_made p es'"
  by (auto simp: dir_made_def)

lemma mkdir_exist_ok_cases:
  obtains r w where
    "run_state (mkdir_exist_ok K p) s =
       (r = Inr () \<or> r = Inl EEXIST, s\<lparr>kst := w, trace := trace s @ [EMkdir p r]\<rparr>)"
proof -
  obtain r w where "k_mkdir K p (kst s) = (r, w)" by fastforce
  then show thesis by (intro that [of r w]) (simp add: mkdir_exist_ok_def)
qed

definition mkdir_paths :: "event list \<Rightarrow> string set" where
  "mkdir_paths es = {p. \<exists>r. EMkdir p r \<in> set es}"

definition rmdir_paths :: "event list \<Rightarrow> string set" where
  "rmdir_paths es = {p. \<exists>r. ERmdir p r \<in> set es}"

definition cgroup_dirs :: "resource_manager \<Rightarrow> string \<Rightarrow> string list" where
  \<comment> \<open>every directory a container's cgroup may have\<close>
  "cgroup_dirs rm cid =
     (if version rm = CGROUP_V2 then [cg_path CGROUP_ROOT rm cid []]
      else [cg_path CPU_CPUACCT_CGROUP_PATH rm cid [], cg_path CPU_CGROUP_PATH rm cid [],
            cg_path CPUACCT_CGROUP_PATH rm cid [], cg_path MEMORY_CGROUP_PATH rm cid []])"

definition mkdir_in :: "string list \<Rightarrow> event \<Rightarrow> bool" where
  "mkdir_in ps e \<longleftrightarrow> (case e of EMkdir p _ \<Rightarrow> p \<in> set ps | _ \<Rightarrow> False)"

lemma mkdir_exist_ok_only: "p \<in> set ps \<Longrightarrow> state_io_rel (only (mkdir_in ps)) (mkdir_exist_ok K p)"
  unfolding mkdir_exist_ok_def by (auto simp: mkdir_in_def intro!: only_rules)

lemma make_cgroup_dirs_only:
  "state_io_rel (only (mkdir_in (cgroup_dirs rm cid))) (make_cgroup_dirs K rm cid)"
  unfolding make_cgroup_dirs_def
  by (cases "version rm = CGROUP_V2")
    (auto simp: cgroup_dirs_def intro!: only_frame.frame_combinators mkdir_exist_ok_only)

lemma write_leaf_only: "state_io_rel (only is_file_write) (write_leaf K dir leaf v)"
  unfolding write_leaf_def by (intro state_io_rel_if only_frame.frame_combinators write_file_only)

lemma set_cpu_limits_only: "state_io_rel (only is_file_write) (set_cpu_limits K rm cid l)"
  unfolding set_cpu_limits_def Let_def
  by (intro state_io_rel_if only_frame.frame_combinators only_ask write_file_only write_leaf_only)

lemma set_memory_limits_only: "state_io_rel (only is_file_write) (set_memory_limits K rm cid l)"
  unfolding set_memory_limits_def
  by (intro state_io_rel_if only_frame.frame_combinators only_ask write_file_only)

text \<open>Creating a cgroup: first the directories, then files are written and nothing else.\<close>

lemma set_limits_only: "state_io_rel (only is_file_write) (set_limits K rm cid l)"
  unfolding set_limits_def
  by (intro state_io_rel_if only_frame.frame_combinators set_cpu_limits_only set_memory_limits_only)

lemma create_cgroup_split:
  "initialized rm \<noteq> 0 \<Longrightarrow>
   resource_manager_create_cgroup K (Some rm) (Some cid) l = do {
     r \<leftarrow> make_cgroup_dirs K rm cid;
     if r \<noteq> 0 then State_Monad.return (- 1) else set_limits K rm cid l
   }"
  by (simp add: resource_manager_create_cgroup_def)

lemma set_limits_zero: "fst (run_state (set_limits K rm cid l) s) = 0"
  by (auto simp: set_limits_def split: prod.splits)

lemma make_cgroup_dirs_made:
  assumes "run_state (make_cgroup_dirs K rm cid) s = (0, t)"
  shows "if version rm = CGROUP_V2 then dir_made (cg_path CGROUP_ROOT rm cid []) (new_events s t)
     else (dir_made (cg_path CPU_CPUACCT_CGROUP_PATH rm cid []) (new_events s t) \<or>
           dir_made (cg_path CPU_CGROUP_PATH rm cid []) (new_events s t)) \<and>
          dir_made (cg_path MEMORY_CGROUP_PATH rm cid []) (new_events s t)"
  using assms
  by (auto simp: make_cgroup_dirs_def mkdir_exist_ok_def dir_made_def new_events_def
      split: prod.splits if_splits)

lemma add_tids_only: "state_io_rel (only is_file_write) (add_tids K path entries added)"
  by (induction entries arbitrary: added)
    (auto intro!: only_frame.frame_combinators write_file_only)

lemma add_tids_wrote:
  assumes "run_state (add_tids K path entries added) s = (True, t)" and "\<not> added"
  shows "\<exists>v. wrote path v (new_events s t)"
  using assms
proof (induction entries arbitrary: added s)
  case Nil
  then show ?case by simp
next
  case (Cons d ds)
  show ?case
  proof (cases "take 1 d = ''.''")
    case True
    then show ?thesis using Cons by simp
  next
    case False
    obtain r u where w: "run_state (write_file K path (take 31 d)) s = (r, u)" by fastforce
    have rest: "run_state (add_tids K path ds (added \<or> r = 0)) u = (True, t)"
      using Cons.prems(1) False w by simp
    have s_u: "only is_file_write s u" using write_file_only w by (rule state_io_relD)
    have u_t: "only is_file_write u t" using add_tids_only rest by (rule state_io_relD)
    have new: "new_events s t = new_events s u @ new_events u t"
      using s_u u_t by (rule new_events_trans)
    show ?thesis
    proof (cases "r = 0")
      case True
      then show ?thesis using write_file_wrote w new wrote_appendI1 by metis
    next
      case False
      then have "run_state (add_tids K path ds False) u = (True, t)" using rest Cons.prems(2) by simp
      then show ?thesis using Cons.IH new wrote_appendI2 by (metis (full_types))
    qed
  qed
qed

lemma add_all_threads_wrote:
  assumes "run_state (add_all_threads_to_cgroup K pid path) s = (0, t)"
  shows "\<exists>v. wrote path v (new_events s t)"
proof -
  define dirp where "dirp = snprintf BUF_SIZE (''/proc/'' @ show_int pid @ ''/task'')"
  obtain d w where d: "k_opendir K dirp (kst s) = (d, w)" by fastforce
  define u where "u = s\<lparr>kst := w\<rparr>"
  have new: "new_events s t = new_events u t" by (simp add: new_events_def u_def)
  show ?thesis
  proof (cases d)
    case None
    then have "run_state (write_file K path (snprintf 32 (show_int pid))) u = (0, t)"
      using assms d by (simp add: add_all_threads_to_cgroup_def dirp_def u_def)
    then show ?thesis using new write_file_wrote by metis
  next
    case (Some entries)
    then have "run_state (add_tids K path entries False) u = (True, t)"
      using assms d
      by (auto simp: add_all_threads_to_cgroup_def dirp_def u_def split: prod.splits if_splits)
    then show ?thesis using new add_tids_wrote by metis
  qed
qed

lemma add_all_threads_only:
  "state_io_rel (only is_file_write) (add_all_threads_to_cgroup K pid path)"
  unfolding add_all_threads_to_cgroup_def
  by (auto intro!: only_frame.frame_combinators write_file_only add_tids_only split: option.splits)

lemma destroy_cgroup_rmdirs:
  assumes "initialized rm \<noteq> 0"
    and "run_state (resource_manager_destroy_cgroup K (Some rm) (Some cid)) s = (c, t)"
  shows "rmdir_paths (new_events s t) = set (cgroup_dirs rm cid)"
  using assms
  by (auto simp: resource_manager_destroy_cgroup_def rmdir_paths_def cgroup_dirs_def new_events_def
      split: prod.splits if_splits)

lemma create_cgroup_mkdirs:
  assumes "run_state (resource_manager_create_cgroup K (Some rm) (Some cid) l) s = (c, t)"
  shows "mkdir_paths (new_events s t) \<subseteq> set (cgroup_dirs rm cid)"
proof (cases "initialized rm = 0")
  case True
  then show ?thesis
    using assms by (simp add: resource_manager_create_cgroup_def mkdir_paths_def new_events_def)
next
  case False
  define P where "P e \<longleftrightarrow> mkdir_in (cgroup_dirs rm cid) e \<or> is_file_write e" for e
  have "state_io_rel (only P) (resource_manager_create_cgroup K (Some rm) (Some cid) l :: ('a, 'b, int) io)"
    unfolding create_cgroup_split [OF False]
    by (intro only_frame.frame_combinators state_io_rel_if only_weaken [OF make_cgroup_dirs_only]
        only_weaken [OF set_limits_only]) (simp_all add: P_def)
  then have "list_all P (new_events s t)" using assms by (rule only_run_all)
  then have "P (EMkdir p r)" if "EMkdir p r \<in> set (new_events s t)" for p r
    using that by (auto simp: list_all_iff)
  then show ?thesis by (auto simp: mkdir_paths_def P_def mkdir_in_def is_file_write_def)
qed

section \<open>Properties\<close>



text \<open>
  Property C21. The CPU quota derived from shares: when none is set and the product of shares and
  period fits \<open>int\<close>, the quota is the share of the period in units of 1024, rounded down, and at
  least 1000; so it never exceeds the share by more than the floor, and more shares never give a
  smaller quota.
\<close>
theorem cpu_quota_proportional:
  assumes "quota_us l \<le> 0" and "quota_us l' \<le> 0" and "cpu_period l' = cpu_period l"
    and "0 < shares l" and "shares l \<le> shares l'" and "shares l' * cpu_period l < 2 ^ 31"
  shows "cpu_quota l = max 1000 (shares l * cpu_period l div 1024) \<and> cpu_quota l \<le> cpu_quota l'"
proof -
  define n where "n = cpu_period l"
  have per: "0 < n" by (simp add: n_def cpu_period_def)
  have less: "shares l * n \<le> shares l' * n" using assms(5) per by (simp add: mult_right_mono)
  have pos: "0 < shares l * n" using assms(4) per by simp
  have lim: "shares l' * n < 2 ^ 31" using assms(6) by (simp add: n_def)
  have q: "cpu_quota k = max 1000 (shares k * n div 1024)"
    if k: "quota_us k \<le> 0" "0 < shares k" "cpu_period k = n" "0 < shares k * n" "shares k * n < 2 ^ 31" for k
  proof -
    have "int32_range (shares k * n)" using k(4,5) by (simp add: int32_range_def)
    then show ?thesis using k(1-4) by (simp add: cpu_quota_def c_div_nonneg Let_def max_def)
  qed
  have "cpu_quota l = max 1000 (shares l * n div 1024)"
    using assms(1-5) pos less lim n_def by (intro q) linarith+
  moreover have "cpu_quota l' = max 1000 (shares l' * n div 1024)"
    using assms(1-5) pos less lim n_def by (intro q) linarith+
  ultimately show ?thesis using less n_def by (simp add: zdiv_mono1 max.coboundedI2 max.mono)
qed

theorem cpu_quota_proportional_witness:
  "cpu_quota \<lparr>shares = 512, quota_us = - 1, period_us = 100000\<rparr> = 50000 \<and>
   cpu_quota \<lparr>shares = 512, quota_us = - 1, period_us = 100000\<rparr>
     \<le> cpu_quota \<lparr>shares = 1024, quota_us = - 1, period_us = 100000\<rparr>"
  using cpu_quota_proportional [of "\<lparr>shares = 512, quota_us = - 1, period_us = 100000\<rparr>"
      "\<lparr>shares = 1024, quota_us = - 1, period_us = 100000\<rparr>"]
  by (simp add: cpu_period_def)

text \<open>
  Beyond that range the product overflows: at the default period of 100000, 32768
  shares, 32 times the default, get the smallest quota there is, 1000, a hundredth of what the
  default of 1024 shares gets.
\<close>
theorem cpu_quota_overflow:
  "cpu_quota \<lparr>shares = 32768, quota_us = - 1, period_us = 100000\<rparr> = 1000 \<and>
   cpu_quota \<lparr>shares = 1024, quota_us = - 1, period_us = 100000\<rparr> = 100000"
  by (simp add: cpu_quota_def cpu_period_def to_int32_def c_div_def Let_def)


definition example_manager :: resource_manager where
  "example_manager = \<lparr>cgroup_path = ''mini_container'', initialized = 1, version = CGROUP_V2,
     debug_log_callback = None\<rparr>"

definition example_limits :: resource_limits where
  "example_limits = \<lparr>cpu = \<lparr>shares = 1024, quota_us = - 1, period_us = 100000\<rparr>,
     memory = \<lparr>limit_bytes = 134217728, swap_limit_bytes = 0\<rparr>, enabled = 1\<rparr>"




lemma add_process_v1_written:
  assumes "run_state (resource_manager_add_process K (Some rm) (Some cid) pid) s = (0, t)"
    and "initialized rm \<noteq> 0" and "pid > 0" and "version rm \<noteq> CGROUP_V2"
  shows "(\<exists>base\<in>{CPU_CPUACCT_CGROUP_PATH, CPU_CGROUP_PATH, CPUACCT_CGROUP_PATH}.
             \<exists>v. wrote (cg_path base rm cid ''/tasks'') v (new_events s t)) \<and>
         (\<exists>v. wrote (cg_path MEMORY_CGROUP_PATH rm cid ''/tasks'') v (new_events s t))"
proof -
  define add where "add base = (add_all_threads_to_cgroup K pid (cg_path base rm cid ''/tasks'') :: ('a, 'b, int) io)" for base
  have run: "run_state (do {
      r \<leftarrow> add CPU_CPUACCT_CGROUP_PATH;
      added \<leftarrow> (if r = 0 then State_Monad.return True
                else do { r1 \<leftarrow> add CPU_CGROUP_PATH; r2 \<leftarrow> add CPUACCT_CGROUP_PATH;
                          State_Monad.return (r1 = 0 \<or> r2 = 0) });
      if \<not> added then State_Monad.return (- 1)
      else do { r \<leftarrow> add MEMORY_CGROUP_PATH; State_Monad.return (if r \<noteq> 0 then - 1 else 0) } }) s = (0 :: int, t)"
    using assms unfolding resource_manager_add_process_def add_def by simp
  obtain c0 s0 where a0: "run_state (add CPU_CPUACCT_CGROUP_PATH) s = (c0, s0)" by fastforce
  obtain c1 s1 where a1: "run_state (add CPU_CGROUP_PATH) s0 = (c1, s1)" by fastforce
  obtain c2 s2 where a2: "run_state (add CPUACCT_CGROUP_PATH) s1 = (c2, s2)" by fastforce
  define u where "u = (if c0 = 0 then s0 else s2)"
  have mem: "run_state (add MEMORY_CGROUP_PATH) u = (0, t)" and got: "c0 = 0 \<or> c1 = 0 \<or> c2 = 0"
    using run a0 a1 a2 by (auto simp: u_def split: prod.splits if_splits)
  have only: "only is_file_write x y" if "run_state (add base) x = (c, y)" for base x c y
    using add_all_threads_only that unfolding add_def by (rule state_io_relD)
  have w: "\<exists>v. wrote (cg_path base rm cid ''/tasks'') v (new_events x y)"
    if "run_state (add base) x = (0, y)" for base x y
    using that unfolding add_def by (rule add_all_threads_wrote)
  have n1: "new_events s s1 = new_events s s0 @ new_events s0 s1"
    by (rule new_events_trans) (rule only [OF a0], rule only [OF a1])
  have o1: "only is_file_write s s1"
    using only [OF a0] only [OF a1] by (rule only_frame.frame_trans)
  have n2: "new_events s s2 = new_events s s1 @ new_events s1 s2"
    using o1 only [OF a2] by (rule new_events_trans)
  have o2: "only is_file_write s u"
    using only [OF a0] o1 only [OF a2] by (auto simp: u_def intro: only_frame.frame_trans)
  have nt: "new_events s t = new_events s u @ new_events u t"
    using o2 only [OF mem] by (rule new_events_trans)
  have "\<exists>base\<in>{CPU_CPUACCT_CGROUP_PATH, CPU_CGROUP_PATH, CPUACCT_CGROUP_PATH}.
      \<exists>v. wrote (cg_path base rm cid ''/tasks'') v (new_events s u)"
  proof (cases "c0 = 0")
    case True
    then show ?thesis using w [of CPU_CPUACCT_CGROUP_PATH s s0] a0 by (simp add: u_def)
  next
    case F: False
    with got consider "c1 = 0" | "c2 = 0" by blast
    then show ?thesis
    proof cases
      case 1
      then show ?thesis
        using w [of CPU_CGROUP_PATH s0 s1] a1 n1 n2 F
        by (auto simp: u_def intro: wrote_append wrote_appendI1 wrote_appendI2)
    next
      case 2
      then show ?thesis
        using w [of CPUACCT_CGROUP_PATH s1 s2] a2 n2 F by (auto simp: u_def intro: wrote_appendI2)
    qed
  qed
  then show ?thesis
    using w [OF mem] nt by (auto intro: wrote_appendI1 wrote_appendI2)
qed





text \<open>
  Statistics read back what the kernel printed: \<open>memory.current\<close> and \<open>cpuacct.usage\<close>
  hold one number and a line feed and are read exactly; the first line of \<open>cpu.stat\<close> is turned from
  microseconds into nanoseconds, modulo \<open>2 ^ 64\<close>.
\<close>
theorem stats_parse_printed:
  "parse_usage (show_ulong n @ [CHR 0x0A]) = n \<and>
   parse_cpu_stat (''usage_usec '' @ show_ulong n @ CHR 0x0A # rest) = n * 1000"
proof
  have s: "strtoul (show_ulong n @ CHR 0x0A # r) = (n, CHR 0x0A # r)" for r
    by (rule ulong_format.scan_show) (simp_all add: isdigit_def)
  have ne: "show_ulong n \<noteq> []" by (simp add: show_ulong_def)
  then show "parse_usage (show_ulong n @ [CHR 0x0A]) = n" by (simp add: parse_usage_def s)
  obtain c cs where c: "show_nat (unat n) = c # cs" "isdigit c" by (rule show_nat_head)
  have "\<not> is_blank c" using c(2) by (auto simp: is_blank_def isdigit_def)
  then have drop: "dropWhile is_blank (show_ulong n @ r) = show_ulong n @ r" for r
    using c(1) by (simp add: show_ulong_def)
  have find: "strstr (''usage_usec '' @ r) ''usage_usec'' = Some (''usage_usec '' @ r)" for r
    by (simp add: strstr.simps)
  have skip: "dropWhile is_blank (dropWhile (\<lambda>c. \<not> is_blank c) (''usage_usec '' @ show_ulong n @ r)) =
      show_ulong n @ r" for r
    using drop by (simp add: is_blank_def)
  show "parse_cpu_stat (''usage_usec '' @ show_ulong n @ CHR 0x0A # rest) = n * 1000"
    unfolding parse_cpu_stat_def find using ne by (simp add: skip s Let_def del: append.simps)
qed

text \<open>
  Reading statistics changes nothing: it opens files for reading only, reads and closes
  them, whatever the kernel answers; and no operation of the resource manager leaves a descriptor
  open, on any path.
\<close>
theorem resource_manager_effects:
  "list_all is_file_read (new_events s (snd (run_state (resource_manager_get_stats K rm cid want_c want_m) s)))
   \<and> fd_balanced s (snd (run_state (resource_manager_get_stats K rm cid want_c want_m) s))
   \<and> fd_balanced s (snd (run_state (resource_manager_init K rm base) s))
   \<and> fd_balanced s (snd (run_state (resource_manager_create_cgroup K rm cid l) s))
   \<and> fd_balanced s (snd (run_state (resource_manager_add_process K rm cid pid) s))
   \<and> fd_balanced s (snd (run_state (resource_manager_destroy_cgroup K rm cid) s))"
  by (intro conjI only_run_snd fd_balanced_run get_stats_only get_stats_balanced create_cgroup_balanced
      add_process_balanced destroy_cgroup_balanced resource_manager_init_balanced)

end
