(* ===== verification/Container_Table.thy ===== *)
theory Container_Table
  imports Filesystem_Manager Namespace_Handler Resource_Manager
begin

text \<open>
  The data of the container manager, \<open>src/include/container_manager.hpp\<close>, and the table of
  containers in \<open>src/src/container_manager.cpp\<close>: lookup by id and by process id, insertion with
  growth of the array, removal, and generated ids. The pointer array is the list of the
  containers; its used length is the length of the list. A pointer to an entry is its index.
\<close>

section \<open>Data\<close>

datatype container_state =
  CONTAINER_CREATED | CONTAINER_RUNNING | CONTAINER_STOPPED | CONTAINER_DESTROYED
| CONTAINER_INVALID int \<comment> \<open>a number outside the enumeration, cast to it\<close>

record container_config =
  config_id :: "string option"
  root_path :: "string option"
  ns_config :: namespace_config
  res_limits :: resource_limits
  fs_conf :: fs_config
  cmd :: "command option"
  command_argc :: int

record container_info =
  info_id :: string
  pid :: int
  cstate :: container_state
  created_at :: int
  started_at :: int
  stopped_at :: int
  saved_config :: "container_config option"

record container_manager =
  rm :: resource_manager
  containers :: "container_info list"
  max_containers :: int

definition MAX_CONTAINER_ID :: nat where "MAX_CONTAINER_ID = 64"

definition state_code :: "container_state \<Rightarrow> int" where
  "state_code s = (case s of CONTAINER_CREATED \<Rightarrow> 0 | CONTAINER_RUNNING \<Rightarrow> 1 | CONTAINER_STOPPED \<Rightarrow> 2
     | CONTAINER_DESTROYED \<Rightarrow> 3 | CONTAINER_INVALID n \<Rightarrow> n)"

definition state_of_code :: "int \<Rightarrow> container_state" where
  \<comment> \<open>\<open>static_cast<container_state_t>\<close>\<close>
  "state_of_code n = (if n = 0 then CONTAINER_CREATED else if n = 1 then CONTAINER_RUNNING
     else if n = 2 then CONTAINER_STOPPED else if n = 3 then CONTAINER_DESTROYED
     else CONTAINER_INVALID n)"

section \<open>The program state\<close>

text \<open>The manager object the program works on is added to the state of the operating system calls.\<close>

record 'w prog = "'w os" +
  cman :: container_manager

type_synonym ('w, 'z, 'a) pio = "(('w, 'z) prog_scheme, 'a) state"

definition get_cm :: "('w, 'z, container_manager) pio" where
  "get_cm = State (\<lambda>s. (cman s, s))"

definition upd_cm :: "(container_manager \<Rightarrow> container_manager) \<Rightarrow> ('w, 'z, unit) pio" where
  "upd_cm f = State (\<lambda>s. ((), s\<lparr>cman := f (cman s)\<rparr>))"

definition upd_info :: "nat \<Rightarrow> (container_info \<Rightarrow> container_info) \<Rightarrow> ('w, 'z, unit) pio" where
  \<comment> \<open>assignments through a pointer to the entry at index \<open>i\<close>\<close>
  "upd_info i f = upd_cm (\<lambda>c. c\<lparr>containers := (containers c)[i := f (containers c ! i)]\<rparr>)"

lemma run_get_cm [simp, run_simps]: "run_state get_cm s = (cman s, s)"
  by (simp add: get_cm_def)

lemma run_upd_cm [simp, run_simps]: "run_state (upd_cm f) s = ((), s\<lparr>cman := f (cman s)\<rparr>)"
  by (simp add: upd_cm_def)

lemma run_upd_info [simp, run_simps]:
  "run_state (upd_info i f) s =
     ((), s\<lparr>cman := cman s\<lparr>containers := (containers (cman s))[i := f (containers (cman s) ! i)]\<rparr>\<rparr>)"
  by (simp add: upd_info_def)

section \<open>Operations\<close>

definition extract_numeric_id :: "string option \<Rightarrow> int" where
  "extract_numeric_id s =
     (case s of
        None \<Rightarrow> - 1
      | Some cid \<Rightarrow> (case strtol cid of (num, endptr) \<Rightarrow>
          if endptr = [] \<and> num > 0 then to_int32 num else - 1))"

primrec max_numeric_id :: "int \<Rightarrow> container_info list \<Rightarrow> int" where
  "max_numeric_id max_id [] = max_id"
| "max_numeric_id max_id (info # infos) =
     (let num_id = extract_numeric_id (Some (info_id info)) in
      max_numeric_id (if num_id > max_id then num_id else max_id) infos)"

definition next_container_id :: "container_manager \<Rightarrow> string" where
  "next_container_id c =
     snprintf MAX_CONTAINER_ID (show_int (to_int32 (max_numeric_id 0 (containers c) + 1)))"

definition generate_container_id :: "'w kernel \<Rightarrow> ('w, 'z, string option) pio" where
  "generate_container_id K = do {
     got \<leftarrow> c_alloc K;
     c \<leftarrow> get_cm;
     State_Monad.return (if got then Some (next_container_id c) else None)
   }"

definition find_container :: "container_manager \<Rightarrow> string \<Rightarrow> nat option" where
  "find_container c cid = index_of (\<lambda>info. info_id info = cid) (containers c)"

definition grow :: "container_manager \<Rightarrow> container_manager" where
  "grow c = c\<lparr>max_containers := to_int32 (max_containers c * 2)\<rparr>"

definition append_container :: "container_info \<Rightarrow> container_manager \<Rightarrow> container_manager" where
  "append_container info c = c\<lparr>containers := containers c @ [info]\<rparr>"

definition add_container :: "'w kernel \<Rightarrow> container_info \<Rightarrow> ('w, 'z, int) pio" where
  "add_container K info = do {
     c \<leftarrow> get_cm;
     ok \<leftarrow> (if int (length (containers c)) \<ge> max_containers c then do {
              got \<leftarrow> c_alloc K;
              if got then do { _ \<leftarrow> upd_cm grow; State_Monad.return True }
              else State_Monad.return False
            } else State_Monad.return True);
     if \<not> ok then State_Monad.return (- 1)
     else do { _ \<leftarrow> upd_cm (append_container info); State_Monad.return 0 }
   }"

definition remove_container :: "string \<Rightarrow> container_manager \<Rightarrow> container_manager" where
  "remove_container cid c =
     (case find_container c cid of
        None \<Rightarrow> c
      | Some i \<Rightarrow> c\<lparr>containers := remove_nth i (containers c)\<rparr>)"

definition find_container_by_pid :: "container_manager \<Rightarrow> int \<Rightarrow> nat option" where
  "find_container_by_pid c p = index_of (\<lambda>info. pid info = p) (containers c)"

definition container_manager_get_info :: "container_manager \<Rightarrow> string \<Rightarrow> nat option" where
  "container_manager_get_info c cid =
     (case find_container c cid of
        Some i \<Rightarrow> Some i
      | None \<Rightarrow> (case strtol cid of (pid_num, endptr) \<Rightarrow>
          if endptr = [] \<and> pid_num > 0 then find_container_by_pid c (to_int32 pid_num) else None))"

definition container_manager_list :: "container_manager \<Rightarrow> container_info list \<times> int" where
  "container_manager_list c = (containers c, int (length (containers c)))"

section \<open>The table as an interface\<close>

text \<open>
  What the operations above rely on: a table of entries found by a key, with at most one entry per
  key as its invariant. The laws are those of a finite map.
\<close>

locale keyed_table =
  fixes lookup :: "'t \<Rightarrow> 'k \<Rightarrow> 'v option"
    and insert_entry :: "'v \<Rightarrow> 't \<Rightarrow> 't"
    and delete_entry :: "'k \<Rightarrow> 't \<Rightarrow> 't"
    and modify_entry :: "'k \<Rightarrow> ('v \<Rightarrow> 'v) \<Rightarrow> 't \<Rightarrow> 't"
    and key :: "'v \<Rightarrow> 'k"
    and inv :: "'t \<Rightarrow> bool"
  assumes lookup_insert: "inv t \<Longrightarrow> lookup t (key v) = None \<Longrightarrow>
        lookup (insert_entry v t) k = (if k = key v then Some v else lookup t k)"
    and lookup_delete: "inv t \<Longrightarrow> lookup (delete_entry k t) l = (if l = k then None else lookup t l)"
    and lookup_modify: "inv t \<Longrightarrow> (\<And>v. key (f v) = key v) \<Longrightarrow>
        lookup (modify_entry k f t) l = (if l = k then map_option f (lookup t k) else lookup t l)"
    and lookup_key: "lookup t k = Some v \<Longrightarrow> key v = k"
    and inv_insert: "inv t \<Longrightarrow> lookup t (key v) = None \<Longrightarrow> inv (insert_entry v t)"
    and inv_delete: "inv t \<Longrightarrow> inv (delete_entry k t)"
    and inv_modify: "inv t \<Longrightarrow> (\<And>v. key (f v) = key v) \<Longrightarrow> inv (modify_entry k f t)"
begin

lemma insert_delete_lookup:
  assumes "inv t" and "lookup t (key v) = None"
  shows "lookup (delete_entry (key v) (insert_entry v t)) = lookup t"
  using assms by (auto simp: lookup_delete lookup_insert inv_insert)

lemma delete_missing: "inv t \<Longrightarrow> lookup t k = None \<Longrightarrow> lookup (delete_entry k t) = lookup t"
  by (auto simp: lookup_delete)

text \<open>The map of one attribute of the entries, and how the operations change it.\<close>

definition view :: "('v \<Rightarrow> 'a) \<Rightarrow> 't \<Rightarrow> 'k \<Rightarrow> 'a option" where
  "view g t = (\<lambda>k. map_option g (lookup t k))"

lemma view_insert:
  "inv t \<Longrightarrow> lookup t (key v) = None \<Longrightarrow> view g (insert_entry v t) = (view g t)(key v \<mapsto> g v)"
  by (auto simp: view_def lookup_insert)

lemma view_delete: "inv t \<Longrightarrow> view g (delete_entry k t) = (view g t)(k := None)"
  by (auto simp: view_def lookup_delete)

lemma view_modify:
  assumes "inv t" and "\<And>v. key (f v) = key v" and "lookup t k = Some v"
  shows "view g (modify_entry k f t) = (view g t)(k \<mapsto> g (f v))"
  using assms by (auto simp: view_def lookup_modify)

end

definition lookup_info :: "container_manager \<Rightarrow> string \<Rightarrow> container_info option" where
  "lookup_info c cid = map_option ((!) (containers c)) (find_container c cid)"

definition modify_container ::
  "string \<Rightarrow> (container_info \<Rightarrow> container_info) \<Rightarrow> container_manager \<Rightarrow> container_manager" where
  "modify_container cid f c =
     (case find_container c cid of
        None \<Rightarrow> c
      | Some i \<Rightarrow> c\<lparr>containers := (containers c)[i := f (containers c ! i)]\<rparr>)"

definition ids :: "container_manager \<Rightarrow> string list" where
  "ids c = map info_id (containers c)"

definition ids_distinct :: "container_manager \<Rightarrow> bool" where
  "ids_distinct c \<longleftrightarrow> distinct (ids c)"

lemma find_container_None: "find_container c cid = None \<longleftrightarrow> cid \<notin> set (ids c)"
  by (auto simp: find_container_def index_of_None ids_def)

lemma find_container_Some:
  "find_container c cid = Some i \<Longrightarrow> i < length (containers c) \<and> info_id (containers c ! i) = cid"
  unfolding find_container_def by (drule index_of_Some) simp

lemma lookup_info_None: "lookup_info c cid = None \<longleftrightarrow> cid \<notin> set (ids c)"
  by (simp add: lookup_info_def find_container_None)

lemma lookup_info_Some_iff:
  assumes "ids_distinct c"
  shows "lookup_info c cid = Some v \<longleftrightarrow> v \<in> set (containers c) \<and> info_id v = cid"
proof
  assume "lookup_info c cid = Some v"
  then show "v \<in> set (containers c) \<and> info_id v = cid"
    by (auto simp: lookup_info_def dest!: find_container_Some)
next
  assume v: "v \<in> set (containers c) \<and> info_id v = cid"
  then have "cid \<in> set (ids c)" by (auto simp: ids_def)
  then obtain i where i: "find_container c cid = Some i" using find_container_None by blast
  from v obtain j where j: "j < length (containers c)" "containers c ! j = v"
    by (auto simp: in_set_conv_nth)
  have "i = j"
    using assms find_container_Some [OF i] j v
    by (auto simp: ids_distinct_def ids_def distinct_conv_nth)
  then show "lookup_info c cid = Some v" using i j by (simp add: lookup_info_def)
qed

lemma find_container_unique:
  assumes "ids_distinct c" and "i < length (containers c)"
  shows "find_container c (info_id (containers c ! i)) = Some i"
proof -
  have "info_id (containers c ! i) \<in> set (ids c)" using assms(2) by (simp add: ids_def)
  then obtain j where j: "find_container c (info_id (containers c ! i)) = Some j"
    using find_container_None by blast
  from find_container_Some [OF j] assms have "j = i"
    by (auto simp: ids_distinct_def ids_def distinct_conv_nth)
  with j show ?thesis by simp
qed

lemma containers_append [simp]: "containers (append_container v c) = containers c @ [v]"
  by (simp add: append_container_def)

lemma attr_update:
  "(\<And>v. g (f v) = g v) \<Longrightarrow> j < length xs \<Longrightarrow> g (xs[i := f (xs ! i)] ! j) = g (xs ! j)"
  by (cases "i = j") simp_all

lemma ids_append: "ids (append_container v c) = ids c @ [info_id v]"
  by (simp add: ids_def append_container_def)

lemma ids_modify: "(\<And>v. info_id (f v) = info_id v) \<Longrightarrow> ids (modify_container cid f c) = ids c"
  by (auto simp: modify_container_def ids_def map_update list_update_id split: option.splits
      dest!: find_container_Some) (metis length_map list_update_id nth_map)

lemma ids_remove:
  assumes "ids_distinct c"
  shows "distinct (ids (remove_container cid c)) \<and> set (ids (remove_container cid c)) = set (ids c) - {cid}"
proof (cases "find_container c cid")
  case None
  then show ?thesis
    using assms find_container_None [of c cid] by (auto simp: remove_container_def ids_distinct_def)
next
  case (Some i)
  then have i: "i < length (ids c)" "ids c ! i = cid"
    using find_container_Some [OF Some] by (simp_all add: ids_def)
  have "ids (remove_container cid c) = remove_nth i (ids c)"
    using Some by (simp add: remove_container_def ids_def map_remove_nth)
  then show ?thesis
    using assms i distinct_remove_nth [of "ids c" i] by (simp add: ids_distinct_def)
qed

lemma containers_remove:
  assumes "ids_distinct c"
  shows "set (containers (remove_container cid c)) = {v \<in> set (containers c). info_id v \<noteq> cid}"
proof (cases "find_container c cid")
  case None
  then show ?thesis
    using find_container_None [of c cid] by (auto simp: remove_container_def ids_def)
next
  case (Some i)
  have d: "distinct (containers c)"
    using assms by (simp add: ids_distinct_def ids_def distinct_map)
  have i: "i < length (containers c)" "info_id (containers c ! i) = cid"
    using find_container_Some [OF Some] by simp_all
  have "inj_on info_id (set (containers c))"
    using assms by (simp add: ids_distinct_def ids_def distinct_map)
  then have "v = containers c ! i \<longleftrightarrow> info_id v = cid" if "v \<in> set (containers c)" for v
    using that i by (metis inj_on_eq_iff nth_mem)
  then show ?thesis
    using Some distinct_remove_nth(2) [OF d i(1)] by (auto simp: remove_container_def)
qed

lemma option_eq_by_Some: "(\<And>v. x = Some v \<longleftrightarrow> y = Some v) \<Longrightarrow> x = y"
  by (cases x; cases y) auto

interpretation container_table: keyed_table lookup_info append_container remove_container
  modify_container info_id ids_distinct
proof
  fix c :: container_manager and v :: container_info and k
  assume c: "ids_distinct c" and new: "lookup_info c (info_id v) = None"
  show d: "ids_distinct (append_container v c)"
    using c new by (simp add: ids_distinct_def ids_append lookup_info_None)
  show "lookup_info (append_container v c) k = (if k = info_id v then Some v else lookup_info c k)"
    using new by (rule_tac option_eq_by_Some)
      (auto simp: lookup_info_Some_iff [OF d] lookup_info_Some_iff [OF c]
        lookup_info_None ids_def image_iff)
next
  fix c :: container_manager and k l
  assume c: "ids_distinct c"
  show d: "ids_distinct (remove_container k c)"
    using ids_remove [OF c] by (simp add: ids_distinct_def)
  show "lookup_info (remove_container k c) l = (if l = k then None else lookup_info c l)"
    by (rule option_eq_by_Some)
      (auto simp: lookup_info_Some_iff [OF d] lookup_info_Some_iff [OF c] containers_remove [OF c])
next
  fix c :: container_manager and k l and f :: "container_info \<Rightarrow> container_info"
  assume c: "ids_distinct c" and f: "\<And>v. info_id (f v) = info_id v"
  show d: "ids_distinct (modify_container k f c)"
    using c by (simp add: ids_distinct_def ids_modify f)
  show "lookup_info (modify_container k f c) l =
      (if l = k then map_option f (lookup_info c k) else lookup_info c l)"
  proof (cases "find_container c k")
    case None
    then show ?thesis by (simp add: modify_container_def lookup_info_def)
  next
    case (Some i)
    have i: "i < length (containers c)" "info_id (containers c ! i) = k"
      using find_container_Some [OF Some] by simp_all
    have find: "find_container (modify_container k f c) l = find_container c l"
    proof (cases "find_container c l")
      case None
      then show ?thesis by (metis find_container_None ids_modify f)
    next
      case (Some j)
      then have "j < length (containers (modify_container k f c))"
        "ids (modify_container k f c) ! j = l"
        using find_container_Some [OF Some] by (simp_all add: ids_modify f ids_def)
          (auto simp: modify_container_def attr_update f split: option.splits)
      then have "info_id (containers (modify_container k f c) ! j) = l" by (simp add: ids_def)
      then show ?thesis
        using find_container_unique [OF d \<open>j < length (containers (modify_container k f c))\<close>] Some
        by simp
    qed
    have "j \<noteq> i" if "find_container c l = Some j" "l \<noteq> k" for j
      using that i find_container_Some [OF that(1)] by auto
    moreover have "containers (modify_container k f c) = (containers c)[i := f (containers c ! i)]"
      using Some by (simp add: modify_container_def)
    ultimately show ?thesis
      using Some i unfolding lookup_info_def find
      by (cases "l = k"; cases "find_container c l") auto
  qed
next
  fix c :: container_manager and k and v :: container_info
  assume "lookup_info c k = Some v"
  then show "info_id v = k" by (auto simp: lookup_info_def dest: find_container_Some)
qed

section \<open>Generated ids\<close>

lemma max_numeric_id_ge: "m \<le> max_numeric_id m infos"
proof (induction infos arbitrary: m)
  case Nil
  then show ?case by simp
next
  case (Cons v vs)
  then show ?case by (auto simp: Let_def intro: order.trans [OF less_imp_le Cons])
qed

lemma max_numeric_id_bound:
  "v \<in> set infos \<Longrightarrow> extract_numeric_id (Some (info_id v)) \<le> max_numeric_id m infos"
proof (induction infos arbitrary: m)
  case Nil
  then show ?case by simp
next
  case (Cons w ws)
  define m' where "m' = (if extract_numeric_id (Some (info_id w)) > m
      then extract_numeric_id (Some (info_id w)) else m)"
  have "max_numeric_id m (w # ws) = max_numeric_id m' ws" by (simp add: m'_def Let_def)
  moreover have "extract_numeric_id (Some (info_id w)) \<le> m'" by (simp add: m'_def)
  then have "extract_numeric_id (Some (info_id w)) \<le> max_numeric_id m' ws"
    using max_numeric_id_ge [of m' ws] by linarith
  ultimately show ?case using Cons by auto
qed

lemma extract_numeric_id_show:
  "0 < n \<Longrightarrow> int32_range n \<Longrightarrow> extract_numeric_id (Some (show_int n)) = n"
  by (simp add: extract_numeric_id_def long_format.scan_show_end)

lemma show_nat_length: "n < 10 ^ Suc k \<Longrightarrow> length (show_nat n) \<le> Suc k"
proof (induction k arbitrary: n)
  case 0
  then show ?case by (simp add: show_nat.simps [of n])
next
  case (Suc k)
  then have "n div 10 < 10 ^ Suc k" by simp
  then have "length (show_nat (n div 10)) \<le> Suc k" by (rule Suc.IH)
  then show ?case by (simp add: show_nat.simps [of n])
qed

lemma show_int_length: "int32_range i \<Longrightarrow> length (show_int i) \<le> 11"
proof -
  assume i: "int32_range i"
  have "length (show_nat (nat \<bar>i\<bar>)) \<le> Suc 9"
    by (rule show_nat_length) (use i in \<open>simp add: int32_range_def nat_less_iff abs_less_iff\<close>)
  then show ?thesis using i by (cases "i < 0") (simp_all add: show_int_def)
qed

lemma next_container_id_eq:
  "next_container_id c = show_int (to_int32 (max_numeric_id 0 (containers c) + 1))"
  unfolding next_container_id_def
  using show_int_length [OF to_int32_range, of "max_numeric_id 0 (containers c) + 1"]
  by (simp add: MAX_CONTAINER_ID_def)

section \<open>Properties\<close>

text \<open>
  Property C18. A generated id is new: as long as no container carries the largest 32-bit number as
  its id, the id the manager generates is that of no container in the table, whatever other ids,
  numeric or not, are in use.
\<close>
theorem generated_id_fresh:
  assumes "max_numeric_id 0 (containers c) < 2 ^ 31 - 1"
  shows "find_container c (next_container_id c) = None"
proof -
  define m where "m = max_numeric_id 0 (containers c)"
  have m: "0 \<le> m" "m < 2 ^ 31 - 1" using max_numeric_id_ge [of 0] assms by (simp_all add: m_def)
  then have r: "int32_range (m + 1)" by (simp add: int32_range_def)
  then have "extract_numeric_id (Some (next_container_id c)) = m + 1"
    using m by (simp add: next_container_id_eq m_def [symmetric] extract_numeric_id_show)
  then have "next_container_id c \<noteq> info_id v" if "v \<in> set (containers c)" for v
    using max_numeric_id_bound [OF that, of 0] by (auto simp: m_def)
  then show ?thesis by (auto simp: find_container_None ids_def)
qed

definition example_info :: "string \<Rightarrow> int \<Rightarrow> container_state \<Rightarrow> container_info" where
  "example_info cid p st = \<lparr>info_id = cid, pid = p, cstate = st, created_at = 1000, started_at = 0,
     stopped_at = 0, saved_config = None\<rparr>"

definition example_cm :: "container_info list \<Rightarrow> int \<Rightarrow> container_manager" where
  "example_cm infos n = \<lparr>rm = example_manager, containers = infos, max_containers = n\<rparr>"

definition calm_prog :: "container_manager \<Rightarrow> unit prog" where
  "calm_prog c = \<lparr>kst = (), trace = [], cman = c\<rparr>"

theorem generated_id_fresh_witness:
  "find_container (example_cm [example_info ''1'' 0 CONTAINER_CREATED, example_info ''web'' 0 CONTAINER_CREATED] 10)
     (next_container_id (example_cm
        [example_info ''1'' 0 CONTAINER_CREATED, example_info ''web'' 0 CONTAINER_CREATED] 10)) = None"
  by (rule generated_id_fresh)
    (simp add: example_cm_def example_info_def extract_numeric_id_def strtol_def scan_integer_def
      scan_sign_def isspace_def isdigit_def digit_val_def clamp_long_def to_int32_def Let_def)

text \<open>
  The table never runs over its array: when the array holds all entries and has room
  for at least one, adding a container that succeeds keeps all entries in order, appends the new
  one and leaves the entries within the capacity; a failed reallocation leaves the table as it was.
\<close>
theorem add_container_capacity:
  assumes "0 < max_containers (cman s)" and "int (length (containers (cman s))) \<le> max_containers (cman s)"
    and "length (containers (cman s)) < 2 ^ 30"
    and "run_state (add_container K info) s = (r, t)"
  shows "r = 0 \<and> containers (cman t) = containers (cman s) @ [info] \<and>
      0 < max_containers (cman t) \<and> int (length (containers (cman t))) \<le> max_containers (cman t)
    \<or> r = - 1 \<and> cman t = cman s"
proof (cases "int (length (containers (cman s))) < max_containers (cman s)")
  case True
  then show ?thesis using assms by (auto simp: add_container_def append_container_def)
next
  case False
  then have max: "max_containers (cman s) = int (length (containers (cman s)))" using assms(2) by simp
  have "int32_range (max_containers (cman s) * 2)"
    using assms(1,3) max by (simp add: int32_range_def)
  then have "max_containers (grow (cman s)) = max_containers (cman s) * 2" by (simp add: grow_def)
  then show ?thesis
    using assms max
    by (auto simp: add_container_def append_container_def grow_def Suc_le_eq
        split: prod.splits if_splits)
qed

theorem add_container_capacity_witness:
  "containers (cman (snd (run_state (add_container calm_kernel (example_info ''2'' 0 CONTAINER_CREATED))
      (calm_prog (example_cm [example_info ''1'' 0 CONTAINER_CREATED] 1))))) =
    [example_info ''1'' 0 CONTAINER_CREATED, example_info ''2'' 0 CONTAINER_CREATED]"
  using add_container_capacity [where K = calm_kernel and info = "example_info ''2'' 0 CONTAINER_CREATED"
      and s = "calm_prog (example_cm [example_info ''1'' 0 CONTAINER_CREATED] 1)",
      OF _ _ _ prod.collapse [symmetric]]
  by (simp add: calm_prog_def example_cm_def add_container_def calm_kernel_def)

end
