(* ===== verification/State_File.thy ===== *)
theory State_File
  imports Container_Table
begin

text \<open>
  The state file of \<open>src/src/container_manager.cpp\<close>: \<open>save_state\<close> prints the table as JSON, one
  attribute per line, and \<open>load_state\<close> scans it back line by line. Saving and loading are tied
  together by a round trip.
\<close>

section \<open>Model\<close>

definition NL :: char where "NL = CHR 0x0A"
definition DQ :: char where "DQ = CHR 0x22"

definition STATE_FILE_PATH :: string where
  "STATE_FILE_PATH = ''/var/run/mini-container/state.json''"
definition STATE_FILE_PATH_FALLBACK :: string where
  "STATE_FILE_PATH_FALLBACK = ''/tmp/mini-container-state.json''"

definition is_pid_alive :: "'w kernel \<Rightarrow> int \<Rightarrow> ('w, 'z, bool) io" where
  "is_pid_alive K p =
     (if p \<le> 0 then State_Monad.return False
      else do {
        r \<leftarrow> c_kill K p SIG0;
        State_Monad.return (case r of Inr _ \<Rightarrow> True | Inl e \<Rightarrow> e \<noteq> ESRCH)
      })"

definition get_state_file_path :: "'w kernel \<Rightarrow> ('w, 'z, string) io" where
  "get_state_file_path K = do {
     r \<leftarrow> c_stat K ''/var/run/mini-container'';
     if ret_code r = 0 then State_Monad.return STATE_FILE_PATH
     else do {
       r \<leftarrow> c_mkdir K ''/var/run/mini-container'';
       State_Monad.return (if ret_code r = 0 then STATE_FILE_PATH else STATE_FILE_PATH_FALLBACK)
     }
   }"

text \<open>The text of the file, as its lines, each with its line feed.\<close>

definition entry_lines :: "container_info \<Rightarrow> string \<Rightarrow> string list" where
  "entry_lines info sep =
     [''    {'' @ [NL],
      ''      '' @ DQ # ''id'' @ DQ # '': '' @ DQ # info_id info @ DQ # '','' @ [NL],
      ''      '' @ DQ # ''pid'' @ DQ # '': '' @ show_int (pid info) @ '','' @ [NL],
      ''      '' @ DQ # ''state'' @ DQ # '': '' @ show_int (state_code (cstate info)) @ '','' @ [NL],
      ''      '' @ DQ # ''created_at'' @ DQ # '': '' @ show_int (created_at info) @ '','' @ [NL],
      ''      '' @ DQ # ''started_at'' @ DQ # '': '' @ show_int (started_at info) @ '','' @ [NL],
      ''      '' @ DQ # ''stopped_at'' @ DQ # '': '' @ show_int (stopped_at info) @ [NL],
      ''    }'' @ sep @ [NL]]"

fun entries_lines :: "container_info list \<Rightarrow> string list" where
  "entries_lines [] = []"
| "entries_lines [info] = entry_lines info []"
| "entries_lines (info # infos) = entry_lines info '','' @ entries_lines infos"

definition state_lines :: "container_info list \<Rightarrow> string list" where
  "state_lines infos =
     [''{'' @ [NL], ''  '' @ DQ # ''containers'' @ DQ # '': ['' @ [NL]] @ entries_lines infos @
     [''  ]'' @ [NL], ''}'' @ [NL]]"

definition save_state :: "'w kernel \<Rightarrow> ('w, 'z, unit) pio" where
  "save_state K = do {
     state_file \<leftarrow> get_state_file_path K;
     c \<leftarrow> get_cm;
     _ \<leftarrow> c_save K state_file (concat (state_lines (containers c)));
     State_Monad.return ()
   }"

subsection \<open>Loading\<close>

text \<open>\<open>fgets\<close> with a buffer of \<open>n\<close> bytes, called until the stream is exhausted.\<close>

definition fgets_length :: "nat \<Rightarrow> string \<Rightarrow> nat" where
  "fgets_length n s = min (n - 1) (Suc (length (takeWhile (\<lambda>c. c \<noteq> NL) s)))"

function fgets_lines :: "nat \<Rightarrow> string \<Rightarrow> string list" where
  "fgets_lines n s =
     (if s = [] \<or> n \<le> 1 then []
      else take (fgets_length n s) s # fgets_lines n (drop (fgets_length n s) s))"
  by pat_completeness auto
termination
  by (relation "measure (\<lambda>(n, s). length s)") (auto simp: fgets_length_def)

declare fgets_lines.simps [simp del]

text \<open>The local variables of \<open>load_state\<close>.\<close>

record load_vars =
  l_id :: string
  l_pid :: int
  l_state :: int
  l_created_at :: int
  l_started_at :: int
  l_stopped_at :: int
  in_container :: bool
  loaded :: int

definition load_start :: load_vars where
  "load_start = \<lparr>l_id = [], l_pid = 0, l_state = 0, l_created_at = 0, l_started_at = 0,
     l_stopped_at = 0, in_container = False, loaded = 0\<rparr>"

definition quoted :: "string \<Rightarrow> string" where
  "quoted key = DQ # key @ [DQ]"

definition after_key :: "string \<Rightarrow> string \<Rightarrow> string option" where
  \<comment> \<open>the directives \<open>" \"key\":"\<close> of a \<open>sscanf\<close> format and what follows them in the text\<close>
  "after_key key p =
     (let q = dropWhile isspace p; lit = quoted key @ '':'' in
      if prefix lit q then Some (drop (length lit) q) else None)"

definition scan_id :: "string \<Rightarrow> string option" where
  \<comment> \<open>\<open>sscanf(p, " \"id\": \"%255[^\"]\"", container_id)\<close>\<close>
  "scan_id p =
     (case after_key ''id'' p of
        None \<Rightarrow> None
      | Some r \<Rightarrow> (case dropWhile isspace r of
          [] \<Rightarrow> None
        | c # cs \<Rightarrow> (let v = take 255 (takeWhile (\<lambda>d. d \<noteq> DQ) cs) in
            if c \<noteq> DQ \<or> v = [] then None else Some v)))"

definition scan_key_d :: "string \<Rightarrow> string \<Rightarrow> int \<Rightarrow> int" where
  \<comment> \<open>\<open>sscanf(p, " \"key\": %d", &x)\<close> with the old value of \<open>x\<close>\<close>
  "scan_key_d key p x = (case after_key key p of
     None \<Rightarrow> x | Some r \<Rightarrow> (case sscanf_d r of None \<Rightarrow> x | Some y \<Rightarrow> y))"

definition scan_key_ld :: "string \<Rightarrow> string \<Rightarrow> int \<Rightarrow> int" where
  "scan_key_ld key p x = (case after_key key p of
     None \<Rightarrow> x | Some r \<Rightarrow> (case sscanf_ld r of None \<Rightarrow> x | Some y \<Rightarrow> y))"

definition load_field :: "string \<Rightarrow> load_vars \<Rightarrow> load_vars" where
  "load_field p v =
     (if contains p (quoted ''id'') then
        v\<lparr>in_container := True, l_id := (case scan_id p of Some cid \<Rightarrow> cid | None \<Rightarrow> l_id v)\<rparr>
      else if in_container v \<and> contains p (quoted ''pid'') then
        v\<lparr>l_pid := scan_key_d ''pid'' p (l_pid v)\<rparr>
      else if in_container v \<and> contains p (quoted ''state'') then
        v\<lparr>l_state := scan_key_d ''state'' p (l_state v)\<rparr>
      else if in_container v \<and> contains p (quoted ''created_at'') then
        v\<lparr>l_created_at := scan_key_ld ''created_at'' p (l_created_at v)\<rparr>
      else if in_container v \<and> contains p (quoted ''started_at'') then
        v\<lparr>l_started_at := scan_key_ld ''started_at'' p (l_started_at v)\<rparr>
      else if in_container v \<and> contains p (quoted ''stopped_at'') then
        v\<lparr>l_stopped_at := scan_key_ld ''stopped_at'' p (l_stopped_at v)\<rparr>
      else v)"

definition loaded_id :: "container_manager \<Rightarrow> string \<Rightarrow> string" where
  \<comment> \<open>the id a loaded container gets: its own if it is numeric, else the next number\<close>
  "loaded_id c cid =
     (if extract_numeric_id (Some cid) < 0
      then snprintf 64 (show_int (to_int32 (max_numeric_id 0 (containers c) + 1)))
      else cid)"

text \<open>
  The copy of the id (\<open>strdup\<close>) is taken to succeed here: the code does not check it. The null
  pointer it would leave behind is outside the model.
\<close>

definition load_entry :: "'w kernel \<Rightarrow> load_vars \<Rightarrow> ('w, 'z, load_vars) pio" where
  "load_entry K v =
     (if l_id v = [] then State_Monad.return v
      else do {
        dead \<leftarrow> (if l_state v = state_code CONTAINER_RUNNING
                 then do { a \<leftarrow> is_pid_alive K (l_pid v); State_Monad.return (\<not> a) }
                 else State_Monad.return False);
        v \<leftarrow> (if dead then do {
                now \<leftarrow> c_time K;
                State_Monad.return (v\<lparr>l_state := state_code CONTAINER_STOPPED, l_stopped_at := now\<rparr>)
              } else State_Monad.return v);
        added \<leftarrow> (if l_state v \<noteq> state_code CONTAINER_DESTROYED \<and> l_state v \<noteq> state_code CONTAINER_STOPPED
                  then do {
                    got \<leftarrow> c_alloc K;
                    c \<leftarrow> get_cm;
                    if got then add_container K
                      \<lparr>info_id = loaded_id c (l_id v), pid = l_pid v, cstate = state_of_code (l_state v),
                       created_at = l_created_at v, started_at = l_started_at v,
                       stopped_at = l_stopped_at v, saved_config = None\<rparr>
                    else State_Monad.return (- 1)
                  }
                  else State_Monad.return (- 1));
        State_Monad.return (load_start\<lparr>loaded := (if added = 0 then loaded v + 1 else loaded v)\<rparr>)
      })"

definition load_line :: "'w kernel \<Rightarrow> string \<Rightarrow> load_vars \<Rightarrow> ('w, 'z, load_vars) pio" where
  "load_line K line v =
     (let p = dropWhile is_blank (c_str line) in
      if p = [] \<or> hd p \<in> {NL, CHR ''{'', CHR ''['', CHR '']''} then State_Monad.return v
      else let v = load_field p v in
           if in_container v \<and> (contains p ''}'' \<or> contains p ''},'') then load_entry K v
           else State_Monad.return v)"

primrec load_lines :: "'w kernel \<Rightarrow> string list \<Rightarrow> load_vars \<Rightarrow> ('w, 'z, load_vars) pio" where
  "load_lines K [] v = State_Monad.return v"
| "load_lines K (line # lines) v = do { v \<leftarrow> load_line K line v; load_lines K lines v }"

definition load_state :: "'w kernel \<Rightarrow> ('w, 'z, int) pio" where
  "load_state K = do {
     state_file \<leftarrow> get_state_file_path K;
     fp \<leftarrow> c_fopen_r K state_file;
     (case fp of
        None \<Rightarrow> State_Monad.return 0
      | Some file \<Rightarrow> do {
          v \<leftarrow> load_lines K (fgets_lines 1024 file) load_start;
          State_Monad.return (loaded v)
        })
   }"

section \<open>Lemmas: lines\<close>

definition line_ok :: "nat \<Rightarrow> string \<Rightarrow> bool" where
  \<comment> \<open>a complete line that fits a buffer of \<open>n\<close> bytes\<close>
  "line_ok n l \<longleftrightarrow> l \<noteq> [] \<and> last l = NL \<and> NL \<notin> set (butlast l) \<and> length l < n"

lemma line_okI: "NL \<notin> set b \<Longrightarrow> length b + 1 < n \<Longrightarrow> line_ok n (b @ [NL])"
  by (simp add: line_ok_def)

lemma fgets_lines_concat:
  "1 < n \<Longrightarrow> (\<And>l. l \<in> set ls \<Longrightarrow> line_ok n l) \<Longrightarrow> fgets_lines n (concat ls) = ls"
proof (induction ls)
  case Nil
  then show ?case by (simp add: fgets_lines.simps)
next
  case (Cons l ls)
  define b where "b = butlast l"
  have ok: "line_ok n l" by (rule Cons.prems(2)) simp
  then have b: "l = b @ [NL]" "NL \<notin> set b" "length l < n"
    using append_butlast_last_id [of l] by (simp_all add: line_ok_def b_def)
  then have "takeWhile (\<lambda>c. c \<noteq> NL) (concat (l # ls)) = b"
    by (auto simp: takeWhile_append2 takeWhile_tail)
  then have len: "fgets_length n (concat (l # ls)) = length l"
    using b by (auto simp: fgets_length_def)
  have ne: "\<not> (concat (l # ls) = [] \<or> n \<le> 1)" using b(1) Cons.prems(1) by simp
  have "fgets_lines n (concat (l # ls)) = l # fgets_lines n (concat ls)"
    unfolding fgets_lines.simps [of n "concat (l # ls)"] if_not_P [OF ne] len by simp
  then show ?case using Cons by simp
qed

lemma last_in_sublist: "xs \<noteq> [] \<Longrightarrow> set xs \<subseteq> set ys \<Longrightarrow> last xs \<in> set ys"
  using last_in_set by blast

lemma contains_last:
  assumes "needle \<noteq> []" and "last needle \<notin> set b"
  shows "contains (a @ b) needle \<longleftrightarrow> contains a needle"
proof
  assume "contains (a @ b) needle"
  then consider "sublist needle a" | "sublist needle b"
    | x y where "needle = x @ y" "suffix x a" "prefix y b"
    by (auto simp: contains_iff_sublist sublist_append)
  then show "contains a needle"
  proof cases
    case 1
    then show ?thesis by (simp add: contains_iff_sublist)
  next
    case 2
    then show ?thesis using assms last_in_sublist set_mono_sublist by metis
  next
    case 3
    show ?thesis
    proof (cases "y = []")
      case True
      then show ?thesis using 3 by (simp add: contains_iff_sublist suffix_imp_sublist)
    next
      case False
      then have "last needle \<in> set b"
        using 3 last_in_sublist [OF False set_mono_prefix [OF 3(3)]] by simp
      then show ?thesis using assms(2) by contradiction
    qed
  qed
next
  assume "contains a needle"
  then show "contains (a @ b) needle" by (simp add: contains_iff_sublist sublist_append)
qed

lemma show_int_chars: "c \<in> set (show_int i) \<Longrightarrow> isdigit c \<or> c = CHR ''-''"
  by (auto simp: show_int_def dest: show_nat_digits split: if_splits)

lemma show_int_no [simp]:
  "DQ \<notin> set (show_int i)" "NL \<notin> set (show_int i)" "CHR ''}'' \<notin> set (show_int i)" "CHR 0x00 \<notin> set (show_int i)"
  by (auto simp: DQ_def NL_def isdigit_def dest!: show_int_chars)

section \<open>Lemmas: fields\<close>

definition id_ok :: "string \<Rightarrow> bool" where
  \<comment> \<open>an id that prints as one line of the file\<close>
  "id_ok cid \<longleftrightarrow> cid \<noteq> [] \<and> length cid \<le> 255 \<and> DQ \<notin> set cid \<and> NL \<notin> set cid \<and>
     CHR ''}'' \<notin> set cid \<and> CHR 0x00 \<notin> set cid"

definition info_ok :: "container_info \<Rightarrow> bool" where
  "info_ok v \<longleftrightarrow> id_ok (info_id v) \<and> int32_range (pid v) \<and> int32_range (state_code (cstate v)) \<and>
     state_of_code (state_code (cstate v)) = cstate v \<and>
     int64_range (created_at v) \<and> int64_range (started_at v) \<and> int64_range (stopped_at v)"

lemma scan_integer_space: "isspace c \<Longrightarrow> scan_integer (c # s) = scan_integer s"
  by (simp add: scan_integer_def scan_sign_def)

lemma isspace_simps [simp]: "isspace CHR '' ''" "\<not> isspace DQ" "\<not> is_blank DQ"
  by (simp_all add: isspace_def is_blank_def DQ_def)

lemma contains_quoted:
  "DQ \<notin> set rest \<Longrightarrow> contains (quoted key @ rest) (quoted k) \<longleftrightarrow> contains (quoted key) (quoted k)"
  by (rule contains_last) (simp_all add: quoted_def)

lemma after_key_eq: "after_key key (quoted key @ '':'' @ r) = Some r"
  by (simp add: after_key_def quoted_def Let_def)

lemma scan_key_d_eq:
  "int32_range n \<Longrightarrow> no_digit_ahead rest \<Longrightarrow> scan_key_d key (quoted key @ '': '' @ show_int n @ rest) x = n"
  using after_key_eq [of key "'' '' @ show_int n @ rest"]
  by (simp add: scan_key_d_def sscanf_d_def scan_integer_space scan_integer_show_int)

lemma scan_key_ld_eq:
  "int64_range n \<Longrightarrow> no_digit_ahead rest \<Longrightarrow> scan_key_ld key (quoted key @ '': '' @ show_int n @ rest) x = n"
  using after_key_eq [of key "'' '' @ show_int n @ rest"]
  by (simp add: scan_key_ld_def sscanf_ld_def scan_integer_space scan_integer_show_int)

lemma scan_id_eq:
  assumes "id_ok cid"
  shows "scan_id (quoted ''id'' @ '': '' @ DQ # cid @ DQ # rest) = Some cid"
proof -
  have "takeWhile (\<lambda>d. d \<noteq> DQ) (cid @ DQ # rest) = cid"
    using assms by (auto simp: id_ok_def takeWhile_append2 takeWhile_tail)
  then show ?thesis
    using assms after_key_eq [of "''id''" "'' '' @ DQ # cid @ DQ # rest"]
    by (simp add: scan_id_def id_ok_def Let_def)
qed

lemma contains_keys [simp]:
  "\<not> contains (quoted ''pid'') (quoted ''id'')"
  "\<not> contains (quoted ''state'') (quoted ''id'')" "\<not> contains (quoted ''state'') (quoted ''pid'')"
  "\<not> contains (quoted ''created_at'') (quoted ''id'')" "\<not> contains (quoted ''created_at'') (quoted ''pid'')"
  "\<not> contains (quoted ''created_at'') (quoted ''state'')"
  "\<not> contains (quoted ''started_at'') (quoted ''id'')" "\<not> contains (quoted ''started_at'') (quoted ''pid'')"
  "\<not> contains (quoted ''started_at'') (quoted ''state'')"
  "\<not> contains (quoted ''started_at'') (quoted ''created_at'')"
  "\<not> contains (quoted ''stopped_at'') (quoted ''id'')" "\<not> contains (quoted ''stopped_at'') (quoted ''pid'')"
  "\<not> contains (quoted ''stopped_at'') (quoted ''state'')"
  "\<not> contains (quoted ''stopped_at'') (quoted ''created_at'')"
  "\<not> contains (quoted ''stopped_at'') (quoted ''started_at'')"
  "\<not> contains (quoted ''containers'') (quoted ''id'')"
  by (simp_all add: contains_Cons contains_Nil quoted_def DQ_def)

lemma contains_self [simp]: "contains (quoted k) (quoted k)"
  by (simp add: contains_iff_sublist)

lemma contains_brace: "CHR ''}'' \<notin> set p \<Longrightarrow> \<not> contains p ''}'' \<and> \<not> contains p ''},''"
  by (auto simp: contains_iff_sublist dest: set_mono_sublist)

lemma c_str_id: "CHR 0x00 \<notin> set s \<Longrightarrow> c_str s = s"
  by (auto simp: c_str_def takeWhile_eq_all_conv)

lemma load_line_field:
  assumes "CHR 0x00 \<notin> set p" and "CHR ''}'' \<notin> set p" and "p = DQ # q"
  shows "load_line K (''      '' @ p) v = State_Monad.return (load_field p v)"
proof -
  have "c_str (''      '' @ p) = ''      '' @ p" using assms(1) by (intro c_str_id) simp
  moreover have "dropWhile is_blank (''      '' @ p) = p" using assms(3) by (simp add: is_blank_def DQ_def)
  moreover have "hd p \<notin> {NL, CHR ''{'', CHR ''['', CHR '']''}" using assms(3) by (simp add: DQ_def NL_def)
  ultimately show ?thesis
    using assms(3) contains_brace [OF assms(2)] by (simp add: load_line_def Let_def)
qed

definition entry_vars :: "container_info \<Rightarrow> int \<Rightarrow> load_vars" where
  "entry_vars v n = \<lparr>l_id = info_id v, l_pid = pid v, l_state = state_code (cstate v),
     l_created_at = created_at v, l_started_at = started_at v, l_stopped_at = stopped_at v,
     in_container = True, loaded = n\<rparr>"

lemma load_field_id:
  assumes "id_ok cid"
  shows "load_field (quoted ''id'' @ '': '' @ DQ # cid @ DQ # rest) v = v\<lparr>in_container := True, l_id := cid\<rparr>"
proof -
  have "contains (quoted ''id'' @ '': '' @ DQ # cid @ DQ # rest) (quoted ''id'')"
    unfolding contains_iff_sublist by (rule sublist_append_rightI)
  then show ?thesis unfolding load_field_def scan_id_eq [OF assms] by simp
qed

lemma load_field_numbers:
  assumes "in_container v" and "DQ \<notin> set rest" and "no_digit_ahead rest"
  shows "int32_range n \<Longrightarrow> load_field (quoted ''pid'' @ '': '' @ show_int n @ rest) v = v\<lparr>l_pid := n\<rparr>"
    and "int32_range n \<Longrightarrow> load_field (quoted ''state'' @ '': '' @ show_int n @ rest) v = v\<lparr>l_state := n\<rparr>"
    and "int64_range n \<Longrightarrow>
      load_field (quoted ''created_at'' @ '': '' @ show_int n @ rest) v = v\<lparr>l_created_at := n\<rparr>"
    and "int64_range n \<Longrightarrow>
      load_field (quoted ''started_at'' @ '': '' @ show_int n @ rest) v = v\<lparr>l_started_at := n\<rparr>"
    and "int64_range n \<Longrightarrow>
      load_field (quoted ''stopped_at'' @ '': '' @ show_int n @ rest) v = v\<lparr>l_stopped_at := n\<rparr>"
proof -
  have dq: "DQ \<notin> set ('': '' @ show_int n @ rest)" using assms(2) by (simp add: DQ_def [symmetric]) (simp add: DQ_def)
  note simps = load_field_def contains_quoted [OF dq] scan_key_d_eq [OF _ assms(3)] scan_key_ld_eq [OF _ assms(3)]
  show "int32_range n \<Longrightarrow> load_field (quoted ''pid'' @ '': '' @ show_int n @ rest) v = v\<lparr>l_pid := n\<rparr>"
    using assms(1) unfolding simps by simp
  show "int32_range n \<Longrightarrow> load_field (quoted ''state'' @ '': '' @ show_int n @ rest) v = v\<lparr>l_state := n\<rparr>"
    using assms(1) unfolding simps by simp
  show "int64_range n \<Longrightarrow>
      load_field (quoted ''created_at'' @ '': '' @ show_int n @ rest) v = v\<lparr>l_created_at := n\<rparr>"
    using assms(1) unfolding simps by simp
  show "int64_range n \<Longrightarrow>
      load_field (quoted ''started_at'' @ '': '' @ show_int n @ rest) v = v\<lparr>l_started_at := n\<rparr>"
    using assms(1) unfolding simps by simp
  show "int64_range n \<Longrightarrow>
      load_field (quoted ''stopped_at'' @ '': '' @ show_int n @ rest) v = v\<lparr>l_stopped_at := n\<rparr>"
    using assms(1) unfolding simps by simp
qed

lemma load_line_quoted:
  assumes "CHR 0x00 \<notin> set (key @ rest)" and "CHR ''}'' \<notin> set (key @ rest)"
  shows "load_line K (''      '' @ quoted key @ rest) v = State_Monad.return (load_field (quoted key @ rest) v)"
  using assms by (intro load_line_field [where q = "key @ DQ # rest"]) (auto simp: quoted_def DQ_def)

lemma load_line_open: "load_line K (''    {'' @ [NL]) v = State_Monad.return v"
  by (simp add: load_line_def c_str_def is_blank_def NL_def Let_def)

lemma load_line_close:
  assumes "in_container v" and "sep = [] \<or> sep = '',''"
  shows "load_line K (''    }'' @ sep @ [NL]) v = load_entry K v"
proof -
  define p where "p = ''}'' @ sep @ [NL]"
  have "DQ \<notin> set p" using assms(2) by (auto simp: p_def DQ_def NL_def)
  then have "\<not> contains p (quoted key)" for key
    using contains_last [of "quoted key" p "[]"] by (simp add: quoted_def contains_Nil)
  then have f: "load_field p v = v" by (simp add: load_field_def)
  have "c_str (''    '' @ p) = ''    '' @ p"
    using assms(2) by (intro c_str_id) (auto simp: p_def NL_def)
  moreover have "dropWhile is_blank (''    '' @ p) = p" by (simp add: is_blank_def p_def)
  moreover have "p \<noteq> []" "hd p \<notin> {NL, CHR ''{'', CHR ''['', CHR '']''}" by (simp_all add: p_def NL_def)
  moreover have "contains p ''}''" by (simp add: p_def contains_Cons)
  ultimately have "load_line K (''    '' @ p) v = load_entry K v"
    using assms(1) f by (simp add: load_line_def Let_def)
  then show ?thesis by (simp add: p_def)
qed

lemma entry_lines_quoted:
  "entry_lines info sep =
     [''    {'' @ [NL],
      ''      '' @ quoted ''id'' @ '': '' @ DQ # info_id info @ DQ # '','' @ [NL],
      ''      '' @ quoted ''pid'' @ '': '' @ show_int (pid info) @ '','' @ [NL],
      ''      '' @ quoted ''state'' @ '': '' @ show_int (state_code (cstate info)) @ '','' @ [NL],
      ''      '' @ quoted ''created_at'' @ '': '' @ show_int (created_at info) @ '','' @ [NL],
      ''      '' @ quoted ''started_at'' @ '': '' @ show_int (started_at info) @ '','' @ [NL],
      ''      '' @ quoted ''stopped_at'' @ '': '' @ show_int (stopped_at info) @ [NL],
      ''    }'' @ sep @ [NL]]"
  by (simp add: entry_lines_def quoted_def)

lemma nl_facts [simp]:
  "DQ \<noteq> NL" "NL \<noteq> DQ" "CHR ''}'' \<noteq> NL" "CHR ''}'' \<noteq> DQ" "NL \<noteq> CHR 0x00" "DQ \<noteq> CHR 0x00"
  "\<not> isdigit NL" "\<not> isdigit CHR '',''" "CHR 0x00 \<noteq> NL" "CHR 0x00 \<noteq> DQ"
  "DQ \<noteq> CHR '',''" "NL \<noteq> CHR '',''"
  by (simp_all add: DQ_def NL_def isdigit_def)

lemma load_lines_append:
  "load_lines K (xs @ ys) v = do { v \<leftarrow> load_lines K xs v; load_lines K ys v }"
  by (induction xs arbitrary: v) simp_all

lemma load_entry_lines:
  assumes "info_ok info" and "sep = [] \<or> sep = '',''"
  shows "load_lines K (entry_lines info sep) (load_start\<lparr>loaded := n\<rparr>) =
    load_entry K (entry_vars info n)"
proof -
  have cid: "id_ok (info_id info)" using assms(1) by (simp add: info_ok_def)
  then have "CHR 0x00 \<notin> set (info_id info)" "CHR ''}'' \<notin> set (info_id info)"
    by (simp_all add: id_ok_def)
  moreover have "no_digit_ahead ('','' @ [NL])" "no_digit_ahead [NL]" by simp_all
  ultimately show ?thesis
    using assms(1) unfolding entry_lines_quoted info_ok_def
    by (simp add: load_line_open load_line_quoted load_field_id [OF cid] load_field_numbers
        load_line_close assms(2) load_start_def entry_vars_def del: append.simps append_Cons)
qed

section \<open>Lemmas: entries\<close>

definition kept :: "(int \<Rightarrow> bool) \<Rightarrow> container_info \<Rightarrow> bool" where
  \<comment> \<open>the containers a load keeps: neither stopped nor destroyed, and alive if running\<close>
  "kept alive v \<longleftrightarrow> cstate v \<noteq> CONTAINER_STOPPED \<and> cstate v \<noteq> CONTAINER_DESTROYED \<and>
     (cstate v = CONTAINER_RUNNING \<longrightarrow> pid v > 0 \<and> alive (pid v))"

definition loaded_info :: "container_info \<Rightarrow> container_info" where
  "loaded_info v = v\<lparr>saved_config := None\<rparr>"

text \<open>What is needed of the kernel: probing with signal 0 tells live processes, memory is there.\<close>

definition probes :: "'w kernel \<Rightarrow> (int \<Rightarrow> bool) \<Rightarrow> bool" where
  "probes K alive \<longleftrightarrow> (\<forall>p w. p > 0 \<longrightarrow> (fst (k_kill K p SIG0 w) = Inl ESRCH \<longleftrightarrow> \<not> alive p))"

definition enough_memory :: "'w kernel \<Rightarrow> bool" where
  "enough_memory K \<longleftrightarrow> (\<forall>w. fst (k_alloc K w))"

lemma alloc_ok:
  assumes "enough_memory K"
  obtains w' where "k_alloc K w = (True, w')"
  using assms by (metis enough_memory_def fst_conv surj_pair)

lemma is_pid_alive_run:
  assumes "probes K alive"
  obtains w es where "run_state (is_pid_alive K p) s =
    (p > 0 \<and> alive p, s\<lparr>kst := w, trace := trace s @ es\<rparr>)"
proof (cases "p > 0")
  case True
  obtain r w where r: "k_kill K p SIG0 (kst s) = (r, w)" by fastforce
  then have "r = Inl ESRCH \<longleftrightarrow> \<not> alive p"
    using assms True by (metis probes_def fst_conv)
  then show ?thesis
    using r True by (intro that [where w = w and es = "[EKill p SIG0 r]"])
      (auto simp: is_pid_alive_def split: sum.splits)
next
  case False
  then show ?thesis by (intro that [where w = "kst s" and es = "[]"]) (simp add: is_pid_alive_def)
qed

lemma add_container_ok:
  assumes "enough_memory K"
  obtains w n where "run_state (add_container K info) s =
    (0, s\<lparr>kst := w, cman := (cman s)\<lparr>containers := containers (cman s) @ [info], max_containers := n\<rparr>\<rparr>)"
proof (cases "int (length (containers (cman s))) \<ge> max_containers (cman s)")
  case True
  obtain w where "k_alloc K (kst s) = (True, w)" using assms by (rule alloc_ok)
  then show ?thesis
    using True by (intro that [where w = w and n = "max_containers (grow (cman s))"])
      (simp add: add_container_def append_container_def grow_def)
next
  case False
  then show ?thesis
    by (intro that [where w = "kst s" and n = "max_containers (cman s)"])
      (simp add: add_container_def append_container_def)
qed

lemma state_codes [simp]:
  "state_code CONTAINER_CREATED = 0" "state_code CONTAINER_RUNNING = 1"
  "state_code CONTAINER_STOPPED = 2" "state_code CONTAINER_DESTROYED = 3"
  "state_of_code 0 = CONTAINER_CREATED" "state_of_code 1 = CONTAINER_RUNNING"
  by (simp_all add: state_code_def state_of_code_def)

lemma state_code_cases:
  assumes "state_of_code (state_code st) = st"
    and "st' \<in> {CONTAINER_CREATED, CONTAINER_RUNNING, CONTAINER_STOPPED, CONTAINER_DESTROYED}"
  shows "state_code st = state_code st' \<longleftrightarrow> st = st'"
  using assms by (cases st; cases st') (auto simp: state_code_def state_of_code_def split: if_splits)

lemma load_entry_run:
  assumes "probes K alive" and "enough_memory K" and "info_ok info"
    and "extract_numeric_id (Some (info_id info)) \<ge> 0"
  obtains w es m where "run_state (load_entry K (entry_vars info n)) s =
    (load_start\<lparr>loaded := n + (if kept alive info then 1 else 0)\<rparr>,
     s\<lparr>kst := w, trace := trace s @ es,
       cman := (cman s)\<lparr>containers := containers (cman s) @ (if kept alive info then [loaded_info info] else []),
         max_containers := m\<rparr>\<rparr>)"
proof -
  have code: "state_of_code (state_code (cstate info)) = cstate info" and ne: "info_id info \<noteq> []"
    using assms(3) by (simp_all add: info_ok_def id_ok_def)
  have eq: "state_code (cstate info) = 1 \<longleftrightarrow> cstate info = CONTAINER_RUNNING"
    "state_code (cstate info) = 2 \<longleftrightarrow> cstate info = CONTAINER_STOPPED"
    "state_code (cstate info) = 3 \<longleftrightarrow> cstate info = CONTAINER_DESTROYED"
    using state_code_cases [OF code, of CONTAINER_RUNNING] state_code_cases [OF code, of CONTAINER_STOPPED]
      state_code_cases [OF code, of CONTAINER_DESTROYED] by simp_all
  have same: "\<lparr>info_id = info_id info, pid = pid info, cstate = st, created_at = created_at info,
      started_at = started_at info, stopped_at = stopped_at info, saved_config = None\<rparr> = loaded_info info"
    if "cstate info = st" for st
    using that by (simp add: loaded_info_def)
  obtain w1 es where alive: "run_state (is_pid_alive K (pid info)) s =
      (pid info > 0 \<and> alive (pid info), s\<lparr>kst := w1, trace := trace s @ es\<rparr>)"
    using is_pid_alive_run [OF assms(1)] .
  define u where "u = (if cstate info = CONTAINER_RUNNING then s\<lparr>kst := w1, trace := trace s @ es\<rparr> else s)"
  obtain wu where wu: "k_alloc K (kst u) = (True, wu)" using assms(2) by (rule alloc_ok)
  define u' where "u' = u\<lparr>kst := wu\<rparr>"
  obtain w2 m where add: "run_state (add_container K (loaded_info info)) u' =
      (0, u'\<lparr>kst := w2, cman := (cman u')\<lparr>containers := containers (cman u') @ [loaded_info info], max_containers := m\<rparr>\<rparr>)"
    using add_container_ok [OF assms(2)] .
  obtain now w3 where now: "k_time K w1 = (now, w3)" by fastforce
  show thesis
  proof (cases "kept alive info")
    case True
    have "run_state (load_entry K (entry_vars info n)) s =
      (load_start\<lparr>loaded := n + 1\<rparr>, u'\<lparr>kst := w2,
         cman := (cman u')\<lparr>containers := containers (cman u') @ [loaded_info info], max_containers := m\<rparr>\<rparr>)"
      using True ne assms(4) add alive wu
      by (cases "cstate info = CONTAINER_RUNNING")
        (simp_all add: load_entry_def entry_vars_def eq kept_def loaded_id_def code same u_def u'_def)
    then show ?thesis
      using True
      by (intro that [where w = w2 and es = "if cstate info = CONTAINER_RUNNING then es else []" and m = m])
        (simp add: u_def u'_def)
  next
    case False
    then show ?thesis
      using ne alive now
      by (intro that [where w = "if cstate info = CONTAINER_RUNNING then w3 else kst s"
            and es = "if cstate info = CONTAINER_RUNNING then es else []" and m = "max_containers (cman s)"])
        (cases "cstate info = CONTAINER_RUNNING",
          auto simp: load_entry_def entry_vars_def eq kept_def load_start_def)
  qed
qed

lemma load_entries_run:
  assumes "probes K alive" and "enough_memory K"
    and "\<And>v. v \<in> set infos \<Longrightarrow> info_ok v \<and> extract_numeric_id (Some (info_id v)) \<ge> 0"
  shows "\<exists>w es m. run_state (load_lines K (entries_lines infos) (load_start\<lparr>loaded := n\<rparr>)) s =
    (load_start\<lparr>loaded := n + int (length (filter (kept alive) infos))\<rparr>,
     s\<lparr>kst := w, trace := trace s @ es,
       cman := (cman s)\<lparr>containers := containers (cman s) @ map loaded_info (filter (kept alive) infos),
         max_containers := m\<rparr>\<rparr>)"
  using assms(3)
proof (induction infos arbitrary: n s rule: entries_lines.induct)
  case 1
  show ?case
    by (rule exI [of _ "kst s"], rule exI [of _ "[]"], rule exI [of _ "max_containers (cman s)"]) simp
next
  case (2 info)
  have ok: "info_ok info" "extract_numeric_id (Some (info_id info)) \<ge> 0" using 2(1) by simp_all
  show ?case
    using load_entry_run [OF assms(1,2) ok, of n s] by (fastforce simp: load_entry_lines ok)
next
  case (3 info info2 infos)
  have ok: "info_ok info" "extract_numeric_id (Some (info_id info)) \<ge> 0" using 3(2) by simp_all
  define n' where "n' = n + (if kept alive info then 1 else 0)"
  obtain w es m where e: "run_state (load_entry K (entry_vars info n)) s =
    (load_start\<lparr>loaded := n'\<rparr>, s\<lparr>kst := w, trace := trace s @ es,
       cman := (cman s)\<lparr>containers := containers (cman s) @ (if kept alive info then [loaded_info info] else []),
         max_containers := m\<rparr>\<rparr>)" (is "_ = (_, ?u)")
    unfolding n'_def by (rule load_entry_run [OF assms(1,2) ok])
  have "run_state (load_lines K (entries_lines (info # info2 # infos)) (load_start\<lparr>loaded := n\<rparr>)) s =
      run_state (load_lines K (entries_lines (info2 # infos)) (load_start\<lparr>loaded := n'\<rparr>)) ?u"
    using e by (simp add: load_lines_append load_entry_lines ok)
  moreover obtain w' es' m' where
    "run_state (load_lines K (entries_lines (info2 # infos)) (load_start\<lparr>loaded := n'\<rparr>)) ?u =
    (load_start\<lparr>loaded := n' + int (length (filter (kept alive) (info2 # infos)))\<rparr>,
     ?u\<lparr>kst := w', trace := trace ?u @ es',
       cman := (cman ?u)\<lparr>containers := containers (cman ?u) @ map loaded_info (filter (kept alive) (info2 # infos)),
         max_containers := m'\<rparr>\<rparr>)"
    using 3(1) [of n' ?u] 3(2) by auto
  ultimately show ?case
    by (intro exI [of _ w'] exI [of _ "es @ es'"] exI [of _ m']) (simp add: n'_def)
qed

lemma show_int_length_long: "int64_range i \<Longrightarrow> length (show_int i) \<le> 20"
proof -
  assume i: "int64_range i"
  have "length (show_nat (nat \<bar>i\<bar>)) \<le> Suc 18"
    by (rule show_nat_length) (use i in \<open>simp add: int64_range_def nat_less_iff abs_less_iff\<close>)
  then show ?thesis using i by (cases "i < 0") (simp_all add: show_int_def)
qed

lemma number_line_ok:
  assumes "int64_range n" and "NL \<notin> set key" and "length key \<le> 20" and "rest = [] \<or> rest = '',''"
  shows "line_ok 1024 (''      '' @ quoted key @ '': '' @ show_int n @ rest @ [NL])"
proof -
  define b where "b = ''      '' @ quoted key @ '': '' @ show_int n @ rest"
  have "NL \<notin> set b" using assms by (auto simp: b_def quoted_def DQ_def NL_def [symmetric]) (auto simp: NL_def)
  moreover have "length b + 1 < 1024"
    using assms(3,4) show_int_length_long [OF assms(1)] by (auto simp: b_def quoted_def)
  ultimately have "line_ok 1024 (b @ [NL])" by (rule line_okI)
  then show ?thesis by (simp add: b_def)
qed

lemma entry_lines_ok:
  assumes "info_ok info" and "sep = [] \<or> sep = '',''" and "l \<in> set (entry_lines info sep)"
  shows "line_ok 1024 l"
proof -
  have num: "line_ok 1024 (''      '' @ quoted key @ '': '' @ show_int n @ '','' @ [NL])"
    "line_ok 1024 (''      '' @ quoted key @ '': '' @ show_int n @ [NL])"
    if "int64_range n" "key \<in> {''pid'', ''state'', ''created_at'', ''started_at'', ''stopped_at''}" for key n
  proof -
    have key: "NL \<notin> set key" "length key \<le> 20" using that(2) by (auto simp: NL_def)
    show "line_ok 1024 (''      '' @ quoted key @ '': '' @ show_int n @ '','' @ [NL])"
      using number_line_ok [OF that(1) key, of "'',''"] by simp
    show "line_ok 1024 (''      '' @ quoted key @ '': '' @ show_int n @ [NL])"
      using number_line_ok [OF that(1) key, of "[]"] by simp
  qed
  have cid: "length (info_id info) \<le> 255" "NL \<notin> set (info_id info)"
    using assms(1) by (simp_all add: info_ok_def id_ok_def)
  have idl: "line_ok 1024 (''      '' @ quoted ''id'' @ '': '' @ DQ # info_id info @ DQ # '','' @ [NL])"
    using line_okI [of "''      '' @ quoted ''id'' @ '': '' @ DQ # info_id info @ DQ # '',''" 1024] cid
    by (simp add: quoted_def NL_def DQ_def)
  have open_ok: "line_ok 1024 (''    {'' @ [NL])" by (simp add: line_ok_def NL_def)
  have close_ok: "line_ok 1024 (''    }'' @ sep @ [NL])" using assms(2) by (auto simp: line_ok_def NL_def)
  have ranges: "int64_range (pid info)" "int64_range (state_code (cstate info))"
    "int64_range (created_at info)" "int64_range (started_at info)" "int64_range (stopped_at info)"
    using assms(1) by (simp_all add: info_ok_def)
  have "list_all (line_ok 1024) (entry_lines info sep)"
    unfolding entry_lines_quoted list.pred_inject
    by (intro conjI open_ok idl num ranges close_ok TrueI) simp_all
  then show ?thesis using assms(3) by (simp only: list_all_iff)
qed

lemma state_lines_ok:
  assumes "\<And>v. v \<in> set infos \<Longrightarrow> info_ok v" and "l \<in> set (state_lines infos)"
  shows "line_ok 1024 l"
proof -
  have "line_ok 1024 k" if "k \<in> set (entries_lines infos)" for k
    using assms(1) that
    by (induction infos rule: entries_lines.induct) (auto intro: entry_lines_ok)
  then show ?thesis
    using assms(2) by (auto simp: state_lines_def line_ok_def NL_def DQ_def)
qed

lemma load_frame_lines:
  assumes "\<not> in_container v"
  shows "load_line K (''{'' @ [NL]) v = State_Monad.return v"
    and "load_line K (''  '' @ DQ # ''containers'' @ DQ # '': ['' @ [NL]) v = State_Monad.return v"
    and "load_line K (''  ]'' @ [NL]) v = State_Monad.return v"
    and "load_line K (''}'' @ [NL]) v = State_Monad.return v"
  using assms
  by (simp_all add: load_line_def load_field_def c_str_def is_blank_def NL_def DQ_def quoted_def
      contains_Cons contains_Nil Let_def)

lemma load_state_lines:
  "load_lines K (state_lines infos) load_start = do {
     v \<leftarrow> load_lines K (entries_lines infos) load_start;
     load_lines K [''  ]'' @ [NL], ''}'' @ [NL]] v }"
proof -
  have "\<not> in_container load_start" by (simp add: load_start_def)
  note frame = load_frame_lines [OF this]
  show ?thesis
    unfolding state_lines_def load_lines_append load_lines.simps frame bind_left_identity ..
qed

lemma get_state_file_path_same: "state_io_rel same_more (get_state_file_path K)"
  unfolding get_state_file_path_def by (intro more_rules)

lemma same_more_cman: "same_more s t \<Longrightarrow> cman t = cman s"
  by (cases s; cases t) (simp add: same_more_def)

section \<open>Properties\<close>


definition file_kernel :: "string \<Rightarrow> unit kernel" where
  \<comment> \<open>the calm kernel with a state file\<close>
  "file_kernel content = calm_kernel\<lparr>k_fopen_r := (\<lambda>_ m. (Some content, m))\<rparr>"

lemma file_kernel_ok: "probes (file_kernel c) (\<lambda>_. True)" "enough_memory (file_kernel c)"
  by (simp_all add: probes_def enough_memory_def file_kernel_def calm_kernel_def)

lemma numeric_id_small:
  "extract_numeric_id (Some ''1'') = 1" "extract_numeric_id (Some ''2'') = 2" "extract_numeric_id (Some ''a'') = - 1"
  by (simp_all add: extract_numeric_id_def strtol_def scan_integer_def
      scan_sign_def isspace_def isdigit_def digit_val_def clamp_long_def to_int32_def)

lemma loaded_id_small:
  "loaded_id (example_cm [] 10) ''a'' = ''1''" "loaded_id c ''1'' = ''1''"
proof -
  have "to_int32 1 = 1" by (simp add: to_int32_def)
  moreover have "show_int 1 = ''1''" by (simp add: show_int_def show_nat.simps [of "Suc 0"] digit_chars)
  ultimately show "loaded_id (example_cm [] 10) ''a'' = ''1''"
    by (simp add: loaded_id_def numeric_id_small example_cm_def)
  show "loaded_id c ''1'' = ''1''" by (simp add: loaded_id_def numeric_id_small)
qed

lemma example_info_ok:
  "cid \<in> {''1'', ''2'', ''a''} \<Longrightarrow> st \<in> {CONTAINER_CREATED, CONTAINER_RUNNING, CONTAINER_STOPPED} \<Longrightarrow>
     info_ok (example_info cid 100 st)"
  by (auto simp: info_ok_def example_info_def id_ok_def int32_range_def int64_range_def DQ_def NL_def
      state_of_code_def)


text \<open>
  Loading can break the uniqueness of ids: a file with a container named \<open>a\<close> followed
  by one named \<open>1\<close>, both of which the manager itself accepts and saves, loads as two containers
  with the id \<open>1\<close>; the first of them was renamed.
\<close>
theorem load_state_duplicate_ids:
  "map info_id (containers (cman (snd (run_state
      (load_state (file_kernel (concat (state_lines
        [example_info ''a'' 100 CONTAINER_CREATED, example_info ''1'' 100 CONTAINER_CREATED]))))
      (calm_prog (example_cm [] 10)))))) = [''1'', ''1'']"
proof -
  let ?a = "example_info ''a'' 100 CONTAINER_CREATED" and ?b = "example_info ''1'' 100 CONTAINER_CREATED"
  define K where "K = file_kernel (concat (state_lines [?a, ?b]))"
  have K: "k_alloc K w = (True, w)" "k_stat K q w = (Inr (), w)"
    "k_fopen_r K q w = (Some (concat (state_lines [?a, ?b])), w)" for w q
    by (simp_all add: K_def file_kernel_def calm_kernel_def)
  have ok: "info_ok ?a" "info_ok ?b" by (simp_all add: example_info_ok)
  then have lines: "fgets_lines 1024 (concat (state_lines [?a, ?b])) = state_lines [?a, ?b]"
    by (intro fgets_lines_concat state_lines_ok) auto
  have start: "load_start\<lparr>loaded := 0\<rparr> = load_start" by (simp add: load_start_def)
  have entries: "(load_lines K (entries_lines [?a, ?b]) load_start :: (unit, unit, load_vars) pio) =
      do { v \<leftarrow> load_entry K (entry_vars ?a 0); load_lines K (entry_lines ?b []) v }"
    by (simp add: load_lines_append load_entry_lines [OF ok(1), of "'',''" K 0, unfolded start])
  define s where "s = calm_prog (example_cm [] 10)"
  define s1 where "s1 = s\<lparr>cman := example_cm [loaded_info (?a\<lparr>info_id := ''1''\<rparr>)] 10\<rparr>"
  have e1: "run_state (load_entry K (entry_vars ?a 0)) s = (load_start\<lparr>loaded := 1\<rparr>, s1)"
    using loaded_id_small(1)
    by (simp add: load_entry_def entry_vars_def example_info_def add_container_def s_def s1_def
        calm_prog_def K append_container_def loaded_info_def) (simp add: example_cm_def)
  have e2: "ids (cman (snd (run_state (load_entry K (entry_vars ?b 1)) s1))) = [''1'', ''1'']
    \<and> \<not> in_container (fst (run_state (load_entry K (entry_vars ?b 1)) s1))"
    by (simp add: load_entry_def entry_vars_def example_info_def add_container_def s1_def s_def
        calm_prog_def example_cm_def K loaded_id_small append_container_def
        loaded_info_def ids_def load_start_def)
  obtain v t where vt: "run_state (load_entry K (entry_vars ?b 1)) s1 = (v, t)" by fastforce
  have all: "run_state (load_lines K (entries_lines [?a, ?b]) load_start) s = (v, t)"
    unfolding entries using e1 vt by (simp add: load_entry_lines [OF ok(2)])
  have "\<not> in_container v" using e2 vt by simp
  note frame = load_frame_lines [OF this]
  have same: "s\<lparr>kst := ()\<rparr> = s" by (simp add: s_def calm_prog_def)
  have "run_state (load_lines K (state_lines [?a, ?b]) load_start) (s\<lparr>kst := ()\<rparr>) = (v, t)"
    unfolding load_state_lines same using all
    by (simp only: run_state_bind prod.case load_lines.simps frame bind_left_identity run_state_return)
  then have "snd (run_state (load_state K) s) = t"
    using lines by (simp add: load_state_def get_state_file_path_def K)
  then show ?thesis using e2 vt by (simp add: K_def [symmetric] s_def [symmetric] ids_def)
qed

end
