(* ===== verification/Container_Manager.thy ===== *)
theory Container_Manager
  imports State_File
begin

text \<open>
  The operations of the container manager, \<open>src/src/container_manager.cpp\<close>: initialising, creating,
  starting, stopping, destroying and running containers, and running a command in one. Operations
  that walk the process tree or create a root filesystem carry fuel and answer \<open>None\<close> when it is
  used up. The manager object itself is part of the program state, so its null checks are not
  modelled; the null checks of the other arguments are.
\<close>

section \<open>Model\<close>

definition DEFAULT_MAX_CONTAINERS :: int where "DEFAULT_MAX_CONTAINERS = 10"

subsection \<open>Copying a configuration\<close>

definition strdup_ok :: "'w kernel \<Rightarrow> string option \<Rightarrow> ('w, 'z, bool) io" where
  \<comment> \<open>a string that is copied only when it is there: whether that worked\<close>
  "strdup_ok K s = (case s of None \<Rightarrow> State_Monad.return True | Some _ \<Rightarrow> c_alloc K)"

primrec copy_command :: "'w kernel \<Rightarrow> command \<Rightarrow> ('w, 'z, command option) io" where
  "copy_command K [] = State_Monad.return (Some [])"
| "copy_command K (arg # args) = do {
     got \<leftarrow> strdup_ok K arg;
     if \<not> got then State_Monad.return None
     else do {
       rest \<leftarrow> copy_command K args;
       State_Monad.return (map_option (Cons arg) rest)
     }
   }"

definition copy_container_config ::
  "'w kernel \<Rightarrow> container_config option \<Rightarrow> ('w, 'z, container_config option) io" where
  "copy_container_config K src0 =
     (case src0 of
        None \<Rightarrow> State_Monad.return None
      | Some src \<Rightarrow> do {
          got \<leftarrow> c_alloc K;
          if \<not> got then State_Monad.return None
          else do {
            got \<leftarrow> strdup_ok K (config_id src);
            if \<not> got then State_Monad.return None
            else do {
              got \<leftarrow> strdup_ok K (root_path src);
              if \<not> got then State_Monad.return None
              else do {
                got \<leftarrow> strdup_ok K (fs_root_path (fs_conf src));
                if \<not> got then State_Monad.return None
                else (case cmd src of
                    Some command \<Rightarrow>
                      if command_argc src > 0 then do {
                        got \<leftarrow> c_alloc K;
                        if \<not> got then State_Monad.return None
                        else do {
                          copied \<leftarrow> copy_command K (take (nat (command_argc src)) command);
                          State_Monad.return (map_option (\<lambda>args. src\<lparr>cmd := Some (args @ [None])\<rparr>) copied)
                        }
                      }
                      else State_Monad.return (Some (src\<lparr>cmd := None, command_argc := 0\<rparr>))
                  | None \<Rightarrow> State_Monad.return (Some (src\<lparr>cmd := None, command_argc := 0\<rparr>)))
              }
            }
          }
        })"

subsection \<open>Killing a process tree\<close>

definition task_path :: "int \<Rightarrow> string" where
  "task_path p = snprintf 256 (''/proc/'' @ show_int p @ ''/task'')"

definition children_path :: "int \<Rightarrow> string" where
  "children_path p = snprintf 256 (''/proc/'' @ show_int p @ ''/task/'' @ show_int p @ ''/children'')"

definition kill_thread :: "'w kernel \<Rightarrow> int \<Rightarrow> string \<Rightarrow> ('w, 'z, unit) io" where
  "kill_thread K p d_name =
     (if take 1 d_name = ''.'' then State_Monad.return ()
      else let tid = atoi d_name in
        if tid > 0 \<and> tid \<noteq> p then do { _ \<leftarrow> c_kill K tid SIGKILL; State_Monad.return () }
        else State_Monad.return ())"

definition kill_process :: "'w kernel \<Rightarrow> int \<Rightarrow> ('w, 'z, unit) io" where
  \<comment> \<open>the part of \<open>kill_process_tree\<close> about the process itself and its threads\<close>
  "kill_process K p = do {
     _ \<leftarrow> c_kill K p SIGTERM;
     _ \<leftarrow> c_usleep K 100000;
     r \<leftarrow> c_kill K p SIG0;
     _ \<leftarrow> (if ret_code r = 0 then do { _ \<leftarrow> c_kill K p SIGKILL; c_usleep K 50000 }
           else State_Monad.return ());
     dir \<leftarrow> c_opendir K (task_path p);
     (case dir of
        None \<Rightarrow> State_Monad.return ()
      | Some entries \<Rightarrow> for_each (kill_thread K p) entries)
   }"

primrec kill_process_tree :: "'w kernel \<Rightarrow> nat \<Rightarrow> int \<Rightarrow> ('w, 'z, unit option) io" where
  "kill_process_tree K 0 p = State_Monad.return None"
| "kill_process_tree K (Suc n) p =
     (if p \<le> 0 then oret ()
      else do {
        _ \<leftarrow> kill_process K p;
        fp \<leftarrow> c_fopen_r K (children_path p);
        (case fp of
           None \<Rightarrow> oret ()
         | Some content \<Rightarrow>
             ofor_each (\<lambda>child. if child > 0 then kill_process_tree K n child else oret ())
               (fscanf_ints content))
      })"

subsection \<open>Initialising\<close>

definition container_manager_init :: "'w kernel \<Rightarrow> int \<Rightarrow> ('w, 'z, int) pio" where
  "container_manager_init K max_n = do {
     _ \<leftarrow> upd_cm (\<lambda>c. c\<lparr>max_containers := (if max_n > 0 then max_n else DEFAULT_MAX_CONTAINERS),
                        containers := []\<rparr>);
     got \<leftarrow> c_alloc K;
     if \<not> got then State_Monad.return (- 1)
     else do {
       got \<leftarrow> c_alloc K;
       if \<not> got then State_Monad.return (- 1)
       else do {
         c \<leftarrow> get_cm;
         (r, m) \<leftarrow> resource_manager_init K (Some (rm c)) (Some ''mini_container'');
         _ \<leftarrow> upd_cm (\<lambda>c. c\<lparr>rm := the m\<rparr>);
         if r \<noteq> 0 then State_Monad.return (- 1)
         else do {
           n \<leftarrow> load_state K;
           _ \<leftarrow> (if n > 0 then save_state K else State_Monad.return ());
           State_Monad.return 0
         }
       }
     }
   }"

subsection \<open>Creating\<close>

definition new_info :: "string \<Rightarrow> int \<Rightarrow> container_config \<Rightarrow> container_info" where
  "new_info cid now config = \<lparr>info_id = cid, pid = 0, cstate = CONTAINER_CREATED, created_at = now,
     started_at = 0, stopped_at = 0, saved_config = Some config\<rparr>"

definition create_root :: "'w kernel \<Rightarrow> nat \<Rightarrow> fs_config \<Rightarrow> ('w, 'z, int option) io" where
  \<comment> \<open>the root filesystem of a new container, if it is asked for; populating it may fail\<close>
  "create_root K n fs =
     (if create_minimal_fs fs \<noteq> 0 then
        obind (fs_create_minimal_root K n (fs_root_path fs)) (\<lambda>r.
          if r \<noteq> 0 then oret (- 1)
          else obind (fs_populate_container_root K n (fs_root_path fs) (Some ''/'')) (\<lambda>_. oret 0))
      else oret 0)"

definition register_info ::
  "'w kernel \<Rightarrow> nat \<Rightarrow> container_manager \<Rightarrow> container_config \<Rightarrow> string \<Rightarrow> int \<Rightarrow> container_config \<Rightarrow>
     ('w, 'z, int option) pio" where
  \<comment> \<open>cgroup, root filesystem and table entry of a new container, undone when a later one fails\<close>
  "register_info K n c config cid now saved = do {
     r \<leftarrow> resource_manager_create_cgroup K (Some (rm c)) (Some cid) (res_limits config);
     if r \<noteq> 0 then oret (- 1)
     else obind (create_root K n (fs_conf config)) (\<lambda>r.
       if r \<noteq> 0 then do {
         _ \<leftarrow> resource_manager_destroy_cgroup K (Some (rm c)) (Some cid);
         oret (- 1)
       }
       else do {
         r \<leftarrow> add_container K (new_info cid now saved);
         if r \<noteq> 0 then do {
           _ \<leftarrow> resource_manager_destroy_cgroup K (Some (rm c)) (Some cid);
           oret (- 1)
         }
         else do { _ \<leftarrow> save_state K; oret 0 }
       })
   }"

definition choose_id :: "'w kernel \<Rightarrow> container_config \<Rightarrow> ('w, 'z, string option) pio" where
  "choose_id K config =
     (case config_id config of
        Some i \<Rightarrow> do { got \<leftarrow> c_alloc K; State_Monad.return (if got then Some i else None) }
      | None \<Rightarrow> generate_container_id K)"

definition container_manager_create ::
  "'w kernel \<Rightarrow> nat \<Rightarrow> container_config option \<Rightarrow> ('w, 'z, int option) pio" where
  "container_manager_create K n config0 =
     (case config0 of
        None \<Rightarrow> oret (- 1)
      | Some config \<Rightarrow> do {
          cid0 \<leftarrow> choose_id K config;
          (case cid0 of
             None \<Rightarrow> oret (- 1)
           | Some cid \<Rightarrow> do {
               c \<leftarrow> get_cm;
               if find_container c cid \<noteq> None then oret (- 1)
               else do {
                 got \<leftarrow> c_alloc K;
                 if \<not> got then oret (- 1)
                 else do {
                   now \<leftarrow> c_time K;
                   copied \<leftarrow> copy_container_config K (Some config);
                   (case copied of
                      None \<Rightarrow> oret (- 1)
                    | Some saved \<Rightarrow> register_info K n c config cid now saved)
                 }
               }
             })
        })"

subsection \<open>Starting\<close>

definition add_to_cgroup :: "'w kernel \<Rightarrow> resource_manager \<Rightarrow> string \<Rightarrow> int \<Rightarrow> ('w, 'z, unit) io" where
  \<comment> \<open>the callback handed to the namespace handler\<close>
  "add_to_cgroup K m cid p = do {
     _ \<leftarrow> resource_manager_add_process K (Some m) (Some cid) p;
     State_Monad.return ()
   }"

definition start_process ::
  "'w kernel \<Rightarrow> resource_manager \<Rightarrow> string \<Rightarrow> container_config \<Rightarrow> ('w, 'z, int) io" where
  "start_process K m cid config =
     namespace_create_container_with_cgroup K (Some (ns_config config)) (cmd config)
       (command_argc config) (Some (add_to_cgroup K m cid))"

definition set_running :: "int \<Rightarrow> int \<Rightarrow> container_info \<Rightarrow> container_info" where
  "set_running p now v = v\<lparr>pid := p, cstate := CONTAINER_RUNNING, started_at := now\<rparr>"

definition start_info ::
  "'w kernel \<Rightarrow> container_manager \<Rightarrow> nat \<Rightarrow> string \<Rightarrow> container_config \<Rightarrow> ('w, 'z, int) pio" where
  \<comment> \<open>the entry at \<open>i\<close> passed all checks\<close>
  "start_info K c i cid config = do {
     r \<leftarrow> resource_manager_create_cgroup K (Some (rm c)) (Some cid) (res_limits config);
     if r \<noteq> 0 then State_Monad.return (- 1)
     else do {
       p \<leftarrow> start_process K (rm c) cid config;
       if p = - 1 then State_Monad.return (- 1)
       else do {
         now \<leftarrow> c_time K;
         _ \<leftarrow> upd_info i (\<lambda>v. (set_running p now v)\<lparr>stopped_at := 0\<rparr>);
         _ \<leftarrow> save_state K;
         State_Monad.return 0
       }
     }
   }"

definition container_manager_start :: "'w kernel \<Rightarrow> string \<Rightarrow> ('w, 'z, int) pio" where
  "container_manager_start K cid = do {
     c \<leftarrow> get_cm;
     (case container_manager_get_info c cid of
        None \<Rightarrow> State_Monad.return (- 1)
      | Some i \<Rightarrow>
          (let info = containers c ! i in
           if cstate info = CONTAINER_RUNNING then State_Monad.return (- 1)
           else if cstate info = CONTAINER_DESTROYED then State_Monad.return (- 1)
           else if cstate info \<noteq> CONTAINER_CREATED \<and> cstate info \<noteq> CONTAINER_STOPPED
             then State_Monad.return (- 1)
           else (case saved_config info of
               None \<Rightarrow> State_Monad.return (- 1)
             | Some config \<Rightarrow> start_info K c i cid config)))
   }"

subsection \<open>Stopping\<close>

definition cgroup_procs_path :: "resource_manager \<Rightarrow> string \<Rightarrow> string" where
  "cgroup_procs_path m cid =
     (if version m = CGROUP_V2
      then snprintf 512 (''/sys/fs/cgroup/'' @ cgroup_path m @ ''_'' @ cid @ ''/cgroup.procs'')
      else snprintf 512 (''/sys/fs/cgroup/cpu,cpuacct/'' @ cgroup_path m @ ''_'' @ cid @ ''/tasks''))"

definition kill_cgroup :: "'w kernel \<Rightarrow> nat \<Rightarrow> string \<Rightarrow> ('w, 'z, unit option) io" where
  \<comment> \<open>the process trees of all processes listed in the cgroup\<close>
  "kill_cgroup K n path = do {
     fp \<leftarrow> c_fopen_r K path;
     (case fp of
        None \<Rightarrow> oret ()
      | Some content \<Rightarrow>
          ofor_each (\<lambda>p. if p > 0 then kill_process_tree K n p else oret ()) (fscanf_ints content))
   }"

primrec wait_loop :: "'w kernel \<Rightarrow> int \<Rightarrow> nat \<Rightarrow> ('w, 'z, bool) io" where
  \<comment> \<open>at most that many rounds of \<open>waitpid\<close> with \<open>WNOHANG\<close>: whether the process was reaped\<close>
  "wait_loop K p 0 = State_Monad.return False"
| "wait_loop K p (Suc n) = do {
     r \<leftarrow> c_waitpid_nohang K p;
     if r = p then State_Monad.return True
     else do { _ \<leftarrow> c_usleep K 100000; wait_loop K p n }
   }"

definition reap :: "'w kernel \<Rightarrow> int \<Rightarrow> ('w, 'z, unit) io" where
  "reap K p = do {
     waited \<leftarrow> wait_loop K p 50;
     if waited then State_Monad.return ()
     else do {
       r \<leftarrow> c_kill K p SIG0;
       if ret_code r = 0 then do {
         _ \<leftarrow> c_kill K p SIGKILL;
         _ \<leftarrow> c_usleep K 200000;
         _ \<leftarrow> c_waitpid_nohang K p;
         State_Monad.return ()
       }
       else State_Monad.return ()
     }
   }"

definition set_stopped :: "int \<Rightarrow> container_info \<Rightarrow> container_info" where
  "set_stopped now v = v\<lparr>cstate := CONTAINER_STOPPED, stopped_at := now\<rparr>"

definition stop_info ::
  "'w kernel \<Rightarrow> nat \<Rightarrow> container_manager \<Rightarrow> nat \<Rightarrow> ('w, 'z, int option) pio" where
  \<comment> \<open>the entry at \<open>i\<close> is running\<close>
  "stop_info K n c i = (
     let info = containers c ! i in
     obind (kill_cgroup K n (cgroup_procs_path (rm c) (info_id info))) (\<lambda>_.
       obind (kill_process_tree K n (pid info)) (\<lambda>_. do {
         _ \<leftarrow> reap K (pid info);
         now \<leftarrow> c_time K;
         _ \<leftarrow> upd_info i (set_stopped now);
         _ \<leftarrow> save_state K;
         oret 0
       })))"

definition container_manager_stop :: "'w kernel \<Rightarrow> nat \<Rightarrow> string \<Rightarrow> ('w, 'z, int option) pio" where
  "container_manager_stop K n cid = do {
     c \<leftarrow> get_cm;
     (case container_manager_get_info c cid of
        None \<Rightarrow> oret (- 1)
      | Some i \<Rightarrow>
          if cstate (containers c ! i) \<noteq> CONTAINER_RUNNING then oret (- 1)
          else stop_info K n c i)
   }"

subsection \<open>Destroying\<close>

definition container_manager_destroy :: "'w kernel \<Rightarrow> nat \<Rightarrow> string \<Rightarrow> ('w, 'z, int option) pio" where
  "container_manager_destroy K n cid = do {
     c \<leftarrow> get_cm;
     (case container_manager_get_info c cid of
        None \<Rightarrow> oret (- 1)
      | Some i \<Rightarrow>
          (let info = containers c ! i; actual = info_id info in
           obind (if cstate info = CONTAINER_RUNNING then container_manager_stop K n actual else oret 0)
             (\<lambda>_. do {
               _ \<leftarrow> resource_manager_destroy_cgroup K (Some (rm c)) (Some actual);
               _ \<leftarrow> upd_cm (remove_container cid);
               _ \<leftarrow> save_state K;
               oret 0
             })))
   }"

subsection \<open>Running a command in a container\<close>

datatype exec_result = Returned int | In_child child_result

definition WEXITSTATUS :: "int \<Rightarrow> int" where
  "WEXITSTATUS status = (status div 256) mod 256"

definition exec_child :: "'w kernel \<Rightarrow> int \<Rightarrow> command \<Rightarrow> ('w, 'z, child_result) io" where
  "exec_child K target_pid command = do {
     r \<leftarrow> namespace_join K target_pid CLONE_NEWPID;
     if r \<noteq> 0 then State_Monad.return (Exited EXIT_FAILURE)
     else do {
       r \<leftarrow> namespace_join K target_pid CLONE_NEWNS;
       if r \<noteq> 0 then State_Monad.return (Exited EXIT_FAILURE)
       else do {
         e \<leftarrow> c_execvp K (argv_of command);
         State_Monad.return (if e = None then Replaced else Exited EXIT_FAILURE)
       }
     }
   }"

definition container_manager_exec ::
  "'w kernel \<Rightarrow> string \<Rightarrow> command \<Rightarrow> int \<Rightarrow> ('w, 'z, exec_result) pio" where
  "container_manager_exec K cid command argc = do {
     c \<leftarrow> get_cm;
     (case find_container c cid of
        None \<Rightarrow> State_Monad.return (Returned (- 1))
      | Some i \<Rightarrow>
          if cstate (containers c ! i) \<noteq> CONTAINER_RUNNING then State_Monad.return (Returned (- 1))
          else do {
            r \<leftarrow> c_fork K;
            (case r of
               Inl _ \<Rightarrow> State_Monad.return (Returned (- 1))
             | Inr child \<Rightarrow>
                 if child = 0 then do {
                   x \<leftarrow> exec_child K (pid (containers c ! i)) command;
                   State_Monad.return (In_child x)
                 }
                 else do {
                   st \<leftarrow> c_waitpid K child;
                   State_Monad.return (Returned (case st of Inl _ \<Rightarrow> - 1 | Inr status \<Rightarrow> WEXITSTATUS status))
                 })
          })
   }"

subsection \<open>Creating and starting in one step\<close>

text \<open>The configuration the caller passes gets the generated id; it is part of the result.\<close>

definition run_created ::
  "'w kernel \<Rightarrow> nat \<Rightarrow> container_config \<Rightarrow> string \<Rightarrow> ('w, 'z, (int \<times> container_config option) option) pio" where
  "run_created K n config cid = do {
     c \<leftarrow> get_cm;
     let failed = obind (container_manager_destroy K n cid) (\<lambda>_. oret (- 1, Some config));
     (case find_container c cid of
        None \<Rightarrow> failed
      | Some i \<Rightarrow>
          (case saved_config (containers c ! i) of
             None \<Rightarrow> failed
           | Some saved \<Rightarrow>
               if cmd saved = None then failed
               else do {
                 p \<leftarrow> start_process K (rm c) cid saved;
                 if p = - 1 then failed
                 else do {
                   now \<leftarrow> c_time K;
                   _ \<leftarrow> upd_info i (set_running p now);
                   _ \<leftarrow> save_state K;
                   oret (0, Some config)
                 }
               }))
   }"

definition container_manager_run ::
  "'w kernel \<Rightarrow> nat \<Rightarrow> container_config option \<Rightarrow> ('w, 'z, (int \<times> container_config option) option) pio" where
  "container_manager_run K n config0 =
     (case config0 of
        None \<Rightarrow> oret (- 1, None)
      | Some config \<Rightarrow> do {
          cid0 \<leftarrow> (case config_id config of
                   Some i \<Rightarrow> State_Monad.return (Some i)
                 | None \<Rightarrow> generate_container_id K);
          (case cid0 of
             None \<Rightarrow> oret (- 1, Some config)
           | Some cid \<Rightarrow>
               (let config = config\<lparr>config_id := Some cid\<rparr> in
                obind (container_manager_create K n (Some config)) (\<lambda>r.
                  if r \<noteq> 0 then oret (- 1, Some config) else run_created K n config cid)))
        })"

definition container_manager_cleanup :: "'w kernel \<Rightarrow> ('w, 'z, unit) pio" where
  \<comment> \<open>the last save; the memory of the manager is released afterwards and not used again\<close>
  "container_manager_cleanup K = do {
     _ \<leftarrow> save_state K;
     upd_cm (\<lambda>c. c\<lparr>rm := the (resource_manager_cleanup (Some (rm c))), containers := []\<rparr>)
   }"

section \<open>Lemmas: operations that leave the table alone\<close>

definition signal_ok :: "event \<Rightarrow> bool" where
  \<comment> \<open>no signal to process 0, to every process (-1) or to a process group\<close>
  "signal_ok e \<longleftrightarrow> (case e of EKill p _ _ \<Rightarrow> p > 0 | _ \<Rightarrow> True)"

definition quiet :: "('w, 'z) os_scheme \<Rightarrow> ('w, 'z) os_scheme \<Rightarrow> bool" where
  "quiet s t \<longleftrightarrow> same_more s t \<and> only signal_ok s t"

interpretation quiet_frame: io_frame quiet
  by unfold_locales
    (auto simp: quiet_def intro: more_frame.frame_refl more_frame.frame_trans only_frame.frame_refl
      only_frame.frame_trans)

lemma quiet_ask: "state_io_rel quiet (ask f)"
  by (simp add: state_io_rel_def quiet_def same_more_def only_def split: prod.split)

lemma quiet_sys: "(\<And>a. signal_ok (e a)) \<Longrightarrow> state_io_rel quiet (sys e f)"
  by (simp add: state_io_rel_def quiet_def same_more_def only_def split: prod.split)

lemmas quiet_rules = quiet_frame.frame_combinators quiet_ask quiet_sys state_io_rel_cases

lemma quiet_mkdir_p: "state_io_rel quiet (mkdir_p K n p)"
proof (induction n arbitrary: p)
  case 0
  then show ?case by (simp add: quiet_frame.frame_return)
next
  case (Suc n)
  then show ?case by (auto simp: signal_ok_def intro!: quiet_rules split: option.split)
qed

lemma quiet_copy_loop: "state_io_rel quiet (copy_loop K n a b)"
proof (induction n)
  case 0
  then show ?case by (auto simp: signal_ok_def intro!: quiet_rules)
next
  case (Suc n)
  then show ?case by (auto simp: signal_ok_def intro!: quiet_rules)
qed

lemma quiet_create_root: "state_io_rel quiet (create_root K n fs)"
proof -
  have dirs: "state_io_rel quiet (create_dirs K n root ds)" for root ds
    by (induction ds) (auto intro!: quiet_rules quiet_mkdir_p)
  have devs: "state_io_rel quiet (create_devices K root ds)" for root ds
    by (induction ds) (auto simp: signal_ok_def intro!: quiet_rules)
  have copy: "state_io_rel quiet (copy_file K n a b)" for a b
    unfolding copy_file_def by (auto simp: signal_ok_def intro!: quiet_rules quiet_copy_loop)
  show ?thesis
    unfolding create_root_def fs_create_minimal_root_def fs_populate_container_root_def
    by (auto simp: signal_ok_def intro!: quiet_rules dirs devs copy)
qed

lemma quiet_write_file: "state_io_rel quiet (write_file K path v)"
  unfolding write_file_def by (auto simp: signal_ok_def intro!: quiet_rules)

lemma quiet_write_leaf: "state_io_rel quiet (write_leaf K d l v)"
  unfolding write_leaf_def by (intro quiet_rules quiet_write_file)

lemma quiet_read_file: "state_io_rel quiet (read_file K path n)"
  unfolding read_file_def by (auto simp: signal_ok_def intro!: quiet_rules)

lemma quiet_create_cgroup: "state_io_rel quiet (resource_manager_create_cgroup K m cid l)"
proof -
  have mk: "state_io_rel quiet (mkdir_exist_ok K p)" for p
    unfolding mkdir_exist_ok_def by (auto simp: signal_ok_def intro!: quiet_rules)
  have dirs: "state_io_rel quiet (make_cgroup_dirs K a b)" for a b
    unfolding make_cgroup_dirs_def by (intro quiet_rules mk)
  have cpus: "state_io_rel quiet (set_cpu_limits K a b d)" for a b d
    unfolding set_cpu_limits_def Let_def by (intro quiet_rules quiet_write_file quiet_write_leaf)
  have mem: "state_io_rel quiet (set_memory_limits K a b d)" for a b d
    unfolding set_memory_limits_def by (intro quiet_rules quiet_write_file)
  have lim: "state_io_rel quiet (set_limits K a b d)" for a b d
    unfolding set_limits_def by (intro quiet_rules cpus mem)
  show ?thesis
    unfolding resource_manager_create_cgroup_def by (intro quiet_rules dirs lim)
qed

lemma quiet_destroy_cgroup: "state_io_rel quiet (resource_manager_destroy_cgroup K m cid)"
  unfolding resource_manager_destroy_cgroup_def by (auto simp: signal_ok_def intro!: quiet_rules)

lemma quiet_add_process: "state_io_rel quiet (resource_manager_add_process K m cid p)"
proof -
  have tids: "state_io_rel quiet (add_tids K a es b)" for a es b
    by (induction es arbitrary: b) (auto intro!: quiet_rules quiet_write_file)
  have thr: "state_io_rel quiet (add_all_threads_to_cgroup K a b)" for a b
    unfolding add_all_threads_to_cgroup_def by (intro quiet_rules quiet_write_file tids)
  show ?thesis
    unfolding resource_manager_add_process_def by (intro quiet_rules quiet_write_file thr)
qed

lemma quiet_resource_manager_init: "state_io_rel quiet (resource_manager_init K m b)"
proof -
  have det: "state_io_rel quiet (detect_cgroup_version K)"
    unfolding detect_cgroup_version_def by (intro quiet_rules)
  show ?thesis
    unfolding resource_manager_init_def Let_def by (intro quiet_rules det quiet_read_file)
qed

lemma quiet_start_process: "state_io_rel quiet (start_process K m cid config)"
proof -
  have clone: "state_io_rel quiet (namespace_clone_process K fl)" for fl
    unfolding namespace_clone_process_def by (auto simp: signal_ok_def intro!: quiet_rules)
  have "state_io_rel quiet (add_to_cgroup K m cid p)" for p
    unfolding add_to_cgroup_def by (intro quiet_rules quiet_add_process)
  then show ?thesis
    unfolding start_process_def namespace_create_container_with_cgroup_def option.case prod.case
    by (intro quiet_rules clone)
qed

lemma quiet_get_cm: "state_io_rel quiet get_cm"
  by (simp add: state_io_rel_def quiet_frame.frame_refl)

lemma quiet_get_state_file_path: "state_io_rel quiet (get_state_file_path K)"
  unfolding get_state_file_path_def by (auto simp: signal_ok_def intro!: quiet_rules)

lemma quiet_save_state: "state_io_rel quiet (save_state K)"
  unfolding save_state_def
  by (auto simp: signal_ok_def intro!: quiet_rules quiet_get_cm quiet_get_state_file_path)

lemma quiet_copy_config: "state_io_rel quiet (copy_container_config K src)"
proof -
  have dup: "state_io_rel quiet (strdup_ok K x)" for x
    unfolding strdup_ok_def by (intro quiet_rules)
  have com: "state_io_rel quiet (copy_command K x)" for x
    by (induction x) (auto intro!: quiet_rules dup)
  show ?thesis unfolding copy_container_config_def by (intro quiet_rules dup com)
qed

lemma quiet_generate: "state_io_rel quiet (generate_container_id K)"
  unfolding generate_container_id_def by (intro quiet_rules quiet_get_cm)

lemma quiet_kill_process:
  assumes "p > 0"
  shows "state_io_rel quiet (kill_process K p)"
proof -
  have "state_io_rel quiet (kill_thread K p d)" for d
    unfolding kill_thread_def Let_def by (auto simp: signal_ok_def intro!: quiet_rules)
  then show ?thesis
    unfolding kill_process_def using assms by (auto simp: signal_ok_def intro!: quiet_rules)
qed

lemma quiet_kill_process_tree: "state_io_rel quiet (kill_process_tree K n p)"
proof (induction n arbitrary: p)
  case 0
  then show ?case by (simp add: quiet_frame.frame_return)
next
  case (Suc n)
  then show ?case by (auto intro!: quiet_rules quiet_kill_process)
qed

lemma quiet_kill_cgroup: "state_io_rel quiet (kill_cgroup K n path)"
  unfolding kill_cgroup_def by (intro quiet_rules quiet_kill_process_tree)

lemma quiet_wait_loop: "state_io_rel quiet (wait_loop K p n)"
  by (induction n) (auto simp: signal_ok_def intro!: quiet_rules)

lemma quiet_reap: "p > 0 \<Longrightarrow> state_io_rel quiet (reap K p)"
  unfolding reap_def by (auto simp: signal_ok_def intro!: quiet_rules quiet_wait_loop)

text \<open>A quiet operation: the table is as before and every signal went to a single process.\<close>

lemma quiet_run: "state_io_rel quiet m \<Longrightarrow> run_state m s = (a, t) \<Longrightarrow> quiet s t"
  by (rule state_io_relD)

lemma quiet_cman: "quiet s t \<Longrightarrow> cman t = cman s"
  by (simp add: quiet_def same_more_cman)

lemmas quiet_cmanD = quiet_cman [OF quiet_run]

text \<open>A relation on program states that every quiet operation keeps.\<close>

locale manager_frame = io_frame R for R :: "('w, 'z) prog_scheme \<Rightarrow> ('w, 'z) prog_scheme \<Rightarrow> bool" +
  assumes quiet_imp: "quiet s t \<Longrightarrow> R s t"
begin

lemma quiet_io: "state_io_rel quiet m \<Longrightarrow> state_io_rel R m"
  by (auto simp: state_io_rel_def intro: quiet_imp)

lemma quiet_ret: "state_io_rel quiet m \<Longrightarrow> state_ret_rel R m"
  by (rule state_io_imp_ret) (rule quiet_io)

end

lemmas keeps_cman =
  quiet_cmanD [OF quiet_create_cgroup] quiet_cmanD [OF quiet_destroy_cgroup]
  quiet_cmanD [OF quiet_start_process] quiet_cmanD [OF quiet_save_state]
  quiet_cmanD [OF quiet_create_root] quiet_cmanD [OF quiet_copy_config]
  quiet_cmanD [OF quiet_generate] quiet_cmanD [OF quiet_kill_process_tree]
  quiet_cmanD [OF quiet_kill_cgroup]

section \<open>Lemmas: outcomes of the operations\<close>

text \<open>
  What each operation does to the manager, case by case. \<open>update_at i f c\<close> is the effect of the
  assignments through the pointer to entry \<open>i\<close>.
\<close>

definition update_at ::
  "nat \<Rightarrow> (container_info \<Rightarrow> container_info) \<Rightarrow> container_manager \<Rightarrow> container_manager" where
  "update_at i f c = c\<lparr>containers := (containers c)[i := f (containers c ! i)]\<rparr>"

lemma run_upd_info_at: "run_state (upd_info i f) s = ((), s\<lparr>cman := update_at i f (cman s)\<rparr>)"
  by (simp add: update_at_def)

lemma save_state_cases:
  obtains t where "run_state (save_state K) s = ((), t)" and "cman t = cman s"
proof -
  obtain t where t: "run_state (save_state K) s = ((), t)"
    by (metis (full_types) old.unit.exhaust surj_pair)
  then have "cman t = cman s" by (rule keeps_cman)
  with t show thesis by (rule that)
qed

text \<open>\<open>clone\<close> answers a process id, which is positive, or fails.\<close>

definition clone_positive :: "'w kernel \<Rightarrow> bool" where
  "clone_positive K \<longleftrightarrow> (\<forall>fl w p w'. k_clone K fl w = (Inr p, w') \<longrightarrow> p > 0)"

lemma start_process_positive:
  assumes "clone_positive K" and "run_state (start_process K m cid config) s = (p, t)" and "p \<noteq> - 1"
  shows "p > 0"
proof -
  obtain r w where r: "k_clone K (ns_flags (ns_config config) OR SIGCHLD) (kst s) = (r, w)" by fastforce
  have "r = Inr p"
    using assms(2,3) r
    by (auto simp: start_process_def namespace_create_container_with_cgroup_def
        namespace_clone_process_def split: option.splits if_splits sum.splits prod.splits)
  then show ?thesis using assms(1) r by (auto simp: clone_positive_def)
qed

lemma start_info_cases:
  assumes "run_state (start_info K (cman s) i cid config) s = (r, t)"
  obtains (failed) "r = - 1" and "cman t = cman s"
  | (started) p now where "r = 0" and "clone_positive K \<Longrightarrow> p > 0"
    and "cman t = update_at i (\<lambda>w. (set_running p now w)\<lparr>stopped_at := 0\<rparr>) (cman s)"
proof -
  obtain r1 u where cg: "run_state (resource_manager_create_cgroup K (Some (rm (cman s))) (Some cid)
      (res_limits config)) s = (r1, u)" by fastforce
  obtain p v where sp: "run_state (start_process K (rm (cman s)) cid config) u = (p, v)" by fastforce
  have cm: "cman u = cman s" "cman v = cman s" using keeps_cman(1) [OF cg] keeps_cman(3) [OF sp] by simp_all
  show thesis
  proof (cases "r1 = 0 \<and> p \<noteq> - 1")
    case False
    then show ?thesis
      using assms cg sp cm by (intro failed) (auto simp: start_info_def split: if_splits)
  next
    case True
    obtain now w where now: "k_time K (kst v) = (now, w)" by fastforce
    define x where "x = v\<lparr>kst := w, cman := update_at i (\<lambda>v. (set_running p now v)\<lparr>stopped_at := 0\<rparr>) (cman s)\<rparr>"
    obtain t' where sv: "run_state (save_state K) x = ((), t')" "cman t' = cman x"
      by (rule save_state_cases)
    have "r = 0 \<and> t = t'"
      using assms cg sp True now sv(1) cm unfolding x_def start_info_def
      by (simp add: run_upd_info_at del: run_upd_info)
    then show ?thesis using start_process_positive [OF _ sp] sv(2) True by (intro started [of p now]) (simp_all add: x_def)
  qed
qed

lemma start_cases:
  assumes "run_state (container_manager_start K cid) s = (r, t)"
  obtains (failed) "r = - 1" and "cman t = cman s"
  | (started) i config p now where "r = 0" and "clone_positive K \<Longrightarrow> p > 0"
    and "container_manager_get_info (cman s) cid = Some i"
    and "cstate (containers (cman s) ! i) \<in> {CONTAINER_CREATED, CONTAINER_STOPPED}"
    and "saved_config (containers (cman s) ! i) = Some config"
    and "cman t = update_at i (\<lambda>w. (set_running p now w)\<lparr>stopped_at := 0\<rparr>) (cman s)"
proof (cases "r = - 1 \<and> t = s")
  case True
  then show thesis by (intro failed) auto
next
  case False
  then obtain i config where i: "container_manager_get_info (cman s) cid = Some i"
    and ok: "cstate (containers (cman s) ! i) \<in> {CONTAINER_CREATED, CONTAINER_STOPPED}"
      "saved_config (containers (cman s) ! i) = Some config"
    and run: "run_state (start_info K (cman s) i cid config) s = (r, t)"
    using assms by (auto simp: container_manager_start_def Let_def split: if_splits option.splits)
  from run show thesis
    by (rule start_info_cases) (use failed started [OF _ _ i ok] in blast)+
qed

lemma stop_info_cases:
  assumes "run_state (stop_info K n (cman s) i) s = (Some r, t)" and "pid (containers (cman s) ! i) > 0"
  obtains now where "r = 0" and "cman t = update_at i (set_stopped now) (cman s)" and "only signal_ok s t"
proof -
  define info where "info = containers (cman s) ! i"
  obtain u where k1: "run_state (kill_cgroup K n (cgroup_procs_path (rm (cman s)) (info_id info))) s = (Some (), u)"
    and rest1: "run_state (obind (kill_process_tree K n (pid info)) (\<lambda>_. do {
         _ \<leftarrow> reap K (pid info);
         now \<leftarrow> c_time K;
         _ \<leftarrow> upd_info i (set_stopped now);
         _ \<leftarrow> save_state K;
         oret 0
       })) u = (Some r, t)"
    using assms(1) unfolding stop_info_def Let_def info_def by (elim run_obindE) simp
  obtain v where k2: "run_state (kill_process_tree K n (pid info)) u = (Some (), v)"
    and rest2: "run_state (do {
         _ \<leftarrow> reap K (pid info);
         now \<leftarrow> c_time K;
         _ \<leftarrow> upd_info i (set_stopped now);
         _ \<leftarrow> save_state K;
         oret 0
       }) v = (Some r, t)"
    using rest1 by (elim run_obindE) simp
  obtain w where k3: "run_state (reap K (pid info)) v = ((), w)"
    by (metis (full_types) old.unit.exhaust surj_pair)
  obtain now kw where now: "k_time K (kst w) = (now, kw)" by fastforce
  define x where "x = w\<lparr>kst := kw, cman := update_at i (set_stopped now) (cman w)\<rparr>"
  obtain t' where sv: "run_state (save_state K) x = ((), t')" "cman t' = cman x" by (rule save_state_cases)
  have t: "r = 0" "t = t'"
    using rest2 k3 now sv(1) unfolding x_def by (simp_all add: run_upd_info_at del: run_upd_info)
  have q: "quiet s u" "quiet u v" "quiet v w" "quiet x t'"
    using quiet_run [OF quiet_kill_cgroup k1] quiet_run [OF quiet_kill_process_tree k2]
      quiet_run [OF quiet_reap k3] quiet_run [OF quiet_save_state sv(1)] assms(2)
    by (simp_all add: info_def)
  then have sw: "quiet s w" by (meson quiet_frame.frame_trans)
  then have "cman w = cman s" by (rule quiet_cman)
  then have "cman t = update_at i (set_stopped now) (cman s)" using t sv(2) by (simp add: x_def)
  moreover have "only signal_ok s t"
    using sw q(4) t by (auto simp: quiet_def only_def x_def)
  ultimately show thesis using t(1) by (intro that)
qed

definition running_pids :: "container_manager \<Rightarrow> bool" where
  "running_pids c \<longleftrightarrow> (\<forall>v\<in>set (containers c). cstate v = CONTAINER_RUNNING \<longrightarrow> pid v > 0)"

lemma get_info_index: "container_manager_get_info c cid = Some i \<Longrightarrow> i < length (containers c)"
  by (auto simp: container_manager_get_info_def find_container_by_pid_def dest: find_container_Some
      index_of_Some split: option.splits prod.splits if_splits)

lemma get_info_id: "find_container c cid = Some i \<Longrightarrow> container_manager_get_info c cid = Some i"
  by (simp add: container_manager_get_info_def)

lemma running_pidsD:
  "running_pids c \<Longrightarrow> i < length (containers c) \<Longrightarrow> cstate (containers c ! i) = CONTAINER_RUNNING \<Longrightarrow>
     pid (containers c ! i) > 0"
  by (simp add: running_pids_def)

lemma stop_cases:
  assumes "run_state (container_manager_stop K n cid) s = (Some r, t)" and "running_pids (cman s)"
  obtains (failed) "r = - 1" and "t = s"
      and "\<And>i. container_manager_get_info (cman s) cid = Some i \<Longrightarrow>
             cstate (containers (cman s) ! i) \<noteq> CONTAINER_RUNNING"
  | (stopped) i now where "r = 0" and "container_manager_get_info (cman s) cid = Some i"
      and "cstate (containers (cman s) ! i) = CONTAINER_RUNNING"
      and "cman t = update_at i (set_stopped now) (cman s)" and "only signal_ok s t"
proof (cases "\<exists>i. container_manager_get_info (cman s) cid = Some i \<and>
    cstate (containers (cman s) ! i) = CONTAINER_RUNNING")
  case False
  then have "r = - 1 \<and> t = s"
    using assms(1) by (auto simp: container_manager_stop_def split: option.splits if_splits)
  then show thesis using False by (intro failed) auto
next
  case True
  then obtain i where i: "container_manager_get_info (cman s) cid = Some i"
    "cstate (containers (cman s) ! i) = CONTAINER_RUNNING" by blast
  then have run: "run_state (stop_info K n (cman s) i) s = (Some r, t)"
    using assms(1) by (simp add: container_manager_stop_def)
  have "pid (containers (cman s) ! i) > 0"
    using assms(2) get_info_index [OF i(1)] i(2) by (rule running_pidsD)
  with run obtain now where "r = 0" "cman t = update_at i (set_stopped now) (cman s)" "only signal_ok s t"
    by (rule stop_info_cases)
  then show thesis using i by (intro stopped)
qed

lemma quiet_only: "state_io_rel quiet m \<Longrightarrow> state_io_rel (only signal_ok) m"
  by (auto simp: state_io_rel_def quiet_def)

lemma only_upd_cm: "state_io_rel (only P) (upd_cm f)"
  by (simp add: state_io_rel_def only_def)

lemma destroy_cases:
  assumes "run_state (container_manager_destroy K n cid) s = (Some r, t)"
    and "running_pids (cman s)" and "ids_distinct (cman s)"
  obtains (missing) "r = - 1" and "t = s" and "container_manager_get_info (cman s) cid = None"
  | (removed) i now where "r = 0" and "container_manager_get_info (cman s) cid = Some i"
      and "cman t = remove_container cid
             (if cstate (containers (cman s) ! i) = CONTAINER_RUNNING
              then update_at i (set_stopped now) (cman s) else cman s)"
      and "only signal_ok s t"
proof (cases "container_manager_get_info (cman s) cid")
  case None
  then show thesis using assms(1) by (intro missing) (simp_all add: container_manager_destroy_def)
next
  case (Some i)
  define info where "info = containers (cman s) ! i"
  define stop where "stop = (if cstate info = CONTAINER_RUNNING
    then container_manager_stop K n (info_id info) else oret 0 :: ('a, 'b, int option) pio)"
  have "run_state (obind stop (\<lambda>_. do {
      _ \<leftarrow> resource_manager_destroy_cgroup K (Some (rm (cman s))) (Some (info_id info));
      _ \<leftarrow> upd_cm (remove_container cid);
      _ \<leftarrow> save_state K;
      oret 0 })) s = (Some r, t)"
    using assms(1) Some by (auto simp: container_manager_destroy_def Let_def info_def stop_def split: if_splits)
  then obtain r1 u where st: "run_state stop s = (Some r1, u)"
    and rest: "run_state (do {
      _ \<leftarrow> resource_manager_destroy_cgroup K (Some (rm (cman s))) (Some (info_id info));
      _ \<leftarrow> upd_cm (remove_container cid);
      _ \<leftarrow> save_state K;
      oret 0 }) u = (Some r, t)"
    by (rule run_obindE)
  have i: "i < length (containers (cman s))" using Some by (rule get_info_index)
  have "container_manager_get_info (cman s) (info_id info) = Some i"
    using find_container_unique [OF assms(3) i] by (simp add: info_def get_info_id)
  then obtain now where u: "cman u = (if cstate info = CONTAINER_RUNNING
      then update_at i (set_stopped now) (cman s) else cman s)" and su: "only signal_ok s u"
    using st by (cases "cstate info = CONTAINER_RUNNING")
      (auto simp: stop_def info_def only_frame.frame_refl elim!: stop_cases [OF _ assms(2)])
  obtain r2 v where dc: "run_state (resource_manager_destroy_cgroup K (Some (rm (cman s))) (Some (info_id info))) u = (r2, v)"
    by fastforce
  define x where "x = v\<lparr>cman := remove_container cid (cman v)\<rparr>"
  obtain t' where sv: "run_state (save_state K) x = ((), t')" "cman t' = cman x" by (rule save_state_cases)
  have t: "r = 0" "t = t'" using rest dc sv(1) by (simp_all add: x_def)
  have "cman v = cman u" using dc by (rule keeps_cman)
  then have "cman t = remove_container cid (cman u)" using t sv(2) by (simp add: x_def)
  moreover have "only signal_ok u v" using quiet_only [OF quiet_destroy_cgroup] dc by (rule only_run)
  moreover have "only signal_ok x t'" using quiet_only [OF quiet_save_state] sv(1) by (rule only_run)
  then have "only signal_ok v t" using t by (simp add: x_def only_def)
  ultimately show thesis
    using t(1) Some u su
    by (intro removed [of i now]) (auto simp: info_def intro: only_frame.frame_trans)
qed

definition copied_config :: "container_config \<Rightarrow> container_config" where
  "copied_config src =
     (if cmd src \<noteq> None \<and> command_argc src > 0
      then src\<lparr>cmd := Some (take (nat (command_argc src)) (the (cmd src)) @ [None])\<rparr>
      else src\<lparr>cmd := None, command_argc := 0\<rparr>)"

lemma copy_command_eq: "run_state (copy_command K args) s = (Some out, t) \<Longrightarrow> out = args"
  by (induction args arbitrary: s out) (auto split: prod.splits if_splits)

lemma copy_config_eq:
  "run_state (copy_container_config K (Some src)) s = (Some out, t) \<Longrightarrow> out = copied_config src"
  by (auto simp: copied_config_def copy_container_config_def dest!: copy_command_eq
      split: prod.splits if_splits option.splits)

lemma add_container_cases:
  assumes "run_state (add_container K info) s = (r, t)"
  obtains (full) "r = - 1" and "cman t = cman s"
  | (added) m where "r = 0" and "cman t = (append_container info (cman s))\<lparr>max_containers := m\<rparr>"
proof (cases "r = 0")
  case True
  then show thesis
    using assms
    by (intro added [of "max_containers (cman t)"])
      (auto simp: add_container_def append_container_def grow_def split: prod.splits if_splits)
next
  case False
  then show thesis
    using assms by (intro full) (auto simp: add_container_def split: prod.splits if_splits)
qed

lemma register_cases:
  assumes "run_state (register_info K n (cman s) config cid now saved) s = (Some r, t)"
  obtains (failed) "r = - 1" and "cman t = cman s"
  | (registered) m where "r = 0"
      and "cman t = (append_container (new_info cid now saved) (cman s))\<lparr>max_containers := m\<rparr>"
proof -
  obtain r1 u where cg: "run_state (resource_manager_create_cgroup K (Some (rm (cman s))) (Some cid)
      (res_limits config)) s = (r1, u)" by fastforce
  have cu: "cman u = cman s" using cg by (rule keeps_cman)
  show thesis
  proof (cases "r1 = 0")
    case False
    then show ?thesis using assms cg cu by (intro failed) (simp_all add: register_info_def)
  next
    case True
    then obtain r2 v where cr: "run_state (create_root K n (fs_conf config)) u = (Some r2, v)"
      and rest: "run_state (if r2 \<noteq> 0 then do {
           _ \<leftarrow> resource_manager_destroy_cgroup K (Some (rm (cman s))) (Some cid); oret (- 1) }
         else do {
           r \<leftarrow> add_container K (new_info cid now saved);
           if r \<noteq> 0 then do {
             _ \<leftarrow> resource_manager_destroy_cgroup K (Some (rm (cman s))) (Some cid);
             oret (- 1)
           }
           else do { _ \<leftarrow> save_state K; oret 0 }
         }) v = (Some r, t)"
      using assms cg by (auto simp: register_info_def split: prod.splits option.splits)
    have cv: "cman v = cman s" using keeps_cman(5) [OF cr] cu by simp
    obtain r3 w where ac: "run_state (add_container K (new_info cid now saved)) v = (r3, w)" by fastforce
    show ?thesis
    proof (cases "r2 = 0 \<and> r3 = 0")
      case True
      obtain t' where sv: "run_state (save_state K) w = ((), t')" "cman t' = cman w" by (rule save_state_cases)
      have "r = 0" "t = t'" using rest True ac sv(1) by simp_all
      then show ?thesis
        using ac True sv(2) cv by (elim add_container_cases) (auto intro: registered)
    next
      case False
      have cw: "r3 \<noteq> 0 \<Longrightarrow> cman w = cman s" using ac cv by (elim add_container_cases) auto
      show ?thesis
        using rest ac False cv cw
        by (intro failed) (auto split: if_splits prod.splits dest!: keeps_cman(2))
    qed
  qed
qed

definition chosen_id :: "container_config \<Rightarrow> container_manager \<Rightarrow> string" where
  "chosen_id config c = (case config_id config of Some i \<Rightarrow> i | None \<Rightarrow> next_container_id c)"

lemma choose_id_cases:
  assumes "run_state (choose_id K config) s = (x, t)"
  shows "cman t = cman s" and "x = None \<or> x = Some (chosen_id config (cman s))"
  using assms
  by (auto simp: choose_id_def chosen_id_def generate_container_id_def split: option.splits prod.splits)

lemma create_cases:
  assumes "run_state (container_manager_create K n (Some config)) s = (Some r, t)"
  obtains (failed) "r = - 1" and "cman t = cman s"
  | (created) now m where "r = 0" and "find_container (cman s) (chosen_id config (cman s)) = None"
      and "cman t = (append_container (new_info (chosen_id config (cman s)) now (copied_config config))
             (cman s))\<lparr>max_containers := m\<rparr>"
proof -
  define cid where "cid = chosen_id config (cman s)"
  obtain x u where ch: "run_state (choose_id K config) s = (x, u)" by fastforce
  have cu: "cman u = cman s" and x: "x = None \<or> x = Some cid"
    using choose_id_cases [OF ch] by (simp_all add: cid_def)
  show thesis
  proof (cases "x = Some cid \<and> find_container (cman s) cid = None")
    case False
    then show ?thesis
      using assms ch cu x by (intro failed) (auto simp: container_manager_create_def)
  next
    case True
    obtain got w1 where al: "k_alloc K (kst u) = (got, w1)" by fastforce
    obtain now w2 where tm: "k_time K w1 = (now, w2)" by fastforce
    define v where "v = u\<lparr>kst := w2\<rparr>"
    obtain y w where cp: "run_state (copy_container_config K (Some config)) v = (y, w)" by fastforce
    have cw: "cman w = cman s" using keeps_cman(6) [OF cp] cu by (simp add: v_def)
    show ?thesis
    proof (cases "got \<and> y \<noteq> None")
      case False
      then show ?thesis
        using assms ch cu cw al tm cp True
        by (intro failed) (auto simp: container_manager_create_def v_def split: if_splits)
    next
      case ok: True
      then obtain saved where y: "y = Some saved" by blast
      then have saved: "saved = copied_config config" using cp copy_config_eq by blast
      have "run_state (register_info K n (cman w) config cid now saved) w = (Some r, t)"
        using assms ch cu cw al tm cp True ok y by (simp add: container_manager_create_def v_def)
      then show ?thesis
      proof (rule register_cases)
        assume "r = - 1" "cman t = cman w"
        then show ?thesis using cw by (intro failed) simp_all
      next
        fix m
        assume "r = 0" "cman t = (append_container (new_info cid now saved) (cman w))\<lparr>max_containers := m\<rparr>"
        then show ?thesis
          using cw saved True by (intro created [where now = now and m = m]) (simp_all add: cid_def)
      qed
    qed
  qed
qed

end
