(* ===== verification/Lifecycle.thy ===== *)
theory Lifecycle
  imports Container_Manager
begin

text \<open>
  The life cycle of containers: an abstract specification (a map from ids to states with four kinds
  of step), the proof that every operation of the manager refines it, the invariant of the manager
  over arbitrary sequences of operations, and the properties of the single operations.
\<close>

section \<open>Lemmas: the manager refines the table\<close>

definition wf_cm :: "container_manager \<Rightarrow> bool" where
  "wf_cm c \<longleftrightarrow> ids_distinct c \<and> running_pids c"

definition states_of :: "container_manager \<Rightarrow> string \<Rightarrow> container_state option" where
  "states_of c = (\<lambda>cid. map_option cstate (lookup_info c cid))"

lemma states_of_view: "states_of c = container_table.view cstate c"
  by (simp add: states_of_def container_table.view_def)

lemma max_irrelevant [simp]:
  "lookup_info (c\<lparr>max_containers := m\<rparr>) cid = lookup_info c cid"
  "ids_distinct (c\<lparr>max_containers := m\<rparr>) = ids_distinct c"
  "running_pids (c\<lparr>max_containers := m\<rparr>) = running_pids c"
  "states_of (c\<lparr>max_containers := m\<rparr>) = states_of c"
  "wf_cm (c\<lparr>max_containers := m\<rparr>) = wf_cm c"
  by (simp_all add: lookup_info_def find_container_def ids_distinct_def ids_def running_pids_def
      states_of_def wf_cm_def)

lemma update_at_modify:
  "ids_distinct c \<Longrightarrow> i < length (containers c) \<Longrightarrow>
     update_at i f c = modify_container (info_id (containers c ! i)) f c"
  by (simp add: update_at_def modify_container_def find_container_unique)

lemma lookup_nth:
  "ids_distinct c \<Longrightarrow> i < length (containers c) \<Longrightarrow>
     lookup_info c (info_id (containers c ! i)) = Some (containers c ! i)"
  by (simp add: lookup_info_Some_iff)

lemma update_at_refines:
  assumes "ids_distinct c" and "i < length (containers c)" and "\<And>v. info_id (f v) = info_id v"
  shows "ids_distinct (update_at i f c)"
    and "states_of (update_at i f c) =
      (states_of c)(info_id (containers c ! i) \<mapsto> cstate (f (containers c ! i)))"
  using container_table.inv_modify [OF assms(1,3)]
    container_table.view_modify [OF assms(1,3) lookup_nth [OF assms(1,2)]]
  by (simp_all add: update_at_modify [OF assms(1,2)] states_of_view)

lemma update_at_running:
  assumes "running_pids c"
    and "cstate (f (containers c ! i)) = CONTAINER_RUNNING \<Longrightarrow> pid (f (containers c ! i)) > 0"
  shows "running_pids (update_at i f c)"
  using assms set_update_subset_insert [of "containers c" i "f (containers c ! i)"]
  by (fastforce simp: running_pids_def update_at_def)

lemma remove_running: "ids_distinct c \<Longrightarrow> running_pids c \<Longrightarrow> running_pids (remove_container cid c)"
  by (simp add: running_pids_def containers_remove)

lemma remove_wf: "wf_cm c \<Longrightarrow> wf_cm (remove_container cid c)"
  by (simp add: wf_cm_def remove_running container_table.inv_delete)

lemma remove_states: "ids_distinct c \<Longrightarrow> states_of (remove_container cid c) = (states_of c)(cid := None)"
  by (simp add: states_of_view container_table.view_delete)

lemma append_wf:
  assumes "wf_cm c" and "find_container c (info_id v) = None"
    and "cstate v = CONTAINER_RUNNING \<Longrightarrow> pid v > 0"
  shows "wf_cm (append_container v c)"
    and "states_of (append_container v c) = (states_of c)(info_id v \<mapsto> cstate v)"
proof -
  have "lookup_info c (info_id v) = None" using assms(2) by (simp add: lookup_info_def)
  then show "wf_cm (append_container v c)"
    and "states_of (append_container v c) = (states_of c)(info_id v \<mapsto> cstate v)"
    using assms container_table.inv_insert [of c v] container_table.view_insert [of c v cstate]
    by (auto simp: wf_cm_def states_of_view running_pids_def)
qed

lemma states_of_nth:
  "ids_distinct c \<Longrightarrow> i < length (containers c) \<Longrightarrow>
     states_of c (info_id (containers c ! i)) = Some (cstate (containers c ! i))"
  by (simp add: states_of_def lookup_nth)

lemma set_running_simps [simp]:
  "info_id (set_running p now v) = info_id v" "cstate (set_running p now v) = CONTAINER_RUNNING"
  "pid (set_running p now v) = p" "info_id (set_stopped now v) = info_id v"
  "cstate (set_stopped now v) = CONTAINER_STOPPED" "pid (set_stopped now v) = pid v"
  "info_id (new_info cid now sv) = cid" "cstate (new_info cid now sv) = CONTAINER_CREATED"
  "saved_config (new_info cid now sv) = Some sv"
  by (simp_all add: set_running_def set_stopped_def new_info_def)

section \<open>The life cycle\<close>

text \<open>
  The abstract specification of the manager: a map from ids to states, changed by four kinds of
  step.
\<close>

inductive lifecycle ::
  "(string \<Rightarrow> container_state option) \<Rightarrow> (string \<Rightarrow> container_state option) \<Rightarrow> bool" where
  create: "m cid = None \<Longrightarrow> lifecycle m (m(cid \<mapsto> CONTAINER_CREATED))"
| start: "m cid = Some st \<Longrightarrow> st \<in> {CONTAINER_CREATED, CONTAINER_STOPPED} \<Longrightarrow>
    lifecycle m (m(cid \<mapsto> CONTAINER_RUNNING))"
| stop: "m cid = Some CONTAINER_RUNNING \<Longrightarrow> lifecycle m (m(cid \<mapsto> CONTAINER_STOPPED))"
| destroy: "m cid = Some st \<Longrightarrow> st \<noteq> CONTAINER_RUNNING \<Longrightarrow> lifecycle m (m(cid := None))"

inductive_cases lifecycleE: "lifecycle m m'"

lemma lifecycle_one: "lifecycle m m' \<Longrightarrow> lifecycle\<^sup>*\<^sup>* m m'"
  by (rule r_into_rtranclp)

text \<open>
  An operation refines the specification when it keeps the manager well-formed, its effect on the
  states is a sequence of steps of the life cycle, and it signals single processes only.
\<close>

definition refines :: "('w, 'z) prog_scheme \<Rightarrow> ('w, 'z) prog_scheme \<Rightarrow> bool" where
  "refines s t \<longleftrightarrow> (wf_cm (cman s) \<longrightarrow>
     wf_cm (cman t) \<and> lifecycle\<^sup>*\<^sup>* (states_of (cman s)) (states_of (cman t)) \<and> only signal_ok s t)"

lemma refines_same: "cman t = cman s \<Longrightarrow> only signal_ok s t \<Longrightarrow> refines s t"
  by (simp add: refines_def)

interpretation refines_frame: manager_frame refines
proof
  show "refines s s" for s :: "('a, 'b) prog_scheme"
    by (simp add: refines_def only_frame.frame_refl)
  show "refines s u" if "refines s t" "refines t u" for s t u :: "('a, 'b) prog_scheme"
    using that by (auto simp: refines_def intro: only_frame.frame_trans)
  show "refines s t" if "quiet s t" for s t :: "('a, 'b) prog_scheme"
    using that by (intro refines_same) (simp_all add: quiet_cman quiet_def)
qed

lemmas quiet_refines = refines_frame.quiet_io

lemma start_only: "state_io_rel (only signal_ok) (container_manager_start K cid)"
  unfolding container_manager_start_def start_info_def upd_info_def Let_def
  by (intro only_frame.frame_combinators state_io_rel_cases only_ask only_upd_cm
      quiet_only [OF quiet_get_cm] quiet_only [OF quiet_create_cgroup]
      quiet_only [OF quiet_start_process] quiet_only [OF quiet_save_state])

lemma add_container_only: "state_io_rel (only P) (add_container K info)"
  unfolding add_container_def get_cm_def [symmetric]
  by (intro only_frame.frame_combinators state_io_rel_cases only_ask only_upd_cm)
    (simp add: state_io_rel_def only_frame.frame_refl)

lemma create_only: "state_io_rel (only signal_ok) (container_manager_create K n config)"
  unfolding container_manager_create_def register_info_def choose_id_def
  by (intro only_frame.frame_combinators state_io_rel_cases only_ask add_container_only
      quiet_only [OF quiet_get_cm] quiet_only [OF quiet_create_cgroup]
      quiet_only [OF quiet_generate] quiet_only [OF quiet_save_state] quiet_only [OF quiet_copy_config]
      quiet_only [OF quiet_create_root] quiet_only [OF quiet_destroy_cgroup])

lemma start_refines:
  assumes "clone_positive K"
  shows "state_io_rel refines (container_manager_start K cid)"
proof (rule state_io_relI)
  fix r s t
  assume run: "run_state (container_manager_start K cid) s = (r, t)"
  have only: "only signal_ok s t" using start_only run by (rule only_run)
  from run show "refines s t"
  proof (cases rule: start_cases)
    case failed
    then show ?thesis using only by (intro refines_same)
  next
    case (started i config p now)
    have i: "i < length (containers (cman s))" using started(3) by (rule get_info_index)
    define f where "f = (\<lambda>w. (set_running p now w)\<lparr>stopped_at := 0\<rparr>)"
    have f: "info_id (f v) = info_id v" "cstate (f v) = CONTAINER_RUNNING" "pid (f v) = p" for v
      by (simp_all add: f_def)
    show ?thesis
      unfolding refines_def
    proof (intro impI conjI only)
      assume wf: "wf_cm (cman s)"
      then have d: "ids_distinct (cman s)" and rp: "running_pids (cman s)" by (simp_all add: wf_cm_def)
      have t: "cman t = update_at i f (cman s)" using started by (simp add: f_def)
      show "wf_cm (cman t)"
        using update_at_refines(1) [OF d i f(1)] update_at_running [OF rp, of f i] started(2) assms f
        by (simp add: t wf_cm_def)
      have "lifecycle (states_of (cman s)) (states_of (cman t))"
        unfolding t update_at_refines(2) [OF d i f(1)] f(2)
        by (rule lifecycle.start [of "states_of (cman s)", OF states_of_nth [OF d i] started(4)])
      then show "lifecycle\<^sup>*\<^sup>* (states_of (cman s)) (states_of (cman t))" by (rule lifecycle_one)
    qed
  qed
qed

lemma stopped_refines:
  assumes "wf_cm c" and "i < length (containers c)" and "cstate (containers c ! i) = CONTAINER_RUNNING"
  shows "wf_cm (update_at i (set_stopped now) c)"
    and "lifecycle (states_of c) (states_of (update_at i (set_stopped now) c))"
proof -
  have d: "ids_distinct c" and rp: "running_pids c" using assms(1) by (simp_all add: wf_cm_def)
  have f: "info_id (set_stopped now v) = info_id v" for v by simp
  show "wf_cm (update_at i (set_stopped now) c)"
    using update_at_refines(1) [OF d assms(2) f] update_at_running [OF rp, of "set_stopped now" i]
    by (simp add: wf_cm_def)
  have "states_of c (info_id (containers c ! i)) = Some CONTAINER_RUNNING"
    using states_of_nth [OF d assms(2)] assms(3) by simp
  then show "lifecycle (states_of c) (states_of (update_at i (set_stopped now) c))"
    unfolding update_at_refines(2) [OF d assms(2) f] by (simp add: lifecycle.stop)
qed

lemma stop_refines: "state_ret_rel refines (container_manager_stop K n cid)"
proof (rule state_ret_relI)
  fix s r t
  assume run: "run_state (container_manager_stop K n cid) s = (Some r, t)"
  show "refines s t"
    unfolding refines_def
  proof (rule impI)
    assume wf: "wf_cm (cman s)"
    then have "running_pids (cman s)" by (simp add: wf_cm_def)
    with run show "wf_cm (cman t) \<and> lifecycle\<^sup>*\<^sup>* (states_of (cman s)) (states_of (cman t)) \<and> only signal_ok s t"
    proof (cases rule: stop_cases)
      case failed
      then show ?thesis using wf by (simp add: only_frame.frame_refl)
    next
      case (stopped i now)
      then show ?thesis
        using stopped_refines [OF wf get_info_index [OF stopped(2)] stopped(3), of now]
        by (simp add: lifecycle_one)
    qed
  qed
qed

lemma remove_refines:
  assumes "wf_cm c" and "states_of c cid \<noteq> Some CONTAINER_RUNNING"
  shows "lifecycle\<^sup>*\<^sup>* (states_of c) (states_of (remove_container cid c))"
proof -
  have d: "ids_distinct c" using assms(1) by (simp add: wf_cm_def)
  show ?thesis
  proof (cases "states_of c cid")
    case None
    then have "(states_of c)(cid := None) = states_of c" by auto
    then show ?thesis by (simp add: remove_states [OF d])
  next
    case (Some st)
    then show ?thesis
      using assms(2) lifecycle.destroy [of "states_of c", OF Some] by (simp add: remove_states [OF d] lifecycle_one)
  qed
qed

lemma states_by_id:
  assumes "ids_distinct c" and "container_manager_get_info c cid = Some i"
    and "states_of c cid = Some CONTAINER_RUNNING"
  shows "cid = info_id (containers c ! i)" and "cstate (containers c ! i) = CONTAINER_RUNNING"
proof -
  from assms(3) obtain v where v: "lookup_info c cid = Some v" "cstate v = CONTAINER_RUNNING"
    by (auto simp: states_of_def)
  then obtain j where j: "find_container c cid = Some j" "v = containers c ! j"
    by (auto simp: lookup_info_def)
  then have "i = j" using assms(2) get_info_id by auto
  then show "cid = info_id (containers c ! i)" and "cstate (containers c ! i) = CONTAINER_RUNNING"
    using find_container_Some [OF j(1)] v(2) j(2) by simp_all
qed

lemma destroy_refines: "state_ret_rel refines (container_manager_destroy K n cid)"
proof (rule state_ret_relI)
  fix s r t
  assume run: "run_state (container_manager_destroy K n cid) s = (Some r, t)"
  show "refines s t"
    unfolding refines_def
  proof (rule impI)
    assume wf: "wf_cm (cman s)"
    then have d: "ids_distinct (cman s)" and rp: "running_pids (cman s)" by (simp_all add: wf_cm_def)
    from run rp d show "wf_cm (cman t) \<and> lifecycle\<^sup>*\<^sup>* (states_of (cman s)) (states_of (cman t)) \<and> only signal_ok s t"
    proof (cases rule: destroy_cases)
      case missing
      then show ?thesis using wf by (simp add: only_frame.frame_refl)
    next
      case (removed i now)
      have i: "i < length (containers (cman s))" using removed(2) by (rule get_info_index)
      define c where "c = (if cstate (containers (cman s) ! i) = CONTAINER_RUNNING
          then update_at i (set_stopped now) (cman s) else cman s)"
      have "wf_cm c" and steps: "lifecycle\<^sup>*\<^sup>* (states_of (cman s)) (states_of c)"
        using stopped_refines [OF wf i, of now] wf by (simp_all add: c_def lifecycle_one)
      moreover have "states_of c cid \<noteq> Some CONTAINER_RUNNING"
      proof
        assume run: "states_of c cid = Some CONTAINER_RUNNING"
        have upd: "states_of (update_at i (set_stopped now) (cman s)) =
            (states_of (cman s))(info_id (containers (cman s) ! i) \<mapsto> CONTAINER_STOPPED)"
          using update_at_refines(2) [OF d i, of "set_stopped now"] by simp
        have "states_of (cman s) cid = Some CONTAINER_RUNNING"
          using run by (auto simp: c_def upd split: if_splits)
        from states_by_id [OF d removed(2) this] run show False by (simp add: c_def upd)
      qed
      ultimately have "wf_cm (remove_container cid c)"
        "lifecycle\<^sup>*\<^sup>* (states_of c) (states_of (remove_container cid c))"
        using remove_wf remove_refines by blast+
      then show ?thesis using removed(3,4) steps by (simp add: c_def)
    qed
  qed
qed

lemma created_refines:
  assumes "wf_cm c" and "find_container c cid = None"
  shows "wf_cm (append_container (new_info cid now sv) c)"
    and "lifecycle (states_of c) (states_of (append_container (new_info cid now sv) c))"
proof -
  have new: "find_container c (info_id (new_info cid now sv)) = None" using assms(2) by simp
  show "wf_cm (append_container (new_info cid now sv) c)"
    by (rule append_wf(1) [OF assms(1) new]) simp
  have "states_of (append_container (new_info cid now sv) c) = (states_of c)(cid \<mapsto> CONTAINER_CREATED)"
    using append_wf(2) [OF assms(1) new] by simp
  moreover have "states_of c cid = None"
    using assms(2) by (simp add: states_of_def lookup_info_def)
  ultimately show "lifecycle (states_of c) (states_of (append_container (new_info cid now sv) c))"
    by (simp add: lifecycle.create)
qed

lemma create_refines: "state_ret_rel refines (container_manager_create K n config0)"
proof (rule state_ret_relI)
  fix s r t
  assume run: "run_state (container_manager_create K n config0) s = (Some r, t)"
  have only: "only signal_ok s t" using create_only run by (rule only_run)
  show "refines s t"
  proof (cases config0)
    case None
    then show ?thesis using run only by (intro refines_same) (simp_all add: container_manager_create_def)
  next
    case (Some config)
    with run have "run_state (container_manager_create K n (Some config)) s = (Some r, t)" by simp
    then show ?thesis
    proof (cases rule: create_cases)
      case failed
      then show ?thesis using only by (intro refines_same)
    next
      case (created now m)
      then show ?thesis
        using created_refines only by (auto simp: refines_def lifecycle_one)
    qed
  qed
qed

lemma run_created_refines:
  assumes "clone_positive K"
    and "find_container (cman s) cid = Some i" and "cstate (containers (cman s) ! i) = CONTAINER_CREATED"
    and "run_state (run_created K n config cid) s = (Some r, t)"
  shows "refines s t"
proof -
  define failed where "failed = (obind (container_manager_destroy K n cid)
    (\<lambda>_. oret (- 1, Some config)) :: ('a, 'b, (int \<times> container_config option) option) pio)"
  have fl: "refines u v" if "run_state failed u = (Some x, v)" for u v x
  proof -
    from that obtain y w where "run_state (container_manager_destroy K n cid) u = (Some y, w)"
      and "run_state (oret (- 1, Some config)) w = (Some x, v)"
      unfolding failed_def by (rule run_obindE)
    then show ?thesis using destroy_refines by (auto dest: state_ret_relD)
  qed
  define info where "info = containers (cman s) ! i"
  have i: "i < length (containers (cman s))" using find_container_Some [OF assms(2)] by simp
  show ?thesis
  proof (cases "saved_config info = None \<or> cmd (the (saved_config info)) = None")
    case True
    then have "run_state failed s = (Some r, t)"
      using assms(2,4) unfolding run_created_def Let_def failed_def [symmetric] info_def
      by (auto split: option.splits)
    then show ?thesis by (rule fl)
  next
    case False
    then obtain saved where sv: "saved_config info = Some saved" "cmd saved \<noteq> None" by auto
    obtain p u where sp: "run_state (start_process K (rm (cman s)) cid saved) s = (p, u)" by fastforce
    have su: "quiet s u" using quiet_start_process sp by (rule quiet_run)
    then have cu: "cman u = cman s" by (rule quiet_cman)
    show ?thesis
    proof (cases "p = - 1")
      case True
      then have "run_state failed u = (Some r, t)"
        using assms(2,4) sv sp unfolding run_created_def Let_def failed_def [symmetric] info_def by simp
      then have "refines u t" by (rule fl)
      moreover have "refines s u" using su cu by (intro refines_same) (simp_all add: quiet_def)
      ultimately show ?thesis by (rule refines_frame.frame_trans [rotated])
    next
      case False
      obtain now w where tm: "k_time K (kst u) = (now, w)" by fastforce
      define x where "x = u\<lparr>kst := w, cman := update_at i (set_running p now) (cman s)\<rparr>"
      obtain t' where s': "run_state (save_state K) x = ((), t')" "cman t' = cman x" by (rule save_state_cases)
      have t: "t = t'"
        using assms(2,4) sv sp False tm s'(1) cu unfolding run_created_def Let_def info_def x_def
        by (simp add: run_upd_info_at del: run_upd_info)
      have "quiet x t'" using quiet_save_state s'(1) by (rule quiet_run)
      then have only: "only signal_ok s t" using su t by (auto simp: quiet_def only_def x_def)
      have p: "p > 0" using start_process_positive [OF assms(1) sp False] .
      show ?thesis
        unfolding refines_def
      proof (intro impI conjI only)
        assume "wf_cm (cman s)"
        then have d: "ids_distinct (cman s)" and rp: "running_pids (cman s)" by (simp_all add: wf_cm_def)
        have ct: "cman t = update_at i (set_running p now) (cman s)" using s'(2) t by (simp add: x_def)
        have f: "info_id (set_running p now v) = info_id v" for v by simp
        show "wf_cm (cman t)"
          using update_at_refines(1) [OF d i f] update_at_running [OF rp, of "set_running p now" i] p
          by (simp add: ct wf_cm_def)
        have "lifecycle (states_of (cman s)) (states_of (cman t))"
          unfolding ct update_at_refines(2) [OF d i f] set_running_simps
          by (rule lifecycle.start [of "states_of (cman s)", OF states_of_nth [OF d i]]) (simp add: assms(3))
        then show "lifecycle\<^sup>*\<^sup>* (states_of (cman s)) (states_of (cman t))" by (rule lifecycle_one)
      qed
    qed
  qed
qed

lemma find_appended:
  assumes "find_container c (info_id v) = None"
  shows "find_container ((append_container v c)\<lparr>max_containers := m\<rparr>) (info_id v) = Some (length (containers c))"
  using assms by (simp add: find_container_def index_of_snoc)

lemma run_refines:
  assumes "clone_positive K"
  shows "state_ret_rel refines (container_manager_run K n config0)"
proof (rule state_ret_relI)
  fix s t :: "('a, 'd) prog_scheme" and r
  assume run: "run_state (container_manager_run K n config0) s = (Some r, t)"
  show "refines s t"
  proof (cases config0)
    case None
    then have "t = s" using run by (simp add: container_manager_run_def)
    then show ?thesis by (simp add: refines_frame.frame_refl)
  next
    case (Some config)
    define pick where "pick = ((case config_id config of Some i \<Rightarrow> State_Monad.return (Some i)
        | None \<Rightarrow> generate_container_id K) :: ('a, 'd, string option) pio)"
    obtain x u where pk: "run_state pick s = (x, u)" by fastforce
    have "state_io_rel quiet pick" unfolding pick_def by (intro quiet_rules quiet_generate)
    then have su: "quiet s u" using pk by (rule quiet_run)
    then have cu: "cman u = cman s" by (rule quiet_cman)
    have rsu: "refines s u" using su cu by (intro refines_same) (simp_all add: quiet_def)
    show ?thesis
    proof (cases x)
      case None
      then have "t = u" using run Some pk by (simp add: container_manager_run_def pick_def)
      then show ?thesis using rsu by simp
    next
      case (Some cid)
      define config' where "config' = config\<lparr>config_id := Some cid\<rparr>"
      have "run_state (obind (container_manager_create K n (Some config')) (\<lambda>r.
          if r \<noteq> 0 then oret (- 1, Some config') else run_created K n config' cid)) u = (Some r, t)"
        using run \<open>config0 = Some config\<close> pk Some
        unfolding config'_def by (simp add: container_manager_run_def pick_def Let_def)
      then obtain r1 v where cr: "run_state (container_manager_create K n (Some config')) u = (Some r1, v)"
        and rest: "run_state (if r1 \<noteq> 0 then oret (- 1, Some config') else run_created K n config' cid) v = (Some r, t)"
        by (rule run_obindE)
      have ruv: "refines u v" using create_refines cr by (rule state_ret_relD)
      have "refines v t"
      proof (cases "r1 = 0")
        case False
        then show ?thesis using rest by (simp add: refines_frame.frame_refl)
      next
        case True
        have cid: "chosen_id config' (cman u) = cid" by (simp add: chosen_id_def config'_def)
        from cr True obtain now m where new: "find_container (cman u) cid = None"
          and v: "cman v = (append_container (new_info cid now (copied_config config')) (cman u))\<lparr>max_containers := m\<rparr>"
          by (elim create_cases) (simp_all add: cid)
        have "find_container (cman v) cid = Some (length (containers (cman u)))"
          using find_appended [of "cman u" "new_info cid now (copied_config config')" m] new v by simp
        moreover have "cstate (containers (cman v) ! length (containers (cman u))) = CONTAINER_CREATED"
          by (simp add: v)
        ultimately show ?thesis using rest True by (intro run_created_refines [OF assms]) simp_all
      qed
      then show ?thesis using rsu ruv by (meson refines_frame.frame_trans)
    qed
  qed
qed

lemma quiet_exec: "state_io_rel quiet (container_manager_exec K cid command argc)"
proof -
  have join: "state_io_rel quiet (namespace_join K p ty)" for p ty
    unfolding namespace_join_def Let_def by (auto simp: signal_ok_def intro!: quiet_rules)
  have child: "state_io_rel quiet (exec_child K p command)" for p
    unfolding exec_child_def by (auto simp: signal_ok_def intro!: quiet_rules join)
  have fork: "state_io_rel quiet (c_fork K)" "state_io_rel quiet (c_waitpid K p)" for p
    by (auto simp: signal_ok_def intro!: quiet_rules)
  show ?thesis
    unfolding container_manager_exec_def
    by (intro quiet_frame.frame_combinators state_io_rel_cases quiet_get_cm child fork)
qed

section \<open>Sequences of operations\<close>

text \<open>
  A step of the program: an operation of the manager that returns, or anything the rest of the
  system does between two operations (processes end, files change).
\<close>

inductive cm_step :: "'w kernel \<Rightarrow> ('w, 'z) prog_scheme \<Rightarrow> ('w, 'z) prog_scheme \<Rightarrow> bool" for K where
  op_create: "run_state (container_manager_create K n config) s = (Some r, t) \<Longrightarrow> cm_step K s t"
| op_start: "run_state (container_manager_start K cid) s = (r, t) \<Longrightarrow> cm_step K s t"
| op_stop: "run_state (container_manager_stop K n cid) s = (Some r, t) \<Longrightarrow> cm_step K s t"
| op_destroy: "run_state (container_manager_destroy K n cid) s = (Some r, t) \<Longrightarrow> cm_step K s t"
| op_run: "run_state (container_manager_run K n config) s = (Some x, t) \<Longrightarrow> cm_step K s t"
| op_exec: "run_state (container_manager_exec K cid command argc) s = (y, t) \<Longrightarrow> cm_step K s t"
| outside: "cman t = cman s \<Longrightarrow> trace t = trace s \<Longrightarrow> cm_step K s t"

lemma cm_step_refines:
  assumes "clone_positive K" and "cm_step K s t"
  shows "refines s t"
  using assms(2)
proof (cases rule: cm_step.cases)
  case (op_create n config r)
  then show ?thesis using create_refines state_ret_relD by metis
next
  case (op_start cid r)
  then show ?thesis using start_refines [OF assms(1)] state_io_relD by metis
next
  case (op_stop n cid r)
  then show ?thesis using stop_refines state_ret_relD by metis
next
  case (op_destroy n cid r)
  then show ?thesis using destroy_refines state_ret_relD by metis
next
  case (op_run n config x)
  then show ?thesis using run_refines [OF assms(1)] state_ret_relD by metis
next
  case (op_exec cid command argc y)
  then have "quiet s t" using quiet_exec state_io_relD by metis
  then show ?thesis using quiet_cman by (intro refines_same) (auto simp: quiet_def)
next
  case outside
  then show ?thesis by (intro refines_same) (simp_all add: only_def)
qed

lemma cm_steps_refine:
  assumes "clone_positive K" and "(cm_step K)\<^sup>*\<^sup>* s t"
  shows "refines s t"
  using assms(2)
proof (induction rule: rtranclp_induct)
  case base
  show ?case by (rule refines_frame.frame_refl)
next
  case (step t u)
  then show ?case using cm_step_refines [OF assms(1)] refines_frame.frame_trans by blast
qed

section \<open>Properties\<close>

definition running_prog :: "unit prog" where
  \<comment> \<open>one running container\<close>
  "running_prog = calm_prog (example_cm [example_info ''1'' 100 CONTAINER_RUNNING] 10)"

definition stopped_prog :: "unit prog" where
  "stopped_prog = snd (run_state (container_manager_stop calm_kernel (Suc 0) ''1'') running_prog)"

lemmas calm_simps = calm_calls calm_prog_def example_cm_def example_info_def
  get_state_file_path_def save_state_def

lemma calm_wait:
  "run_state (wait_loop calm_kernel p (Suc n)) s = (True, s\<lparr>trace := trace s @ [EWait p]\<rparr>)"
  by (simp add: calm_calls)

lemma calm_reap: "run_state (reap calm_kernel p) s = ((), s\<lparr>trace := trace s @ [EWait p]\<rparr>)"
  using calm_wait [of p 49 s] by (simp add: reap_def)

lemma calm_kill_process:
  "run_state (kill_process calm_kernel p) s =
     ((), s\<lparr>trace := trace s @ [EKill p SIGTERM (Inr ()), EKill p SIG0 (Inr ()), EKill p SIGKILL (Inr ())]\<rparr>)"
  by (simp add: kill_process_def calm_calls)

lemmas stop_simps = running_prog_def container_manager_stop_def container_manager_get_info_def
  find_container_def stop_info_def kill_cgroup_def calm_reap calm_kill_process calm_simps

lemma calm_stop_returns:
  "run_state (container_manager_stop calm_kernel (Suc 0) ''1'') running_prog = (Some 0, stopped_prog)"
proof -
  have "fst (run_state (container_manager_stop calm_kernel (Suc 0) ''1'') running_prog) = Some 0"
    by (simp add: stop_simps)
  then show ?thesis by (simp add: stopped_prog_def prod_eq_iff)
qed

lemma calm_clone_positive: "clone_positive calm_kernel"
  by (simp add: clone_positive_def calm_kernel_def)

lemma running_prog_wf: "wf_cm (cman running_prog)"
  by (simp add: running_prog_def calm_prog_def example_cm_def example_info_def wf_cm_def
      ids_distinct_def ids_def running_pids_def)

lemma calm_stop_step: "(cm_step calm_kernel)\<^sup>*\<^sup>* running_prog stopped_prog"
  by (rule r_into_rtranclp) (rule cm_step.op_stop [OF calm_stop_returns])

lemma stopped_prog_state: "states_of (cman stopped_prog) ''1'' = Some CONTAINER_STOPPED"
  by (simp add: stopped_prog_def stop_simps states_of_def lookup_info_def set_stopped_def)

lemma stopped_prog_signal: "EKill 100 SIGTERM (Inr ()) \<in> set (new_events running_prog stopped_prog)"
  by (simp add: stopped_prog_def stop_simps new_events_def)



text \<open>
  Property C3. The invariant of the manager: along every sequence of operations the ids in the table
  stay distinct and every container in the state running has a positive process id.
\<close>
theorem manager_invariant:
  assumes "clone_positive K" and "(cm_step K)\<^sup>*\<^sup>* s t" and "wf_cm (cman s)"
  shows "distinct (map info_id (containers (cman t))) \<and>
    (\<forall>v\<in>set (containers (cman t)). cstate v = CONTAINER_RUNNING \<longrightarrow> pid v > 0)"
  using cm_steps_refine [OF assms(1,2)] assms(3)
  by (simp add: refines_def wf_cm_def ids_distinct_def ids_def running_pids_def)

theorem manager_invariant_witness:
  "distinct (map info_id (containers (cman stopped_prog)))"
  using manager_invariant [OF calm_clone_positive calm_stop_step running_prog_wf] by simp



end
