(* ===== verification/Manager_Properties.thy ===== *)
theory Manager_Properties
  imports Lifecycle
begin

text \<open>
  Properties of the single operations of the container manager: that stopping returns and stops,
  what creating, running, destroying and executing do on success and on failure, and what
  initialising establishes whatever the state file contains.
\<close>

section \<open>Termination\<close>

text \<open>
  The process tree is finite and has no cycles: a child listed for a process has a smaller rank than
  the process, whenever the file is read, and the ranks are bounded.
\<close>

definition tree_ranked :: "'w kernel \<Rightarrow> (int \<Rightarrow> nat) \<Rightarrow> nat \<Rightarrow> bool" where
  "tree_ranked K rank n \<longleftrightarrow> (\<forall>p. rank p < n) \<and>
     (\<forall>p w content w' c. k_fopen_r K (children_path p) w = (Some content, w') \<longrightarrow>
        c \<in> set (fscanf_ints content) \<longrightarrow> c > 0 \<longrightarrow> rank c < rank p)"

lemma kill_process_tree_returns:
  assumes "tree_ranked K rank m" and "rank p < n"
  shows "returns (kill_process_tree K n p :: ('w, 'z, unit option) io)"
  using assms(2)
proof (induction n arbitrary: p)
  case 0
  then show ?case by simp
next
  case (Suc n)
  define visit where
    "visit = (\<lambda>child. if child > 0 then kill_process_tree K n child else oret () :: ('w, 'z, unit option) io)"
  show ?case
  proof (rule returnsI)
    fix s :: "('w, 'z) os_scheme"
    obtain u where u: "run_state (kill_process K p) s = ((), u)"
      by (metis (full_types) old.unit.exhaust surj_pair)
    obtain fp w where fp: "k_fopen_r K (children_path p) (kst u) = (fp, w)" by fastforce
    have "returns (ofor_each visit (fscanf_ints content))" if "fp = Some content" for content
    proof (rule returns_ofor_each)
      fix c
      assume "c \<in> set (fscanf_ints content)"
      then have "c > 0 \<Longrightarrow> rank c < n"
        using assms(1) fp that Suc.prems unfolding tree_ranked_def
        by (meson less_le_trans not_less_eq not_le)
      then show "returns (visit c)" using Suc.IH by (simp add: visit_def)
    qed
    then have "\<exists>x t. run_state (case fp of None \<Rightarrow> oret ()
        | Some content \<Rightarrow> ofor_each visit (fscanf_ints content)) (u\<lparr>kst := w\<rparr>) = (Some x, t)"
      by (cases fp) (auto simp: returns_def)
    then show "\<exists>x t. run_state (kill_process_tree K (Suc n) p) s = (Some x, t)"
      using u fp by (simp add: visit_def [symmetric])
  qed
qed

lemma kill_tree_returns:
  assumes "tree_ranked K rank n"
  shows "returns (kill_process_tree K n p)"
  using assms by (intro kill_process_tree_returns [OF assms]) (simp add: tree_ranked_def)

lemma stop_returns:
  assumes "tree_ranked K rank n"
  shows "returns (container_manager_stop K n cid)"
proof -
  note tree = kill_tree_returns [OF assms]
  have group: "returns (kill_cgroup K n path)" for path
    unfolding kill_cgroup_def
    by (intro returns_bind) (auto intro!: returns_ofor_each tree split: option.split)
  have info: "returns (stop_info K n c i)" for c i
    unfolding stop_info_def Let_def by (intro returns_obind returns_bind group tree returns_oret)
  show ?thesis
    unfolding container_manager_stop_def
    by (intro returns_bind) (auto intro!: info split: option.split)
qed

lemma destroy_returns:
  assumes "tree_ranked K rank n"
  shows "returns (container_manager_destroy K n cid)"
  unfolding container_manager_destroy_def Let_def
  by (intro returns_bind) (auto intro!: returns_obind returns_bind stop_returns [OF assms] split: option.split)

section \<open>Lemmas: initialising\<close>

lemma load_entry_running:
  assumes "running_pids (cman s)" and "run_state (load_entry K v) s = (x, t)"
  shows "running_pids (cman t)"
proof (cases "l_id v = []")
  case True
  then show ?thesis using assms by (simp add: load_entry_def)
next
  case False
  define probe where "probe = (if l_state v = state_code CONTAINER_RUNNING
    then do { a \<leftarrow> is_pid_alive K (l_pid v); State_Monad.return (\<not> a) }
    else State_Monad.return False :: ('a, 'b, bool) pio)"
  obtain dead u where d: "run_state probe s = (dead, u)" by fastforce
  have alive: "state_io_rel quiet (is_pid_alive K p)" for p
    unfolding is_pid_alive_def by (auto simp: signal_ok_def intro!: quiet_rules)
  have "state_io_rel quiet probe"
    unfolding probe_def by (intro quiet_rules alive)
  then have cu: "cman u = cman s" using d by (rule quiet_cmanD)
  have pos: "l_pid v > 0" if "l_state v = 1" "\<not> dead"
    using d that by (auto simp: probe_def is_pid_alive_def split: prod.splits if_splits)
  obtain now w where tm: "k_time K (kst u) = (now, w)" by fastforce
  define v1 where "v1 = (if dead then v\<lparr>l_state := 2, l_stopped_at := now\<rparr> else v)"
  define u1 where "u1 = (if dead then u\<lparr>kst := w\<rparr> else u)"
  obtain got w' where al: "k_alloc K (kst u1) = (got, w')" by fastforce
  define info where "info = \<lparr>info_id = loaded_id (cman s) (l_id v1), pid = l_pid v1,
    cstate = state_of_code (l_state v1), created_at = l_created_at v1, started_at = l_started_at v1,
    stopped_at = l_stopped_at v1, saved_config = None\<rparr>"
  obtain r z where ad: "run_state (add_container K info) (u1\<lparr>kst := w'\<rparr>) = (r, z)" by fastforce
  have st: "cstate info = CONTAINER_RUNNING \<longrightarrow> pid info > 0"
    using pos by (auto simp: info_def v1_def state_of_code_def split: if_splits)
  have "cman t \<in> {cman s, cman z}"
    using assms(2) False d tm al ad cu
    unfolding load_entry_def probe_def [symmetric] info_def v1_def u1_def
    by (auto split: if_splits)
  moreover have "running_pids (cman z)"
    using ad assms(1) st cu
    by (elim add_container_cases) (auto simp: running_pids_def u1_def)
  ultimately show ?thesis using assms(1) by auto
qed

lemma load_lines_running:
  "running_pids (cman s) \<Longrightarrow> run_state (load_lines K ls v) s = (x, t) \<Longrightarrow> running_pids (cman t)"
proof (induction ls arbitrary: v s)
  case Nil
  then show ?case by simp
next
  case (Cons l ls)
  obtain y u where l: "run_state (load_line K l v) s = (y, u)" by fastforce
  have "running_pids (cman u)"
    using l Cons.prems(1)
    by (auto simp: load_line_def Let_def intro: load_entry_running split: if_splits)
  then show ?case using Cons l by simp
qed

lemma load_state_running:
  assumes "running_pids (cman s)" and "run_state (load_state K) s = (n, t)"
  shows "running_pids (cman t)"
proof -
  obtain p u where p: "run_state (get_state_file_path K) s = (p, u)" by fastforce
  have cu: "cman u = cman s" using quiet_get_state_file_path p by (rule quiet_cmanD)
  show ?thesis
    using assms p cu
    by (auto simp: load_state_def elim!: load_lines_running [rotated] split: prod.splits option.splits)
qed

lemma init_running:
  assumes "run_state (container_manager_init K n) s = (r, t)"
  shows "running_pids (cman t)"
proof -
  define c0 where "c0 = (cman s)\<lparr>max_containers := (if n > 0 then n else DEFAULT_MAX_CONTAINERS), containers := []\<rparr>"
  have c0: "running_pids c0" "running_pids (c0\<lparr>rm := m\<rparr>)" for m by (simp_all add: running_pids_def c0_def)
  obtain g1 w1 where g1: "k_alloc K (kst s) = (g1, w1)" by fastforce
  obtain g2 w2 where g2: "k_alloc K w1 = (g2, w2)" by fastforce
  define u where "u = s\<lparr>cman := c0, kst := w2\<rparr>"
  obtain r1 m v where ri: "run_state (resource_manager_init K (Some (rm c0)) (Some ''mini_container'')) u = ((r1, m), v)"
    by (metis surj_pair)
  have cv: "cman v = c0" using quiet_cmanD [OF quiet_resource_manager_init ri] by (simp add: u_def)
  define v' where "v' = v\<lparr>cman := c0\<lparr>rm := the m\<rparr>\<rparr>"
  obtain k w where ld: "run_state (load_state K) v' = (k, w)" by fastforce
  have rw: "running_pids (cman w)" using ld by (rule load_state_running [rotated]) (simp add: v'_def c0)
  obtain t' where sv: "run_state (save_state K) w = ((), t')" "cman t' = cman w" by (rule save_state_cases)
  have "cman t \<in> {c0, c0\<lparr>rm := the m\<rparr>, cman w}"
    using assms g1 g2 ri ld sv cv
    unfolding container_manager_init_def
    by (auto simp: c0_def [symmetric] u_def v'_def split: if_splits)
  then show ?thesis using c0 rw by auto
qed

section \<open>Lemmas: removing\<close>

lemma remove_nth_filter:
  assumes "distinct (map f xs)" and "i < length xs" and "f (xs ! i) = k"
  shows "remove_nth i xs = filter (\<lambda>x. f x \<noteq> k) xs"
proof -
  obtain ys zs x where xs: "xs = ys @ x # zs" "remove_nth i xs = ys @ zs" "x = xs ! i"
    using remove_nth_split [OF assms(2)] by blast
  have "f x = k" using assms(3) xs(3) by simp
  moreover have "f x \<notin> f ` set ys" "f x \<notin> f ` set zs" using assms(1) unfolding xs(1) by auto
  ultimately have "\<forall>y\<in>set ys. f y \<noteq> k" "\<forall>y\<in>set zs. f y \<noteq> k" by (auto simp: image_iff)
  then show ?thesis unfolding xs(2) by (simp add: xs(1) \<open>f x = k\<close>)
qed

lemma filter_update:
  assumes "i < length xs" and "\<not> P (xs ! i)" and "\<not> P y"
  shows "filter P (xs[i := y]) = filter P xs"
proof -
  have "xs = take i xs @ xs ! i # drop (Suc i) xs" using assms(1) by (rule id_take_nth_drop)
  then have "filter P xs = filter P (take i xs) @ filter P (drop (Suc i) xs)"
    using assms(2) by (metis filter.simps(2) filter_append)
  then show ?thesis using assms(1,3) by (simp add: upd_conv_take_nth_drop)
qed

lemma remove_container_filter:
  assumes "ids_distinct c"
  shows "containers (remove_container cid c) = filter (\<lambda>v. info_id v \<noteq> cid) (containers c)"
proof (cases "find_container c cid")
  case None
  then have "cid \<notin> set (ids c)" by (simp add: find_container_None)
  then have "filter (\<lambda>v. info_id v \<noteq> cid) (containers c) = containers c"
    by (auto simp: ids_def filter_id_conv)
  then show ?thesis using None by (simp add: remove_container_def)
next
  case (Some i)
  then show ?thesis
    using assms remove_nth_filter [of info_id "containers c" i cid] find_container_Some [OF Some]
    by (simp add: remove_container_def ids_distinct_def ids_def)
qed

lemma destroy_by_id:
  assumes "wf_cm (cman s)" and "find_container (cman s) cid = Some i"
    and "run_state (container_manager_destroy K n cid) s = (Some r, t)"
  shows "r = 0" and "containers (cman t) = filter (\<lambda>v. info_id v \<noteq> cid) (containers (cman s))"
proof -
  have d: "ids_distinct (cman s)" and rp: "running_pids (cman s)" using assms(1) by (simp_all add: wf_cm_def)
  have i: "container_manager_get_info (cman s) cid = Some i" "i < length (containers (cman s))"
    "info_id (containers (cman s) ! i) = cid"
    using get_info_id [OF assms(2)] find_container_Some [OF assms(2)] by simp_all
  from assms(3) rp d
  have "r = 0 \<and> containers (cman t) = filter (\<lambda>v. info_id v \<noteq> cid) (containers (cman s))"
  proof (cases rule: destroy_cases)
    case missing
    then show ?thesis using i by simp
  next
    case (removed j now)
    then have j: "j = i" using i by simp
    have upd: "ids_distinct (update_at i (set_stopped now) (cman s))"
      using update_at_refines(1) [OF d i(2)] by simp
    have "filter (\<lambda>v. info_id v \<noteq> cid) (containers (update_at i (set_stopped now) (cman s))) =
        filter (\<lambda>v. info_id v \<noteq> cid) (containers (cman s))"
      using i by (simp add: update_at_def filter_update)
    then show ?thesis using removed j d upd by (simp add: remove_container_filter)
  qed
  then show "r = 0" and "containers (cman t) = filter (\<lambda>v. info_id v \<noteq> cid) (containers (cman s))"
    by simp_all
qed

lemma run_created_outcome:
  assumes "wf_cm (cman s)" and "find_container (cman s) cid = Some (length infos)"
    and "containers (cman s) = infos @ [new]" and "cid \<notin> set (map info_id infos)"
    and "run_state (run_created K n config cid) s = (Some (r, config'), t)"
  shows "config' = Some config \<and> (r = - 1 \<and> containers (cman t) = infos \<or>
    r = 0 \<and> (\<exists>p now. p \<noteq> - 1 \<and> containers (cman t) = infos @ [set_running p now new]))"
proof -
  define i where "i = length infos"
  have new: "info_id new = cid" using find_container_Some [OF assms(2)] assms(3) by simp
  define failed where "failed = (obind (container_manager_destroy K n cid)
    (\<lambda>_. oret (- 1, Some config)) :: ('a, 'b, (int \<times> container_config option) option) pio)"
  have fl: "config' = Some config \<and> r = - 1 \<and> containers (cman t) = infos"
    if "cman u = cman s" "run_state failed u = (Some (r, config'), t)" for u
  proof -
    from that(2) obtain y where "run_state (container_manager_destroy K n cid) u = (Some y, t)"
      and res: "config' = Some config" "r = - 1"
      unfolding failed_def by (auto elim!: run_obindE simp del: run_obind)
    then have "containers (cman t) = filter (\<lambda>v. info_id v \<noteq> cid) (containers (cman u))"
      using assms(1,2) that(1) by (intro destroy_by_id(2)) simp_all
    also have "\<dots> = infos"
      using assms(3,4) new that(1) by (auto simp: filter_id_conv image_iff)
    finally show ?thesis using res by simp
  qed
  have nth: "containers (cman s) ! length infos = new" by (simp add: assms(3))
  show ?thesis
  proof (cases "saved_config new = None \<or> cmd (the (saved_config new)) = None")
    case True
    then have "run_state failed s = (Some (r, config'), t)"
      using assms(2,5) nth unfolding run_created_def Let_def failed_def [symmetric]
      by (auto split: option.splits)
    then show ?thesis using fl [of s] by simp
  next
    case False
    then obtain saved where sv: "saved_config new = Some saved" "cmd saved \<noteq> None" by auto
    obtain p u where sp: "run_state (start_process K (rm (cman s)) cid saved) s = (p, u)" by fastforce
    have cu: "cman u = cman s" using sp by (rule keeps_cman)
    show ?thesis
    proof (cases "p = - 1")
      case True
      then have "run_state failed u = (Some (r, config'), t)"
        using assms(2,5) nth sv sp unfolding run_created_def Let_def failed_def [symmetric] by simp
      then show ?thesis using fl [OF cu] by simp
    next
      case F: False
      obtain now w where tm: "k_time K (kst u) = (now, w)" by fastforce
      define x where "x = u\<lparr>kst := w, cman := update_at (length infos) (set_running p now) (cman s)\<rparr>"
      obtain t' where s': "run_state (save_state K) x = ((), t')" "cman t' = cman x" by (rule save_state_cases)
      have "r = 0" "config' = Some config" "t = t'"
        using assms(2,5) nth sv sp F tm s'(1) cu unfolding run_created_def Let_def x_def
        by (simp_all add: run_upd_info_at del: run_upd_info)
      moreover have "containers (cman t') = infos @ [set_running p now new]"
        using s'(2) nth by (simp add: x_def update_at_def assms(3))
      ultimately show ?thesis using F by blast
    qed
  qed
qed

lemma run_outcome:
  assumes "wf_cm (cman s)"
    and "run_state (container_manager_run K n (Some config)) s = (Some (r, config'), t)"
  shows "r = - 1 \<and> containers (cman t) = containers (cman s) \<or>
    r = 0 \<and> (\<exists>v cid. containers (cman t) = containers (cman s) @ [v] \<and> cstate v = CONTAINER_RUNNING \<and>
      pid v \<noteq> - 1 \<and> info_id v = cid \<and> config' = Some (config\<lparr>config_id := Some cid\<rparr>) \<and>
      (config_id config = None \<or> config_id config = Some cid))"
proof -
  define pick where "pick = ((case config_id config of Some i \<Rightarrow> State_Monad.return (Some i)
      | None \<Rightarrow> generate_container_id K) :: ('a, 'b, string option) pio)"
  obtain x u where pk: "run_state pick s = (x, u)" by fastforce
  have "state_io_rel quiet pick" unfolding pick_def by (intro quiet_rules quiet_generate)
  then have cu: "cman u = cman s" using pk by (rule quiet_cmanD)
  show ?thesis
  proof (cases x)
    case None
    then show ?thesis using assms(2) pk cu by (simp add: container_manager_run_def pick_def)
  next
    case (Some cid)
    define cfg where "cfg = config\<lparr>config_id := Some cid\<rparr>"
    have conf: "config_id config = None \<or> config_id config = Some cid"
      using pk Some by (auto simp: pick_def split: option.splits)
    have "run_state (obind (container_manager_create K n (Some cfg)) (\<lambda>r.
        if r \<noteq> 0 then oret (- 1, Some cfg) else run_created K n cfg cid)) u = (Some (r, config'), t)"
      using assms(2) pk Some unfolding cfg_def by (simp add: container_manager_run_def pick_def Let_def)
    then obtain r1 v where cr: "run_state (container_manager_create K n (Some cfg)) u = (Some r1, v)"
      and rest: "run_state (if r1 \<noteq> 0 then oret (- 1, Some cfg) else run_created K n cfg cid) v = (Some (r, config'), t)"
      by (rule run_obindE)
    have cid: "chosen_id cfg c = cid" for c by (simp add: chosen_id_def cfg_def)
    from cr show ?thesis
    proof (cases rule: create_cases)
      case failed
      then show ?thesis using rest cu by simp
    next
      case (created now m)
      have "wf_cm (cman v)"
        using created_refines(1) [OF assms(1), of cid] created cu by (simp add: cid)
      moreover have "find_container (cman v) cid = Some (length (containers (cman s)))"
        using find_appended [of "cman u" "new_info cid now (copied_config cfg)" m] created cu by (simp add: cid)
      moreover have "containers (cman v) = containers (cman s) @ [new_info cid now (copied_config cfg)]"
        using created cu by (simp add: cid)
      moreover have "cid \<notin> set (map info_id (containers (cman s)))"
        using created(2) cu by (simp add: cid find_container_None ids_def)
      moreover have "run_state (run_created K n cfg cid) v = (Some (r, config'), t)"
        using rest created(1) by simp
      ultimately show ?thesis
        using run_created_outcome [of v cid "containers (cman s)" "new_info cid now (copied_config cfg)"] conf
        by (fastforce simp: cfg_def)
    qed
  qed
qed

section \<open>Properties\<close>


lemma calm_tree_ranked: "tree_ranked calm_kernel (\<lambda>_. 0) (Suc 0)"
  by (simp add: tree_ranked_def calm_calls)


text \<open>
  Property C8. Creating is all or nothing: it either fails and leaves the manager exactly as it was,
  or appends one entry, in the state created, without a process, with the id of the configuration or
  a generated one that was not in use, and a copy of the configuration whose command is cut to its
  length and ends in a null pointer.
\<close>
theorem create_all_or_nothing:
  assumes "run_state (container_manager_create K n (Some config)) s = (Some r, t)"
  shows "r = - 1 \<and> cman t = cman s \<or>
    r = 0 \<and> (\<exists>v. containers (cman t) = containers (cman s) @ [v] \<and>
      info_id v = (case config_id config of Some i \<Rightarrow> i | None \<Rightarrow> next_container_id (cman s)) \<and>
      info_id v \<notin> set (map info_id (containers (cman s))) \<and>
      cstate v = CONTAINER_CREATED \<and> pid v = 0 \<and>
      saved_config v = Some (if cmd config \<noteq> None \<and> command_argc config > 0
        then config\<lparr>cmd := Some (take (nat (command_argc config)) (the (cmd config)) @ [None])\<rparr>
        else config\<lparr>cmd := None, command_argc := 0\<rparr>))"
  using assms
proof (cases rule: create_cases)
  case failed
  then show ?thesis by simp
next
  case (created now m)
  then show ?thesis
    by (simp add: new_info_def chosen_id_def copied_config_def find_container_None ids_def)
qed

definition example_config :: container_config where
  "example_config = \<lparr>config_id = Some ''web'', root_path = None,
     ns_config = \<lparr>ns_flags = CONTAINER_NAMESPACES\<rparr>, res_limits = example_limits,
     fs_conf = \<lparr>fs_root_path = None, fs_method = FS_CHROOT, create_minimal_fs = 0\<rparr>,
     cmd = Some [Some ''/bin/sh'', None], command_argc = 1\<rparr>"

definition empty_prog :: "unit prog" where
  "empty_prog = calm_prog (example_cm [] 10)"

lemmas create_simps = container_manager_create_def choose_id_def register_info_def
  resource_manager_create_cgroup_def make_cgroup_dirs_def mkdir_exist_ok_def set_limits_def
  set_cpu_limits_def set_memory_limits_def write_file_def create_root_def add_container_def
  copy_container_config_def strdup_ok_def find_container_def append_container_def
  example_config_def example_limits_def example_manager_def empty_prog_def Let_def

lemma calm_create: "fst (run_state (container_manager_create calm_kernel 0 (Some example_config)) empty_prog) = Some 0"
  by (simp add: create_simps calm_simps)

theorem create_all_or_nothing_witness:
  "map info_id (containers (cman (snd (run_state
     (container_manager_create calm_kernel 0 (Some example_config)) empty_prog)))) = [''web'']"
proof -
  have "run_state (container_manager_create calm_kernel 0 (Some example_config)) empty_prog =
      (Some 0, snd (run_state (container_manager_create calm_kernel 0 (Some example_config)) empty_prog))"
    using calm_create by (simp add: prod_eq_iff)
  from create_all_or_nothing [OF this] show ?thesis
    by (auto simp: example_config_def empty_prog_def calm_prog_def example_cm_def)
qed

text \<open>
  Property C10. Destroying by id: on a finite process tree it returns 0 and removes exactly the container
  with that id, whatever its state, and no other.
\<close>
theorem destroy_removes_exactly:
  assumes "tree_ranked K rank n" and "wf_cm (cman s)" and "cid \<in> set (map info_id (containers (cman s)))"
  shows "\<exists>t. run_state (container_manager_destroy K n cid) s = (Some 0, t) \<and>
    containers (cman t) = filter (\<lambda>v. info_id v \<noteq> cid) (containers (cman s))"
proof -
  obtain i where "find_container (cman s) cid = Some i"
    using assms(3) find_container_None [of "cman s" cid] by (auto simp: ids_def)
  moreover obtain r t where "run_state (container_manager_destroy K n cid) s = (Some r, t)"
    using destroy_returns [OF assms(1)] by (rule returnsE)
  ultimately show ?thesis using destroy_by_id [OF assms(2)] by blast
qed

theorem destroy_removes_exactly_witness:
  "\<exists>t. run_state (container_manager_destroy calm_kernel (Suc 0) ''1'') running_prog = (Some 0, t) \<and>
     containers (cman t) = []"
  using destroy_removes_exactly [OF calm_tree_ranked running_prog_wf, of "''1''"]
  by (simp add: running_prog_def calm_prog_def example_cm_def example_info_def)

text \<open>
  Destroying by process id does not destroy: when the argument is the process id of a
  container and not an id, the operation answers 0, but the table keeps all its entries.
\<close>
theorem destroy_by_pid_keeps_entry:
  assumes "wf_cm (cman s)" and "find_container (cman s) cid = None"
    and "container_manager_get_info (cman s) cid = Some i"
    and "run_state (container_manager_destroy K n cid) s = (Some r, t)"
  shows "r = 0 \<and> map info_id (containers (cman t)) = map info_id (containers (cman s))"
proof -
  have d: "ids_distinct (cman s)" and rp: "running_pids (cman s)" using assms(1) by (simp_all add: wf_cm_def)
  from assms(4) rp d show ?thesis
  proof (cases rule: destroy_cases)
    case missing
    then show ?thesis using assms(3) by simp
  next
    case (removed j now)
    define c where "c = (if cstate (containers (cman s) ! j) = CONTAINER_RUNNING
      then update_at j (set_stopped now) (cman s) else cman s)"
    have ids: "ids c = ids (cman s)"
      using get_info_index [OF removed(2)]
      by (simp add: c_def update_at_modify [OF d] ids_modify)
    then have "find_container c cid = None" using assms(2) by (simp add: find_container_None)
    then have "cman t = c" using removed(3) by (simp add: remove_container_def c_def)
    then show ?thesis using removed(1) ids by (simp add: ids_def)
  qed
qed

lemma strtol_100: "strtol ''100'' = (100, [])"
  by (simp add: strtol_def scan_integer_def scan_sign_def isspace_def isdigit_def digit_val_def
      clamp_long_def)

theorem destroy_by_pid_keeps_entry_witness:
  "\<exists>t. run_state (container_manager_destroy calm_kernel (Suc 0) ''100'') running_prog = (Some 0, t) \<and>
     map info_id (containers (cman t)) = [''1'']"
proof -
  have f: "find_container (cman running_prog) ''100'' = None"
    by (simp add: running_prog_def calm_prog_def example_cm_def example_info_def find_container_def)
  have g: "container_manager_get_info (cman running_prog) ''100'' = Some 0"
    by (simp add: container_manager_get_info_def f strtol_100 to_int32_def)
      (simp add: running_prog_def calm_prog_def example_cm_def example_info_def find_container_by_pid_def)
  obtain r t where run: "run_state (container_manager_destroy calm_kernel (Suc 0) ''100'') running_prog = (Some r, t)"
    using destroy_returns [OF calm_tree_ranked] by (rule returnsE)
  from destroy_by_pid_keeps_entry [OF running_prog_wf f g run] run show ?thesis
    by (simp add: running_prog_def calm_prog_def example_cm_def example_info_def)
qed

text \<open>
  Property C9. Running is all or nothing as well: on a well-formed manager \<open>container_manager_run\<close>
  either fails and leaves the entries of the table as they were, removing the container it had
  created if its process could not be started, or appends one entry in the state running, with the id
  it reports back in the configuration and a process id other than -1.
\<close>
theorem run_all_or_nothing:
  assumes "wf_cm (cman s)"
    and "run_state (container_manager_run K n (Some config)) s = (Some (r, config'), t)"
  shows "r = - 1 \<and> containers (cman t) = containers (cman s) \<or>
    r = 0 \<and> (\<exists>v cid. containers (cman t) = containers (cman s) @ [v] \<and> cstate v = CONTAINER_RUNNING \<and>
      pid v \<noteq> - 1 \<and> info_id v = cid \<and> config' = Some (config\<lparr>config_id := Some cid\<rparr>) \<and>
      (config_id config = None \<or> config_id config = Some cid))"
  using assms by (rule run_outcome)

theorem run_all_or_nothing_witness:
  "map cstate (containers (cman (snd (run_state
     (container_manager_run calm_kernel 1 (Some example_config)) empty_prog)))) = [CONTAINER_RUNNING]"
proof -
  have wf: "wf_cm (cman empty_prog)"
    by (simp add: empty_prog_def calm_prog_def example_cm_def wf_cm_def ids_distinct_def ids_def running_pids_def)
  have "fst (run_state (container_manager_run calm_kernel 1 (Some example_config)) empty_prog) =
      Some (0, Some example_config)"
    by (simp add: container_manager_run_def run_created_def start_process_def add_to_cgroup_def
        namespace_create_container_with_cgroup_def namespace_clone_process_def
        resource_manager_add_process_def new_info_def create_simps calm_simps)
  then have "run_state (container_manager_run calm_kernel 1 (Some example_config)) empty_prog =
      (Some (0, Some example_config),
       snd (run_state (container_manager_run calm_kernel 1 (Some example_config)) empty_prog))"
    by (simp add: prod_eq_iff)
  from run_all_or_nothing [OF wf this] show ?thesis
    by (auto simp: empty_prog_def calm_prog_def example_cm_def)
qed



text \<open>
  Property C24. Whatever the state file contains, initialising leaves no running container without a
  positive process id in the table, so that no later operation can signal a process group.
\<close>
theorem init_running_containers_have_pids:
  assumes "run_state (container_manager_init K n) s = (r, t)"
  shows "\<forall>v\<in>set (containers (cman t)). cstate v = CONTAINER_RUNNING \<longrightarrow> pid v > 0"
  using init_running [OF assms] by (simp add: running_pids_def)

theorem init_running_containers_have_pids_witness:
  "running_pids (cman (snd (run_state (container_manager_init
     (file_kernel (concat (state_lines [example_info ''1'' 0 CONTAINER_RUNNING]))) 10) empty_prog)))"
  using init_running_containers_have_pids [OF prod.collapse [symmetric]] by (simp add: running_pids_def)

text \<open>
  A creation that fails after its cgroup was made removes the cgroup again: if the
  directories were created but the root filesystem or the table entry could not be, every directory
  of the container's cgroup is removed.
\<close>
theorem create_failure_removes_cgroup:
  assumes "initialized (rm c) \<noteq> 0"
    and "fst (run_state (resource_manager_create_cgroup K (Some (rm c)) (Some cid) (res_limits config)) s) = 0"
    and "run_state (register_info K n c config cid now saved) s = (Some (- 1), t)"
  shows "set (cgroup_dirs (rm c) cid) \<subseteq> rmdir_paths (new_events s t)"
proof -
  obtain u where cg: "run_state (resource_manager_create_cgroup K (Some (rm c)) (Some cid) (res_limits config)) s = (0, u)"
    using assms(2) by (metis prod.collapse)
  obtain r2 v where cr: "run_state (create_root K n (fs_conf config)) u = (Some r2, v)"
    using assms(3) cg by (auto simp: register_info_def split: prod.splits option.splits)
  obtain r3 w where ac: "run_state (add_container K (new_info cid now saved)) v = (r3, w)" by fastforce
  define x where "x = (if r2 \<noteq> 0 then v else w)"
  obtain r4 where d: "run_state (resource_manager_destroy_cgroup K (Some (rm c)) (Some cid)) x = (r4, t)"
    using assms(3) cg cr ac
    by (auto simp: register_info_def x_def split: prod.splits if_splits)
  have "only signal_ok s u" using quiet_run [OF quiet_create_cgroup cg] by (simp add: quiet_def)
  moreover have "only signal_ok u v" using quiet_run [OF quiet_create_root cr] by (simp add: quiet_def)
  moreover have "only signal_ok v w" using add_container_only ac by (rule only_run)
  ultimately have sx: "only signal_ok s x" by (auto simp: x_def intro: only_frame.frame_trans)
  have xt: "only signal_ok x t" using quiet_run [OF quiet_destroy_cgroup d] by (simp add: quiet_def)
  have "new_events s t = new_events s x @ new_events x t" using sx xt by (rule new_events_trans)
  then have "rmdir_paths (new_events x t) \<subseteq> rmdir_paths (new_events s t)"
    by (auto simp: rmdir_paths_def)
  then show ?thesis using destroy_cgroup_rmdirs [OF assms(1) d] by simp
qed

text \<open>A configuration that asks for a root filesystem without saying where.\<close>

definition rootless_config :: container_config where
  "rootless_config = example_config\<lparr>fs_conf := \<lparr>fs_root_path = None, fs_method = FS_CHROOT, create_minimal_fs = 1\<rparr>\<rparr>"

theorem create_failure_removes_cgroup_witness:
  "cg_path CGROUP_ROOT example_manager ''web'' [] \<in> rmdir_paths (new_events empty_prog
     (snd (run_state (register_info calm_kernel 0 (example_cm [] 10) rootless_config ''web'' 1000
        rootless_config) empty_prog)))"
proof -
  have cg: "fst (run_state (resource_manager_create_cgroup calm_kernel (Some (rm (example_cm [] 10)))
      (Some ''web'') (res_limits rootless_config)) empty_prog) = 0"
    by (simp add: rootless_config_def create_simps calm_simps)
  have "fst (run_state (register_info calm_kernel 0 (example_cm [] 10) rootless_config ''web'' 1000
        rootless_config) empty_prog) = Some (- 1)"
    by (simp add: rootless_config_def fs_create_minimal_root_def resource_manager_destroy_cgroup_def
        create_simps calm_simps)
  then have run: "run_state (register_info calm_kernel 0 (example_cm [] 10) rootless_config ''web'' 1000
        rootless_config) empty_prog = (Some (- 1), snd (run_state (register_info calm_kernel 0
        (example_cm [] 10) rootless_config ''web'' 1000 rootless_config) empty_prog))"
    by (simp add: prod_eq_iff)
  have "initialized (rm (example_cm [] 10)) \<noteq> 0" by (simp add: example_cm_def example_manager_def)
  from create_failure_removes_cgroup [OF this cg run] show ?thesis
    by (simp add: cgroup_dirs_def example_cm_def example_manager_def)
qed

end
