(* ===== verification/Floating.thy ===== *)
theory Floating
  imports Complex_Main C_Library
begin

text \<open>
  The type \<open>double\<close> of the sources, as far as they use it: the sums, products, quotients and
  conversions they compute have values between \<open>2 ^ -200\<close> and \<open>2 ^ 200\<close> or are zero, so
  neither overflow nor subnormal numbers occur and a \<open>double\<close> is the rational number it stands for.
  Every operation rounds its exact result with \<open>fl\<close>, to the nearest number with a significand of 53
  bits, ties to even. \<open>show_fixed\<close> is the conversion \<open>%.nf\<close>, which rounds the exact value the same
  way to \<open>n\<close> decimals.
\<close>

section \<open>Rounding\<close>

definition round_half_even :: "rat \<Rightarrow> int" where
  "round_half_even x =
     (let n = \<lfloor>x\<rfloor>; d = x - of_int n in
      if d < 1 / 2 then n else if d > 1 / 2 then n + 1 else if even n then n else n + 1)"

fun floor_log2 :: "nat \<Rightarrow> nat" where
  "floor_log2 n = (if n < 2 then 0 else Suc (floor_log2 (n div 2)))"

declare floor_log2.simps [simp del]

definition ilog2 :: "rat \<Rightarrow> int" where
  \<comment> \<open>the exponent of a positive number: \<open>2 powi ilog2 x \<le> x < 2 powi (ilog2 x + 1)\<close>\<close>
  "ilog2 x =
     (if x \<ge> 1 then int (floor_log2 (nat \<lfloor>x\<rfloor>))
      else - int (Suc (floor_log2 (nat (\<lceil>1 / x\<rceil> - 1)))))"

definition fl :: "rat \<Rightarrow> rat" where
  "fl x =
     (if x = 0 then 0
      else let e = ilog2 \<bar>x\<bar> - 52 in of_int (round_half_even (x / 2 powi e)) * 2 powi e)"

section \<open>Printing\<close>

definition pad_zero :: "nat \<Rightarrow> string \<Rightarrow> string" where
  \<comment> \<open>\<open>%0nd\<close> of a number without sign\<close>
  "pad_zero n s = replicate (n - length s) (CHR ''0'') @ s"

definition show_fixed :: "nat \<Rightarrow> rat \<Rightarrow> string" where
  "show_fixed n x =
     (let q = nat (round_half_even (\<bar>x\<bar> * 10 ^ n)) in
      (if x < 0 then ''-'' else []) @ show_nat (q div 10 ^ n) @ ''.'' @
        pad_zero n (show_nat (q mod 10 ^ n)))"

section \<open>Lemmas\<close>

lemma round_half_even_of_int [simp]: "round_half_even (of_int n) = n"
  by (simp add: round_half_even_def)

lemma round_half_even_bounds: "\<lfloor>x\<rfloor> \<le> round_half_even x" "round_half_even x \<le> \<lfloor>x\<rfloor> + 1"
  by (simp_all add: round_half_even_def Let_def)

lemma round_half_even_mono:
  assumes "x \<le> y"
  shows "round_half_even x \<le> round_half_even y"
proof (cases "\<lfloor>x\<rfloor> = \<lfloor>y\<rfloor>")
  case True
  then show ?thesis using assms by (auto simp: round_half_even_def Let_def)
next
  case False
  then have "\<lfloor>x\<rfloor> + 1 \<le> \<lfloor>y\<rfloor>" using floor_mono [OF assms] by simp
  then show ?thesis using round_half_even_bounds [of x] round_half_even_bounds [of y] by linarith
qed

lemma floor_log2_bounds: "0 < n \<Longrightarrow> 2 ^ floor_log2 n \<le> n \<and> n < 2 ^ Suc (floor_log2 n)"
proof (induction n rule: floor_log2.induct)
  case (1 n)
  show ?case
  proof (cases "n < 2")
    case True
    then show ?thesis using "1.prems" by (simp add: floor_log2.simps)
  next
    case False
    then have "2 ^ floor_log2 (n div 2) \<le> n div 2 \<and> n div 2 < 2 ^ Suc (floor_log2 (n div 2))"
      using "1.IH" by simp
    then show ?thesis using False by (simp add: floor_log2.simps [of n]) linarith
  qed
qed

lemma two_power_of_nat:
  "2 ^ k \<le> n \<Longrightarrow> (2 :: rat) ^ k \<le> of_nat n"
  "n + 1 \<le> 2 ^ k \<Longrightarrow> of_nat n + 1 \<le> (2 :: rat) ^ k"
  using of_nat_mono [of "2 ^ k" n, where 'a = rat] of_nat_mono [of "n + 1" "2 ^ k", where 'a = rat] by simp_all

lemma ilog2_bounds:
  assumes "0 < x"
  shows "2 powi ilog2 x \<le> x" and "x < 2 powi (ilog2 x + 1)"
proof -
  have "2 powi ilog2 x \<le> x \<and> x < 2 powi (ilog2 x + 1)"
  proof (cases "x \<ge> 1")
    case True
    define n where "n = nat \<lfloor>x\<rfloor>"
    have n: "of_nat n \<le> x" "x < of_nat n + 1" "0 < n"
      using True floor_correct [of x] by (simp_all add: n_def le_floor_iff)
    have b: "2 ^ floor_log2 n \<le> n" "n + 1 \<le> 2 ^ Suc (floor_log2 n)"
      using floor_log2_bounds [OF n(3)] by simp_all
    have "(2 :: rat) ^ floor_log2 n \<le> of_nat n" using b(1) by (rule two_power_of_nat)
    moreover have "of_nat n + 1 \<le> (2 :: rat) ^ Suc (floor_log2 n)"
      using b(2) by (rule two_power_of_nat)
    moreover have "ilog2 x = int (floor_log2 n)" using True by (simp add: ilog2_def n_def)
    ultimately have "(2 :: rat) powi ilog2 x \<le> of_nat n" "of_nat n + 1 \<le> (2 :: rat) powi (ilog2 x + 1)"
      by (simp_all add: power_int_add)
    then show ?thesis using n by linarith
  next
    case False
    define n where "n = nat (\<lceil>1 / x\<rceil> - 1)"
    have inv: "1 < 1 / x" using False assms by (simp add: field_simps)
    then have c: "1 < \<lceil>1 / x\<rceil>" by (simp add: less_ceiling_iff)
    have "int n = \<lceil>1 / x\<rceil> - 1" unfolding n_def using c by linarith
    then have "rat_of_nat n = of_int \<lceil>1 / x\<rceil> - 1" by (metis of_int_1 of_int_diff of_int_of_nat_eq)
    then have n: "of_nat n < 1 / x" "1 / x \<le> of_nat n + 1" "0 < n"
      using c ceiling_correct [of "1 / x"] by (simp_all add: n_def)
    have b: "2 ^ floor_log2 n \<le> n" "n + 1 \<le> 2 ^ Suc (floor_log2 n)"
      using floor_log2_bounds [OF n(3)] by simp_all
    have "(2 :: rat) ^ floor_log2 n \<le> of_nat n" using b(1) by (rule two_power_of_nat)
    then have lo: "2 ^ floor_log2 n < 1 / x" using n(1) by linarith
    have "of_nat n + 1 \<le> (2 :: rat) ^ Suc (floor_log2 n)"
      using b(2) by (rule two_power_of_nat)
    then have hi: "1 / x \<le> 2 ^ Suc (floor_log2 n)" using n(2) by linarith
    have l: "ilog2 x = - int (Suc (floor_log2 n))" "ilog2 x + 1 = - int (floor_log2 n)"
      using False by (simp_all add: ilog2_def n_def)
    have "2 powi ilog2 x = 1 / (2 :: rat) ^ Suc (floor_log2 n)" "2 powi (ilog2 x + 1) = 1 / (2 :: rat) ^ floor_log2 n"
      unfolding l power_int_minus power_int_of_nat by (simp_all add: inverse_eq_divide power_int_minus)
    moreover have "1 / 2 ^ Suc (floor_log2 n) \<le> x" "x < 1 / 2 ^ floor_log2 n"
      using lo hi assms by (simp_all add: field_simps)
    ultimately show ?thesis by (simp only:)
  qed
  then show "2 powi ilog2 x \<le> x" and "x < 2 powi (ilog2 x + 1)" by simp_all
qed

lemma fl_0 [simp]: "fl 0 = 0"
  by (simp add: fl_def)

lemma fl_scaled:
  assumes "0 < x"
  shows "fl x = of_int (round_half_even (x / 2 powi (ilog2 x - 52))) * 2 powi (ilog2 x - 52)"
  using assms by (simp add: fl_def Let_def)

text \<open>Rounding stays between the two powers of two around a number.\<close>

lemma fl_bounds:
  assumes "0 < x"
  shows "2 powi ilog2 x \<le> fl x" and "fl x \<le> 2 powi (ilog2 x + 1)"
proof -
  define e where "e = ilog2 x - 52"
  have split: "2 powi ilog2 x = (2 :: rat) ^ 52 * 2 powi e" "2 powi (ilog2 x + 1) = (2 :: rat) ^ 53 * 2 powi e"
    by (simp_all add: e_def power_int_diff power_int_add)
  have pos: "(0 :: rat) < 2 powi e" by simp
  have "of_int (2 ^ 52) \<le> x / 2 powi e" "x / 2 powi e \<le> of_int (2 ^ 53)"
    using ilog2_bounds [OF assms] pos unfolding split by (simp_all add: field_simps)
  then have r: "2 ^ 52 \<le> round_half_even (x / 2 powi e)" "round_half_even (x / 2 powi e) \<le> 2 ^ 53"
    using round_half_even_mono [of "of_int (2 ^ 52)"] round_half_even_mono [of _ "of_int (2 ^ 53)"]
    unfolding round_half_even_of_int by blast+
  have r': "(2 :: rat) ^ 52 \<le> of_int (round_half_even (x / 2 powi e))"
      "of_int (round_half_even (x / 2 powi e)) \<le> (2 :: rat) ^ 53"
    using r by (metis of_int_le_iff of_int_numeral of_int_power)+
  show "2 powi ilog2 x \<le> fl x" and "fl x \<le> 2 powi (ilog2 x + 1)"
    unfolding split fl_scaled [OF assms] e_def [symmetric]
    using mult_right_mono [OF r'(1), of "2 powi e"] mult_right_mono [OF r'(2), of "2 powi e"] pos by simp_all
qed

lemma fl_pos: "0 < x \<Longrightarrow> 0 < fl x"
  using fl_bounds(1) [of x] zero_less_power_int [of "2 :: rat" "ilog2 x"] by linarith

lemma fl_nonneg: "0 \<le> x \<Longrightarrow> 0 \<le> fl x"
  using fl_pos [of x] by (cases "x = 0") auto

lemma ilog2_mono:
  assumes "0 < x" and "x \<le> y"
  shows "ilog2 x \<le> ilog2 y"
proof (rule ccontr)
  assume "\<not> ilog2 x \<le> ilog2 y"
  then have "(2 :: rat) powi (ilog2 y + 1) \<le> 2 powi ilog2 x"
    by (intro power_int_increasing) simp_all
  then show False using ilog2_bounds [of x] ilog2_bounds [of y] assms by linarith
qed

lemma fl_mono:
  assumes "0 \<le> x" and "x \<le> y"
  shows "fl x \<le> fl y"
proof (cases "x = 0")
  case True
  then show ?thesis using assms by (simp add: fl_nonneg)
next
  case False
  then have x: "0 < x" "0 < y" using assms by simp_all
  show ?thesis
  proof (cases "ilog2 x = ilog2 y")
    case True
    have "x / 2 powi (ilog2 y - 52) \<le> y / 2 powi (ilog2 y - 52)"
      using assms(2) by (simp add: divide_right_mono)
    then show ?thesis
      unfolding fl_scaled [OF x(1)] fl_scaled [OF x(2)] True
      using round_half_even_mono by (simp add: mult_right_mono)
  next
    case False
    then have "ilog2 x + 1 \<le> ilog2 y" using ilog2_mono [OF x(1) assms(2)] by simp
    then have "(2 :: rat) powi (ilog2 x + 1) \<le> 2 powi ilog2 y" by (intro power_int_increasing) simp_all
    then show ?thesis using fl_bounds [OF x(1)] fl_bounds [OF x(2)] by linarith
  qed
qed

lemma fl_of_nat:
  assumes "n < 2 ^ 53"
  shows "fl (of_nat n) = of_nat n"
proof (cases "n = 0")
  case True
  then show ?thesis by simp
next
  case False
  then have pos: "(0 :: rat) < of_nat n" by simp
  have "(2 :: rat) powi ilog2 (of_nat n) < 2 powi 53"
  proof -
    have "of_nat n < (2 :: rat) ^ 53" using assms by (metis of_nat_less_iff of_nat_numeral of_nat_power)
    then show ?thesis using ilog2_bounds(1) [OF pos] by (simp add: power_int_def)
  qed
  then have e: "ilog2 (of_nat n) \<le> 52"
    using power_int_increasing [of 53 "ilog2 (of_nat n)" "2 :: rat"] by fastforce
  define k where "k = nat (52 - ilog2 (of_nat n :: rat))"
  have sc: "(2 :: rat) powi (ilog2 (of_nat n) - 52) = 1 / 2 ^ k"
    using e by (simp add: k_def power_int_def inverse_eq_divide power_one_over)
  have "of_nat n / (2 :: rat) powi (ilog2 (of_nat n) - 52) = of_int (int n * 2 ^ k)"
    by (simp add: sc)
  then show ?thesis
    unfolding fl_scaled [OF pos] by (simp only: round_half_even_of_int) (simp add: sc)
qed

lemma fl_small [simp]: "fl 1 = 1" "fl 100 = 100" "fl 1024 = 1024"
  using fl_of_nat [of 1] fl_of_nat [of 100] fl_of_nat [of 1024] by simp_all

lemma fl_le_1: "0 \<le> x \<Longrightarrow> x \<le> 1 \<Longrightarrow> fl x \<le> 1"
  using fl_mono [of x 1] by simp

lemma fl_le_100: "0 \<le> x \<Longrightarrow> x \<le> 100 \<Longrightarrow> fl x \<le> 100"
  using fl_mono [of x 100] by simp

text \<open>Scaling by a power of two changes the exponent only.\<close>

lemma ilog2_unique:
  assumes "0 < x" and "2 powi e \<le> x" and "x < 2 powi (e + 1)"
  shows "ilog2 x = e"
proof (rule antisym)
  show "ilog2 x \<le> e"
  proof (rule ccontr)
    assume "\<not> ilog2 x \<le> e"
    then have "(2 :: rat) powi (e + 1) \<le> 2 powi ilog2 x" by (intro power_int_increasing) simp_all
    then show False using ilog2_bounds(1) [OF assms(1)] assms(3) by linarith
  qed
  show "e \<le> ilog2 x"
  proof (rule ccontr)
    assume "\<not> e \<le> ilog2 x"
    then have "(2 :: rat) powi (ilog2 x + 1) \<le> 2 powi e" by (intro power_int_increasing) simp_all
    then show False using ilog2_bounds(2) [OF assms(1)] assms(2) by linarith
  qed
qed

lemma fl_scale:
  assumes "0 < x"
  shows "fl (x * 2 powi k) = fl x * 2 powi k"
proof -
  have pos: "0 < x * 2 powi k" using assms by simp
  have "2 powi (ilog2 x + k) \<le> x * 2 powi k" "x * 2 powi k < 2 powi (ilog2 x + k + 1)"
    using ilog2_bounds [OF assms] mult_right_mono [of "2 powi ilog2 x" x "2 powi k"]
      mult_strict_right_mono [of x "2 powi (ilog2 x + 1)" "2 powi k"]
    by (simp_all add: power_int_add algebra_simps)
  then have l: "ilog2 (x * 2 powi k) = ilog2 x + k" using pos by (intro ilog2_unique)
  have e: "(2 :: rat) powi (ilog2 x + k - 52) = 2 powi (ilog2 x - 52) * 2 powi k"
    by (simp add: power_int_add power_int_diff)
  show ?thesis unfolding fl_scaled [OF pos] fl_scaled [OF assms] l e by simp
qed

lemma fl_dyadic:
  assumes "n < 2 ^ 53"
  shows "fl (of_nat n / 2 ^ k) = of_nat n / 2 ^ k"
proof (cases "n = 0")
  case True
  then show ?thesis by simp
next
  case False
  have "(2 :: rat) powi (- int k) = 1 / 2 ^ k" by (simp add: power_int_minus inverse_eq_divide)
  then show ?thesis using fl_scale [of "of_nat n" "- int k"] False fl_of_nat [OF assms] by simp
qed

end
