(* ===== verification/Front_End.thy ===== *)
theory Front_End
  imports Manager_Properties Floating "HOL-Library.Multiset"
begin

text \<open>
  What the front ends share: their part of the program state (the globals of \<open>src/src/main.cpp\<close> and
  the object and static variables of the web server), the calls they make beyond those of
  \<open>Kernel\<close> (terminal, clock formatting, sockets), and the formatting helpers of
  \<open>src/src/main.cpp\<close>. Standard output is part of the trace: one \<^const>\<open>EPrint\<close> per print call.
  Escape sequences (colours, clearing the screen, hiding the cursor) are left out, as is standard error.
\<close>

section \<open>The host\<close>

text \<open>
  Calls of the front ends. \<open>h_localtime\<close> is \<open>localtime\<close> printed by \<open>strftime\<close> with \<open>%H:%M:%S\<close>, \<open>None\<close>
  when \<open>localtime\<close> fails; \<open>h_ctime\<close> the text of \<open>ctime\<close>; \<open>h_fgets\<close> one \<open>fgets\<close> on standard input with the
  size of the buffer, \<open>None\<close> at the end of file; \<open>h_poll\<close> waits up to that many seconds for a key and
  reads it; \<open>h_sort\<close> is \<open>std::sort\<close> with a comparison (the order of equal elements is not specified).
\<close>

record 'w host =
  h_localtime :: "int \<Rightarrow> 'w \<Rightarrow> string option \<times> 'w"
  h_ctime :: "int \<Rightarrow> 'w \<Rightarrow> string \<times> 'w"
  h_fgets :: "nat \<Rightarrow> 'w \<Rightarrow> string option \<times> 'w"
  h_getchar :: "'w \<Rightarrow> char option \<times> 'w"
  h_poll :: "nat \<Rightarrow> 'w \<Rightarrow> char option \<times> 'w"
  h_nproc :: "'w \<Rightarrow> int \<times> 'w"
  h_getuid :: "'w \<Rightarrow> int \<times> 'w"
  h_sysinfo :: "'w \<Rightarrow> (ulong \<times> ulong) option \<times> 'w"
  h_sort :: "(container_info \<Rightarrow> container_info \<Rightarrow> bool) \<Rightarrow> container_info list \<Rightarrow> container_info list"
  h_socket :: "'w \<Rightarrow> int res \<times> 'w"
  h_setsockopt :: "int \<Rightarrow> 'w \<Rightarrow> unit res \<times> 'w"
  h_bind :: "int \<Rightarrow> int \<Rightarrow> 'w \<Rightarrow> unit res \<times> 'w"
  h_listen :: "int \<Rightarrow> 'w \<Rightarrow> unit res \<times> 'w"
  h_accept :: "int \<Rightarrow> 'w \<Rightarrow> int res \<times> 'w"

section \<open>State\<close>

record web_server =
  server_port :: int
  server_running :: bool
  server_socket :: int
  joinable :: bool \<comment> \<open>whether \<open>server_thread_\<close> was started and not yet joined\<close>

record web_statics =
  prev_cpu_usage :: "string \<rightharpoonup> ulong"
  prev_time :: "string \<rightharpoonup> int"
  prev_idle :: ulong
  prev_total :: ulong

record 'w app = "'w prog" +
  running :: bool
  monitor_mode :: bool
  web :: "web_server option"
  statics :: web_statics

type_synonym ('w, 'z, 'a) aio = "(('w, 'z) app_scheme, 'a) state"

definition get_app :: "(('w, 'z) app_scheme \<Rightarrow> 'a) \<Rightarrow> ('w, 'z, 'a) aio" where
  \<comment> \<open>reading a global\<close>
  "get_app f = State (\<lambda>s. (f s, s))"

definition set_app :: "(('w, 'z) app_scheme \<Rightarrow> ('w, 'z) app_scheme) \<Rightarrow> ('w, 'z, unit) aio" where
  \<comment> \<open>assigning to globals\<close>
  "set_app f = State (\<lambda>s. ((), f s))"

lemma run_get_app [simp, run_simps]: "run_state (get_app f) s = (f s, s)"
  by (simp add: get_app_def)

lemma run_set_app [simp, run_simps]: "run_state (set_app f) s = ((), f s)"
  by (simp add: set_app_def)

definition c_print :: "string \<Rightarrow> ('w, 'z, unit) io" where
  "c_print txt = sys (\<lambda>_. EPrint txt) (\<lambda>w. ((), w))"

lemma run_c_print [simp, run_simps]:
  "run_state (c_print txt) s = ((), s\<lparr>trace := trace s @ [EPrint txt]\<rparr>)"
  by (simp add: c_print_def)

definition say :: "string list \<Rightarrow> ('w, 'z, unit) io" where
  \<comment> \<open>print calls in a row\<close>
  "say = for_each c_print"

lemma run_say [simp, run_simps]:
  "run_state (say xs) s = ((), s\<lparr>trace := trace s @ map EPrint xs\<rparr>)"
  unfolding say_def by (induction xs arbitrary: s) simp_all

definition c_sleep :: "'w kernel \<Rightarrow> nat \<Rightarrow> ('w, 'z, unit) io" where
  "c_sleep K sec = c_usleep K (sec * 1000000)"

section \<open>Formatting\<close>

definition of_ulong :: "ulong \<Rightarrow> rat" where
  \<comment> \<open>the conversion of an \<open>unsigned long\<close> to \<open>double\<close>\<close>
  "of_ulong w = fl (of_nat (unat w))"

lemma of_ulong_nonneg [simp]: "0 \<le> of_ulong w"
  unfolding of_ulong_def by (rule fl_nonneg) (rule of_nat_0_le_iff)

lemma of_ulong_pos: "0 < w \<Longrightarrow> 0 < of_ulong w"
  unfolding of_ulong_def
  by (rule fl_pos) (simp only: of_nat_0_less_iff, simp add: word_less_nat_alt)

lemma of_ulong_mono: "v \<le> w \<Longrightarrow> of_ulong v \<le> of_ulong w"
  unfolding of_ulong_def
  by (rule fl_mono) (simp_all only: of_nat_0_le_iff of_nat_le_iff word_le_nat_alt)

definition pad :: "nat \<Rightarrow> string \<Rightarrow> string" where
  \<comment> \<open>\<open>%-ns\<close>\<close>
  "pad n s = s @ replicate (n - length s) (CHR '' '')"

definition safe_state_name :: "container_state \<Rightarrow> string" where
  "safe_state_name state =
     (let s = state_code state in
      if s < state_code CONTAINER_CREATED \<or> s > state_code CONTAINER_DESTROYED then ''UNKNOWN''
      else [''CREATED'', ''RUNNING'', ''STOPPED'', ''DESTROYED''] ! nat s)"

definition active_containers :: "container_manager \<Rightarrow> container_info list" where
  \<comment> \<open>the loop that keeps every container that is not destroyed\<close>
  "active_containers c = filter (\<lambda>info. cstate info \<noteq> CONTAINER_DESTROYED) (containers c)"

function scale_units :: "rat \<Rightarrow> nat \<Rightarrow> rat \<times> nat" where
  "scale_units sz u =
     (if sz \<ge> 1024 \<and> u < 3 then scale_units (fl (sz / 1024)) (u + 1) else (sz, u))"
  by pat_completeness auto
termination by (relation "measure (\<lambda>(_, u). 3 - u)") auto

declare scale_units.simps [simp del]

definition format_bytes :: "ulong \<Rightarrow> string" where
  "format_bytes bytes =
     (case scale_units (of_ulong bytes) 0 of (sz, u) \<Rightarrow>
        snprintf 64 (show_fixed 2 sz @ '' '' @ [''B'', ''KB'', ''MB'', ''GB''] ! u))"

definition c_mod :: "int \<Rightarrow> int \<Rightarrow> int" where
  \<comment> \<open>the remainder of C, with the sign of the dividend\<close>
  "c_mod a b = a - c_div a b * b"

definition show_02d :: "int \<Rightarrow> string" where
  \<comment> \<open>\<open>%02d\<close>\<close>
  "show_02d i = (if i < 0 then show_int i else pad_zero 2 (show_int i))"

definition format_duration :: "int \<Rightarrow> int \<Rightarrow> string" where
  "format_duration start stop =
     (if start = 0 \<or> stop = 0 then ''--''
      else let diff = stop - start;
               hours = to_int32 (c_div diff 3600);
               minutes = c_div (c_mod diff 3600) 60;
               seconds = c_mod diff 60
           in if hours > 0
              then snprintf 32 (show_int hours @ '':'' @ show_02d minutes @ '':'' @ show_02d seconds)
              else snprintf 32 (show_int minutes @ '':'' @ show_02d seconds))"

definition cpu_share :: "ulong \<Rightarrow> int \<Rightarrow> int \<Rightarrow> rat" where
  \<comment> \<open>\<open>(cpu_ns / 1e9 / elapsed) * 100.0 / cpu_cores\<close>, at most 100\<close>
  "cpu_share cpu_ns elapsed cores =
     (let cpu_seconds = fl (of_ulong cpu_ns / 1000000000);
          percent = fl (fl (fl (cpu_seconds / fl (of_int elapsed)) * 100) / of_int cores)
      in if percent > 100 then 100 else percent)"

definition calculate_cpu_percent ::
  "'w kernel \<Rightarrow> 'w host \<Rightarrow> ulong \<Rightarrow> int \<Rightarrow> ('w, 'z, rat) io" where
  "calculate_cpu_percent K H cpu_ns start_time =
     (if start_time = 0 then State_Monad.return 0
      else do {
        now \<leftarrow> c_time K;
        let elapsed = now - start_time;
        if elapsed \<le> 0 then State_Monad.return 0
        else do {
          n \<leftarrow> ask (h_nproc H);
          let cpu_cores = (if to_int32 n \<le> 0 then 1 else to_int32 n);
          State_Monad.return (cpu_share cpu_ns elapsed cpu_cores)
        }
      })"

definition stats :: "'w kernel \<Rightarrow> resource_manager \<Rightarrow> string \<Rightarrow> ('w, 'z, ulong \<times> ulong) io" where
  \<comment> \<open>a call of \<open>resource_manager_get_stats\<close> for both numbers, set to 0 before it\<close>
  "stats K m cid = do {
     (r, c, u) \<leftarrow> resource_manager_get_stats K (Some m) (Some cid) True True;
     State_Monad.return (case c of Some v \<Rightarrow> v | None \<Rightarrow> 0, case u of Some v \<Rightarrow> v | None \<Rightarrow> 0)
   }"

section \<open>Instances\<close>

text \<open>
  A host on which every call succeeds, with an insertion sort, and a program state for it: the
  hypotheses of the properties are shown to be satisfiable there.
\<close>

primrec insert_by :: "('a \<Rightarrow> 'a \<Rightarrow> bool) \<Rightarrow> 'a \<Rightarrow> 'a list \<Rightarrow> 'a list" where
  "insert_by lt x [] = [x]"
| "insert_by lt x (y # ys) = (if lt y x then y # insert_by lt x ys else x # y # ys)"

definition calm_host :: "unit host" where
  "calm_host = \<lparr>
     h_localtime = (\<lambda>_ w. (Some ''00:16:40'', w)), h_ctime = (\<lambda>_ w. (''Thu Jan  1 00:16:40 1970'' @ [NL], w)),
     h_fgets = (\<lambda>_ w. (Some ''1'', w)), h_getchar = (\<lambda>w. (Some NL, w)), h_poll = (\<lambda>_ w. (Some (CHR ''0''), w)),
     h_nproc = (\<lambda>w. (4, w)), h_getuid = (\<lambda>w. (0, w)), h_sysinfo = (\<lambda>w. (Some (2 ^ 20, 4096), w)),
     h_sort = (\<lambda>lt xs. foldr (insert_by lt) xs []),
     h_socket = (\<lambda>w. (Inr 5, w)), h_setsockopt = (\<lambda>_ w. (Inr (), w)), h_bind = (\<lambda>_ _ w. (Inr (), w)),
     h_listen = (\<lambda>_ w. (Inr (), w)), h_accept = (\<lambda>_ w. (Inr 6, w))\<rparr>"

definition no_statics :: web_statics where
  "no_statics = \<lparr>prev_cpu_usage = Map.empty, prev_time = Map.empty, prev_idle = 0, prev_total = 0\<rparr>"

definition example_app :: "container_manager \<Rightarrow> unit app" where
  "example_app c = \<lparr>kst = (), trace = [], cman = c, running = True, monitor_mode = False,
     web = Some \<lparr>server_port = 808, server_running = True, server_socket = 5, joinable = True\<rparr>,
     statics = no_statics\<rparr>"

lemma example_app_simps [simp]:
  "kst (example_app c) = ()" "trace (example_app c) = []" "cman (example_app c) = c"
  "running (example_app c)" "statics (example_app c) = no_statics"
  by (simp_all add: example_app_def)

section \<open>Lemmas: formatting\<close>

lemma scale_units_exact:
  assumes "n < 2 ^ 53" and "x = of_nat n / 1024 ^ u" and "u \<le> 3" and "u > 0 \<longrightarrow> 1 \<le> x"
  shows "\<exists>v\<le>3. scale_units x u = (of_nat n / 1024 ^ v, v) \<and>
    (v < 3 \<longrightarrow> of_nat n / 1024 ^ v < (1024 :: rat)) \<and> (v > 0 \<longrightarrow> (1 :: rat) \<le> of_nat n / 1024 ^ v)"
  using assms(2-)
proof (induction x u rule: scale_units.induct)
  case (1 x u)
  show ?case
  proof (cases "x \<ge> 1024 \<and> u < 3")
    case False
    then have "scale_units x u = (of_nat n / 1024 ^ u, u)"
      using "1.prems"(1) unfolding scale_units.simps [of x u] if_not_P [OF False] by simp
    moreover have "u < 3 \<longrightarrow> of_nat n / 1024 ^ u < (1024 :: rat)" using False "1.prems"(1) by auto
    ultimately show ?thesis
      using "1.prems"(2) "1.prems"(3) [unfolded "1.prems"(1)] by (intro exI [of _ u] conjI)
  next
    case True
    have pow: "(1024 :: rat) ^ Suc u = 2 ^ (10 * Suc u)" unfolding power_mult by simp
    have "x / 1024 = of_nat n / 1024 ^ Suc u" using "1.prems"(1) by simp
    then have "fl (x / 1024) = of_nat n / 1024 ^ Suc u"
      unfolding pow by (simp only: fl_dyadic [OF assms(1)])
    moreover have "1 \<le> of_nat n / (1024 :: rat) ^ Suc u"
      using True "1.prems"(1) by (simp add: field_simps)
    ultimately show ?thesis
      using "1.IH" [OF True] True by (subst scale_units.simps) simp
  qed
qed

lemma c_div_mod_parts:
  assumes "0 \<le> d"
  shows "c_div d 3600 = d div 3600" and "c_div (c_mod d 3600) 60 = d mod 3600 div 60" and "c_mod d 60 = d mod 60"
proof -
  have m: "c_mod d k = d mod k" if "0 < k" for k
    using assms that by (simp add: c_mod_def c_div_nonneg minus_div_mult_eq_mod)
  show "c_div d 3600 = d div 3600" "c_mod d 60 = d mod 60" using assms m by (simp_all add: c_div_nonneg)
  show "c_div (c_mod d 3600) 60 = d mod 3600 div 60" by (simp add: m c_div_nonneg)
qed

section \<open>Properties\<close>

text \<open>
  Property C34. The monitors print what they measure: a run time is split into hours, minutes below 60 and
  seconds below 60 that add up to it; a number of bytes below \<open>2 ^ 53\<close> is divided, without rounding, by
  the power of 1024 that its unit stands for, so that less than 1024 of the unit are left unless it is
  the largest, and at least one unless it is the smallest.
\<close>
theorem formatting_faithful:
  "(0 < start \<and> start \<le> stop \<and> stop - start < 3600 * 2 ^ 31 \<longrightarrow>
     (\<exists>h m s. stop - start = h * 3600 + m * 60 + s \<and> 0 \<le> m \<and> m < 60 \<and> 0 \<le> s \<and> s < 60 \<and>
       format_duration start stop = snprintf 32 (if h > 0 then show_int h @ '':'' @ show_02d m @ '':'' @ show_02d s
         else show_int m @ '':'' @ show_02d s))) \<and>
   (unat b < 2 ^ 53 \<longrightarrow>
     (\<exists>v\<le>3. format_bytes b = snprintf 64 (show_fixed 2 (of_nat (unat b) / 1024 ^ v) @ '' '' @
         [''B'', ''KB'', ''MB'', ''GB''] ! v) \<and>
       (v < 3 \<longrightarrow> of_nat (unat b) / 1024 ^ v < (1024 :: rat)) \<and>
       (v > 0 \<longrightarrow> (1 :: rat) \<le> of_nat (unat b) / 1024 ^ v)))"
proof (intro conjI impI)
  assume t: "0 < start \<and> start \<le> stop \<and> stop - start < 3600 * 2 ^ 31"
  define d where "d = stop - start"
  have d: "0 \<le> d" "d < 3600 * 2 ^ 31" using t by (simp_all add: d_def)
  have h: "to_int32 (d div 3600) = d div 3600"
    using d by (intro to_int32_id) (simp add: int32_range_def div_less_iff_less_mult pos_imp_zdiv_nonneg_iff order_trans [of "- 2147483648" 0])
  have "d mod 3600 mod 60 = d mod 60" by (simp add: mod_mod_cancel)
  then have "d = d div 3600 * 3600 + d mod 3600 div 60 * 60 + d mod 60"
    using div_mult_mod_eq [of d 3600] div_mult_mod_eq [of "d mod 3600" 60] by linarith
  moreover have "d mod 3600 div 60 < 60" "0 \<le> d mod 3600 div 60" by (simp_all add: div_less_iff_less_mult)
  moreover have "format_duration start stop = snprintf 32 (if d div 3600 > 0
      then show_int (d div 3600) @ '':'' @ show_02d (d mod 3600 div 60) @ '':'' @ show_02d (d mod 60)
      else show_int (d mod 3600 div 60) @ '':'' @ show_02d (d mod 60))"
    using t unfolding format_duration_def Let_def d_def [symmetric] c_div_mod_parts [OF d(1)] h
    by (simp only: if_distrib [of "snprintf 32"]) simp
  moreover have "0 \<le> d mod 60" "d mod 60 < 60" by simp_all
  ultimately show "\<exists>h m s. stop - start = h * 3600 + m * 60 + s \<and> 0 \<le> m \<and> m < 60 \<and> 0 \<le> s \<and> s < 60 \<and>
       format_duration start stop = snprintf 32 (if h > 0 then show_int h @ '':'' @ show_02d m @ '':'' @ show_02d s
         else show_int m @ '':'' @ show_02d s)"
    unfolding d_def [symmetric] by blast
next
  assume b: "unat b < 2 ^ 53"
  have "of_ulong b = of_nat (unat b)" unfolding of_ulong_def using b by (rule fl_of_nat)
  then show "\<exists>v\<le>3. format_bytes b = snprintf 64 (show_fixed 2 (of_nat (unat b) / 1024 ^ v) @ '' '' @
         [''B'', ''KB'', ''MB'', ''GB''] ! v) \<and>
       (v < 3 \<longrightarrow> of_nat (unat b) / 1024 ^ v < (1024 :: rat)) \<and>
       (v > 0 \<longrightarrow> (1 :: rat) \<le> of_nat (unat b) / 1024 ^ v)"
    using scale_units_exact [OF b, of "of_ulong b" 0] by (auto simp del: of_nat_unat simp: format_bytes_def)
qed

theorem formatting_faithful_witness:
  "\<exists>h m s. 4000 = h * 3600 + m * 60 + (s :: int) \<and> m < 60 \<and> s < 60 \<and>
     format_duration 1000 5000 = snprintf 32 (if h > 0 then show_int h @ '':'' @ show_02d m @ '':'' @ show_02d s
         else show_int m @ '':'' @ show_02d s)"
proof -
  have t: "(0 :: int) < 1000 \<and> 1000 \<le> (5000 :: int) \<and> 5000 - 1000 < 3600 * (2 :: int) ^ 31" by simp
  from mp [OF conjunct1 [OF formatting_faithful] t] obtain h m s where
    "5000 - 1000 = h * 3600 + m * 60 + s" "m < 60" "s < 60"
    "format_duration 1000 5000 = snprintf 32 (if h > 0 then show_int h @ '':'' @ show_02d m @ '':'' @ show_02d s
         else show_int m @ '':'' @ show_02d s)" by blast
  then show ?thesis by (intro exI [of _ h] exI [of _ m] exI [of _ s]) simp
qed

end
