(* ===== verification/Web_Page.thy ===== *)
theory Web_Page
  imports Prelude
begin

text \<open>
  The page the web server sends to a browser (\<open>generateHTML\<close> of \<open>src/src/web_server_simple.cpp\<close>), line
  by line as the raw string of the source has it. The page fetches \<open>/api/containers\<close> every ten seconds.
\<close>

definition indent :: "nat \<Rightarrow> string \<Rightarrow> string" where
  "indent n l = replicate n (CHR '' '') @ l"

definition APOS :: string where "APOS = [CHR 0x27]"

definition page_lines :: "string list" where
  \<open>page_lines = [
     ''<!DOCTYPE html>'',
     ''<html>'',
     ''<head>'',
     indent 4 ''<meta charset="UTF-8">'',
     indent 4 ''<title>Container Monitor</title>'',
     indent 4 ''<script src="https:'',
     indent 4 ''<style>'',
     indent 8 ''body { font-family: Arial, sans-serif; margin: 20px; background: #f0f0f0; }'',
     indent 8 ''.container { max-width: 1200px; margin: 0 auto; background: white; padding: 30px; border-radius: 10px; box-shadow: 0 2px 10px rgba(0,0,0,0.1); }'',
     indent 8 ''h1 { color: #333; text-align: center; margin-bottom: 30px; }'',
     indent 8 ''.container-section { margin-bottom: 40px; padding: 20px; background: #f8f8f8; border-radius: 8px; }'',
     indent 8 ''.container-title { font-size: 20px; font-weight: bold; margin-bottom: 20px; color: #333; text-align: center; }'',
     indent 8 ''.charts { display: flex; justify-content: space-around; flex-wrap: wrap; gap: 30px; }'',
     indent 8 ''.chart-wrapper { text-align: center; }'',
     indent 8 ''.chart-container { width: 250px; height: 250px; position: relative; margin: 0 auto; }'',
     indent 8 ''.chart-title { text-align: center; font-size: 16px; font-weight: bold; margin-bottom: 10px; color: #555; }'',
     indent 4 ''</style>'',
     ''</head>'',
     ''<body>'',
     indent 4 ''<div class="container">'',
     indent 8 ''<h1>Container Monitor</h1>'',
     indent 8 ''<div id="containers-list"></div>'',
     indent 4 ''</div>'',
     indent 4 ''<script>'',
     indent 8 ''const charts = {};'',
     indent 8 ''function formatBytes(bytes) {'',
     indent 12 ''if (!bytes || bytes === 0) return '0 MB';'',
     indent 12 ''const mb = bytes / (1024 * 1024);'',
     indent 12 ''return mb.toFixed(2) + ' MB';'',
     indent 8 ''}'',
     indent 8 ''function createChart(containerId, type, canvasId) {'',
     indent 12 ''const ctx = document.getElementById(canvasId).getContext('2d');'',
     indent 12 ''const color = type === 'cpu' ? '#2196F3' : '#FF9800';'',
     indent 12 ''return new Chart(ctx, {'',
     indent 16 ''type: 'doughnut','',
     indent 16 ''data: {'',
     indent 20 ''labels: ['Used', 'Free'],'',
     indent 20 ''datasets: [{'',
     indent 24 ''data: [0, 100],'',
     indent 24 ''backgroundColor: [color, '#E0E0E0'],'',
     indent 24 ''borderWidth: 0'',
     indent 20 ''}]'',
     indent 16 ''},'',
     indent 16 ''options: {'',
     indent 20 ''responsive: true,'',
     indent 20 ''maintainAspectRatio: true,'',
     indent 20 ''plugins: {'',
     indent 24 ''legend: {'',
     indent 28 ''display: true,'',
     indent 28 (''position: 'bottom'' @ APOS),
     indent 24 ''},'',
     indent 24 ''tooltip: {'',
     indent 28 ''callbacks: {'',
     indent 32 ''label: function(context) {'',
     indent 36 ''return context.label + ': ' + context.parsed.toFixed(1) + '%';'',
     indent 32 ''}'',
     indent 28 ''}'',
     indent 24 ''}'',
     indent 20 ''}'',
     indent 16 ''}'',
     indent 12 ''});'',
     indent 8 ''}'',
     indent 8 ''function updateContainers() {'',
     indent 12 ''fetch('/api/containers')'',
     indent 16 ''.then(r => r.json())'',
     indent 16 ''.then(data => {'',
     indent 20 ''const containersList = document.getElementById('containers-list');'',
     indent 20 ''const existingContainers = new Set();'',
     indent 20 ''if (!data.containers || data.containers.length === 0) {'',
     indent 24 ''containersList.innerHTML = '<p style="text-align: center; color: #666;">No active containers</p>';'',
     indent 24 ''charts = {};'',
     indent 24 ''return;'',
     indent 20 ''}'',
     indent 20 ''data.containers.forEach(container => {'',
     indent 24 ''existingContainers.add(container.id);'',
     indent 24 ''const containerId = 'container-' + container.id;'',
     indent 24 ''let containerDiv = document.getElementById(containerId);'',
     indent 24 ''if (!containerDiv) {'',
     indent 28 ''containerDiv = document.createElement('div');'',
     indent 28 ''containerDiv.className = 'container-section';'',
     indent 28 ''containerDiv.id = containerId;'',
     indent 28 ''const containerTitle = document.createElement('div');'',
     indent 28 ''containerTitle.className = 'container-title';'',
     indent 28 ''containerTitle.textContent = 'Container: ' + container.id;'',
     indent 28 ''containerDiv.appendChild(containerTitle);'',
     indent 28 ''const chartsDiv = document.createElement('div');'',
     indent 28 ''chartsDiv.className = 'charts';'',
     indent 28 ''const cpuWrapper = document.createElement('div');'',
     indent 28 ''cpuWrapper.className = 'chart-wrapper';'',
     indent 28 ''const cpuTitle = document.createElement('div');'',
     indent 28 ''cpuTitle.className = 'chart-title';'',
     indent 28 ''cpuTitle.textContent = 'CPU Usage';'',
     indent 28 ''cpuWrapper.appendChild(cpuTitle);'',
     indent 28 ''const cpuCanvas = document.createElement('canvas');'',
     indent 28 ''cpuCanvas.id = 'cpu-' + container.id;'',
     indent 28 ''const cpuContainer = document.createElement('div');'',
     indent 28 ''cpuContainer.className = 'chart-container';'',
     indent 28 ''cpuContainer.appendChild(cpuCanvas);'',
     indent 28 ''cpuWrapper.appendChild(cpuContainer);'',
     indent 28 ''chartsDiv.appendChild(cpuWrapper);'',
     indent 28 ''const ramWrapper = document.createElement('div');'',
     indent 28 ''ramWrapper.className = 'chart-wrapper';'',
     indent 28 ''const ramTitle = document.createElement('div');'',
     indent 28 ''ramTitle.className = 'chart-title';'',
     indent 28 ''ramTitle.textContent = 'RAM Usage';'',
     indent 28 ''ramWrapper.appendChild(ramTitle);'',
     indent 28 ''const ramCanvas = document.createElement('canvas');'',
     indent 28 ''ramCanvas.id = 'ram-' + container.id;'',
     indent 28 ''const ramContainer = document.createElement('div');'',
     indent 28 ''ramContainer.className = 'chart-container';'',
     indent 28 ''ramContainer.appendChild(ramCanvas);'',
     indent 28 ''ramWrapper.appendChild(ramContainer);'',
     indent 28 ''chartsDiv.appendChild(ramWrapper);'',
     indent 28 ''containerDiv.appendChild(chartsDiv);'',
     indent 28 ''containersList.appendChild(containerDiv);'',
     indent 28 ''charts['cpu-' + container.id] = createChart(container.id, 'cpu', 'cpu-' + container.id);'',
     indent 28 ''charts['ram-' + container.id] = createChart(container.id, 'ram', 'ram-' + container.id);'',
     indent 24 ''}'',
     indent 24 ''if (container.state === 'RUNNING') {'',
     indent 28 ''if (container.cpu_percent !== undefined && !isNaN(container.cpu_percent)) {'',
     indent 32 ''const cpuPercent = Math.min(100, Math.max(0, parseFloat(container.cpu_percent)));'',
     indent 32 ''if (charts['cpu-' + container.id]) {'',
     indent 36 ''charts['cpu-' + container.id].data.datasets[0].data = [cpuPercent, 100 - cpuPercent];'',
     indent 36 ''charts['cpu-' + container.id].update('none');'',
     indent 32 ''}'',
     indent 28 ''}'',
     indent 28 ''if (container.memory_percent !== undefined && !isNaN(container.memory_percent)) {'',
     indent 32 ''const memPercent = Math.min(100, Math.max(0, parseFloat(container.memory_percent)));'',
     indent 32 ''if (charts['ram-' + container.id]) {'',
     indent 36 ''charts['ram-' + container.id].data.datasets[0].data = [memPercent, 100 - memPercent];'',
     indent 36 ''charts['ram-' + container.id].update('none');'',
     indent 32 ''}'',
     indent 28 ''}'',
     indent 24 ''} else {'',
     indent 28 ''if (charts['cpu-' + container.id]) {'',
     indent 32 ''charts['cpu-' + container.id].data.datasets[0].data = [0, 100];'',
     indent 32 ''charts['cpu-' + container.id].update('none');'',
     indent 28 ''}'',
     indent 28 ''if (charts['ram-' + container.id]) {'',
     indent 32 ''charts['ram-' + container.id].data.datasets[0].data = [0, 100];'',
     indent 32 ''charts['ram-' + container.id].update('none');'',
     indent 28 ''}'',
     indent 24 ''}'',
     indent 20 ''});'',
     indent 20 ''Object.keys(charts).forEach(chartKey => {'',
     indent 24 (''const containerId = chartKey.replace('cpu-', '' @ APOS @ APOS @ '').replace('ram-', '' @ APOS @ APOS @ '');''),
     indent 24 ''if (!existingContainers.has(containerId)) {'',
     indent 28 ''const containerDiv = document.getElementById('container-' + containerId);'',
     indent 28 ''if (containerDiv) {'',
     indent 32 ''containerDiv.remove();'',
     indent 28 ''}'',
     indent 28 ''delete charts[chartKey];'',
     indent 24 ''}'',
     indent 20 ''});'',
     indent 16 ''})'',
     indent 16 ''.catch(error => {'',
     indent 20 ''console.error('Error:', error);'',
     indent 16 ''});'',
     indent 8 ''}'',
     indent 8 ''updateContainers();'',
     indent 8 ''setInterval(updateContainers, 10000);'',
     indent 4 ''</script>'',
     ''</body>'',
     ''</html>''
     ]\<close>

definition generateHTML :: string where
  "generateHTML = CHR 0x0A # concat (map (\<lambda>l. l @ [CHR 0x0A]) page_lines)"

end
