(* ===== verification/Web_Server.thy ===== *)
theory Web_Server
  imports Front_End Web_Page
begin

text \<open>
  The web server, \<open>src/src/web_server_simple.cpp\<close>: parsing and routing of a request, the JSON answers
  built from the table of containers, the cgroup files and \<open>/proc\<close>, and the accept loop. A C++
  exception (\<open>std::stoul\<close>) is a value; the code catches none, so it ends the program. The page is
  \<open>generateHTML\<close> of \<open>Web_Page\<close>.
\<close>

section \<open>Library functions\<close>

datatype cpp_exception = Invalid_argument | Out_of_range

type_synonym 'a cpp = "cpp_exception + 'a"

definition stoul :: "string \<Rightarrow> ulong cpp" where
  \<comment> \<open>\<open>std::stoul\<close>\<close>
  "stoul s =
     (case scan_integer s of
        None \<Rightarrow> Inl Invalid_argument
      | Some (v, _) \<Rightarrow> if \<bar>v\<bar> < 2 ^ 64 then Inr (word_of_int v) else Inl Out_of_range)"

definition next_token :: "string \<Rightarrow> string \<times> string" where
  \<comment> \<open>\<open>stream >> std::string\<close>: the next word and the rest of the stream\<close>
  "next_token s =
     (let u = dropWhile isspace s
      in (takeWhile (\<lambda>c. \<not> isspace c) u, dropWhile (\<lambda>c. \<not> isspace c) u))"

definition first_line :: "string \<Rightarrow> string" where
  \<comment> \<open>\<open>std::getline\<close> on a fresh stream\<close>
  "first_line s = takeWhile (\<lambda>c. c \<noteq> NL) s"

function getlines :: "string \<Rightarrow> string list" where
  \<comment> \<open>\<open>std::getline\<close> until the stream is exhausted\<close>
  "getlines s = (if s = [] then []
     else first_line s # getlines (drop (Suc (length (first_line s))) s))"
  by pat_completeness auto
termination by (relation "measure length") auto

declare getlines.simps [simp del]

definition as_cstring :: "string \<Rightarrow> string" where
  \<comment> \<open>a buffer read as a C string\<close>
  "as_cstring s = takeWhile (\<lambda>c. c \<noteq> CHR 0x00) s"

section \<open>Container statistics\<close>

definition read_cgroup_limit :: "'w kernel \<Rightarrow> string \<Rightarrow> ('w, 'z, ulong) io" where
  "read_cgroup_limit K path = do {
     file0 \<leftarrow> c_fopen_r K path;
     State_Monad.return (case file0 of
        None \<Rightarrow> 0
      | Some content \<Rightarrow>
          (let buffer = as_cstring (take 255 (first_line content)) in
           if buffer = ''max'' then 0
           else (case strtoul buffer of (val, endptr) \<Rightarrow>
             if endptr = [] \<or> hd endptr = NL \<or> hd endptr = CHR '' '' then val else 0)))
   }"

definition parse_cpu_max :: "string \<Rightarrow> (ulong \<times> ulong) cpp" where
  \<comment> \<open>quota and period from the first line of \<open>cpu.max\<close>\<close>
  "parse_cpu_max line =
     (if line \<noteq> ''max'' \<and> CHR '' '' \<in> set line then
        (let quota = takeWhile (\<lambda>c. c \<noteq> CHR '' '') line;
             period = drop (Suc (length quota)) line
         in case stoul quota of
              Inl e \<Rightarrow> Inl e
            | Inr q \<Rightarrow> (case stoul period of Inl e \<Rightarrow> Inl e | Inr p \<Rightarrow> Inr (q, p)))
      else Inr (0, 100000))"

definition cgroup_limits ::
  "'w kernel \<Rightarrow> resource_manager \<Rightarrow> string \<Rightarrow> ('w, 'z, (ulong \<times> ulong \<times> ulong) cpp) io" where
  \<comment> \<open>CPU quota, CPU period and memory limit of a container\<close>
  "cgroup_limits K m cid = (
     if version m = CGROUP_V2 then do {
       cpu_file \<leftarrow> c_fopen_r K (snprintf 1024 (cg_text ''/sys/fs/cgroup'' m cid ''/cpu.max''));
       (case (case cpu_file of None \<Rightarrow> Inr (0, 100000) | Some content \<Rightarrow> parse_cpu_max (first_line content)) of
          Inl e \<Rightarrow> State_Monad.return (Inl e)
        | Inr (quota, period) \<Rightarrow> do {
            memory_limit \<leftarrow> read_cgroup_limit K (snprintf 1024 (cg_text ''/sys/fs/cgroup'' m cid ''/memory.max''));
            State_Monad.return (Inr (quota, period, memory_limit))
          })
     }
     else do {
       r \<leftarrow> c_access K (snprintf 512 (cg_text ''/sys/fs/cgroup/cpu,cpuacct'' m cid [])) F_OK;
       let cpu_path = (if ret_code r \<noteq> 0 then snprintf 512 (cg_text ''/sys/fs/cgroup/cpu'' m cid [])
                       else snprintf 512 (cg_text ''/sys/fs/cgroup/cpu,cpuacct'' m cid []));
       quota \<leftarrow> (if length (cpu_path @ ''/cpu.cfs_quota_us'') < 1024
                 then read_cgroup_limit K (cpu_path @ ''/cpu.cfs_quota_us'') else State_Monad.return 0);
       period \<leftarrow> (if length (cpu_path @ ''/cpu.cfs_period_us'') < 1024
                  then read_cgroup_limit K (cpu_path @ ''/cpu.cfs_period_us'') else State_Monad.return 0);
       memory_limit \<leftarrow> read_cgroup_limit K
         (snprintf 1024 (cg_text ''/sys/fs/cgroup/memory'' m cid ''/memory.limit_in_bytes''));
       State_Monad.return (Inr (quota, if period > 0 then period else 100000, memory_limit))
     })"

definition clamp_percent :: "rat \<Rightarrow> rat" where
  "clamp_percent p = (if p > 100 then 100 else if p < 0 then 0 else p)"

definition cpu_percent_since ::
  "ulong \<Rightarrow> int \<Rightarrow> ulong \<Rightarrow> ulong \<Rightarrow> ulong \<times> rat" where
  \<comment> \<open>\<open>cpu_limit\<close> and \<open>cpu_percent\<close> from the time used since the last request\<close>
  "cpu_percent_since cpu_diff time_diff quota period =
     (if time_diff > 0 \<and> cpu_diff > 0 then
        (let cpu_diff_sec = fl (of_ulong cpu_diff / 1000000000);
             ratio = fl (cpu_diff_sec / fl (of_int time_diff))
         in if quota > 0 \<and> period > 0
            then (let max_cpu = fl (of_ulong quota / of_ulong period)
                  in (quota, clamp_percent (fl (100 * fl (ratio / max_cpu)))))
            else (0, clamp_percent (fl (100 * ratio))))
      else (0, 0))"

definition memory_percent_of :: "ulong \<Rightarrow> ulong \<Rightarrow> rat" where
  "memory_percent_of usage limit =
     (if limit > 0
      then (let p = fl (100 * fl (of_ulong usage / of_ulong limit))
            in if p > 100 then 100 else p)
      else 0)"

record running_stats =
  rs_cpu_usage :: ulong
  rs_cpu_limit :: ulong
  rs_cpu_percent :: rat
  rs_memory_usage :: ulong
  rs_memory_limit :: ulong
  rs_memory_percent :: rat

definition running_container ::
  "'w kernel \<Rightarrow> resource_manager \<Rightarrow> int \<Rightarrow> string \<Rightarrow> ('w, 'z, running_stats cpp) aio" where
  \<comment> \<open>the branch for a running container; the usage is kept for the next request\<close>
  "running_container K m now cid = do {
     (cpu_usage, memory_usage) \<leftarrow> stats K m cid;
     limits \<leftarrow> cgroup_limits K m cid;
     (case limits of
        Inl e \<Rightarrow> State_Monad.return (Inl e)
      | Inr (quota, period, memory_limit) \<Rightarrow> do {
          st \<leftarrow> get_app statics;
          let (cpu_limit, cpu_percent) =
            (case (prev_cpu_usage st cid, prev_time st cid) of
               (Some c, Some t) \<Rightarrow> cpu_percent_since (cpu_usage - c) (now - t) quota period
             | _ \<Rightarrow> (0, 0));
          _ \<leftarrow> set_app (\<lambda>s. s\<lparr>statics := (statics s)\<lparr>prev_cpu_usage := (prev_cpu_usage st)(cid \<mapsto> cpu_usage),
                                                 prev_time := (prev_time st)(cid \<mapsto> now)\<rparr>\<rparr>);
          State_Monad.return (Inr \<lparr>rs_cpu_usage = cpu_usage, rs_cpu_limit = cpu_limit,
            rs_cpu_percent = cpu_percent, rs_memory_usage = memory_usage,
            rs_memory_limit = memory_limit,
            rs_memory_percent = memory_percent_of memory_usage memory_limit\<rparr>)
        })
   }"

section \<open>JSON\<close>

definition web_state_str :: "container_state \<Rightarrow> string" where
  "web_state_str state =
     (if state_code state \<ge> 0 \<and> state_code state < 4
      then [''CREATED'', ''RUNNING'', ''STOPPED'', ''DESTROYED''] ! nat (state_code state) else ''UNKNOWN'')"

definition json_stats :: "running_stats \<Rightarrow> string" where
  "json_stats r =
     '','' @ quoted ''cpu_usage'' @ '':'' @ show_ulong (rs_cpu_usage r) @
     '','' @ quoted ''cpu_limit'' @ '':'' @ show_ulong (rs_cpu_limit r) @
     '','' @ quoted ''cpu_percent'' @ '':'' @ show_fixed 6 (rs_cpu_percent r) @
     '','' @ quoted ''memory_usage'' @ '':'' @ show_ulong (rs_memory_usage r) @
     '','' @ quoted ''memory_limit'' @ '':'' @ show_ulong (rs_memory_limit r) @
     '','' @ quoted ''memory_percent'' @ '':'' @ show_fixed 6 (rs_memory_percent r)"

definition json_container :: "container_info \<Rightarrow> running_stats option \<Rightarrow> string" where
  "json_container info r =
     ''{'' @ quoted ''id'' @ '':'' @ quoted (info_id info) @ '','' @
     quoted ''pid'' @ '':'' @ show_int (pid info) @ '','' @
     quoted ''state'' @ '':'' @ quoted (web_state_str (cstate info)) @
     (case r of None \<Rightarrow> [] | Some v \<Rightarrow> json_stats v) @ ''}''"

definition web_container ::
  "'w kernel \<Rightarrow> resource_manager \<Rightarrow> int \<Rightarrow> container_info \<Rightarrow> ('w, 'z, string cpp) aio" where
  "web_container K m now info =
     (if cstate info = CONTAINER_RUNNING then do {
        r \<leftarrow> running_container K m now (info_id info);
        State_Monad.return (map_sum (\<lambda>e. e) (\<lambda>v. json_container info (Some v)) r)
      }
      else do {
        _ \<leftarrow> set_app (\<lambda>s. s\<lparr>statics := (statics s)
               \<lparr>prev_cpu_usage := (prev_cpu_usage (statics s))(info_id info := None),
                prev_time := (prev_time (statics s))(info_id info := None)\<rparr>\<rparr>);
        State_Monad.return (Inr (json_container info None))
      })"

primrec web_containers ::
  "'w kernel \<Rightarrow> resource_manager \<Rightarrow> int \<Rightarrow> container_info list \<Rightarrow> ('w, 'z, string list cpp) aio" where
  "web_containers K m now [] = State_Monad.return (Inr [])"
| "web_containers K m now (info # infos) = do {
     obj \<leftarrow> web_container K m now info;
     (case obj of
        Inl e \<Rightarrow> State_Monad.return (Inl e)
      | Inr j \<Rightarrow> do {
          rest \<leftarrow> web_containers K m now infos;
          State_Monad.return (map_sum (\<lambda>e. e) (Cons j) rest)
        })
   }"

fun comma_separated :: "string list \<Rightarrow> string" where
  "comma_separated [] = []"
| "comma_separated [j] = j"
| "comma_separated (j # k # js) = j @ '','' @ comma_separated (k # js)"

definition getContainerListJSON :: "'w kernel \<Rightarrow> ('w, 'z, string cpp) aio" where
  "getContainerListJSON K = do {
     c \<leftarrow> get_cm;
     current_time \<leftarrow> c_time K;
     objs \<leftarrow> web_containers K (rm c) current_time (active_containers c);
     State_Monad.return (map_sum (\<lambda>e. e)
       (\<lambda>js. ''{'' @ quoted ''containers'' @ '':['' @ comma_separated js @ '']}'') objs)
   }"

section \<open>System information\<close>

definition meminfo_value :: "string \<Rightarrow> string list \<Rightarrow> ulong cpp option" where
  \<comment> \<open>the number on the first line with that label, in bytes\<close>
  "meminfo_value label lines =
     map_option (\<lambda>line. map_sum (\<lambda>e. e) (\<lambda>kb. kb * 1024) (stoul (fst (next_token (snd (next_token line))))))
       (List.find (prefix label) lines)"

definition getSystemTotalMemory :: "'w kernel \<Rightarrow> ('w, 'z, ulong cpp) io" where
  "getSystemTotalMemory K = do {
     meminfo \<leftarrow> c_fopen_r K ''/proc/meminfo'';
     State_Monad.return (case meminfo of
        None \<Rightarrow> Inr 0
      | Some content \<Rightarrow>
          (case meminfo_value ''MemTotal:'' (getlines content) of Some v \<Rightarrow> v | None \<Rightarrow> Inr 0))
   }"

definition getSystemAvailableMemory :: "'w kernel \<Rightarrow> ('w, 'z, ulong cpp) io" where
  "getSystemAvailableMemory K = do {
     meminfo \<leftarrow> c_fopen_r K ''/proc/meminfo'';
     State_Monad.return (case meminfo of
        None \<Rightarrow> Inr 0
      | Some content \<Rightarrow>
          (case meminfo_value ''MemAvailable:'' (getlines content) of
             Some v \<Rightarrow> v
           | None \<Rightarrow> (case meminfo_value ''MemFree:'' (getlines content) of Some v \<Rightarrow> v | None \<Rightarrow> Inr 0)))
   }"

text \<open>
  \<open>stream >> unsigned long\<close> for a row of variables. The variables are not initialised: \<open>junk i\<close> is what
  the \<open>i\<close>-th holds. A word that is not a number sets its variable to 0, a number out of range to the
  largest value, and both end the reading, as does the end of the line.
\<close>

fun read_ulongs :: "ulong list \<Rightarrow> string \<Rightarrow> ulong list" where
  "read_ulongs [] s = []"
| "read_ulongs (u # us) s =
     (case scan_integer s of
        Some (v, r) \<Rightarrow> if \<bar>v\<bar> < 2 ^ 64 then word_of_int v # read_ulongs us r else (- 1) # us
      | None \<Rightarrow> (if dropWhile isspace s = [] then u else 0) # us)"

definition cpu_percent_of :: "ulong \<Rightarrow> ulong \<Rightarrow> rat" where
  \<comment> \<open>\<open>100.0 * (1.0 - idle_diff / total_diff)\<close>\<close>
  "cpu_percent_of idle_diff total_diff =
     fl (100 * fl (1 - fl (of_ulong idle_diff / of_ulong total_diff)))"

definition getSystemCPUPercent :: "'w kernel \<Rightarrow> ulong list \<Rightarrow> ('w, 'z, rat) aio" where
  "getSystemCPUPercent K junk = do {
     stat \<leftarrow> c_fopen_r K ''/proc/stat'';
     (case stat of
        None \<Rightarrow> State_Monad.return 0
      | Some content \<Rightarrow>
          if content \<noteq> [] \<and> prefix ''cpu '' (first_line content) then do {
            let v = read_ulongs junk (snd (next_token (first_line content)));
            let total = sum_list v;
            let total_idle = v ! 3 + v ! 4;
            st \<leftarrow> get_app statics;
            _ \<leftarrow> set_app (\<lambda>s. s\<lparr>statics := (statics s)\<lparr>prev_idle := total_idle, prev_total := total\<rparr>\<rparr>);
            State_Monad.return
              (if prev_total st > 0 \<and> total - prev_total st > 0
               then cpu_percent_of (total_idle - prev_idle st) (total - prev_total st) else 0)
          }
          else State_Monad.return 0)
   }"

definition getSystemInfoJSON :: "'w kernel \<Rightarrow> ulong list \<Rightarrow> ('w, 'z, string cpp) aio" where
  "getSystemInfoJSON K junk = do {
     total \<leftarrow> getSystemTotalMemory K;
     (case total of
        Inl e \<Rightarrow> State_Monad.return (Inl e)
      | Inr total_mem \<Rightarrow> do {
          available \<leftarrow> getSystemAvailableMemory K;
          (case available of
             Inl e \<Rightarrow> State_Monad.return (Inl e)
           | Inr available_mem \<Rightarrow> do {
               cpu_percent \<leftarrow> getSystemCPUPercent K junk;
               State_Monad.return (Inr (''{'' @
                 quoted ''used_memory'' @ '':'' @ show_ulong (total_mem - available_mem) @ '','' @
                 quoted ''total_memory'' @ '':'' @ show_ulong total_mem @ '','' @
                 quoted ''cpu_percent'' @ '':'' @ show_fixed 6 cpu_percent @ ''}''))
             })
        })
   }"

section \<open>Requests\<close>

definition CRLF :: string where "CRLF = [CHR 0x0D, CHR 0x0A]"

definition http_head :: "string \<Rightarrow> string list \<Rightarrow> string" where
  \<comment> \<open>status line, header lines, empty line\<close>
  "http_head status headers = ''HTTP/1.1 '' @ status @ CRLF @ concat (map (\<lambda>h. h @ CRLF) headers) @ CRLF"

definition json_head :: string where
  "json_head = http_head ''200 OK'' [''Content-Type: application/json'', ''Access-Control-Allow-Origin: *'',
     ''Connection: close'']"

definition handleRequest ::
  "'w kernel \<Rightarrow> ulong list \<Rightarrow> string \<Rightarrow> ('w, 'z, string cpp) aio" where
  "handleRequest K junk request = (
     let (meth, rest) = next_token request; (path, rest') = next_token rest in
     if meth = ''GET'' then
       (if path = ''/'' \<or> path = ''/index.html'' then
          State_Monad.return (Inr (http_head ''200 OK'' [''Content-Type: text/html'', ''Connection: close''] @ generateHTML))
        else if path = ''/api/containers'' then do {
          j \<leftarrow> getContainerListJSON K;
          State_Monad.return (map_sum (\<lambda>e. e) (\<lambda>j. json_head @ j) j)
        }
        else if path = ''/api/system'' then do {
          j \<leftarrow> getSystemInfoJSON K junk;
          State_Monad.return (map_sum (\<lambda>e. e) (\<lambda>j. json_head @ j) j)
        }
        else State_Monad.return (Inr (http_head ''404 Not Found''
          [''Content-Type: text/plain'', ''Connection: close''] @ ''Not Found'')))
     else if meth = ''OPTIONS'' then
       State_Monad.return (Inr (http_head ''200 OK'' [''Access-Control-Allow-Origin: *'',
         ''Access-Control-Allow-Methods: GET, OPTIONS'', ''Access-Control-Allow-Headers: Content-Type'',
         ''Connection: close'']))
     else State_Monad.return (Inr (http_head ''405 Method Not Allowed''
       [''Content-Type: text/plain'', ''Connection: close''] @ ''Method Not Allowed'')))"

section \<open>The server thread\<close>

definition set_socket :: "int \<Rightarrow> ('w, 'z, unit) aio" where
  "set_socket fd = set_app (\<lambda>s. s\<lparr>web := map_option (\<lambda>w. w\<lparr>server_socket := fd\<rparr>) (web s)\<rparr>)"

definition get_web :: "('w, 'z, web_server) aio" where
  "get_web = get_app (\<lambda>s. the (web s))"

definition open_server :: "'w kernel \<Rightarrow> 'w host \<Rightarrow> ('w, 'z, bool) aio" where
  \<comment> \<open>the part of \<open>serverThread\<close> before the loop: whether it goes on\<close>
  "open_server K H = do {
     r \<leftarrow> sys ESocket (h_socket H);
     (case r of
        Inl _ \<Rightarrow> do { _ \<leftarrow> set_socket (- 1); State_Monad.return False }
      | Inr fd \<Rightarrow> do {
          _ \<leftarrow> set_socket fd;
          _ \<leftarrow> ask (h_setsockopt H fd);
          w \<leftarrow> get_web;
          let port16 = server_port w mod 2 ^ 16;
          r \<leftarrow> sys (EBind fd port16) (h_bind H fd port16);
          (case r of
             Inl _ \<Rightarrow> do { _ \<leftarrow> c_close K fd; _ \<leftarrow> set_socket (- 1); State_Monad.return False }
           | Inr _ \<Rightarrow> do {
               r \<leftarrow> sys (EListen fd) (h_listen H fd);
               (case r of
                  Inl _ \<Rightarrow> do { _ \<leftarrow> c_close K fd; State_Monad.return False }
                | Inr _ \<Rightarrow> do {
                    _ \<leftarrow> c_print (''Web server started on port '' @ show_int (server_port w) @ [NL]);
                    _ \<leftarrow> c_print (''Open http://localhost:'' @ show_int (server_port w) @ '' in your browser'' @ [NL]);
                    State_Monad.return True
                  })
             })
        })
   }"

definition serve_client ::
  "'w kernel \<Rightarrow> 'w host \<Rightarrow> ulong list \<Rightarrow> ('w, 'z, cpp_exception option) aio" where
  \<comment> \<open>one round of the accept loop\<close>
  "serve_client K H junk = do {
     w \<leftarrow> get_web;
     r \<leftarrow> sys (EAccept (server_socket w)) (h_accept H (server_socket w));
     (case r of
        Inl _ \<Rightarrow> State_Monad.return None
      | Inr client \<Rightarrow> do {
          bytes \<leftarrow> c_read K client 4095;
          (case bytes of
             Inr (b # bs) \<Rightarrow> do {
               response \<leftarrow> handleRequest K junk (as_cstring (b # bs));
               (case response of
                  Inl e \<Rightarrow> State_Monad.return (Some e)
                | Inr txt \<Rightarrow> do {
                    _ \<leftarrow> c_write K client txt;
                    _ \<leftarrow> c_close K client;
                    State_Monad.return None
                  })
             }
           | _ \<Rightarrow> do { _ \<leftarrow> c_close K client; State_Monad.return None })
        })
   }"

primrec serve_loop ::
  "'w kernel \<Rightarrow> 'w host \<Rightarrow> ulong list \<Rightarrow> nat \<Rightarrow> ('w, 'z, cpp_exception option option) aio" where
  "serve_loop K H junk 0 = State_Monad.return None"
| "serve_loop K H junk (Suc n) = do {
     w \<leftarrow> get_web;
     if \<not> server_running w then do {
       _ \<leftarrow> c_close K (server_socket w);
       _ \<leftarrow> set_socket (- 1);
       oret None
     }
     else do {
       e \<leftarrow> serve_client K H junk;
       (case e of Some x \<Rightarrow> oret (Some x) | None \<Rightarrow> serve_loop K H junk n)
     }
   }"

definition serverThread ::
  "'w kernel \<Rightarrow> 'w host \<Rightarrow> ulong list \<Rightarrow> nat \<Rightarrow> ('w, 'z, cpp_exception option option) aio" where
  "serverThread K H junk n = do {
     ready \<leftarrow> open_server K H;
     if ready then serve_loop K H junk n else oret None
   }"

definition new_web_server :: "int \<Rightarrow> web_server" where
  "new_web_server port = \<lparr>server_port = port, server_running = False, server_socket = - 1, joinable = False\<rparr>"

definition web_start :: "('w, 'z, unit) aio" where
  \<comment> \<open>\<open>SimpleWebServer::start\<close>; the thread runs \<open>serverThread\<close>\<close>
  "web_start = set_app (\<lambda>s. s\<lparr>web := map_option
     (\<lambda>w. if server_running w then w else w\<lparr>server_running := True, joinable := True\<rparr>) (web s)\<rparr>)"

definition web_stop :: "'w kernel \<Rightarrow> ('w, 'z, unit) aio" where
  \<comment> \<open>\<open>SimpleWebServer::stop\<close>; \<open>join\<close> waits for the thread\<close>
  "web_stop K = do {
     w \<leftarrow> get_web;
     if \<not> server_running w then State_Monad.return ()
     else do {
       _ \<leftarrow> set_app (\<lambda>s. s\<lparr>web := map_option (\<lambda>w. w\<lparr>server_running := False\<rparr>) (web s)\<rparr>);
       _ \<leftarrow> (if server_socket w \<noteq> - 1
             then do { _ \<leftarrow> c_close K (server_socket w); set_socket (- 1) } else State_Monad.return ());
       set_app (\<lambda>s. s\<lparr>web := map_option (\<lambda>w. w\<lparr>joinable := False\<rparr>) (web s)\<rparr>)
     }
   }"

section \<open>Lemmas: requests only read\<close>

text \<open>
  A reader changes nothing of the program but the static variables of the web server, and outside
  it only opens files for reading, reads them and closes them again.
\<close>

definition reader :: "('w, 'z) app_scheme \<Rightarrow> ('w, 'z) app_scheme \<Rightarrow> bool" where
  "reader s t \<longleftrightarrow> t\<lparr>kst := kst s, trace := trace s, statics := statics s\<rparr> = s \<and>
     only is_file_read s t \<and> fd_balanced s t"

interpretation reader_frame: io_frame reader
proof
  show "reader s s" for s :: "('a, 'b) app_scheme"
    by (simp add: reader_def only_frame.frame_refl fd_frame.frame_refl)
  show "reader s u" if "reader s t" "reader t u" for s t u :: "('a, 'b) app_scheme"
    using that by (cases s; cases t; cases u)
      (auto simp: reader_def intro: only_frame.frame_trans fd_frame.frame_trans)
qed

lemma reader_io:
  fixes m :: "('w, 'z, 'a) aio"
  assumes "state_io_rel same_more m" and "state_io_rel (only is_file_read) m" and "state_io_rel fd_balanced m"
  shows "state_io_rel reader m"
proof (rule state_io_relI)
  fix a and s t :: "('w, 'z) app_scheme"
  assume run: "run_state m s = (a, t)"
  have "same_more s t" using assms(1) run by (rule state_io_relD)
  then have "t\<lparr>kst := kst s, trace := trace s, statics := statics s\<rparr> = s"
    by (cases s; cases t) (simp add: same_more_def)
  moreover have "only is_file_read s t" using assms(2) run by (rule state_io_relD)
  moreover have "fd_balanced s t" using assms(3) run by (rule state_io_relD)
  ultimately show "reader s t" by (simp add: reader_def)
qed

lemma reader_ask: "state_io_rel reader (ask f)"
  by (rule reader_io) simp_all

lemma reader_get_app: "state_io_rel reader (get_app f)"
  by (simp add: state_io_rel_def reader_frame.frame_refl)

lemma reader_get_cm: "state_io_rel reader get_cm"
  by (simp add: state_io_rel_def reader_frame.frame_refl)

lemma reader_statics: "state_io_rel reader (set_app (\<lambda>s. s\<lparr>statics := f s\<rparr>))"
  by (simp add: state_io_rel_def reader_def only_def fd_balanced_def)

lemma get_stats_more: "state_io_rel same_more (resource_manager_get_stats K m cid a b)"
proof -
  have rf: "state_io_rel same_more (read_file K path n)" for path n
    unfolding read_file_def by (intro more_rules state_io_rel_cases)
  have find: "state_io_rel same_more (find_cpuacct_usage_path K m' cid')" for m' cid'
    unfolding find_cpuacct_usage_path_def Let_def by (intro more_rules state_io_rel_cases)
  show ?thesis
    unfolding resource_manager_get_stats_def read_cpu_usage_def read_memory_usage_def Let_def
    by (intro more_rules state_io_rel_cases rf find)
qed

lemma reader_stats: "state_io_rel reader (stats K m cid)"
  unfolding stats_def
  by (intro reader_frame.frame_combinators state_io_rel_cases reader_io get_stats_more get_stats_only
      get_stats_balanced)

lemmas reader_rules = reader_frame.frame_combinators state_io_rel_cases reader_ask reader_get_app
  reader_get_cm reader_statics reader_stats

lemma reader_limits: "state_io_rel reader (cgroup_limits K m cid)"
  unfolding cgroup_limits_def read_cgroup_limit_def Let_def by (intro reader_rules)

lemma reader_containers: "state_io_rel reader (web_containers K m now infos)"
proof -
  have "state_io_rel reader (web_container K m now info)" for info
    unfolding web_container_def running_container_def Let_def by (intro reader_rules reader_limits)
  then show ?thesis by (induction infos) (auto intro!: reader_rules)
qed

lemma reader_request: "state_io_rel reader (handleRequest K junk request)"
  unfolding handleRequest_def getContainerListJSON_def getSystemInfoJSON_def getSystemTotalMemory_def
    getSystemAvailableMemory_def getSystemCPUPercent_def Let_def
  by (intro reader_rules reader_containers)

section \<open>Lemmas: the list of containers\<close>

lemma map_sum_Inr: "map_sum f g x = Inr y \<longleftrightarrow> (\<exists>z. x = Inr z \<and> y = g z)"
  by (cases x) auto

lemma map_sum_Inl: "map_sum f g x = Inl y \<longleftrightarrow> (\<exists>z. x = Inl z \<and> y = f z)"
  by (cases x) auto

lemma web_container_object:
  assumes "run_state (web_container K m now info) s = (Inr j, t)"
  obtains r where "j = json_container info r" and "r \<noteq> None \<longleftrightarrow> cstate info = CONTAINER_RUNNING"
  using assms by (auto simp: web_container_def map_sum_Inr split: if_splits prod.splits)

lemma web_containers_objects:
  assumes "run_state (web_containers K m now infos) s = (Inr js, t)"
  shows "list_all2 (\<lambda>info j. \<exists>r. j = json_container info r \<and> (r \<noteq> None \<longleftrightarrow> cstate info = CONTAINER_RUNNING))
    infos js"
  using assms
proof (induction infos arbitrary: s js)
  case Nil
  then show ?case by simp
next
  case (Cons info infos)
  obtain x u where x: "run_state (web_container K m now info) s = (x, u)" by fastforce
  obtain y v where y: "run_state (web_containers K m now infos) u = (y, v)" by fastforce
  obtain j ks where j: "x = Inr j" "y = Inr ks" "js = j # ks"
    using Cons.prems x y by (cases x; cases y) auto
  show ?case
    using Cons.IH [of u ks] x y j Cons.prems by (auto elim!: web_container_object)
qed

section \<open>Lemmas: percentages\<close>

lemma memory_percent_bounds: "0 \<le> memory_percent_of u l" "memory_percent_of u l \<le> 100"
  by (auto simp: memory_percent_of_def Let_def intro!: fl_nonneg divide_nonneg_nonneg mult_nonneg_nonneg)

lemma memory_percent_mono:
  assumes "u \<le> v"
  shows "memory_percent_of u l \<le> memory_percent_of v l"
proof -
  have "of_ulong u / of_ulong l \<le> of_ulong v / of_ulong l"
    using assms by (intro divide_right_mono of_ulong_mono) simp_all
  then have "fl (100 * fl (of_ulong u / of_ulong l)) \<le> fl (100 * fl (of_ulong v / of_ulong l))"
    by (intro fl_mono mult_left_mono mult_nonneg_nonneg) (simp_all add: fl_nonneg)
  then show ?thesis by (auto simp: memory_percent_of_def Let_def)
qed

lemma memory_percent_full: "0 < l \<Longrightarrow> memory_percent_of l l = 100"
  using of_ulong_pos [of l] by (simp add: memory_percent_of_def)

lemma cpu_percent_since_bounds:
  "0 \<le> snd (cpu_percent_since d t q p)" "snd (cpu_percent_since d t q p) \<le> 100"
  by (auto simp: cpu_percent_since_def clamp_percent_def Let_def)

lemma cpu_percent_of_bounds:
  assumes "idle \<le> tot"
  shows "0 \<le> cpu_percent_of idle tot" and "cpu_percent_of idle tot \<le> 100"
proof -
  define r where "r = fl (of_ulong idle / of_ulong tot)"
  have "of_ulong idle / of_ulong tot \<le> 1"
    using of_ulong_mono [OF assms] of_ulong_nonneg [of tot] by (simp add: divide_le_eq_1 less_le)
  then have "0 \<le> r" "r \<le> 1" by (simp_all add: r_def fl_nonneg fl_le_1)
  then have "0 \<le> fl (1 - r)" "fl (1 - r) \<le> 1" by (simp_all add: fl_nonneg fl_le_1)
  then show "0 \<le> cpu_percent_of idle tot" and "cpu_percent_of idle tot \<le> 100"
    unfolding cpu_percent_of_def r_def [symmetric] by (simp_all add: fl_nonneg fl_le_100)
qed

lemma cpu_share_bounds:
  assumes "0 < elapsed" and "0 < cores"
  shows "0 \<le> cpu_share ns elapsed cores" and "cpu_share ns elapsed cores \<le> 100"
  using assms
  by (auto simp: cpu_share_def Let_def intro!: fl_nonneg divide_nonneg_nonneg mult_nonneg_nonneg)

section \<open>Lemmas: requests\<close>

definition is_word :: "string \<Rightarrow> bool" where
  "is_word w \<longleftrightarrow> w \<noteq> [] \<and> (\<forall>c\<in>set w. \<not> isspace c)"

lemma next_token_word:
  assumes "is_word w" and "isspace c"
  shows "next_token (w @ c # rest) = (w, c # rest)" and "next_token (c # w @ c # rest) = (w, c # rest)"
proof -
  obtain d ds where w: "w = d # ds" "\<not> isspace d" "\<forall>x\<in>set ds. \<not> isspace x"
    using assms(1) by (cases w) (auto simp: is_word_def)
  have "takeWhile (\<lambda>c. \<not> isspace c) (ds @ c # rest) = ds" "dropWhile (\<lambda>c. \<not> isspace c) (ds @ c # rest) = c # rest"
    using w(3) assms(2) by (simp_all add: takeWhile_append2 dropWhile_append2)
  then show "next_token (w @ c # rest) = (w, c # rest)" and "next_token (c # w @ c # rest) = (w, c # rest)"
    using w assms(2) by (simp_all add: next_token_def Let_def)
qed

lemma http_head_prefix: "http_head status hs @ body = ''HTTP/1.1 '' @ status @ CRLF @ concat (map (\<lambda>h. h @ CRLF) hs) @ CRLF @ body"
  by (simp add: http_head_def)

section \<open>Lemmas: an unlimited container\<close>

lemma stoul_max: "stoul ''max'' = Inl Invalid_argument"
  by (simp add: stoul_def scan_integer_def scan_sign_def isspace_def isdigit_def)

lemma parse_cpu_max_unlimited: "parse_cpu_max ''max 100000'' = Inl Invalid_argument"
  by (simp add: parse_cpu_max_def stoul_max)

lemma web_containers_fail:
  fixes s :: "('w, 'z) app_scheme"
  assumes "info \<in> set infos"
    and "\<And>u :: ('w, 'z) app_scheme. \<exists>e. fst (run_state (web_container K m now info) u) = Inl e"
  shows "\<exists>e. fst (run_state (web_containers K m now infos) s) = Inl e"
  using assms(1)
proof (induction infos arbitrary: s)
  case Nil
  then show ?case by simp
next
  case (Cons info' infos)
  obtain x u where x: "run_state (web_container K m now info') s = (x, u)" by fastforce
  show ?case
  proof (cases x)
    case (Inl e)
    then show ?thesis using x by simp
  next
    case (Inr j)
    then have "info \<in> set infos" using Cons.prems assms(2) [of s] x by auto
    then obtain e where "fst (run_state (web_containers K m now infos) u) = Inl e" using Cons.IH by blast
    then show ?thesis using x Inr by (auto simp: map_sum_Inl split: prod.split)
  qed
qed

section \<open>Properties\<close>

text \<open>
  Property C17. Requests only read: whatever the request, handling it changes nothing of the program
  but the static variables of the web server (the table of containers, the flags and the server
  object are as before), and outside it only opens files for reading, reads them and closes every
  descriptor it opened. A connection that was accepted is closed again, unless an exception ends the
  program.
\<close>
theorem web_requests_read_only:
  fixes s :: "('w, 'z) app_scheme"
  shows "(let t = snd (run_state (handleRequest K junk request) s) in
     t\<lparr>kst := kst s, trace := trace s, statics := statics s\<rparr> = s \<and>
     list_all is_file_read (new_events s t) \<and> fd_balanced s t) \<and>
   (fst (run_state (serve_client K H junk) s) = None \<longrightarrow>
     fd_balanced s (snd (run_state (serve_client K H junk) s)))"
proof -
  have r: "reader u (snd (run_state (handleRequest K junk req) u))" for req and u :: "('w, 'z) app_scheme"
    using reader_request by (rule state_io_rel_run)
  have bal: "fd_balanced u v" if "run_state (handleRequest K junk req) u = (x, v)"
    for x req and u v :: "('w, 'z) app_scheme"
    using r [of u req] that by (simp add: reader_def)
  have "fst (run_state (serve_client K H junk) s) = None \<longrightarrow>
     fd_balanced s (snd (run_state (serve_client K H junk) s))"
    by (auto simp: serve_client_def get_web_def fd_balanced_def split: prod.split sum.split list.split
        dest!: bal)
  then show ?thesis using r [of s request] only_all [of is_file_read s] by (auto simp: reader_def Let_def)
qed

theorem web_requests_read_only_witness:
  "fd_balanced (example_app (example_cm [] 10))
     (snd (run_state (serve_client calm_kernel calm_host []) (example_app (example_cm [] 10))))"
proof -
  have "fst (run_state (serve_client calm_kernel calm_host []) (example_app (example_cm [] 10))) = None"
    by (simp add: serve_client_def get_web_def calm_host_def calm_calls)
  then show ?thesis using web_requests_read_only by blast
qed

text \<open>
  Property C27. Routing: for a request line made of a method and a path, an answer that is produced has
  status 200 exactly for \<open>OPTIONS\<close> and for \<open>GET\<close> of the page, the list of containers and the system
  information, 404 exactly for \<open>GET\<close> of another path, and 405 exactly for every other method.
\<close>
theorem web_routing:
  assumes "is_word meth" and "is_word path"
    and "run_state (handleRequest K junk (meth @ '' '' @ path @ '' '' @ rest)) s = (Inr answer, t)"
  shows "(prefix ''HTTP/1.1 200 OK'' answer \<longleftrightarrow> meth = ''OPTIONS'' \<or>
      meth = ''GET'' \<and> path \<in> {''/'', ''/index.html'', ''/api/containers'', ''/api/system''}) \<and>
    (prefix ''HTTP/1.1 404 Not Found'' answer \<longleftrightarrow>
      meth = ''GET'' \<and> path \<notin> {''/'', ''/index.html'', ''/api/containers'', ''/api/system''}) \<and>
    (prefix ''HTTP/1.1 405 Method Not Allowed'' answer \<longleftrightarrow> meth \<notin> {''GET'', ''OPTIONS''})"
proof -
  have sp: "isspace (CHR '' '')" by (simp add: isspace_def)
  have "next_token (meth @ '' '' @ path @ '' '' @ rest) = (meth, '' '' @ path @ '' '' @ rest)"
    "next_token ('' '' @ path @ '' '' @ rest) = (path, '' '' @ rest)"
    using next_token_word(1) [OF assms(1) sp] next_token_word(2) [OF assms(2) sp] by simp_all
  then show ?thesis
    using assms(3)
    by (auto simp: handleRequest_def json_head_def http_head_def map_sum_Inr split: if_splits prod.splits)
qed

theorem web_routing_witness:
  "\<exists>answer t. run_state (handleRequest calm_kernel [] (''GET'' @ '' '' @ ''/x'' @ '' '' @ ''HTTP/1.1''))
     (example_app (example_cm [] 10)) = (Inr answer, t) \<and> prefix ''HTTP/1.1 404 Not Found'' answer"
proof -
  have w: "is_word ''GET''" "is_word ''/x''" by (simp_all add: is_word_def isspace_def)
  obtain answer t where run: "run_state (handleRequest calm_kernel []
      (''GET'' @ '' '' @ ''/x'' @ '' '' @ ''HTTP/1.1'')) (example_app (example_cm [] 10)) = (Inr answer, t)"
    by (simp add: handleRequest_def next_token_def isspace_def)
  with web_routing [OF w run] show ?thesis by auto
qed

text \<open>
  Property C28. The list of containers is complete: a list that is answered holds one object per container
  that is not destroyed, in the order of the table, each with its id, process id and state, and with
  statistics exactly when it is running.
\<close>
theorem container_list_json:
  assumes "run_state (getContainerListJSON K) s = (Inr json, t)"
  shows "\<exists>rs. length rs = length (active_containers (cman s)) \<and>
    json = ''{'' @ quoted ''containers'' @ '':['' @
      comma_separated (map (\<lambda>(info, r). json_container info r) (zip (active_containers (cman s)) rs)) @ '']}'' \<and>
    map (\<lambda>r. r \<noteq> None) rs = map (\<lambda>info. cstate info = CONTAINER_RUNNING) (active_containers (cman s))"
proof -
  obtain m u js where run: "run_state (web_containers K (rm (cman s)) m (active_containers (cman s))) u = (Inr js, t)"
    and json: "json = ''{'' @ quoted ''containers'' @ '':['' @ comma_separated js @ '']}''"
    using assms by (auto simp: getContainerListJSON_def map_sum_Inr split: prod.splits)
  from web_containers_objects [OF run]
  have "\<exists>rs. length rs = length (active_containers (cman s)) \<and>
    js = map (\<lambda>(info, r). json_container info r) (zip (active_containers (cman s)) rs) \<and>
    map (\<lambda>r. r \<noteq> None) rs = map (\<lambda>info. cstate info = CONTAINER_RUNNING) (active_containers (cman s))"
  proof (induction rule: list_all2_induct)
    case Nil
    then show ?case by simp
  next
    case (Cons info infos j js)
    then obtain r rs where "j = json_container info r" "(r \<noteq> None) = (cstate info = CONTAINER_RUNNING)"
      "length rs = length infos" "js = map (\<lambda>(info, r). json_container info r) (zip infos rs)"
      "map (\<lambda>r. r \<noteq> None) rs = map (\<lambda>info. cstate info = CONTAINER_RUNNING) infos" by blast
    then show ?case by (intro exI [of _ "r # rs"]) simp
  qed
  then show ?thesis using json by auto
qed

theorem container_list_json_witness:
  "\<exists>json t. run_state (getContainerListJSON calm_kernel)
      (example_app (example_cm [example_info ''1'' 100 CONTAINER_STOPPED] 10)) = (Inr json, t) \<and>
    json = ''{'' @ quoted ''containers'' @ '':['' @ json_container (example_info ''1'' 100 CONTAINER_STOPPED) None @ '']}''"
proof -
  define s where "s = example_app (example_cm [example_info ''1'' 100 CONTAINER_STOPPED] 10)"
  have act: "active_containers (cman s) = [example_info ''1'' 100 CONTAINER_STOPPED]"
    by (simp add: s_def active_containers_def example_cm_def example_info_def)
  have st: "cstate (example_info ''1'' 100 CONTAINER_STOPPED) = CONTAINER_STOPPED" by (simp add: example_info_def)
  obtain json t where run: "run_state (getContainerListJSON calm_kernel) s = (Inr json, t)"
    by (simp add: getContainerListJSON_def act web_container_def st calm_calls)
  from container_list_json [OF run, unfolded act] obtain rs where
    l: "length rs = length [example_info ''1'' 100 CONTAINER_STOPPED]"
    and j: "json = ''{'' @ quoted ''containers'' @ '':['' @ comma_separated (map (\<lambda>(info, r). json_container info r)
      (zip [example_info ''1'' 100 CONTAINER_STOPPED] rs)) @ '']}''"
    and n: "map (\<lambda>r. r \<noteq> None) rs =
      map (\<lambda>info. cstate info = CONTAINER_RUNNING) [example_info ''1'' 100 CONTAINER_STOPPED]"
    by (elim exE conjE) (rule that)
  from n have "rs = [None]" by (cases rs) (auto simp: st)
  then show ?thesis using run j by (simp add: s_def)
qed

text \<open>
  Property C32. Percentages are percentages: in the rounding arithmetic of \<open>double\<close>, the CPU and memory
  percentages the server and the monitor show lie between 0 and 100 for all counters, also after a
  counter was reset; the memory percentage grows with the usage and is exactly 100 at the limit; the
  system percentage lies in the range as long as the idle time grew by no more than the total time.
\<close>
theorem percentages_bounded:
  "0 \<le> snd (cpu_percent_since d time_diff quota period) \<and> snd (cpu_percent_since d time_diff quota period) \<le> 100 \<and>
   0 \<le> memory_percent_of usage limit \<and> memory_percent_of usage limit \<le> 100 \<and>
   (usage \<le> usage' \<longrightarrow> memory_percent_of usage limit \<le> memory_percent_of usage' limit) \<and>
   (0 < limit \<longrightarrow> memory_percent_of limit limit = 100) \<and>
   (0 < elapsed \<and> 0 < cores \<longrightarrow> 0 \<le> cpu_share ns elapsed cores \<and> cpu_share ns elapsed cores \<le> 100) \<and>
   (idle \<le> tot \<longrightarrow> 0 \<le> cpu_percent_of idle tot \<and> cpu_percent_of idle tot \<le> 100)"
  by (simp add: cpu_percent_since_bounds memory_percent_bounds memory_percent_mono memory_percent_full
      cpu_share_bounds cpu_percent_of_bounds)

theorem percentages_bounded_witness:
  "memory_percent_of 10 20 \<le> memory_percent_of 15 20 \<and> memory_percent_of 20 20 = 100 \<and>
   cpu_share 5000000000 10 4 \<le> 100 \<and> cpu_percent_of 30 40 \<le> 100"
  using percentages_bounded [of 0 0 0 0 10 20 15 10 4 5000000000 30 40] by (simp add: word_le_nat_alt word_less_nat_alt)



end
