(* ===== verification/Command_Line.thy ===== *)
theory Command_Line
  imports Web_Server
begin

text \<open>
  The command line of \<open>src/src/main.cpp\<close>: the options of \<open>run\<close> and the handlers of the commands.
  Option scanning is \<open>getopt_long\<close> of the C library in its default mode, which permutes the arguments:
  options are taken wherever they stand, up to a \<open>--\<close>. A handler answers its exit code; a loop
  \<open>while (running) sleep(1)\<close> carries fuel, as \<open>running\<close> is only changed by the signal handler, and
  answers \<open>None\<close> when it is used up.
\<close>

section \<open>Scanning options\<close>

datatype opt = Opt char "string option" | Opt_unknown | Opt_end

record getopt_state =
  nextchar :: string \<comment> \<open>rest of a group of short options\<close>
  ahead :: "string list" \<comment> \<open>arguments not yet looked at\<close>
  skipped :: "string list" \<comment> \<open>arguments that are not options, moved to the end\<close>

definition short_options :: "(char \<times> bool) list" where
  \<comment> \<open>\<open>"hm:c:r:d"\<close>: the options with a colon take an argument\<close>
  "short_options = [(CHR ''h'', False), (CHR ''m'', True), (CHR ''c'', True), (CHR ''r'', True), (CHR ''d'', False)]"

definition long_options :: "(string \<times> bool \<times> char) list" where
  "long_options = [(''help'', False, CHR ''h''), (''memory'', True, CHR ''m''), (''cpu'', True, CHR ''c''),
     (''root'', True, CHR ''r''), (''detach'', False, CHR ''d'')]"

definition with_argument :: "char \<Rightarrow> string list \<Rightarrow> string list \<Rightarrow> opt \<times> getopt_state" where
  \<comment> \<open>an option whose argument is the next one\<close>
  "with_argument c args sk =
     (case args of
        [] \<Rightarrow> (Opt_unknown, \<lparr>nextchar = [], ahead = [], skipped = sk\<rparr>)
      | a # as \<Rightarrow> (Opt c (Some a), \<lparr>nextchar = [], ahead = as, skipped = sk\<rparr>))"

definition short_option :: "char \<Rightarrow> string \<Rightarrow> string list \<Rightarrow> string list \<Rightarrow> opt \<times> getopt_state" where
  "short_option c cs args sk =
     (case map_of short_options c of
        None \<Rightarrow> (Opt_unknown, \<lparr>nextchar = cs, ahead = args, skipped = sk\<rparr>)
      | Some False \<Rightarrow> (Opt c None, \<lparr>nextchar = cs, ahead = args, skipped = sk\<rparr>)
      | Some True \<Rightarrow>
          if cs \<noteq> [] then (Opt c (Some cs), \<lparr>nextchar = [], ahead = args, skipped = sk\<rparr>)
          else with_argument c args sk)"

definition find_long :: "string \<Rightarrow> (bool \<times> char) option" where
  \<comment> \<open>an exact name, or the only name it abbreviates\<close>
  "find_long name =
     (case map_of long_options name of
        Some x \<Rightarrow> Some x
      | None \<Rightarrow> (case filter (\<lambda>(nm, _). prefix name nm) long_options of [(_, x)] \<Rightarrow> Some x | _ \<Rightarrow> None))"

definition long_option :: "string \<Rightarrow> string list \<Rightarrow> string list \<Rightarrow> opt \<times> getopt_state" where
  "long_option body args sk =
     (let name = takeWhile (\<lambda>c. c \<noteq> CHR ''='') body;
          val = (if CHR ''='' \<in> set body then Some (drop (Suc (length name)) body) else None);
          st = \<lparr>nextchar = [], ahead = args, skipped = sk\<rparr>
      in case find_long name of
           None \<Rightarrow> (Opt_unknown, st)
         | Some (False, c) \<Rightarrow> (if val = None then Opt c None else Opt_unknown, st)
         | Some (True, c) \<Rightarrow> (case val of Some v \<Rightarrow> (Opt c (Some v), st) | None \<Rightarrow> with_argument c args sk))"

fun next_option :: "string list \<Rightarrow> string list \<Rightarrow> opt \<times> getopt_state" where
  \<comment> \<open>the next argument that is an option; the others are skipped\<close>
  "next_option [] sk = (Opt_end, \<lparr>nextchar = [], ahead = [], skipped = sk\<rparr>)"
| "next_option (a # args) sk =
     (if a = ''--'' then (Opt_end, \<lparr>nextchar = [], ahead = [], skipped = sk @ args\<rparr>)
      else (case a of
          d # c # cs \<Rightarrow>
            if d \<noteq> CHR ''-'' then next_option args (sk @ [a])
            else if c = CHR ''-'' then long_option cs args sk
            else short_option c cs args sk
        | _ \<Rightarrow> next_option args (sk @ [a])))"

definition getopt_long :: "getopt_state \<Rightarrow> opt \<times> getopt_state" where
  "getopt_long st =
     (case nextchar st of
        c # cs \<Rightarrow> short_option c cs (ahead st) (skipped st)
      | [] \<Rightarrow> next_option (ahead st) (skipped st))"

definition pending :: "getopt_state \<Rightarrow> nat" where
  "pending st = length (nextchar st) + sum_list (map (\<lambda>a. Suc (length a)) (ahead st))"

lemma with_argument_pending:
  "fst (with_argument c args sk) = Opt d v \<Longrightarrow>
     pending (snd (with_argument c args sk)) < sum_list (map (\<lambda>a. Suc (length a)) args)"
  by (auto simp: with_argument_def pending_def split: list.splits)

lemma short_option_pending:
  "fst (short_option c cs args sk) = Opt d v \<Longrightarrow>
     pending (snd (short_option c cs args sk)) \<le> length cs + sum_list (map (\<lambda>a. Suc (length a)) args)"
  using with_argument_pending [of c args sk d v]
  by (auto simp: short_option_def pending_def split: option.splits bool.splits if_splits)

lemma long_option_pending:
  "fst (long_option body args sk) = Opt d v \<Longrightarrow>
     pending (snd (long_option body args sk)) \<le> sum_list (map (\<lambda>a. Suc (length a)) args)"
  using with_argument_pending [of _ args sk d v]
  by (auto simp: long_option_def Let_def pending_def less_imp_le split: option.splits bool.splits if_splits)

lemma next_option_pending:
  "fst (next_option args sk) = Opt d v \<Longrightarrow>
     pending (snd (next_option args sk)) < sum_list (map (\<lambda>a. Suc (length a)) args)"
proof (induction args sk rule: next_option.induct)
  case (1 sk)
  then show ?case by simp
next
  case (2 a args sk)
  then show ?case
    using long_option_pending [of _ args sk d v] short_option_pending [of _ _ args sk d v]
    by (cases a rule: remdups_adj.cases)
      (fastforce split: if_splits intro: le_less_trans less_le_trans)+
qed

lemma getopt_long_pending:
  assumes "getopt_long st = (Opt c v, st')"
  shows "pending st' < pending st"
proof (cases "nextchar st")
  case Nil
  then show ?thesis
    using assms next_option_pending [of "ahead st" "skipped st" c v] by (simp add: getopt_long_def pending_def)
next
  case (Cons d ds)
  then show ?thesis
    using assms short_option_pending [of d ds "ahead st" "skipped st" c v]
    by (simp add: getopt_long_def pending_def)
qed

text \<open>
  All calls of \<open>getopt_long\<close> up to the first that fails or finds no more options: the options found and
  the arguments from \<open>optind\<close> on.
\<close>

function getopts :: "getopt_state \<Rightarrow> opt list \<times> string list" where
  "getopts st =
     (case getopt_long st of
        (Opt c v, st') \<Rightarrow> (case getopts st' of (opts, rest) \<Rightarrow> (Opt c v # opts, rest))
      | (Opt_unknown, st') \<Rightarrow> ([Opt_unknown], skipped st')
      | (Opt_end, st') \<Rightarrow> ([], skipped st'))"
  by pat_completeness auto
termination by (relation "measure pending") (auto dest!: getopt_long_pending [OF sym])

declare getopts.simps [simp del]

section \<open>The options of run\<close>

definition usage :: "string \<Rightarrow> string list" where
  "usage program_name = [
     ''Mini Container System - Lightweight container implementation'', [],
     ''Usage: '' @ program_name @ '' <command> [options] [arguments]'', [],
     ''Commands:'',
     ''  run <command> [args...]    Run a command in a new container'',
     ''  start <container_id>       Start a stopped container'',
     ''  stop <container_id>        Stop a running container'',
     ''  list                       List all containers'',
     ''  exec <container_id> <cmd>  Execute command in running container'',
     ''  destroy <container_id>     Destroy a container'',
     ''  info <container_id>        Show container information'', [],
     ''Options:'',
     ''  -h, --help                 Show this help message'',
     ''  -m, --memory <MB>          Memory limit in MB (default: 128)'',
     ''  -c, --cpu <shares>         CPU shares (default: 1024)'',
     ''  -r, --root <path>          Container root filesystem path'',
     ''  -d, --detach               Run container in background (don't wait)'', [],
     ''Examples:'',
     ''  '' @ program_name @ '' run /bin/sh'',
     ''  '' @ program_name @ '' run --memory 256 --cpu 512 /bin/echo '' @ quoted ''Hello World'',
     ''  '' @ program_name @ '' list'',
     ''  '' @ program_name @ '' stop container_123'',
     ''  '' @ program_name @ '' exec container_123 /bin/ps'']"

definition print_usage :: "string \<Rightarrow> ('w, 'z, unit) io" where
  "print_usage program_name = c_print (concat (map (\<lambda>l. l @ [NL]) (usage program_name)))"

definition megabytes :: "int \<Rightarrow> ulong" where
  \<comment> \<open>\<open>n * 1024 * 1024\<close> in \<open>int\<close>, converted to \<open>unsigned long\<close>\<close>
  "megabytes n = word_of_int (to_int32 (to_int32 (n * 1024) * 1024))"

definition set_memory :: "ulong \<Rightarrow> container_config \<Rightarrow> container_config" where
  "set_memory b config = config\<lparr>res_limits := (res_limits config)
     \<lparr>memory := (memory (res_limits config))\<lparr>limit_bytes := b\<rparr>\<rparr>\<rparr>"

definition set_shares :: "int \<Rightarrow> container_config \<Rightarrow> container_config" where
  "set_shares n config = config\<lparr>res_limits := (res_limits config)
     \<lparr>cpu := (cpu (res_limits config))\<lparr>shares := n\<rparr>\<rparr>\<rparr>"

definition set_root :: "string option \<Rightarrow> container_config \<Rightarrow> container_config" where
  "set_root p config = config\<lparr>fs_conf := (fs_conf config)\<lparr>fs_root_path := p\<rparr>\<rparr>"

fun apply_options ::
  "'w kernel \<Rightarrow> string \<Rightarrow> opt list \<Rightarrow> container_config \<times> int \<Rightarrow> ('w, 'z, int \<times> container_config \<times> int) io" where
  \<comment> \<open>the loop of \<open>parse_run_options\<close>: return value 0 when it was left by its condition\<close>
  "apply_options K program [] (config, detach) = State_Monad.return (0, config, detach)"
| "apply_options K program (Opt c v # opts) (config, detach) =
     (if c = CHR ''h'' then do {
        _ \<leftarrow> print_usage program;
        State_Monad.return (- 1, set_root None config, detach)
      }
      else if c = CHR ''m'' then
        apply_options K program opts (set_memory (megabytes (atoi (the v))) config, detach)
      else if c = CHR ''c'' then
        apply_options K program opts (set_shares (atoi (the v)) config, detach)
      else if c = CHR ''r'' then do {
        got \<leftarrow> c_alloc K;
        if \<not> got then State_Monad.return (- 1, set_root None config, detach)
        else apply_options K program opts (set_root v config, detach)
      }
      else if c = CHR ''d'' then apply_options K program opts (config, 1)
      else State_Monad.return (- 1, set_root None config, detach))"
| "apply_options K program (_ # opts) (config, detach) =
     State_Monad.return (- 1, set_root None config, detach)"

definition init_config :: "container_config \<Rightarrow> container_config" where
  \<comment> \<open>the fields the front ends initialise; \<open>root_path\<close> and the command keep what the memory held\<close>
  "init_config config = config\<lparr>config_id := None,
     ns_config := the (namespace_config_init (Some (ns_config config))),
     res_limits := the (resource_limits_init (Some (res_limits config))),
     fs_conf := the (fs_config_init (Some (fs_conf config)))\<rparr>"

definition parse_run_options ::
  "'w kernel \<Rightarrow> string list \<Rightarrow> container_config \<Rightarrow> ('w, 'z, int \<times> container_config \<times> int) io" where
  "parse_run_options K argv junk = (
     let (opts, rest) = getopts \<lparr>nextchar = [], ahead = List.tl argv, skipped = []\<rparr> in do {
       (r, config, detach) \<leftarrow> apply_options K (hd argv) opts (init_config junk, 0);
       if r \<noteq> 0 then State_Monad.return (r, config, detach)
       else if rest = [] then State_Monad.return (- 1, set_root None config, detach)
       else do {
         let config = config\<lparr>cmd := Some (map Some rest @ [None]), command_argc := int (length rest)\<rparr>;
         if fs_root_path (fs_conf config) \<noteq> None then State_Monad.return (0, config, detach)
         else do {
           got \<leftarrow> c_alloc K;
           State_Monad.return (if got then (0, set_root (Some ''/'') config, detach) else (- 1, config, detach))
         }
       }
     })"

section \<open>The handlers\<close>

primrec wait_while_running :: "'w kernel \<Rightarrow> nat \<Rightarrow> ('w, 'z, unit option) aio" where
  "wait_while_running K 0 = State_Monad.return None"
| "wait_while_running K (Suc n) = do {
     r \<leftarrow> get_app running;
     if r then do { _ \<leftarrow> c_sleep K 1; wait_while_running K n } else oret ()
   }"

definition await_container :: "'w kernel \<Rightarrow> nat \<Rightarrow> int \<Rightarrow> string \<Rightarrow> ('w, 'z, int option) aio" where
  \<comment> \<open>the end of \<open>handle_run\<close>, once the container was started\<close>
  "await_container K n detach cid = do {
     c \<leftarrow> get_cm;
     (case container_manager_get_info c cid of
        None \<Rightarrow> oret EXIT_SUCCESS
      | Some i \<Rightarrow>
          if detach \<noteq> 0 then obind (wait_while_running K n) (\<lambda>_. oret EXIT_SUCCESS)
          else if pid (containers c ! i) > 0 then do {
            _ \<leftarrow> c_waitpid K (pid (containers c ! i));
            obind (wait_while_running K n) (\<lambda>_. oret EXIT_SUCCESS)
          }
          else oret EXIT_SUCCESS)
   }"

definition handle_run ::
  "'w kernel \<Rightarrow> nat \<Rightarrow> container_config \<Rightarrow> string list \<Rightarrow> ('w, 'z, int option) aio" where
  "handle_run K n junk argv = do {
     (r, config, detach) \<leftarrow> parse_run_options K argv junk;
     if r \<noteq> 0 then oret EXIT_FAILURE
     else obind (container_manager_run K n (Some config)) (\<lambda>(r, config').
       if r \<noteq> 0 then oret EXIT_FAILURE
       else await_container K n detach (the (config_id (the config'))))
   }"

definition handle_start :: "'w kernel \<Rightarrow> string list \<Rightarrow> ('w, 'z, int) pio" where
  "handle_start K argv =
     (if length argv < 2 then State_Monad.return EXIT_FAILURE
      else do {
        r \<leftarrow> container_manager_start K (argv ! 1);
        if r \<noteq> 0 then State_Monad.return EXIT_FAILURE
        else do {
          _ \<leftarrow> c_print (''Container '' @ argv ! 1 @ '' started'' @ [NL]);
          State_Monad.return EXIT_SUCCESS
        }
      })"

definition handle_stop :: "'w kernel \<Rightarrow> nat \<Rightarrow> string list \<Rightarrow> ('w, 'z, int option) pio" where
  "handle_stop K n argv =
     (if length argv < 2 then oret EXIT_FAILURE
      else obind (container_manager_stop K n (argv ! 1)) (\<lambda>r.
        if r \<noteq> 0 then oret EXIT_FAILURE
        else do {
          _ \<leftarrow> c_print (''Container '' @ argv ! 1 @ '' stopped'' @ [NL]);
          oret EXIT_SUCCESS
        }))"

definition clock_text :: "'w host \<Rightarrow> int \<Rightarrow> ('w, 'z, string) io" where
  \<comment> \<open>the time of day, empty for no time or when \<open>localtime\<close> fails\<close>
  "clock_text H t =
     (if t > 0 then do {
        txt \<leftarrow> ask (h_localtime H t);
        State_Monad.return (case txt of Some x \<Rightarrow> x | None \<Rightarrow> [])
      }
      else State_Monad.return [])"

definition list_row :: "container_info \<Rightarrow> string \<Rightarrow> string \<Rightarrow> string" where
  "list_row info created_str started_str =
     pad 20 (info_id info) @ '' '' @ pad 10 (safe_state_name (cstate info)) @ '' '' @
     pad 10 (show_int (pid info)) @ '' '' @ pad 15 created_str @ '' '' @ pad 15 started_str @ [NL]"

definition print_row :: "'w host \<Rightarrow> container_info \<Rightarrow> ('w, 'z, unit) io" where
  "print_row H info = do {
     created_str \<leftarrow> clock_text H (created_at info);
     started_str \<leftarrow> clock_text H (started_at info);
     c_print (list_row info created_str started_str)
   }"

definition handle_list :: "'w host \<Rightarrow> ('w, 'z, int) pio" where
  "handle_list H = do {
     c \<leftarrow> get_cm;
     if active_containers c = [] then do {
       _ \<leftarrow> c_print (''No containers'' @ [NL]);
       _ \<leftarrow> c_print ([NL] @ ''To create a container, use:'' @ [NL]);
       _ \<leftarrow> c_print (''  ./mini-container run /bin/sh -c '' @ quoted ''while true; do :; done'' @ [NL]);
       _ \<leftarrow> c_print (''  or use interactive menu: ./mini-container'' @ [NL]);
       State_Monad.return EXIT_SUCCESS
     }
     else do {
       _ \<leftarrow> c_print (pad 20 ''CONTAINER ID'' @ '' '' @ pad 10 ''STATE'' @ '' '' @ pad 10 ''PID'' @ '' '' @
              pad 15 ''CREATED'' @ '' '' @ pad 15 ''STARTED'' @ [NL]);
       _ \<leftarrow> c_print (pad 20 ''------------'' @ '' '' @ pad 10 ''-----'' @ '' '' @ pad 10 ''---'' @ '' '' @
              pad 15 ''-------'' @ '' '' @ pad 15 ''-------'' @ [NL]);
       _ \<leftarrow> for_each (print_row H) (active_containers c);
       State_Monad.return EXIT_SUCCESS
     }
   }"

definition handle_exec :: "'w kernel \<Rightarrow> string list \<Rightarrow> ('w, 'z, exec_result) pio" where
  "handle_exec K argv =
     (if length argv < 3 then State_Monad.return (Returned EXIT_FAILURE)
      else do {
        result \<leftarrow> container_manager_exec K (argv ! 1) (map Some (drop 2 argv) @ [None]) (int (length argv) - 2);
        State_Monad.return (case result of
           In_child x \<Rightarrow> In_child x
         | Returned r \<Rightarrow> Returned (if r \<noteq> 0 then EXIT_FAILURE else EXIT_SUCCESS))
      })"

definition handle_destroy :: "'w kernel \<Rightarrow> nat \<Rightarrow> string list \<Rightarrow> ('w, 'z, int option) pio" where
  "handle_destroy K n argv =
     (if length argv < 2 then oret EXIT_FAILURE
      else obind (container_manager_destroy K n (argv ! 1)) (\<lambda>r.
        if r \<noteq> 0 then oret EXIT_FAILURE
        else do {
          _ \<leftarrow> c_print (''Container '' @ argv ! 1 @ '' destroyed'' @ [NL]);
          oret EXIT_SUCCESS
        }))"

definition print_time :: "'w host \<Rightarrow> string \<Rightarrow> int \<Rightarrow> ('w, 'z, unit) io" where
  "print_time H label t = do {
     txt \<leftarrow> ask (h_ctime H t);
     c_print (label @ txt)
   }"

definition print_info :: "'w kernel \<Rightarrow> 'w host \<Rightarrow> string \<Rightarrow> container_info \<Rightarrow> ('w, 'z, unit) pio" where
  \<comment> \<open>the description of a container, its statistics looked up under the name the user gave\<close>
  "print_info K H container_id info = do {
     _ \<leftarrow> c_print (''Container ID: '' @ info_id info @ [NL]);
     _ \<leftarrow> c_print (''State: '' @ safe_state_name (cstate info) @ [NL]);
     _ \<leftarrow> c_print (''PID: '' @ show_int (pid info) @ [NL]);
     _ \<leftarrow> print_time H ''Created: '' (created_at info);
     _ \<leftarrow> (if started_at info > 0 then print_time H ''Started: '' (started_at info) else State_Monad.return ());
     _ \<leftarrow> (if stopped_at info > 0 then print_time H ''Stopped: '' (stopped_at info) else State_Monad.return ());
     if cstate info = CONTAINER_RUNNING then do {
       c \<leftarrow> get_cm;
       (cpu_usage, memory_usage) \<leftarrow> stats K (rm c) container_id;
       _ \<leftarrow> c_print (''CPU Usage: '' @ show_ulong cpu_usage @ '' nanoseconds'' @ [NL]);
       c_print (''Memory Usage: '' @ show_ulong memory_usage @ '' bytes'' @ [NL])
     }
     else State_Monad.return ()
   }"

definition handle_info :: "'w kernel \<Rightarrow> 'w host \<Rightarrow> string list \<Rightarrow> ('w, 'z, int) pio" where
  "handle_info K H argv =
     (if length argv < 2 then State_Monad.return EXIT_FAILURE
      else do {
        c \<leftarrow> get_cm;
        (case container_manager_get_info c (argv ! 1) of
           None \<Rightarrow> State_Monad.return EXIT_FAILURE
         | Some i \<Rightarrow> do {
             _ \<leftarrow> print_info K H (argv ! 1) (containers c ! i);
             State_Monad.return EXIT_SUCCESS
           })
      })"

section \<open>Lemmas: options\<close>

datatype run_option = Memory int | Cpu int | Root string | Detach

text \<open>Options as they can be written, long or short, and what each of them does.\<close>

fun render :: "bool \<times> run_option \<Rightarrow> string list" where
  "render (long, Memory n) = [if long then ''--memory'' else ''-m'', show_int n]"
| "render (long, Cpu n) = [if long then ''--cpu'' else ''-c'', show_int n]"
| "render (long, Root p) = [if long then ''--root'' else ''-r'', p]"
| "render (long, Detach) = [if long then ''--detach'' else ''-d'']"

fun option_of :: "run_option \<Rightarrow> opt" where
  "option_of (Memory n) = Opt (CHR ''m'') (Some (show_int n))"
| "option_of (Cpu n) = Opt (CHR ''c'') (Some (show_int n))"
| "option_of (Root p) = Opt (CHR ''r'') (Some p)"
| "option_of Detach = Opt (CHR ''d'') None"

fun effect :: "run_option \<Rightarrow> container_config \<times> int \<Rightarrow> container_config \<times> int" where
  "effect (Memory n) (config, d) = (set_memory (megabytes n) config, d)"
| "effect (Cpu n) (config, d) = (set_shares n config, d)"
| "effect (Root p) (config, d) = (set_root (Some p) config, d)"
| "effect Detach (config, d) = (config, 1)"

fun in_range :: "run_option \<Rightarrow> bool" where
  "in_range (Memory n) = int32_range n"
| "in_range (Cpu n) = int32_range n"
| "in_range _ = True"

definition looks_like_option :: "string \<Rightarrow> bool" where
  "looks_like_option a \<longleftrightarrow> length a \<ge> 2 \<and> hd a = CHR ''-''"

lemma next_option_plain:
  "list_all (\<lambda>a. \<not> looks_like_option a) args \<Longrightarrow>
     next_option args sk = (Opt_end, \<lparr>nextchar = [], ahead = [], skipped = sk @ args\<rparr>)"
proof (induction args arbitrary: sk)
  case Nil
  then show ?case by simp
next
  case (Cons a args)
  then show ?case
    by (cases a rule: remdups_adj.cases) (auto simp: looks_like_option_def)
qed

definition tail_of :: "string list \<Rightarrow> string list \<Rightarrow> bool" where
  \<comment> \<open>how a command may follow the options: after \<open>--\<close>, or with no word that looks like an option\<close>
  "tail_of args command \<longleftrightarrow> args = ''--'' # command \<or>
     args = command \<and> list_all (\<lambda>a. \<not> looks_like_option a) command"

lemma getopts_tail:
  assumes "tail_of args command"
  shows "getopts \<lparr>nextchar = [], ahead = args, skipped = []\<rparr> = ([], command)"
  using assms by (auto simp: tail_of_def getopts.simps [of "\<lparr>nextchar = [], ahead = _, skipped = []\<rparr>"]
      getopt_long_def next_option_plain)

lemma getopt_long_render:
  "getopt_long \<lparr>nextchar = [], ahead = render (long, opt) @ args, skipped = []\<rparr> =
     (option_of opt, \<lparr>nextchar = [], ahead = args, skipped = []\<rparr>)"
  by (cases opt; cases long)
    (simp_all add: getopt_long_def long_option_def find_long_def long_options_def short_option_def
      short_options_def with_argument_def)

lemma getopts_render:
  assumes "tail_of args command"
  shows "getopts \<lparr>nextchar = [], ahead = concat (map render opts) @ args, skipped = []\<rparr> =
    (map (option_of \<circ> snd) opts, command)"
proof (induction opts)
  case Nil
  then show ?case using getopts_tail [OF assms] by simp
next
  case (Cons x opts)
  obtain long opt where x: "x = (long, opt)" by fastforce
  obtain c v where o: "option_of opt = Opt c v" by (cases opt) auto
  have "getopt_long \<lparr>nextchar = [], ahead = concat (map render (x # opts)) @ args, skipped = []\<rparr> =
      (Opt c v, \<lparr>nextchar = [], ahead = concat (map render opts) @ args, skipped = []\<rparr>)"
    using getopt_long_render [of long opt "concat (map render opts) @ args"] by (simp add: x o)
  then show ?case
    using Cons by (subst getopts.simps) (simp add: x o)
qed

lemma apply_options_effect:
  assumes "enough_memory K" and "list_all in_range opts"
  shows "\<exists>t. run_state (apply_options K prog (map option_of opts) x) s =
    ((0, fold effect opts x), t) \<and> trace t = trace s"
  using assms(2)
proof (induction opts arbitrary: x s)
  case Nil
  then show ?case by (cases x) simp
next
  case (Cons opt opts)
  obtain config d where x: "x = (config, d)" by fastforce
  have alloc: "\<exists>w'. k_alloc K w = (True, w')" for w
    using assms(1) by (metis enough_memory_def prod.collapse)
  show ?case
  proof (cases opt)
    case (Root p)
    obtain w' where w': "k_alloc K (kst s) = (True, w')" using alloc by blast
    have "list_all in_range opts" using Cons.prems by simp
    then obtain t where "run_state (apply_options K prog (map option_of opts) (set_root (Some p) config, d))
        (s\<lparr>kst := w'\<rparr>) = ((0, fold effect opts (set_root (Some p) config, d)), t)" "trace t = trace (s\<lparr>kst := w'\<rparr>)"
      using Cons.IH by blast
    then show ?thesis using w' Root x by simp
  qed (use Cons x in \<open>simp_all add: atoi_show_int\<close>)
qed

section \<open>Lemmas: the front end's own state\<close>

text \<open>
  The operations of the manager leave the globals of the front ends alone.
\<close>

definition same_front :: "('w, 'z) prog_scheme \<Rightarrow> ('w, 'z) prog_scheme \<Rightarrow> bool" where
  "same_front s t \<longleftrightarrow> prog.more t = prog.more s"

interpretation front_frame: manager_frame same_front
proof
  show "same_front s t" if "quiet s t" for s t :: "('a, 'b) prog_scheme"
    using that by (cases s; cases t) (simp add: quiet_def same_more_def same_front_def)
qed (auto simp: same_front_def)

lemmas quiet_front = front_frame.quiet_io

lemma front_upd_cm: "state_io_rel same_front (upd_cm f)"
  by (simp add: state_io_rel_def same_front_def)

lemma front_ask: "state_io_rel same_front (ask f)"
  by (rule quiet_front) (rule quiet_ask)

lemmas front_rules = front_frame.frame_combinators state_io_rel_cases front_upd_cm front_ask
  quiet_front [OF quiet_get_cm] quiet_front [OF quiet_save_state] quiet_front [OF quiet_create_cgroup]
  quiet_front [OF quiet_destroy_cgroup] quiet_front [OF quiet_start_process] quiet_front [OF quiet_create_root]
  quiet_front [OF quiet_copy_config] quiet_front [OF quiet_generate] quiet_front [OF quiet_kill_process_tree]
  quiet_front [OF quiet_kill_cgroup]

lemma front_reap: "state_io_rel same_front (reap K p)"
proof -
  have sys: "state_io_rel same_front (sys e f)" for e f
    by (simp add: state_io_rel_def same_front_def split: prod.split)
  have "state_io_rel same_front (wait_loop K p n)" for n
    by (induction n) (auto intro!: front_rules sys)
  then show ?thesis unfolding reap_def by (intro front_rules sys)
qed

lemma front_stop: "state_io_rel same_front (container_manager_stop K n cid)"
  unfolding container_manager_stop_def stop_info_def upd_info_def Let_def
  by (intro front_rules front_reap)

lemma front_destroy: "state_io_rel same_front (container_manager_destroy K n cid)"
  unfolding container_manager_destroy_def Let_def by (intro front_rules front_stop)

lemma front_create: "state_io_rel same_front (container_manager_create K n config)"
  unfolding container_manager_create_def choose_id_def register_info_def add_container_def
  by (intro front_rules)

lemma front_run: "state_io_rel same_front (container_manager_run K n config)"
  unfolding container_manager_run_def run_created_def upd_info_def Let_def
  by (intro front_rules front_create front_destroy)

lemma front_app:
  fixes s t :: "('w, 'z) app_scheme"
  assumes "same_front s t"
  shows front_running: "running t = running s" and front_monitor: "monitor_mode t = monitor_mode s"
    and front_web: "web t = web s"
  using assms by (cases s; cases t; simp add: same_front_def)+

lemma quiet_parse_run_options: "state_io_rel quiet (parse_run_options K argv junk)"
proof -
  have "state_io_rel quiet (apply_options K prog opts x)" for prog opts x
  proof (induction K prog opts x rule: apply_options.induct)
    case (2 K program c v opts config detach)
    then show ?case
      by (auto simp: print_usage_def c_print_def signal_ok_def intro!: quiet_rules)
  qed (auto intro!: quiet_rules)
  then show ?thesis unfolding parse_run_options_def Let_def by (intro quiet_rules)
qed

lemma wait_never_returns:
  fixes s :: "('w, 'z) app_scheme"
  assumes "running s"
  shows "run_state (wait_while_running K n) s \<noteq> (Some x, t)"
  using assms by (induction n arbitrary: s) (auto simp: c_sleep_def split: prod.split)

lemma await_never_returns:
  fixes s :: "('w, 'z) app_scheme"
  assumes "wf_cm (cman s)" and "running s" and "i < length (containers (cman s))"
    and "cstate (containers (cman s) ! i) = CONTAINER_RUNNING"
  shows "run_state (await_container K n detach (info_id (containers (cman s) ! i))) s \<noteq> (Some r, t)"
proof -
  have "find_container (cman s) (info_id (containers (cman s) ! i)) = Some i"
    using assms(1,3) by (simp add: wf_cm_def find_container_unique)
  then have "container_manager_get_info (cman s) (info_id (containers (cman s) ! i)) = Some i" by (rule get_info_id)
  moreover have "pid (containers (cman s) ! i) > 0"
    using running_pidsD [OF _ assms(3)] assms(1,4) by (simp add: wf_cm_def)
  ultimately show ?thesis
    using assms(2) by (auto simp: await_container_def wait_never_returns split: prod.splits option.splits)
qed

section \<open>Properties\<close>

text \<open>
  Property C26. The options of \<open>run\<close> are read as written: any sequence of options, each in its long or short
  form, followed by a command that stands after \<open>--\<close> or has no word that looks like an option, is
  accepted; the configuration gets the value of each option in turn, \<open>/\<close> as the root path if none is
  given, and exactly the words of the command, ended by a null pointer.
\<close>
theorem run_options_roundtrip:
  assumes "enough_memory K" and "list_all in_range (map snd opts)"
    and "tail_of args command" and "command \<noteq> []"
  shows "fst (run_state (parse_run_options K (prog # concat (map render opts) @ args) junk) s) =
    (let (config, detach) = fold effect (map snd opts) (init_config junk, 0);
         config = config\<lparr>cmd := Some (map Some command @ [None]), command_argc := int (length command)\<rparr>
     in (0, if fs_root_path (fs_conf config) = None then set_root (Some ''/'') config else config, detach))"
proof -
  obtain config detach where f: "fold effect (map snd opts) (init_config junk, 0) = (config, detach)" by fastforce
  obtain t where "run_state (apply_options K prog (map option_of (map snd opts)) (init_config junk, 0)) s =
      ((0, config, detach), t)"
    using apply_options_effect [OF assms(1,2), of prog "(init_config junk, 0)" s] f by auto
  moreover have "fst (k_alloc K (kst t))" using assms(1) by (simp add: enough_memory_def)
  ultimately show ?thesis
    using getopts_render [OF assms(3), of opts] assms(4) f
    by (auto simp: parse_run_options_def Let_def split: prod.split)
qed

definition blank_config :: container_config where
  "blank_config = example_config\<lparr>root_path := None\<rparr>"

theorem run_options_roundtrip_witness:
  "cmd (fst (snd (fst (run_state (parse_run_options calm_kernel
      [''run'', ''--memory'', show_int 256, ''-d'', ''--'', ''/bin/sh'', ''-c'', ''ls''] blank_config) calm_start)))) =
    Some [Some ''/bin/sh'', Some ''-c'', Some ''ls'', None]"
proof -
  have m: "enough_memory calm_kernel" by (simp add: enough_memory_def calm_calls)
  have r: "list_all in_range (map snd [(True, Memory 256), (False, Detach)])" by (simp add: int32_range_def)
  have t: "tail_of [''--'', ''/bin/sh'', ''-c'', ''ls''] [''/bin/sh'', ''-c'', ''ls'']" by (simp add: tail_of_def)
  from run_options_roundtrip [OF m r t, of "''run''" blank_config calm_start] show ?thesis
    by (simp add: set_root_def Let_def)
qed



text \<open>
  The command the program suggests is not run as suggested: \<open>list\<close> with no containers prints
  \<open>run /bin/sh -c "while true; do :; done"\<close>, but parsing it takes \<open>-c\<close> as the CPU option, with 0 shares, and
  leaves \<open>/bin/sh\<close> alone as the command.
\<close>
theorem suggested_command_misparsed:
  "(active_containers (cman s) = [] \<longrightarrow>
      EPrint (''  ./mini-container run /bin/sh -c '' @ quoted ''while true; do :; done'' @ [NL])
        \<in> set (trace (snd (run_state (handle_list H) s)))) \<and>
   (enough_memory K \<longrightarrow> (\<exists>config detach. fst (run_state (parse_run_options K
      [''run'', ''/bin/sh'', ''-c'', ''while true; do :; done''] junk) s') = (0, config, detach) \<and>
      cmd config = Some [Some ''/bin/sh'', None] \<and> shares (cpu (res_limits config)) = 0))"
proof (intro conjI impI)
  assume "active_containers (cman s) = []"
  then show "EPrint (''  ./mini-container run /bin/sh -c '' @ quoted ''while true; do :; done'' @ [NL])
      \<in> set (trace (snd (run_state (handle_list H) s)))"
    by (simp add: handle_list_def)
next
  assume m: "enough_memory K"
  have g: "getopts \<lparr>nextchar = [], ahead = [''/bin/sh'', ''-c'', ''while true; do :; done''], skipped = []\<rparr> =
      ([Opt (CHR ''c'') (Some ''while true; do :; done'')], [''/bin/sh''])"
    by (simp add: getopts.simps getopt_long_def short_option_def short_options_def with_argument_def)
  have z: "atoi ''while true; do :; done'' = 0"
    by (simp add: atoi_def strtol_def scan_integer_def scan_sign_def isspace_def isdigit_def to_int32_def)
  obtain w where w: "k_alloc K (kst s') = (True, w)" using m by (metis enough_memory_def prod.collapse)
  have "fs_root_path (fs_conf (set_shares 0 (init_config junk))) = None"
    by (simp add: set_shares_def init_config_def fs_config_init_def)
  then show "\<exists>config detach. fst (run_state (parse_run_options K
      [''run'', ''/bin/sh'', ''-c'', ''while true; do :; done''] junk) s') = (0, config, detach) \<and>
      cmd config = Some [Some ''/bin/sh'', None] \<and> shares (cpu (res_limits config)) = 0"
    using w by (simp add: parse_run_options_def g z Let_def) (simp add: set_root_def set_shares_def)
qed

theorem suggested_command_misparsed_witness:
  "\<exists>config detach. fst (run_state (parse_run_options calm_kernel
      [''run'', ''/bin/sh'', ''-c'', ''while true; do :; done''] blank_config) calm_start) = (0, config, detach) \<and>
      cmd config = Some [Some ''/bin/sh'', None] \<and> shares (cpu (res_limits config)) = 0"
proof -
  have "enough_memory calm_kernel" by (simp add: enough_memory_def calm_calls)
  then show ?thesis
    using suggested_command_misparsed [of "calm_prog (example_cm [] 10)" calm_host calm_kernel blank_config calm_start]
    by blast
qed

text \<open>
  Property C30. A run that works does not return: with the program's flag set, on a well-formed manager and
  a kernel whose \<open>clone\<close> answers positive process ids, \<open>handle_run\<close> returns only with the exit code of
  failure, and then the table has the entries it had; once the container runs, the program waits, with or
  without the option \<open>--detach\<close>, for a signal.
\<close>
theorem run_returns_only_on_failure:
  fixes s :: "('w, 'z) app_scheme"
  assumes "clone_positive K" and "wf_cm (cman s)" and "running s"
    and "run_state (handle_run K n junk argv) s = (Some r, t)"
  shows "r = EXIT_FAILURE \<and> containers (cman t) = containers (cman s)"
proof -
  obtain r1 config detach u where p: "run_state (parse_run_options K argv junk) s = ((r1, config, detach), u)"
    by (metis surj_pair)
  have q: "quiet s u" using quiet_parse_run_options p by (rule state_io_relD)
  then have u: "cman u = cman s" by (rule quiet_cman)
  have "running u = running s" using q by (cases s; cases u) (simp add: quiet_def same_more_def)
  then have ru: "running u" using assms(3) by simp
  show ?thesis
  proof (cases "r1 = 0")
    case False
    then show ?thesis using assms(4) p u by (simp add: handle_run_def)
  next
    case True
    then obtain r2 config' v where run: "run_state (container_manager_run K n (Some config)) u = (Some (r2, config'), v)"
      and rest: "run_state (if r2 \<noteq> 0 then oret EXIT_FAILURE
       else await_container K n detach (the (config_id (the config')))) v = (Some r, t)"
      using assms(4) p by (auto simp: handle_run_def split: prod.splits option.splits)
    have rv: "running v" using front_running [OF state_io_relD [OF front_run run]] ru by simp
    have wf: "wf_cm (cman u)" "wf_cm (cman v)"
      using state_ret_relD [OF run_refines [OF assms(1)] run] assms(2) u by (simp_all add: refines_def)
    consider (failed) "r2 = - 1" "containers (cman v) = containers (cman u)"
      | (started) info cid where "r2 = 0" "containers (cman v) = containers (cman u) @ [info]"
        "cstate info = CONTAINER_RUNNING" "info_id info = cid" "config' = Some (config\<lparr>config_id := Some cid\<rparr>)"
      using run_outcome [OF wf(1) run] by blast
    then show ?thesis
    proof cases
      case failed
      then show ?thesis using rest u by simp
    next
      case (started info cid)
      have i: "length (containers (cman u)) < length (containers (cman v))"
        "containers (cman v) ! length (containers (cman u)) = info"
        using started(2) by simp_all
      have "run_state (await_container K n detach cid) v = (Some r, t)" using rest started(1,5) by simp
      then show ?thesis
        using await_never_returns [OF wf(2) rv i(1), of K n detach r t] i(2) started(3,4) by simp
    qed
  qed
qed

theorem run_returns_only_on_failure_witness:
  "\<exists>t. run_state (handle_run calm_kernel 0 blank_config [''run'']) (example_app (example_cm [] 10)) = (Some EXIT_FAILURE, t)
     \<and> containers (cman t) = []"
proof -
  have wf: "wf_cm (cman (example_app (example_cm [] 10)))"
    by (simp add: wf_cm_def ids_distinct_def ids_def running_pids_def example_cm_def)
  obtain r t where run: "run_state (handle_run calm_kernel 0 blank_config [''run'']) (example_app (example_cm [] 10)) = (Some r, t)"
    by (simp add: handle_run_def parse_run_options_def getopts.simps getopt_long_def)
  from run_returns_only_on_failure [OF calm_clone_positive wf _ run] run show ?thesis
    by (simp add: example_cm_def)
qed

end
