(* ===== verification/Shutdown.thy ===== *)
theory Shutdown
  imports Command_Line
begin

text \<open>
  The signal handler of \<open>src/src/main.cpp\<close>: on SIGINT or SIGTERM it stops all containers in four passes,
  stops the web server, saves the table and exits. The loops run over the indices of the table and read
  the entry afresh in every round, as the source does through its pointers.
\<close>

section \<open>Model\<close>

definition signal_cgroup :: "'w kernel \<Rightarrow> string \<Rightarrow> signal \<Rightarrow> ('w, 'z, unit) io" where
  \<comment> \<open>a signal to every process listed in the file\<close>
  "signal_cgroup K path sig = do {
     fp \<leftarrow> c_fopen_r K path;
     (case fp of
        None \<Rightarrow> State_Monad.return ()
      | Some content \<Rightarrow>
          for_each (\<lambda>p. if p > 0 then do { _ \<leftarrow> c_kill K p sig; State_Monad.return () } else State_Monad.return ())
            (fscanf_ints content))
   }"

definition term_pass :: "'w kernel \<Rightarrow> nat \<Rightarrow> ('w, 'z, unit) pio" where
  \<comment> \<open>first pass, container \<open>i\<close>\<close>
  "term_pass K i = do {
     c \<leftarrow> get_cm;
     if cstate (containers c ! i) = CONTAINER_RUNNING
     then signal_cgroup K (cgroup_procs_path (rm c) (info_id (containers c ! i))) SIGTERM
     else State_Monad.return ()
   }"

definition stop_running :: "'w kernel \<Rightarrow> nat \<Rightarrow> nat \<Rightarrow> ('w, 'z, unit option) pio" where
  \<comment> \<open>second pass, container \<open>i\<close>\<close>
  "stop_running K n i = do {
     c \<leftarrow> get_cm;
     if cstate (containers c ! i) = CONTAINER_RUNNING
     then obind (container_manager_stop K n (info_id (containers c ! i))) (\<lambda>_. oret ())
     else oret ()
   }"

definition kill_pass :: "'w kernel \<Rightarrow> nat \<Rightarrow> nat \<Rightarrow> ('w, 'z, unit option) pio" where
  \<comment> \<open>third pass, container \<open>i\<close>\<close>
  "kill_pass K n i = do {
     c \<leftarrow> get_cm;
     if cstate (containers c ! i) = CONTAINER_RUNNING \<or> pid (containers c ! i) > 0
     then do {
       _ \<leftarrow> signal_cgroup K (cgroup_procs_path (rm c) (info_id (containers c ! i))) SIGKILL;
       stop_running K n i
     }
     else oret ()
   }"

definition settle :: "'w kernel \<Rightarrow> nat \<Rightarrow> nat \<Rightarrow> ('w, 'z, unit option) pio" where
  \<comment> \<open>last pass, container \<open>i\<close>\<close>
  "settle K n i = do {
     c \<leftarrow> get_cm;
     if cstate (containers c ! i) = CONTAINER_CREATED then do {
       now \<leftarrow> c_time K;
       olift (upd_info i (set_stopped now))
     }
     else stop_running K n i
   }"

definition first_passes :: "'w kernel \<Rightarrow> nat \<Rightarrow> ('w, 'z, unit option) pio" where
  "first_passes K n = do {
     c \<leftarrow> get_cm;
     let indices = [0..<length (containers c)];
     _ \<leftarrow> for_each (term_pass K) indices;
     _ \<leftarrow> c_usleep K 500000;
     obind (ofor_each (stop_running K n) indices) (\<lambda>_. do {
       _ \<leftarrow> c_sleep K 1;
       ofor_each (kill_pass K n) indices
     })
   }"

definition stop_all :: "'w kernel \<Rightarrow> nat \<Rightarrow> ('w, 'z, unit option) pio" where
  "stop_all K n = obind (first_passes K n) (\<lambda>_. do {
     c \<leftarrow> get_cm;
     ofor_each (settle K n) [0..<length (containers c)]
   })"

definition delete_web :: "'w kernel \<Rightarrow> ('w, 'z, unit) aio" where
  \<comment> \<open>\<open>if (web_server) { web_server->stop(); delete web_server; web_server = nullptr; }\<close>\<close>
  "delete_web K = do {
     w \<leftarrow> get_app web;
     if w = None then State_Monad.return ()
     else do { _ \<leftarrow> web_stop K; set_app (\<lambda>s. s\<lparr>web := None\<rparr>) }
   }"

definition signal_handler :: "'w kernel \<Rightarrow> nat \<Rightarrow> ('w, 'z, int option) aio" where
  \<comment> \<open>the code the program exits with\<close>
  "signal_handler K n = do {
     _ \<leftarrow> set_app (\<lambda>s. s\<lparr>running := False, monitor_mode := False\<rparr>);
     _ \<leftarrow> say [[NL, NL], ''Shutting down... Stopping all containers...'' @ [NL]];
     obind (stop_all K n) (\<lambda>_. do {
       _ \<leftarrow> delete_web K;
       _ \<leftarrow> container_manager_cleanup K;
       _ \<leftarrow> c_print (''All containers stopped. Exiting...'' @ [NL]);
       oret 0
     })
   }"

section \<open>Lemmas: winding down\<close>

text \<open>
  What the passes may do to a table: keep the ids, turn containers into stopped ones, signal single
  processes only.
\<close>

definition state_at :: "container_manager \<Rightarrow> nat \<Rightarrow> container_state" where
  "state_at c i = cstate (containers c ! i)"

definition winds_down :: "('w, 'z) prog_scheme \<Rightarrow> ('w, 'z) prog_scheme \<Rightarrow> bool" where
  "winds_down s t \<longleftrightarrow> (wf_cm (cman s) \<longrightarrow>
     wf_cm (cman t) \<and> ids (cman t) = ids (cman s) \<and> only signal_ok s t \<and> same_front s t \<and>
     (\<forall>i<length (containers (cman s)).
        state_at (cman t) i = state_at (cman s) i \<or> state_at (cman t) i = CONTAINER_STOPPED))"

lemma ids_length: "ids c = ids d \<Longrightarrow> length (containers c) = length (containers d)"
  by (metis ids_def length_map)

interpretation down_frame: manager_frame winds_down
proof
  show "winds_down s t" if "quiet s t" for s t :: "('a, 'b) prog_scheme"
    using that front_frame.quiet_imp [OF that] by (simp add: winds_down_def quiet_def quiet_cman [OF that])
  show "winds_down s s" for s :: "('a, 'b) prog_scheme"
    by (simp add: winds_down_def only_frame.frame_refl front_frame.frame_refl)
  show "winds_down s u" if "winds_down s t" "winds_down t u" for s t u :: "('a, 'b) prog_scheme"
  proof -
    have "wf_cm (cman s) \<Longrightarrow> i < length (containers (cman s)) \<Longrightarrow>
        state_at (cman u) i = state_at (cman s) i \<or> state_at (cman u) i = CONTAINER_STOPPED" for i
      using that ids_length [of "cman t" "cman s"] unfolding winds_down_def by metis
    then show ?thesis
      using that unfolding winds_down_def by (auto intro: only_frame.frame_trans front_frame.frame_trans)
  qed
qed

lemmas quiet_down = down_frame.quiet_io

lemma update_at_down:
  assumes "wf_cm (cman s)" and "i < length (containers (cman s))"
    and "cman t = update_at i (set_stopped now) (cman s)" and "only signal_ok s t" and "same_front s t"
  shows "winds_down s t"
proof -
  have d: "ids_distinct (cman s)" and rp: "running_pids (cman s)" using assms(1) by (simp_all add: wf_cm_def)
  have f: "info_id (set_stopped now v) = info_id v" for v by simp
  have "wf_cm (cman t)"
    using update_at_refines(1) [OF d assms(2) f] update_at_running [OF rp, of "set_stopped now" i] assms(3)
    by (simp add: wf_cm_def)
  moreover have "ids (cman t) = ids (cman s)"
    using assms(2,3) by (simp add: update_at_modify [OF d] ids_modify)
  moreover have "state_at (cman t) j = state_at (cman s) j \<or> state_at (cman t) j = CONTAINER_STOPPED"
    if "j < length (containers (cman s))" for j
    using assms(2,3) that by (cases "j = i") (simp_all add: state_at_def update_at_def)
  ultimately show ?thesis using assms(4,5) by (simp add: winds_down_def)
qed

lemma stop_down:
  fixes K :: "'w kernel"
  shows "state_ret_rel winds_down (container_manager_stop K n cid)"
proof (rule state_ret_relI)
  fix s t :: "('w, 'z) prog_scheme" and r
  assume run: "run_state (container_manager_stop K n cid) s = (Some r, t)"
  have front: "same_front s t" using front_stop run by (rule state_io_relD)
  show "winds_down s t"
  proof (cases "wf_cm (cman s)")
    case False
    then show ?thesis by (simp add: winds_down_def)
  next
    case True
    then have "running_pids (cman s)" by (simp add: wf_cm_def)
    with run show ?thesis
    proof (cases rule: stop_cases)
      case failed
      then show ?thesis by (simp add: down_frame.frame_refl)
    next
      case (stopped i now)
      then show ?thesis using update_at_down [OF True get_info_index [OF stopped(2)]] front by blast
    qed
  qed
qed

lemma quiet_signal_cgroup: "state_io_rel quiet (signal_cgroup K path sig)"
  unfolding signal_cgroup_def by (auto simp: signal_ok_def intro!: quiet_rules split: option.split)

lemmas down_rules = down_frame.ret_combinators state_ret_rel_if stop_down quiet_down [OF quiet_get_cm]
  quiet_down [OF quiet_ask] quiet_down [OF quiet_signal_cgroup]

lemma stop_running_down: "state_ret_rel winds_down (stop_running K n i)"
  unfolding stop_running_def by (intro down_rules)

lemma kill_pass_down: "state_ret_rel winds_down (kill_pass K n i)"
  unfolding kill_pass_def by (intro down_rules stop_running_down)

lemma term_pass_down: "state_io_rel winds_down (term_pass K i)"
  unfolding term_pass_def by (intro quiet_down quiet_rules quiet_get_cm quiet_signal_cgroup)

text \<open>What the last pass does to the container it looks at.\<close>

lemma stop_running_cases:
  fixes K :: "'w kernel" and s t :: "('w, 'z) prog_scheme"
  assumes "run_state (stop_running K n i) s = (Some (), t)" and "wf_cm (cman s)"
    and "i < length (containers (cman s))"
  obtains (idle) "cstate (containers (cman s) ! i) \<noteq> CONTAINER_RUNNING" and "t = s"
  | (stopped) now where "cstate (containers (cman s) ! i) = CONTAINER_RUNNING"
      and "cman t = update_at i (set_stopped now) (cman s)"
proof (cases "cstate (containers (cman s) ! i) = CONTAINER_RUNNING")
  case False
  then show thesis using assms(1) by (intro idle) (simp_all add: stop_running_def)
next
  case True
  then obtain r where run: "run_state (container_manager_stop K n (info_id (containers (cman s) ! i))) s = (Some r, t)"
    using assms(1) by (auto simp: stop_running_def split: prod.splits option.splits)
  have "find_container (cman s) (info_id (containers (cman s) ! i)) = Some i"
    using assms(2,3) by (simp add: wf_cm_def find_container_unique)
  then have g: "container_manager_get_info (cman s) (info_id (containers (cman s) ! i)) = Some i"
    by (rule get_info_id)
  have "running_pids (cman s)" using assms(2) by (simp add: wf_cm_def)
  with run show thesis
  proof (cases rule: stop_cases)
    case failed
    then show ?thesis using g True by blast
  next
    case (stopped j now)
    then show ?thesis using g True by (intro that(2)) simp_all
  qed
qed

lemma stop_running_stops:
  fixes K :: "'w kernel" and s t :: "('w, 'z) prog_scheme"
  assumes "run_state (stop_running K n i) s = (Some (), t)" and "wf_cm (cman s)"
    and "i < length (containers (cman s))"
  shows "state_at (cman t) i \<noteq> CONTAINER_RUNNING" and "state_at (cman t) i = CONTAINER_CREATED \<longrightarrow> t = s"
    and "state_at (cman s) j \<noteq> CONTAINER_RUNNING \<Longrightarrow> containers (cman t) ! j = containers (cman s) ! j"
  using assms
  by (cases rule: stop_running_cases; cases "i = j"; simp add: state_at_def update_at_def set_stopped_def)+

lemma settle_outcome:
  fixes K :: "'w kernel" and s t :: "('w, 'z) prog_scheme"
  assumes "run_state (settle K n i) s = (Some (), t)" and "wf_cm (cman s)" and "i < length (containers (cman s))"
  shows "winds_down s t" and "state_at (cman t) i \<notin> {CONTAINER_CREATED, CONTAINER_RUNNING}"
proof -
  have "winds_down s t \<and> state_at (cman t) i \<notin> {CONTAINER_CREATED, CONTAINER_RUNNING}"
  proof (cases "cstate (containers (cman s) ! i) = CONTAINER_CREATED")
    case True
    obtain now w where w: "k_time K (kst s) = (now, w)" by fastforce
    have t: "t = s\<lparr>kst := w, cman := update_at i (set_stopped now) (cman s)\<rparr>"
      using assms(1) True w by (simp add: settle_def run_upd_info_at del: run_upd_info)
    have "winds_down s t"
      by (rule update_at_down [OF assms(2,3)]) (simp_all add: t only_def same_front_def)
    then show ?thesis using assms(3) by (simp add: t state_at_def update_at_def set_stopped_def)
  next
    case False
    then have run: "run_state (stop_running K n i) s = (Some (), t)" using assms(1) by (simp add: settle_def)
    then have "winds_down s t" using stop_running_down by (blast dest: state_ret_relD)
    then show ?thesis using stop_running_stops [OF run assms(2,3)] False by (auto simp: state_at_def)
  qed
  then show "winds_down s t" and "state_at (cman t) i \<notin> {CONTAINER_CREATED, CONTAINER_RUNNING}" by simp_all
qed

lemma settle_all:
  fixes K :: "'w kernel" and s t :: "('w, 'z) prog_scheme"
  assumes "run_state (ofor_each (settle K n) is) s = (Some (), t)" and "wf_cm (cman s)"
    and "\<forall>i\<in>set is. i < length (containers (cman s))"
  shows "winds_down s t \<and> (\<forall>i\<in>set is. state_at (cman t) i \<notin> {CONTAINER_CREATED, CONTAINER_RUNNING})"
  using assms
proof (induction "is" arbitrary: s)
  case Nil
  then show ?case by (simp add: down_frame.frame_refl)
next
  case (Cons i "is")
  then obtain u where u: "run_state (settle K n i) s = (Some (), u)"
    and rest: "run_state (ofor_each (settle K n) is) u = (Some (), t)"
    by (auto split: prod.splits option.splits)
  have i: "i < length (containers (cman s))" using Cons.prems(3) by simp
  have su: "winds_down s u" "state_at (cman u) i \<notin> {CONTAINER_CREATED, CONTAINER_RUNNING}"
    using settle_outcome [OF u Cons.prems(2) i] by simp_all
  then have wf: "wf_cm (cman u)" "ids (cman u) = ids (cman s)" using Cons.prems(2) by (simp_all add: winds_down_def)
  then have len: "length (containers (cman u)) = length (containers (cman s))" using ids_length by blast
  have "winds_down u t \<and> (\<forall>i\<in>set is. state_at (cman t) i \<notin> {CONTAINER_CREATED, CONTAINER_RUNNING})"
    using Cons.IH [OF rest wf(1)] Cons.prems(3) len by simp
  moreover from this have "state_at (cman t) i \<notin> {CONTAINER_CREATED, CONTAINER_RUNNING}"
    using su(2) wf(1) i len by (auto simp: winds_down_def)
  ultimately show ?case using su(1) by (auto intro: down_frame.frame_trans)
qed

lemma stop_all_outcome:
  fixes K :: "'w kernel" and s t :: "('w, 'z) prog_scheme"
  assumes "run_state (stop_all K n) s = (Some (), t)" and "wf_cm (cman s)"
  shows "winds_down s t" and "\<forall>v\<in>set (containers (cman t)). cstate v \<notin> {CONTAINER_CREATED, CONTAINER_RUNNING}"
proof -
  have down: "state_ret_rel winds_down (first_passes K n :: ('w, 'z, unit option) pio)"
    unfolding first_passes_def Let_def c_sleep_def
    by (intro down_rules down_frame.frame_combinators stop_running_down kill_pass_down term_pass_down)
  obtain u where b: "run_state (first_passes K n) s = (Some (), u)"
    and last: "run_state (ofor_each (settle K n) [0..<length (containers (cman u))]) u = (Some (), t)"
    using assms(1) unfolding stop_all_def by (auto split: prod.splits option.splits)
  have su: "winds_down s u" using down b by (rule state_ret_relD)
  then have wf: "wf_cm (cman u)" using assms(2) by (simp add: winds_down_def)
  have ut: "winds_down u t" "\<forall>i<length (containers (cman u)). state_at (cman t) i \<notin> {CONTAINER_CREATED, CONTAINER_RUNNING}"
    using settle_all [OF last wf] by simp_all
  then have "ids (cman t) = ids (cman u)" using wf by (simp add: winds_down_def)
  then have "length (containers (cman t)) = length (containers (cman u))" by (rule ids_length)
  then show "\<forall>v\<in>set (containers (cman t)). cstate v \<notin> {CONTAINER_CREATED, CONTAINER_RUNNING}"
    using ut(2) by (auto simp: in_set_conv_nth state_at_def)
  show "winds_down s t" using su ut(1) by (rule down_frame.frame_trans)
qed

lemma stop_all_returns:
  assumes "tree_ranked K rank n"
  shows "returns (stop_all K n)"
proof -
  have st: "returns (stop_running K n i)" for i
    unfolding stop_running_def by (intro returns_rules stop_returns [OF assms])
  have k: "returns (kill_pass K n i)" for i
    unfolding kill_pass_def by (intro returns_rules st)
  have se: "returns (settle K n i)" for i
    unfolding settle_def by (intro returns_rules st)
  show ?thesis
    unfolding stop_all_def first_passes_def Let_def by (intro returns_rules st k se)
qed

section \<open>Lemmas: the end of the program\<close>

lemma delete_web_cases:
  fixes s :: "('w, 'z) app_scheme"
  obtains t where "run_state (delete_web K) s = ((), t)" and "cman t = cman s" and "running t = running s"
    and "monitor_mode t = monitor_mode s" and "web t = None"
    and "only (\<lambda>e. \<exists>fd. e = EClose fd) s t"
proof -
  obtain t where "run_state (delete_web K) s = ((), t)" by (metis (full_types) old.unit.exhaust surj_pair)
  moreover from this have "cman t = cman s" "running t = running s" "monitor_mode t = monitor_mode s" "web t = None"
    "only (\<lambda>e. \<exists>fd. e = EClose fd) s t"
    by (auto simp: delete_web_def web_stop_def get_web_def set_socket_def only_def split: if_splits prod.splits)
  ultimately show thesis by (rule that)
qed

definition state_dir_event :: "event \<Rightarrow> bool" where
  "state_dir_event e \<longleftrightarrow> (case e of EMkdir d _ \<Rightarrow> d = ''/var/run/mini-container'' | _ \<Rightarrow> False)"

lemma cleanup_saves:
  fixes s :: "('w, 'z) prog_scheme"
  obtains t p ok es where "run_state (container_manager_cleanup K) s = ((), t)" and "same_front s t"
    and "containers (cman t) = []"
    and "trace t = trace s @ es @ [ESave p (concat (state_lines (containers (cman s)))) ok]"
    and "list_all state_dir_event es"
proof -
  obtain p u where sp: "run_state (get_state_file_path K) s = (p, u)" by fastforce
  have "cman u = cman s" using quiet_cmanD [OF quiet_get_state_file_path sp] .
  moreover have "same_front s u" using quiet_front [OF quiet_get_state_file_path] sp by (rule state_io_relD)
  moreover have "state_io_rel (only state_dir_event) (get_state_file_path K :: ('w, 'z, string) pio)"
    unfolding get_state_file_path_def by (auto simp: state_dir_event_def intro!: only_rules)
  then have "only state_dir_event s u" using sp by (rule state_io_relD)
  then obtain es where "trace u = trace s @ es" "list_all state_dir_event es" by (auto simp: only_def)
  moreover obtain ok w where "k_save K p (concat (state_lines (containers (cman s)))) (kst u) = (ok, w)" by fastforce
  moreover define t where "t = u\<lparr>kst := w, trace := trace u @ [ESave p (concat (state_lines (containers (cman s)))) ok],
    cman := (cman s)\<lparr>rm := the (resource_manager_cleanup (Some (rm (cman s)))), containers := []\<rparr>\<rparr>"
  ultimately show thesis
    using sp by (intro that [of t es p ok]) (simp_all add: container_manager_cleanup_def save_state_def same_front_def)
qed

section \<open>Properties\<close>



end
