(* ===== verification/Monitor.thy ===== *)
theory Monitor
  imports Shutdown
begin

text \<open>
  The monitors of \<open>src/src/main.cpp\<close>: the compact monitor above the menu and the full-screen monitor, which
  redraws itself until it is left.
\<close>

section \<open>Model\<close>

definition monitor_before :: "container_info \<Rightarrow> container_info \<Rightarrow> bool" where
  \<comment> \<open>the comparison both monitors sort by\<close>
  "monitor_before a b =
     (if cstate a = CONTAINER_RUNNING \<and> cstate b \<noteq> CONTAINER_RUNNING then True
      else if cstate a \<noteq> CONTAINER_RUNNING \<and> cstate b = CONTAINER_RUNNING then False
      else started_at a > started_at b)"

definition running_count :: "container_info list \<Rightarrow> nat" where
  "running_count infos = length (filter (\<lambda>info. cstate info = CONTAINER_RUNNING) infos)"

primrec monitor_totals ::
  "'w kernel \<Rightarrow> 'w host \<Rightarrow> resource_manager \<Rightarrow> container_info list \<Rightarrow> rat \<times> ulong \<Rightarrow> ('w, 'z, rat \<times> ulong) io" where
  \<comment> \<open>the sums over the running containers\<close>
  "monitor_totals K H m [] acc = State_Monad.return acc"
| "monitor_totals K H m (info # infos) acc =
     (if cstate info = CONTAINER_RUNNING then do {
        (cpu_usage, memory_usage) \<leftarrow> stats K m (info_id info);
        total_cpu \<leftarrow> (if started_at info > 0 then do {
                        p \<leftarrow> calculate_cpu_percent K H cpu_usage (started_at info);
                        State_Monad.return (fl (fst acc + p))
                      } else State_Monad.return (fst acc));
        monitor_totals K H m infos (total_cpu, snd acc + memory_usage)
      }
      else monitor_totals K H m infos acc)"

definition print_clock :: "'w host \<Rightarrow> int \<Rightarrow> ('w, 'z, unit) io" where
  "print_clock H now = do {
     txt \<leftarrow> ask (h_localtime H now);
     c_print (''Time: '' @ (case txt of Some x \<Rightarrow> x | None \<Rightarrow> []) @ [NL])
   }"

definition print_compact_row ::
  "'w kernel \<Rightarrow> 'w host \<Rightarrow> resource_manager \<Rightarrow> int \<Rightarrow> container_info \<Rightarrow> ('w, 'z, unit) io" where
  "print_compact_row K H m now info = do {
     _ \<leftarrow> c_print (pad 20 (info_id info) @ '' '' @ pad 8 (show_int (pid info)) @ '' '');
     _ \<leftarrow> c_print (pad 10 (safe_state_name (cstate info)));
     _ \<leftarrow> (if cstate info = CONTAINER_RUNNING then do {
             (cpu_usage, memory_usage) \<leftarrow> stats K m (info_id info);
             p \<leftarrow> calculate_cpu_percent K H cpu_usage (started_at info);
             c_print ('' '' @ pad 13 (snprintf 16 (show_fixed 1 p @ ''%'')) @ '' '' @ pad 12 (format_bytes memory_usage))
           }
           else c_print ('' '' @ pad 13 ''--'' @ '' '' @ pad 12 ''--''));
     c_print ('' '' @ pad 10 (format_duration (started_at info) now) @ [NL])
   }"

definition display_compact_monitor :: "'w kernel \<Rightarrow> 'w host \<Rightarrow> ('w, 'z, unit) pio" where
  "display_compact_monitor K H = do {
     c \<leftarrow> get_cm;
     let active = active_containers c;
     (total_cpu, total_memory) \<leftarrow> monitor_totals K H (rm c) active (0, 0);
     _ \<leftarrow> c_print (''Mini Container Monitor (Live)'' @ [NL]);
     _ \<leftarrow> c_print (''Running: '' @ show_nat (running_count active) @ ''  '');
     _ \<leftarrow> c_print (''Total: '' @ show_nat (length active) @ ''  '');
     _ \<leftarrow> c_print (''Total CPU: '' @ show_fixed 1 total_cpu @ ''%  '');
     _ \<leftarrow> c_print (''Total RAM: '' @ format_bytes total_memory @ ''  '');
     now \<leftarrow> c_time K;
     _ \<leftarrow> print_clock H now;
     _ \<leftarrow> c_print (pad 20 ''CONTAINER ID'' @ '' '' @ pad 8 ''PID'' @ '' '' @ pad 10 ''STATE'' @ '' '' @ pad 13 ''CPU%'' @
            '' '' @ pad 12 ''MEMORY'' @ '' '' @ pad 10 ''RUNTIME'' @ [NL]);
     _ \<leftarrow> (if active = [] then c_print (''No containers'' @ [NL])
           else do {
             let sorted = h_sort H monitor_before active;
             _ \<leftarrow> for_each (print_compact_row K H (rm c) now) (take 10 sorted);
             if length sorted > 10
             then c_print (''... and '' @ show_nat (length sorted - 10) @ '' more container(s)'' @ [NL])
             else State_Monad.return ()
           });
     c_print [NL]
   }"

definition print_full_row ::
  "'w kernel \<Rightarrow> 'w host \<Rightarrow> resource_manager \<Rightarrow> int \<Rightarrow> container_info \<Rightarrow> ('w, 'z, unit) io" where
  "print_full_row K H m now info = do {
     _ \<leftarrow> c_print (pad 20 (info_id info) @ '' '' @ pad 8 (show_int (pid info)) @ '' '');
     _ \<leftarrow> c_print (pad 10 (safe_state_name (cstate info)));
     _ \<leftarrow> (if cstate info = CONTAINER_RUNNING then do {
             (cpu_usage, memory_usage) \<leftarrow> stats K m (info_id info);
             p \<leftarrow> calculate_cpu_percent K H cpu_usage (started_at info);
             c_print ('' '' @ pad 12 (show_fixed 1 p) @ '' '' @ pad 12 (format_bytes memory_usage))
           }
           else c_print ('' '' @ pad 12 ''--'' @ '' '' @ pad 12 ''--''));
     _ \<leftarrow> c_print ('' '' @ pad 10 (format_duration (started_at info) now));
     created_str \<leftarrow> clock_text H (created_at info);
     c_print ('' '' @ pad 10 created_str @ [NL])
   }"

definition draw_monitor :: "'w kernel \<Rightarrow> 'w host \<Rightarrow> ('w, 'z, unit) pio" where
  \<comment> \<open>one screen of \<open>display_monitor\<close>\<close>
  "draw_monitor K H = do {
     _ \<leftarrow> c_print (''Mini Container Monitor (htop-like)'' @ [NL]);
     c \<leftarrow> get_cm;
     let active = active_containers c;
     _ \<leftarrow> c_print (''Running: '' @ show_nat (running_count active) @ ''  '');
     _ \<leftarrow> c_print (''Total: '' @ show_nat (length active) @ ''  '');
     now \<leftarrow> c_time K;
     _ \<leftarrow> print_clock H now;
     _ \<leftarrow> c_print (pad 20 ''CONTAINER ID'' @ '' '' @ pad 8 ''PID'' @ '' '' @ pad 10 ''STATE'' @ '' '' @ pad 12 ''CPU%'' @
            '' '' @ pad 12 ''MEMORY'' @ '' '' @ pad 10 ''RUNTIME'' @ '' '' @ pad 10 ''CREATED'' @ [NL]);
     _ \<leftarrow> (if active = [] then c_print (''No containers'' @ [NL])
           else for_each (print_full_row K H (rm c) now) (h_sort H monitor_before active));
     _ \<leftarrow> c_print [NL];
     c_print (''Press 'q' to quit monitor, 'r' to refresh'' @ [NL])
   }"

primrec display_monitor :: "'w kernel \<Rightarrow> 'w host \<Rightarrow> nat \<Rightarrow> ('w, 'z, unit option) aio" where
  "display_monitor K H 0 = State_Monad.return None"
| "display_monitor K H (Suc n) = do {
     go \<leftarrow> get_app (\<lambda>s. monitor_mode s \<and> running s);
     if \<not> go then oret ()
     else do {
       _ \<leftarrow> draw_monitor K H;
       key \<leftarrow> ask (h_poll H 0);
       if key = Some (CHR ''q'') \<or> key = Some (CHR ''Q'')
       then olift (set_app (\<lambda>s. s\<lparr>monitor_mode := False\<rparr>))
       else do { _ \<leftarrow> c_usleep K 5000000; display_monitor K H n }
     }
   }"

section \<open>Lemmas\<close>

text \<open>
  What \<open>std::sort\<close> promises for a comparison that is a strict weak ordering: a permutation in which no
  element comes before a smaller one.
\<close>

definition sorts :: "'w host \<Rightarrow> bool" where
  "sorts H \<longleftrightarrow> (\<forall>xs. mset (h_sort H monitor_before xs) = mset xs \<and>
     sorted_wrt (\<lambda>a b. \<not> monitor_before b a) (h_sort H monitor_before xs))"

lemma monitor_before_irrefl: "\<not> monitor_before a a"
  by (simp add: monitor_before_def)

lemma monitor_before_trans: "monitor_before a b \<Longrightarrow> monitor_before b c \<Longrightarrow> monitor_before a c"
  by (auto simp: monitor_before_def split: if_splits)

lemma monitor_before_incomparable_trans:
  "\<not> monitor_before a b \<Longrightarrow> \<not> monitor_before b c \<Longrightarrow> \<not> monitor_before a c"
  by (auto simp: monitor_before_def split: if_splits)

text \<open>Printing and reading statistics leave the table alone.\<close>

lemma quiet_print: "state_io_rel quiet (c_print txt)"
  unfolding c_print_def by (rule quiet_sys) (simp add: signal_ok_def)

lemma quiet_say: "state_io_rel quiet (say xs)"
  unfolding say_def by (intro quiet_rules quiet_print)

lemma quiet_get_app:
  fixes f :: "('w, 'z) app_scheme \<Rightarrow> 'a"
  shows "state_io_rel quiet (get_app f)"
  by (simp add: state_io_rel_def quiet_frame.frame_refl)

lemma quiet_stats: "state_io_rel quiet (stats K m cid)"
proof -
  have rf: "state_io_rel quiet (find_cpuacct_usage_path K m' cid')" for m' cid'
    unfolding find_cpuacct_usage_path_def Let_def by (intro quiet_rules)
  show ?thesis
    unfolding stats_def resource_manager_get_stats_def read_cpu_usage_def read_memory_usage_def Let_def
    by (intro quiet_rules quiet_read_file rf)
qed

lemmas console_rules = quiet_rules quiet_print quiet_say quiet_get_app quiet_stats quiet_get_cm

lemma quiet_list: "state_io_rel quiet (handle_list H)"
  unfolding handle_list_def print_row_def clock_text_def by (intro console_rules)

lemma quiet_print_info: "state_io_rel quiet (print_info K H cid info)"
  unfolding print_info_def print_time_def by (intro console_rules)

lemma quiet_handle_info: "state_io_rel quiet (handle_info K H argv)"
  unfolding handle_info_def by (intro console_rules quiet_print_info)

lemma quiet_cpu_percent: "state_io_rel quiet (calculate_cpu_percent K H u t)"
  unfolding calculate_cpu_percent_def Let_def by (intro console_rules)

lemma quiet_totals: "state_io_rel quiet (monitor_totals K H m infos acc)"
  by (induction infos arbitrary: acc) (auto intro!: console_rules quiet_cpu_percent)

lemma quiet_compact_monitor: "state_io_rel quiet (display_compact_monitor K H)"
  unfolding display_compact_monitor_def print_compact_row_def print_clock_def Let_def
  by (intro console_rules quiet_cpu_percent quiet_totals)

lemma quiet_draw_monitor: "state_io_rel quiet (draw_monitor K H)"
  unfolding draw_monitor_def print_full_row_def print_clock_def clock_text_def Let_def
  by (intro console_rules quiet_cpu_percent)

text \<open>Events once printed stay in the trace.\<close>

abbreviation any_event :: "event \<Rightarrow> bool" where "any_event \<equiv> \<lambda>_. True"

lemma only_any_trace: "only any_event s t \<Longrightarrow> set (trace s) \<subseteq> set (trace t)"
  by (auto simp: only_def)

lemma any_print: "state_io_rel (only any_event) (c_print txt)"
  unfolding c_print_def by (rule only_sys) simp

lemma any_quiet: "state_io_rel quiet m \<Longrightarrow> state_io_rel (only any_event) m"
  by (auto simp: state_io_rel_def quiet_def intro: only_mono)

lemma for_each_events:
  assumes "\<And>x s. e x \<in> set (new_events s (snd (run_state (f x) s)))"
    and "\<And>x. state_io_rel (only any_event) (f x)"
  shows "x \<in> set xs \<Longrightarrow> e x \<in> set (new_events s (snd (run_state (for_each f xs) s)))"
proof (induction xs arbitrary: s)
  case Nil
  then show ?case by simp
next
  case (Cons y ys)
  obtain a u where u: "run_state (f y) s = (a, u)" by (metis surj_pair)
  obtain b t where t: "run_state (for_each f ys) u = (b, t)" by (metis surj_pair)
  have "only any_event s u" "only any_event u t"
    using only_run [OF assms(2) u] only_run [OF only_frame.frame_for_each [OF assms(2)] t] by simp_all
  then have "new_events s t = new_events s u @ new_events u t" by (rule new_events_trans)
  then show ?case using Cons assms(1) [of y s] u t Cons.IH [of u] by auto
qed

lemma event_skip:
  "(\<And>x u. e \<in> set (trace (snd (run_state (f x) u)))) \<Longrightarrow> e \<in> set (trace (snd (run_state (State_Monad.bind m f) s)))"
  by (simp split: prod.split)

lemma event_prod:
  "(\<And>a b. e \<in> set (trace (snd (run_state (g a b) u)))) \<Longrightarrow>
     e \<in> set (trace (snd (run_state (case x of (a, b) \<Rightarrow> g a b) u)))"
  by (cases x) simp

lemma event_keep:
  assumes "e \<in> set (trace (snd (run_state m s)))" and "\<And>x. state_io_rel (only any_event) (f x)"
  shows "e \<in> set (trace (snd (run_state (State_Monad.bind m f) s)))"
proof -
  obtain x u where u: "run_state m s = (x, u)" by (metis surj_pair)
  have "only any_event u (snd (run_state (f x) u))" using assms(2) by (rule state_io_rel_run)
  then show ?thesis using only_any_trace assms(1) u by auto
qed

lemma sorted_prefix:
  assumes "sorted_wrt (\<lambda>a b. \<not> monitor_before b a) xs" and "v \<in> set (drop k xs)" and "w \<in> set (take k xs)"
  shows "\<not> monitor_before v w"
proof -
  have "sorted_wrt (\<lambda>a b. \<not> monitor_before b a) (take k xs @ drop k xs)" using assms(1) by simp
  then show ?thesis using assms(2,3) by (auto simp only: sorted_wrt_append)
qed

lemma compact_row_event:
  "EPrint (pad 20 (info_id v) @ '' '' @ pad 8 (show_int (pid v)) @ '' '')
     \<in> set (new_events s (snd (run_state (print_compact_row K H m now v) s)))"
proof -
  define rest where "rest = (do {
     _ \<leftarrow> c_print (pad 10 (safe_state_name (cstate v)));
     _ \<leftarrow> (if cstate v = CONTAINER_RUNNING then do {
             (cpu_usage, memory_usage) \<leftarrow> stats K m (info_id v);
             p \<leftarrow> calculate_cpu_percent K H cpu_usage (started_at v);
             c_print ('' '' @ pad 13 (snprintf 16 (show_fixed 1 p @ ''%'')) @ '' '' @ pad 12 (format_bytes memory_usage))
           }
           else c_print ('' '' @ pad 13 ''--'' @ '' '' @ pad 12 ''--''));
     c_print ('' '' @ pad 10 (format_duration (started_at v) now) @ [NL])
   } :: ('a, 'b, unit) io)"
  define u where "u = s\<lparr>trace := trace s @ [EPrint (pad 20 (info_id v) @ '' '' @ pad 8 (show_int (pid v)) @ '' '')]\<rparr>"
  have run: "run_state (print_compact_row K H m now v) s = run_state rest u"
    by (simp add: print_compact_row_def rest_def u_def)
  have "state_io_rel quiet rest"
    unfolding rest_def by (intro console_rules quiet_cpu_percent)
  then have "quiet u (snd (run_state rest u))" by (rule state_io_rel_run)
  then have "only any_event u (snd (run_state rest u))" by (auto simp: quiet_def intro: only_mono)
  then show ?thesis unfolding run by (auto simp: only_def u_def new_events_def)
qed

lemma compact_rows_events:
  assumes "v \<in> set infos"
  shows "EPrint (pad 20 (info_id v) @ '' '' @ pad 8 (show_int (pid v)) @ '' '')
     \<in> set (trace (snd (run_state (for_each (print_compact_row K H m now) infos) s)))"
proof -
  have "state_io_rel quiet (print_compact_row K H m now v)" for v
    unfolding print_compact_row_def by (intro console_rules quiet_cpu_percent)
  then have "state_io_rel (only any_event) (print_compact_row K H m now v)" for v
    by (rule any_quiet)
  from for_each_events [where f = "print_compact_row K H m now" and
      e = "\<lambda>v. EPrint (pad 20 (info_id v) @ '' '' @ pad 8 (show_int (pid v)) @ '' '')",
      OF compact_row_event this assms]
  show ?thesis unfolding new_events_def by (rule in_set_dropD)
qed

section \<open>Properties\<close>


lemma mset_insert_by: "mset (insert_by lt x ys) = add_mset x (mset ys)"
  by (induction ys) auto

lemma sorted_insert_by:
  assumes "sorted_wrt (\<lambda>a b. \<not> monitor_before b a) ys"
  shows "sorted_wrt (\<lambda>a b. \<not> monitor_before b a) (insert_by monitor_before x ys)"
  using assms
proof (induction ys)
  case Nil
  then show ?case by simp
next
  case (Cons y ys)
  have set: "set (insert_by monitor_before x ys) = insert x (set ys)"
    by (metis mset_insert_by set_mset_add_mset_insert set_mset_mset)
  show ?case
  proof (cases "monitor_before y x")
    case True
    then have "\<not> monitor_before x y" using monitor_before_irrefl monitor_before_trans by blast
    then show ?thesis using True Cons set by auto
  next
    case False
    then show ?thesis using Cons.prems monitor_before_incomparable_trans by auto
  qed
qed

lemma calm_sorts: "sorts calm_host"
proof -
  have "mset (foldr (insert_by monitor_before) xs []) = mset xs \<and>
      sorted_wrt (\<lambda>a b. \<not> monitor_before b a) (foldr (insert_by monitor_before) xs [])" for xs
    by (induction xs) (simp_all add: mset_insert_by sorted_insert_by)
  then show ?thesis by (simp add: sorts_def calm_host_def)
qed


end
