(* ===== verification/Scenarios.thy ===== *)
theory Scenarios
  imports Monitor
begin

text \<open>
  The ready-made workloads of \<open>src/src/main.cpp\<close>: \<open>run_tests\<close>, \<open>run_memory_cpu_test\<close> (menu entry 9) and
  \<open>init_containers\<close>. Each builds configurations and hands them to the container manager. A configuration
  is built in memory that is not cleared: \<open>junk\<close> is what it held before.
\<close>

section \<open>Model\<close>

definition strdup :: "'w kernel \<Rightarrow> string \<Rightarrow> ('w, 'z, string option) io" where
  "strdup K s = do { got \<leftarrow> c_alloc K; State_Monad.return (if got then Some s else None) }"


definition scenario_config ::
  "container_config \<Rightarrow> string option \<Rightarrow> string option \<Rightarrow> command \<Rightarrow> container_config" where
  \<comment> \<open>initialised, with an id, a root path and a command of three words\<close>
  "scenario_config junk cid rp args =
     set_root rp ((init_config junk)\<lparr>config_id := cid, cmd := Some args, command_argc := 3\<rparr>)"

subsection \<open>System tests\<close>

definition run_test ::
  "'w kernel \<Rightarrow> nat \<Rightarrow> container_config \<Rightarrow> string \<Rightarrow> ulong \<Rightarrow> int \<Rightarrow> string \<Rightarrow> string \<Rightarrow> nat \<Rightarrow>
     (container_info \<Rightarrow> bool) \<Rightarrow> (ulong \<Rightarrow> ulong \<Rightarrow> string list) \<Rightarrow> ('w, 'z, unit option) pio" where
  \<comment> \<open>run, wait, report on the container if it is \<open>fit\<close>, stop\<close>
  "run_test K n junk cid mem sh script waiting seconds fit report = do {
     rp \<leftarrow> strdup K ''/'';
     a \<leftarrow> strdup K ''/bin/sh'';
     b \<leftarrow> strdup K ''-c'';
     d \<leftarrow> strdup K script;
     let config = set_memory mem (set_shares sh (scenario_config junk (Some cid) rp [a, b, d, None]));
     obind (container_manager_run K n (Some config)) (\<lambda>(r, _).
       if r = 0 then do {
         _ \<leftarrow> c_print (waiting @ [NL]);
         _ \<leftarrow> c_sleep K seconds;
         c \<leftarrow> get_cm;
         _ \<leftarrow> (case container_manager_get_info c cid of
                None \<Rightarrow> State_Monad.return ()
              | Some i \<Rightarrow>
                  if fit (containers c ! i) then do {
                    (cpu_usage, memory_usage) \<leftarrow> stats K (rm c) cid;
                    for_each c_print (report cpu_usage memory_usage)
                  }
                  else State_Monad.return ());
         obind (container_manager_stop K n cid) (\<lambda>_. oret ())
       }
       else oret ())
   }"

definition CHECK_MARK :: string where "CHECK_MARK = [CHR 0xE2, CHR 0x9C, CHR 0x93]"
definition CROSS_MARK :: string where "CROSS_MARK = [CHR 0xE2, CHR 0x9C, CHR 0x97]"

definition passed :: string where "passed = ''  '' @ CHECK_MARK @ '' Test passed'' @ [NL]"

definition cpu_line :: "ulong \<Rightarrow> string" where
  "cpu_line u = ''  CPU Usage: '' @ show_ulong u @ '' ns'' @ [NL]"

definition memory_line :: "ulong \<Rightarrow> string \<Rightarrow> string" where
  "memory_line u limit = ''  Memory Usage: '' @ format_bytes u @ limit @ [NL]"

definition is_running :: "container_info \<Rightarrow> bool" where
  "is_running info \<longleftrightarrow> cstate info = CONTAINER_RUNNING"

definition run_tests ::
  "'w kernel \<Rightarrow> 'w host \<Rightarrow> nat \<Rightarrow> container_config \<Rightarrow> string \<Rightarrow> ('w, 'z, unit option) pio" where
  \<comment> \<open>\<open>choice0\<close> is what the buffer for the choice holds before it is read\<close>
  "run_tests K H n junk choice0 = do {
     _ \<leftarrow> say [''System Tests'' @ [NL], [NL], ''1. CPU Usage Test'' @ [NL], ''2. Memory Limit Test'' @ [NL],
            ''3. CPU Limit Test'' @ [NL], ''4. Combined Test (CPU + Memory)'' @ [NL], ''5. Run All Tests'' @ [NL],
            ''0. Back to Menu'' @ [NL], [NL] @ ''Select test: ''];
     line \<leftarrow> ask (h_fgets H 10);
     let test_num = atoi (as_cstring (case line of Some l \<Rightarrow> l | None \<Rightarrow> choice0));
     if test_num = 0 then oret ()
     else do {
       now \<leftarrow> c_time K;
       obind (if test_num = 1 \<or> test_num = 5
              then do {
                _ \<leftarrow> c_print ([NL] @ ''[Test 1] CPU Usage Test...'' @ [NL]);
                run_test K n junk (snprintf 256 (''test_'' @ show_int now)) (128 * 1024 * 1024) 1024
                  ''while true; do :; done'' ''  Container created, waiting 3 seconds...'' 3 is_running
                  (\<lambda>u m. [cpu_line u, memory_line m [], passed])
              }
              else oret ()) (\<lambda>_.
       obind (if test_num = 2 \<or> test_num = 5
              then do {
                _ \<leftarrow> c_print ([NL] @ ''[Test 2] Memory Limit Test...'' @ [NL]);
                now \<leftarrow> c_time K;
                run_test K n junk (snprintf 256 (''test_mem_'' @ show_int now)) (64 * 1024 * 1024) 1024
                  ''dd if=/dev/zero of=/tmp/mem bs=1M count=80 status=none 2>&1; echo Exit code: $?''
                  ''  Container created, waiting 2 seconds...'' 2 (\<lambda>_. True)
                  (\<lambda>u m. [memory_line m '' (Limit: 64 MB)'', passed])
              }
              else oret ()) (\<lambda>_.
       obind (if test_num = 3 \<or> test_num = 5
              then do {
                _ \<leftarrow> c_print ([NL] @ ''[Test 3] CPU Limit Test...'' @ [NL]);
                now \<leftarrow> c_time K;
                run_test K n junk (snprintf 256 (''test_cpu_limit_'' @ show_int now)) (128 * 1024 * 1024) 512
                  ''while true; do :; done'' ''  Container created with CPU limit 512, waiting 3 seconds...'' 3
                  is_running (\<lambda>u m. [cpu_line u, passed])
              }
              else oret ()) (\<lambda>_.
       obind (if test_num = 4 \<or> test_num = 5
              then do {
                _ \<leftarrow> c_print ([NL] @ ''[Test 4] Combined Test (CPU + Memory)...'' @ [NL]);
                now \<leftarrow> c_time K;
                run_test K n junk (snprintf 256 (''test_combined_'' @ show_int now)) (128 * 1024 * 1024) 1024
                  (''dd if=/dev/zero of=/tmp/stress bs=1M count=16 status=none; i=0; while [ $i -lt 10000000 ]; '' @
                   ''do i=$((i+1)); done; rm -f /tmp/stress; echo Done'')
                  ''  Container created, waiting 3 seconds...'' 3 is_running
                  (\<lambda>u m. [cpu_line u, memory_line m [], passed])
              }
              else oret ()) (\<lambda>_. do {
       _ \<leftarrow> c_print ([NL] @ ''Press Enter to continue...'');
       _ \<leftarrow> ask (h_getchar H);
       oret () }))))
     }
   }"

subsection \<open>Memory and CPU test\<close>

definition get_total_system_memory :: "'w kernel \<Rightarrow> 'w host \<Rightarrow> ('w, 'z, ulong) io" where
  "get_total_system_memory K H = do {
     info \<leftarrow> ask (h_sysinfo H);
     (case info of
        Some (totalram, mem_unit) \<Rightarrow> State_Monad.return (totalram * mem_unit)
      | None \<Rightarrow> do {
          fp \<leftarrow> c_fopen_r K ''/proc/meminfo'';
          State_Monad.return (case fp of
             None \<Rightarrow> 4 * 1024 * 1024 * 1024
           | Some content \<Rightarrow>
               (case List.find (\<lambda>l. prefix ''MemTotal:'' l \<and> scan_integer (drop 9 l) \<noteq> None)
                       (map as_cstring (fgets_lines 256 content)) of
                  Some l \<Rightarrow> fst (strtoul (drop 9 l)) * 1024
                | None \<Rightarrow> 4 * 1024 * 1024 * 1024))
        })
   }"

primrec alloc_all :: "'w kernel \<Rightarrow> nat \<Rightarrow> ('w, 'z, bool) io" where
  \<comment> \<open>that many allocations, given up at the first that fails\<close>
  "alloc_all K 0 = State_Monad.return True"
| "alloc_all K (Suc k) = do { got \<leftarrow> c_alloc K; if got then alloc_all K k else State_Monad.return False }"

definition run_scenario ::
  "'w kernel \<Rightarrow> nat \<Rightarrow> string \<Rightarrow> string \<Rightarrow> container_config \<Rightarrow> ('w, 'z, unit option) pio" where
  \<comment> \<open>one round of the loops of \<open>run_memory_cpu_test\<close>: the id, the root path, the command array and its three
      words must be allocated; \<open>limits\<close> describes the limit\<close>
  "run_scenario K n cid limits config = do {
     got \<leftarrow> alloc_all K 6;
     if \<not> got then oret ()
     else obind (container_manager_run K n (Some config)) (\<lambda>(r, _).
       if r = 0 then do {
         _ \<leftarrow> c_print (''  '' @ CHECK_MARK @ '' Created '' @ cid @ '' with '' @ limits @ [NL]);
         _ \<leftarrow> c_usleep K 100000;
         oret ()
       }
       else olift (c_print (''  '' @ CROSS_MARK @ '' Failed to create '' @ cid @ [NL])))
   }"

definition test_config :: "container_config \<Rightarrow> string \<Rightarrow> string \<Rightarrow> container_config" where
  "test_config junk cid script =
     (let config = set_shares 1024 (scenario_config junk (Some cid)
            (Some (snprintf 256 (''/tmp/mini_container_test_'' @ cid))) [Some ''/bin/sh'', Some ''-c'', Some script, None])
      in config\<lparr>fs_conf := (fs_conf config)\<lparr>create_minimal_fs := 1\<rparr>\<rparr>)"

definition memory_test :: "'w kernel \<Rightarrow> nat \<Rightarrow> container_config \<Rightarrow> nat \<times> ulong \<Rightarrow> ('w, 'z, unit option) pio" where
  "memory_test K n junk x = (case x of (i, mem) \<Rightarrow>
     (let cid = snprintf 64 (''C'' @ show_nat (i + 1) @ ''MEM'');
          script = snprintf 512 (''python3 -c '' @ APOS @ ''import time; data = [bytearray('' @ show_ulong (mem div 2) @
            '') for _ in range(1)]; time.sleep(3600)'' @ APOS)
      in run_scenario K n cid (''memory limit: '' @ format_bytes mem) (set_memory mem (test_config junk cid script))))"

definition set_quota :: "int \<Rightarrow> int \<Rightarrow> container_config \<Rightarrow> container_config" where
  "set_quota q p config = config\<lparr>res_limits := (res_limits config)
     \<lparr>cpu := (cpu (res_limits config))\<lparr>quota_us := q, period_us := p\<rparr>\<rparr>\<rparr>"

definition cpu_test :: "'w kernel \<Rightarrow> nat \<Rightarrow> container_config \<Rightarrow> nat \<times> int \<Rightarrow> ('w, 'z, unit option) pio" where
  "cpu_test K n junk x = (case x of (i, quota) \<Rightarrow>
     (let cid = snprintf 64 (''C'' @ show_nat (i + 1) @ ''CPU'');
          percent = fl (fl (of_int quota * 100) / 100000)
      in run_scenario K n cid
           (''CPU limit: '' @ show_fixed 2 percent @ ''% (quota: '' @ show_int quota @ '', period: 100000)'')
           (set_quota quota 100000 (set_memory (128 * 1024 * 1024) (test_config junk cid ''while true; do :; done'')))))"

definition run_memory_cpu_test ::
  "'w kernel \<Rightarrow> 'w host \<Rightarrow> nat \<Rightarrow> container_config \<Rightarrow> ('w, 'z, unit option) pio" where
  "run_memory_cpu_test K H n junk = do {
     _ \<leftarrow> c_print (''Memory and CPU Test'' @ [NL]);
     total_memory \<leftarrow> get_total_system_memory K H;
     cpu_count \<leftarrow> ask (h_nproc H);
     _ \<leftarrow> say [[NL] @ ''System Information:'' @ [NL], ''  Total Memory: '' @ format_bytes total_memory @ [NL],
            ''  CPU Cores: '' @ show_int (to_int32 cpu_count) @ [NL], [NL] @ ''Creating test containers...'' @ [NL]];
     obind (ofor_each (memory_test K n junk) [(0, total_memory div 16), (1, total_memory div 8), (2, total_memory div 4)])
       (\<lambda>_. obind (ofor_each (cpu_test K n junk) [(0, 6250), (1, 12500), (2, 25000)]) (\<lambda>_. do {
         _ \<leftarrow> say [[NL], ''Test containers created successfully!'' @ [NL], ''Press Enter to continue...''];
         _ \<leftarrow> ask (h_getchar H);
         oret ()
       }))
   }"

subsection \<open>Initial containers\<close>

definition py :: "string \<Rightarrow> string" where
  "py code = ''python3 -c '' @ APOS @ code @ APOS"

definition init_specs :: "(string \<times> string) list" where
  \<comment> \<open>the ten blocks: the prefix of the id and the script, for 600 seconds\<close>
  "init_specs = [
     (''cpu_intensive_'', ''for i in 1 2 3 4; do yes > /dev/null & done; sleep 600''),
     (''ram_intensive_'', py ''a = [bytearray(50*1024*1024) for _ in range(3)]; import time; time.sleep(600)''),
     (''cpu_ram_heavy_'', ''yes > /dev/null & '' @
        py ''a = bytearray(120*1024*1024); import time; [i*i for i in range(10000000)]; time.sleep(600)''),
     (''cpu_calc_'', py ''import time; start=time.time(); [sum(range(i)) for i in range(50000)]; time.sleep(600)''),
     (''mem_stress_'', py ''import time; data = [bytearray(30*1024*1024) for _ in range(5)]; time.sleep(600)''),
     (''mixed_workload_'', ''yes > /dev/null & dd if=/dev/zero of=/tmp/test bs=1M count=50 status=none & sleep 600''),
     (''high_cpu_'', ''for i in 1 2 3; do yes > /dev/null & done; sleep 600''),
     (''high_mem_'', py ''a = [bytearray(40*1024*1024) for _ in range(5)]; import time; time.sleep(600)''),
     (''balanced_'', ''yes > /dev/null & '' @ py ''a = bytearray(100*1024*1024); import time; time.sleep(600)''),
     (''max_stress_'', ''for i in 1 2 3 4 5; do yes > /dev/null & done; '' @
        py ''a = [bytearray(35*1024*1024) for _ in range(5)]; import time; [i**2 for i in range(2000000)]; time.sleep(600)'')]"

definition init_id :: "int \<Rightarrow> nat \<Rightarrow> string \<Rightarrow> string" where
  "init_id base counter name = snprintf 64 (name @ show_int base @ ''_'' @ show_nat counter)"

definition init_container ::
  "'w kernel \<Rightarrow> nat \<Rightarrow> container_config \<Rightarrow> int \<Rightarrow> nat \<times> string \<times> string \<Rightarrow> ('w, 'z, unit option) pio" where
  \<comment> \<open>one block; the copies are not checked\<close>
  "init_container K n junk base x = (case x of (counter, name, script) \<Rightarrow> do {
     cid \<leftarrow> strdup K (init_id base counter name);
     rp \<leftarrow> strdup K ''/'';
     a \<leftarrow> strdup K ''/bin/sh'';
     b \<leftarrow> strdup K ''-c'';
     d \<leftarrow> strdup K (snprintf 512 script);
     let config = set_quota 5000 100000 (set_memory (128 * 1024 * 1024) (set_shares 512
       (scenario_config junk cid rp [a, b, d, None])));
     obind (container_manager_run K n (Some config)) (\<lambda>_. oret ())
   })"

definition init_containers :: "'w kernel \<Rightarrow> nat \<Rightarrow> container_config \<Rightarrow> ('w, 'z, unit option) pio" where
  "init_containers K n junk = do {
     base_time \<leftarrow> c_time K;
     ofor_each (init_container K n junk base_time) (zip [0..<10] init_specs)
   }"

end
