(* ===== verification/Interactive.thy ===== *)
theory Interactive
  imports Scenarios
begin

text \<open>
  The interactive menu of \<open>src/src/main.cpp\<close>: reading a line, splitting a command into arguments, the dialogue
  that creates a container, the entries of the menu and its loop. Line editing and the modes of the
  terminal are not modelled; what it prints is. The loops of the menu carry fuel; they go on until the user or a signal ends
  them.
\<close>

section \<open>Model\<close>

subsection \<open>Input\<close>

definition strip_newline :: "string \<Rightarrow> string" where
  "strip_newline s = (if s \<noteq> [] \<and> last s = NL then butlast s else s)"

definition read_line :: "'w host \<Rightarrow> nat \<Rightarrow> ('w, 'z, string option) io" where
  \<comment> \<open>\<open>fgets\<close> into a buffer of that size, without the line feed\<close>
  "read_line H size0 = do {
     line \<leftarrow> ask (h_fgets H size0);
     State_Monad.return (map_option (\<lambda>l. strip_newline (as_cstring l)) line)
   }"

definition trim :: "string \<Rightarrow> string" where
  "trim s = rev (dropWhile is_blank (rev (dropWhile is_blank s)))"

primrec skip_line :: "'w host \<Rightarrow> nat \<Rightarrow> ('w, 'z, unit option) io" where
  \<comment> \<open>\<open>while ((c = getchar()) != '\n' && c != EOF);\<close>\<close>
  "skip_line H 0 = State_Monad.return None"
| "skip_line H (Suc n) = do {
     c \<leftarrow> ask (h_getchar H);
     if c = Some NL \<or> c = None then oret () else skip_line H n
   }"

definition press_enter :: "'w host \<Rightarrow> ('w, 'z, unit option) io" where
  "press_enter H = do {
     _ \<leftarrow> c_print ([NL] @ ''Press Enter to continue...'');
     _ \<leftarrow> ask (h_getchar H);
     oret ()
   }"

definition press_enter_line :: "'w host \<Rightarrow> nat \<Rightarrow> ('w, 'z, unit option) io" where
  "press_enter_line H n = do {
     _ \<leftarrow> c_print ([NL] @ ''Press Enter to continue...'');
     skip_line H n
   }"

subsection \<open>Splitting a command\<close>

definition is_quote :: "char \<Rightarrow> bool" where
  "is_quote c \<longleftrightarrow> c = CHR 0x22 \<or> c = CHR 0x27"

fun split_args :: "char \<Rightarrow> char option \<Rightarrow> string \<Rightarrow> string \<Rightarrow> string list" where
  \<comment> \<open>previous character (NUL at the start), open quote, argument so far, rest of the command\<close>
  "split_args prev q current [] = (if current \<noteq> [] then [current] else [])"
| "split_args prev q current (c # cs) =
     (if is_quote c \<and> prev \<noteq> CHR 0x5C then
        (case q of
           None \<Rightarrow> split_args c (Some c) current cs
         | Some d \<Rightarrow> if c = d then split_args c None current cs else split_args c q (current @ [c]) cs)
      else if c = CHR '' '' \<and> q = None then
        (if current \<noteq> [] then current # split_args c None [] cs else split_args c None [] cs)
      else split_args c q (current @ [c]) cs)"

definition split_command :: "string \<Rightarrow> string list" where
  "split_command command = split_args (CHR 0x00) None [] command"

subsection \<open>Creating a container\<close>

definition positive_or :: "int \<Rightarrow> string option \<Rightarrow> int" where
  \<comment> \<open>the number on the line if it is positive, else the default\<close>
  "positive_or x line = (case line of None \<Rightarrow> x | Some l \<Rightarrow> if atoi l > 0 then atoi l else x)"

definition create_with ::
  "'w kernel \<Rightarrow> 'w host \<Rightarrow> nat \<Rightarrow> container_config \<Rightarrow> ('w, 'z, unit option) pio" where
  \<comment> \<open>the end of the dialogue, with a complete configuration\<close>
  "create_with K H n config = do {
     _ \<leftarrow> say [[NL], ''Creating container...'' @ [NL]];
     obind (container_manager_run K n (Some config)) (\<lambda>(r, config'). do {
       _ \<leftarrow> (if r \<noteq> 0 then c_print (''Failed to create container'' @ [NL])
             else do {
               c \<leftarrow> get_cm;
               (case container_manager_get_info c
                       (case config_id (the config') of Some i \<Rightarrow> i | None \<Rightarrow> ''unknown'') of
                  None \<Rightarrow> State_Monad.return ()
                | Some i \<Rightarrow> c_print (''Container '' @ info_id (containers c ! i) @ '' started with PID '' @
                    show_int (pid (containers c ! i)) @ [NL]))
             });
       press_enter H
     })
   }"

definition dialogue_config ::
  "container_config \<Rightarrow> string \<Rightarrow> int \<Rightarrow> int \<Rightarrow> string \<Rightarrow> string list \<Rightarrow> container_config" where
  "dialogue_config junk name mem sh rp args =
     set_root (Some rp) (set_shares sh (set_memory (megabytes mem)
       ((init_config junk)\<lparr>config_id := (if name \<noteq> [] then Some name else None),
          cmd := Some (map Some args @ [None]), command_argc := int (length args)\<rparr>)))"

definition suggestions :: "string list" where
  \<comment> \<open>the commands the dialogue suggests, one print call each\<close>
  \<open>suggestions = [
     [NL] @ ''Suggested Commands for Testing'' @ [NL],
     [NL] @ ''* CPU Stress Test:'' @ [NL],
     ''  Basic CPU stress (uses full CPU capacity):'' @ [NL],
     ''  sh -c 'while true; do :; done'' @ APOS @ [NL],
     ''  Advanced CPU stress test:'' @ [NL],
     ''  sh -c 'while true; do echo $((12345*67890)) > /dev/null; done'' @ APOS @ [NL],
     [NL] @ ''* Memory Limit Test:'' @ [NL],
     ''  Simple memory test:'' @ [NL],
     ''  sh -c 'dd if=/dev/zero of=/tmp/mem bs=1M count=80'' @ APOS @ [NL],
     ''  Allocate 256 MB of memory gradually:'' @ [NL],
     ''  sh -c 'x=""; for i in $(seq 1 256); do x="$x$(head -c 1M /dev/zero)"; sleep 0.12; done; sleep infinity'' @ APOS @ [NL],
     ''  Memory stress test (allocate 2GB, will be limited by memory limit):'' @ [NL],
     ''  sh -c 'x=""; for i in $(seq 1 2048); do x="$x$(head -c 1M /dev/zero)"; sleep 0.0147; done; sleep infinity'' @ APOS @ [NL],
     [NL] @ ''* Combined CPU and RAM Stress Test:'' @ [NL],
     ''  sh -c 'a=""; while true; do a="$a$(printf %0100000d 0)"; done'' @ APOS @ [NL],
     [NL]]\<close>

definition interactive_create_container ::
  "'w kernel \<Rightarrow> 'w host \<Rightarrow> nat \<Rightarrow> container_config \<Rightarrow> ('w, 'z, unit option) pio" where
  "interactive_create_container K H n junk = do {
     _ \<leftarrow> say [''Create New Container'' @ [NL], [NL], ''Container name (optional, press Enter for auto-generated): ''];
     name \<leftarrow> read_line H 256;
     _ \<leftarrow> say (suggestions @ [[NL] @ ''Command to run: '']);
     command0 \<leftarrow> read_line H 1024;
     (case command0 of
        None \<Rightarrow> olift (c_print (''Error reading command'' @ [NL]))
      | Some command \<Rightarrow> do {
          _ \<leftarrow> c_print ''Memory limit (MB, default 128): '';
          mem_str \<leftarrow> ask (h_fgets H 64);
          _ \<leftarrow> c_print ''CPU shares (default 1024): '';
          cpu_str \<leftarrow> ask (h_fgets H 64);
          _ \<leftarrow> c_print ''Root path (default / - uses real root for demo): '';
          root_input \<leftarrow> read_line H 512;
          let mem = positive_or 128 (map_option as_cstring mem_str);
          let sh = positive_or 1024 (map_option as_cstring cpu_str);
          let rp = (case root_input of Some p \<Rightarrow> if p \<noteq> [] then take 511 p else ''/'' | None \<Rightarrow> ''/'');
          let args = split_command command;
          let cname = (case name of Some x \<Rightarrow> x | None \<Rightarrow> []);
          got \<leftarrow> alloc_all K (length args + (if cname \<noteq> [] then 1 else 0) + 1);
          if \<not> got then oret () else create_with K H n (dialogue_config junk cname mem sh rp args)
        })
   }"

subsection \<open>The menu\<close>

definition with_id ::
  "'w host \<Rightarrow> (string \<Rightarrow> ('w, 'z, unit option) pio) \<Rightarrow> ('w, 'z, unit option) pio \<Rightarrow> ('w, 'z, unit option) pio" where
  \<comment> \<open>ask for an id, act on it unless it is empty, wait for the user\<close>
  "with_id H act wait_user = do {
     _ \<leftarrow> c_print ''Container ID: '';
     line \<leftarrow> read_line H 256;
     (case line of
        None \<Rightarrow> oret ()
      | Some l \<Rightarrow>
          obind (if trim l \<noteq> [] then act (trim l)
                 else olift (c_print (''Error: Container ID cannot be empty'' @ [NL])))
            (\<lambda>_. wait_user))
   }"

definition with_info ::
  "'w host \<Rightarrow> string \<Rightarrow> string \<Rightarrow> (nat \<Rightarrow> ('w, 'z, unit option) pio) \<Rightarrow> ('w, 'z, unit option) pio" where
  \<comment> \<open>act on a container that exists, else list the containers\<close>
  "with_info H err cid act = do {
     c \<leftarrow> get_cm;
     (case container_manager_get_info c cid of
        Some i \<Rightarrow> act i
      | None \<Rightarrow> do {
          _ \<leftarrow> say [err @ cid @ '' not found'' @ [NL], [NL] @ ''Available containers:'' @ [NL]];
          _ \<leftarrow> handle_list H;
          oret ()
        })
   }"

definition menu_stop :: "'w kernel \<Rightarrow> 'w host \<Rightarrow> nat \<Rightarrow> ('w, 'z, unit option) pio" where
  "menu_stop K H n =
     with_id H (\<lambda>cid. obind (handle_stop K n [''stop'', cid]) (\<lambda>_. oret ())) (press_enter H)"

definition menu_destroy :: "'w kernel \<Rightarrow> 'w host \<Rightarrow> nat \<Rightarrow> ('w, 'z, unit option) pio" where
  "menu_destroy K H n =
     with_id H (\<lambda>cid. with_info H ''Error: Container '' cid
       (\<lambda>_. obind (handle_destroy K n [''destroy'', cid]) (\<lambda>_. oret ()))) (press_enter_line H n)"

definition menu_info :: "'w kernel \<Rightarrow> 'w host \<Rightarrow> ('w, 'z, unit option) pio" where
  "menu_info K H = do {
     _ \<leftarrow> c_print ''Container ID: '';
     line \<leftarrow> read_line H 256;
     (case line of
        None \<Rightarrow> oret ()
      | Some cid \<Rightarrow> do { _ \<leftarrow> handle_info K H [''info'', cid]; press_enter H })
   }"

definition menu_edit :: "'w kernel \<Rightarrow> 'w host \<Rightarrow> nat \<Rightarrow> ('w, 'z, unit option) pio" where
  "menu_edit K H n =
     with_id H (\<lambda>cid. with_info H ''Container '' cid (\<lambda>i. do {
       c \<leftarrow> get_cm;
       _ \<leftarrow> say [''Edit Container: '' @ cid @ [NL], [NL]];
       _ \<leftarrow> print_info K H cid (containers c ! i);
       _ \<leftarrow> say ([[NL], ''Options:'' @ [NL]] @
              (if cstate (containers c ! i) = CONTAINER_RUNNING then [''1. Stop Container'' @ [NL]]
               else if cstate (containers c ! i) = CONTAINER_STOPPED then [''1. Start Container'' @ [NL]] else []) @
              [''0. Back'' @ [NL], [NL] @ ''Select option: '']);
       option0 \<leftarrow> ask (h_fgets H 10);
       c \<leftarrow> get_cm;
       (case option0 of
          None \<Rightarrow> oret ()
        | Some opt \<Rightarrow>
            if atoi (as_cstring opt) = 1 then
              (if cstate (containers c ! i) = CONTAINER_RUNNING
               then obind (handle_stop K n [''stop'', cid]) (\<lambda>_. oret ())
               else if cstate (containers c ! i) = CONTAINER_STOPPED
               then do { _ \<leftarrow> handle_start K [''start'', cid]; oret () }
               else oret ())
            else oret ())
     })) (press_enter_line H n)"

definition menu_start :: "'w kernel \<Rightarrow> 'w host \<Rightarrow> nat \<Rightarrow> ('w, 'z, unit option) pio" where
  "menu_start K H n =
     with_id H (\<lambda>cid. with_info H ''Error: Container '' cid
       (\<lambda>_. do { _ \<leftarrow> handle_start K [''start'', cid]; oret () })) (press_enter_line H n)"

primrec stop_counting :: "'w kernel \<Rightarrow> nat \<Rightarrow> nat list \<Rightarrow> nat \<Rightarrow> ('w, 'z, nat option) pio" where
  \<comment> \<open>stop every running container and count those that were stopped\<close>
  "stop_counting K n [] k = oret k"
| "stop_counting K n (i # is) k = do {
     c \<leftarrow> get_cm;
     if cstate (containers c ! i) = CONTAINER_RUNNING
     then obind (container_manager_stop K n (info_id (containers c ! i)))
            (\<lambda>r. stop_counting K n is (if r = 0 then k + 1 else k))
     else stop_counting K n is k
   }"

definition menu_exit :: "'w kernel \<Rightarrow> 'w host \<Rightarrow> nat \<Rightarrow> ('w, 'z, unit option) aio" where
  "menu_exit K H n = do {
     c \<leftarrow> get_cm;
     obind (stop_counting K n [0..<length (containers c)] 0) (\<lambda>stopped_count. do {
       _ \<leftarrow> (if stopped_count > 0 then do {
               _ \<leftarrow> say [''Stopped '' @ show_nat stopped_count @ '' container(s) before exit'' @ [NL],
                      [NL] @ ''Press Enter to continue...''];
               _ \<leftarrow> ask (h_getchar H);
               State_Monad.return ()
             } else State_Monad.return ());
       olift (set_app (\<lambda>s. s\<lparr>running := False\<rparr>))
     })
   }"

definition menu_action ::
  "'w kernel \<Rightarrow> 'w host \<Rightarrow> nat \<Rightarrow> container_config \<Rightarrow> char \<Rightarrow> ('w, 'z, unit option) aio" where
  "menu_action K H n junk choice =
     (if choice = CHR ''1'' then interactive_create_container K H n junk
      else if choice = CHR ''2'' then do {
        _ \<leftarrow> set_app (\<lambda>s. s\<lparr>monitor_mode := True\<rparr>);
        obind (display_monitor K H n) (\<lambda>_. olift (set_app (\<lambda>s. s\<lparr>monitor_mode := False\<rparr>)))
      }
      else if choice = CHR ''3'' then do { _ \<leftarrow> handle_list H; press_enter H }
      else if choice = CHR ''4'' then menu_stop K H n
      else if choice = CHR ''5'' then menu_destroy K H n
      else if choice = CHR ''6'' then menu_info K H
      else if choice = CHR ''7'' then menu_edit K H n
      else if choice = CHR ''8'' then menu_start K H n
      else if choice = CHR ''9'' then run_memory_cpu_test K H n junk
      else if choice = CHR ''0'' then menu_exit K H n
      else oret ())"

definition menu_lines :: "string list" where
  "menu_lines = [
     ''Commands Menu'' @ [NL],
     ''1. Create Container         2. Full Monitor (htop)     3. List Containers'' @ [NL],
     ''4. Stop Container           5. Destroy Container        6. Container Info'' @ [NL],
     ''7. Edit Container           8. Start Container          9. Memory/CPU Test'' @ [NL],
     ''0. Exit'' @ [NL], [NL],
     ''Select option (auto-refresh every 5 seconds): '']"

primrec interactive_menu ::
  "'w kernel \<Rightarrow> 'w host \<Rightarrow> nat \<Rightarrow> container_config \<Rightarrow> nat \<Rightarrow> ('w, 'z, unit option) aio" where
  "interactive_menu K H n junk 0 = State_Monad.return None"
| "interactive_menu K H n junk (Suc rounds) = do {
     go \<leftarrow> get_app running;
     if \<not> go then oret ()
     else do {
       _ \<leftarrow> display_compact_monitor K H;
       _ \<leftarrow> say menu_lines;
       key \<leftarrow> ask (h_poll H 5);
       obind (case key of None \<Rightarrow> oret () | Some choice \<Rightarrow> menu_action K H n junk choice)
         (\<lambda>_. interactive_menu K H n junk rounds)
     }
   }"

section \<open>Lemmas: splitting\<close>

text \<open>
  A word as it can be typed: plain, or between quotes, where it may hold blanks and the other quote. A
  backslash at its end would hide the closing quote.
\<close>

definition typed :: "char option \<times> string \<Rightarrow> string" where
  "typed x = (case x of (None, w) \<Rightarrow> w | (Some q, w) \<Rightarrow> q # w @ [q])"

definition typable :: "char option \<times> string \<Rightarrow> bool" where
  "typable x \<longleftrightarrow> snd x \<noteq> [] \<and>
     (case fst x of
        None \<Rightarrow> (\<forall>c\<in>set (snd x). c \<noteq> CHR '' '' \<and> \<not> is_quote c)
      | Some q \<Rightarrow> is_quote q \<and> q \<notin> set (snd x) \<and> last (snd x) \<noteq> CHR 0x5C)"

fun spaced :: "string list \<Rightarrow> string" where
  "spaced [] = []"
| "spaced [w] = w"
| "spaced (w # ws) = w @ '' '' @ spaced ws"

lemma split_plain:
  assumes "\<forall>c\<in>set w. c \<noteq> CHR '' '' \<and> \<not> is_quote c" and "w \<noteq> []"
  shows "split_args prev None cur (w @ rest) = split_args (last w) None (cur @ w) rest"
  using assms
proof (induction w arbitrary: prev cur)
  case Nil
  then show ?case by simp
next
  case (Cons c w)
  then show ?case by (cases "w = []") auto
qed

lemma split_quoted:
  assumes "is_quote q" and "q \<notin> set w"
  shows "split_args prev (Some q) cur (w @ rest) =
    split_args (if w = [] then prev else last w) (Some q) (cur @ w) rest"
  using assms
proof (induction w arbitrary: prev cur)
  case Nil
  then show ?case by simp
next
  case (Cons c w)
  have step: "split_args prev (Some q) cur ((c # w) @ rest) = split_args c (Some q) (cur @ [c]) (w @ rest)"
    using Cons.prems(2) by auto
  have "split_args c (Some q) (cur @ [c]) (w @ rest) =
      split_args (if w = [] then c else last w) (Some q) ((cur @ [c]) @ w) rest"
    using Cons.prems by (intro Cons.IH) simp_all
  then show ?case unfolding step by (cases "w = []") simp_all
qed

lemma split_typed:
  assumes "typable x" and "prev \<noteq> CHR 0x5C"
  shows "\<exists>p. split_args prev None [] (typed x @ rest) = split_args p None (snd x) rest"
proof -
  obtain q w where x: "x = (q, w)" by fastforce
  show "\<exists>p. split_args prev None [] (typed x @ rest) = split_args p None (snd x) rest"
  proof (cases q)
    case None
    then show ?thesis using assms(1) split_plain [of w prev "[]" rest] by (auto simp: x typable_def typed_def)
  next
    case (Some d)
    then have d: "is_quote d" "d \<notin> set w" "w \<noteq> []" "last w \<noteq> CHR 0x5C" using assms(1) by (auto simp: x typable_def)
    have "split_args prev None [] (typed x @ rest) = split_args d (Some d) [] (w @ d # rest)"
      using d(1) assms(2) by (simp add: x Some typed_def)
    also have "\<dots> = split_args (last w) (Some d) w (d # rest)"
      using split_quoted [OF d(1,2), of d "[]" "d # rest"] d(3) by simp
    also have "\<dots> = split_args d None w rest" using d(1,4) by simp
    finally show ?thesis by (auto simp: x)
  qed
qed

lemma split_spaced:
  "list_all typable xs \<Longrightarrow> prev \<noteq> CHR 0x5C \<Longrightarrow> split_args prev None [] (spaced (map typed xs)) = map snd xs"
proof (induction xs arbitrary: prev)
  case Nil
  then show ?case by simp
next
  case (Cons x xs)
  have x: "snd x \<noteq> []" "typable x" using Cons.prems(1) by (simp_all add: typable_def)
  have sp: "\<not> is_quote (CHR '' '')" by (simp add: is_quote_def)
  show ?case
  proof (cases xs)
    case Nil
    then show ?thesis using split_typed [OF x(2) Cons.prems(2), of "[]"] x(1) by auto
  next
    case (Cons y ys)
    obtain p where "split_args prev None [] (typed x @ '' '' @ spaced (map typed xs)) =
        split_args p None (snd x) ('' '' @ spaced (map typed xs))"
      using split_typed [OF x(2) \<open>prev \<noteq> CHR 0x5C\<close>] by blast
    also have "\<dots> = snd x # split_args (CHR '' '') None [] (spaced (map typed xs))"
      using x(1) sp by simp
    also have "split_args (CHR '' '') None [] (spaced (map typed xs)) = map snd xs"
      using Cons.IH Cons.prems(1) by simp
    finally show ?thesis using Cons by simp
  qed
qed

section \<open>Lemmas: the menu refines the life cycle\<close>

lemma refines_app:
  fixes f :: "('w, 'z) app_scheme \<Rightarrow> ('w, 'z) app_scheme"
  assumes "\<And>s. cman (f s) = cman s" and "\<And>s. trace (f s) = trace s"
  shows "state_io_rel refines (set_app f)"
  using assms by (auto simp: state_io_rel_def only_def intro!: refines_same)

lemma quiet_read_line: "state_io_rel quiet (read_line H k)"
  unfolding read_line_def by (intro console_rules)

lemma quiet_skip_line: "state_io_rel quiet (skip_line H k)"
  by (induction k) (auto intro!: console_rules)

lemma quiet_press_enter_line: "state_io_rel quiet (press_enter_line H k)"
  unfolding press_enter_line_def by (intro console_rules quiet_skip_line)

lemma quiet_press_enter: "state_io_rel quiet (press_enter H)"
  unfolding press_enter_def by (intro console_rules)

lemma quiet_alloc_all: "state_io_rel quiet (alloc_all K k)"
  by (induction k) (auto intro!: console_rules)

lemma quiet_strdup: "state_io_rel quiet (strdup K x)"
  unfolding strdup_def by (intro console_rules)

text \<open>The rules for the returning operations, on top of the refinement of the manager's.\<close>

lemma state_ret_rel_cases:
  "(\<And>y. state_ret_rel R (a y)) \<Longrightarrow> state_ret_rel R b \<Longrightarrow> state_ret_rel R (case x of Some y \<Rightarrow> a y | None \<Rightarrow> b)"
  "(\<And>y z. state_ret_rel R (g y z)) \<Longrightarrow> state_ret_rel R (case p of (y, z) \<Rightarrow> g y z)"
  by (cases x; simp) (cases p; simp)

lemmas returning = refines_frame.ret_combinators refines_frame.frame_combinators state_ret_rel_if
  state_ret_rel_cases quiet_refines [OF quiet_print] quiet_refines [OF quiet_say] quiet_refines [OF quiet_ask]
  quiet_refines [OF quiet_get_cm] quiet_refines [OF quiet_list] quiet_refines [OF quiet_print_info]
  quiet_refines [OF quiet_handle_info] quiet_refines [OF quiet_read_line] quiet_refines [OF quiet_stats]
  quiet_refines [OF quiet_alloc_all] quiet_refines [OF quiet_strdup] stop_refines destroy_refines

lemma handlers_refine:
  assumes "clone_positive K"
  shows "state_io_rel refines (handle_start K argv)"
    and "state_ret_rel refines (handle_stop K n argv)"
    and "state_ret_rel refines (handle_destroy K n argv)"
  unfolding handle_start_def handle_stop_def handle_destroy_def
  by (intro returning state_io_rel_if start_refines [OF assms])+

lemma create_with_refines:
  assumes "clone_positive K"
  shows "state_ret_rel refines (create_with K H n config)"
  unfolding create_with_def
  by (intro returning run_refines [OF assms] state_io_rel_cases state_io_imp_ret [OF quiet_refines [OF quiet_press_enter]])

lemma scenario_refines:
  assumes "clone_positive K"
  shows "state_ret_rel refines (run_scenario K n cid limits config)"
  unfolding run_scenario_def by (intro returning run_refines [OF assms])

lemma memory_cpu_test_refines:
  assumes "clone_positive K"
  shows "state_ret_rel refines (run_memory_cpu_test K H n junk)"
proof -
  have mem: "state_io_rel quiet (get_total_system_memory K H)"
    unfolding get_total_system_memory_def by (intro console_rules)
  show ?thesis
    unfolding run_memory_cpu_test_def memory_test_def cpu_test_def Let_def
    by (intro returning scenario_refines [OF assms] quiet_refines [OF mem])
qed

lemma run_tests_refine:
  assumes "clone_positive K"
  shows "state_ret_rel refines (run_tests K H n junk choice0)"
proof -
  have "state_ret_rel refines (run_test K n junk cid mem sh script waiting seconds fit report)"
    for cid mem sh script waiting seconds fit report
    unfolding run_test_def c_sleep_def Let_def
    by (intro returning run_refines [OF assms] state_io_rel_cases)
  then show ?thesis unfolding run_tests_def Let_def by (intro returning)
qed

lemma init_containers_refine:
  assumes "clone_positive K"
  shows "state_ret_rel refines (init_containers K n junk)"
  unfolding init_containers_def init_container_def Let_def by (intro returning run_refines [OF assms])

lemma create_container_refines:
  assumes "clone_positive K"
  shows "state_ret_rel refines (interactive_create_container K H n junk)"
  unfolding interactive_create_container_def Let_def by (intro returning create_with_refines [OF assms])

lemma waits_refine:
  "state_ret_rel refines (press_enter H :: ('w, 'z, unit option) pio)"
  "state_ret_rel refines (press_enter_line H n :: ('w, 'z, unit option) pio)"
  by (rule state_io_imp_ret, rule quiet_refines, rule quiet_press_enter)
    (rule state_io_imp_ret, rule quiet_refines, rule quiet_press_enter_line)

lemma with_id_refines:
  assumes "\<And>cid. state_ret_rel refines (act cid)" and "state_ret_rel refines wait_user"
  shows "state_ret_rel refines (with_id H act wait_user)"
  unfolding with_id_def by (intro returning assms)

lemma with_info_refines:
  assumes "\<And>i. state_ret_rel refines (act i)"
  shows "state_ret_rel refines (with_info H err cid act)"
  unfolding with_info_def by (intro returning assms)

lemma menu_entries_refine:
  assumes "clone_positive K"
  shows "state_ret_rel refines (menu_stop K H n)" and "state_ret_rel refines (menu_destroy K H n)"
    and "state_ret_rel refines (menu_info K H)" and "state_ret_rel refines (menu_edit K H n)"
    and "state_ret_rel refines (menu_start K H n)"
  unfolding menu_stop_def menu_destroy_def menu_info_def menu_edit_def menu_start_def
  by (intro with_id_refines with_info_refines returning waits_refine handlers_refine [OF assms])+

lemma stop_counting_refines: "state_ret_rel refines (stop_counting K n is k)"
  by (induction "is" arbitrary: k) (auto intro!: returning)

lemma display_monitor_refines: "state_ret_rel refines (display_monitor K H n)"
proof (induction n)
  case 0
  then show ?case by (simp add: refines_frame.ret_none)
next
  case (Suc n)
  have "state_io_rel refines (set_app (\<lambda>s. s\<lparr>monitor_mode := False\<rparr>) :: ('w, 'z, unit) aio)"
    by (rule refines_app) simp_all
  then show ?case
    unfolding display_monitor.simps
    by (intro returning Suc quiet_refines [OF quiet_get_app] quiet_refines [OF quiet_draw_monitor])
qed

lemma menu_action_refines:
  assumes "clone_positive K"
  shows "state_ret_rel refines (menu_action K H n junk choice)"
proof -
  have app: "state_io_rel refines (set_app (\<lambda>s. s\<lparr>monitor_mode := b\<rparr>) :: ('w, 'z, unit) aio)"
    "state_io_rel refines (set_app (\<lambda>s. s\<lparr>running := b\<rparr>) :: ('w, 'z, unit) aio)" for b
    by (rule refines_app; simp)+
  show ?thesis
    unfolding menu_action_def menu_exit_def
    by (intro returning menu_entries_refine [OF assms] create_container_refines [OF assms] waits_refine
        memory_cpu_test_refines [OF assms] display_monitor_refines stop_counting_refines app state_io_rel_cases)
qed

lemma interactive_menu_refines:
  assumes "clone_positive K"
  shows "state_ret_rel refines (interactive_menu K H n junk rounds)"
proof (induction rounds)
  case 0
  then show ?case by (simp add: refines_frame.ret_none)
next
  case (Suc rounds)
  then show ?case
    unfolding interactive_menu.simps
    by (intro returning menu_action_refines [OF assms] quiet_refines [OF quiet_get_app]
        quiet_refines [OF quiet_compact_monitor])
qed

section \<open>Lemmas: leaving the menu\<close>

lemma stop_counting_outcome:
  fixes K :: "'w kernel" and s t :: "('w, 'z) prog_scheme"
  assumes "run_state (stop_counting K n is k) s = (Some k', t)" and "wf_cm (cman s)"
    and "\<forall>i\<in>set is. i < length (containers (cman s))"
  shows "winds_down s t \<and> (\<forall>i\<in>set is. state_at (cman t) i \<noteq> CONTAINER_RUNNING) \<and>
    (\<forall>j<length (containers (cman s)). state_at (cman s) j \<noteq> CONTAINER_RUNNING \<longrightarrow>
      containers (cman t) ! j = containers (cman s) ! j)"
  using assms
proof (induction "is" arbitrary: s k)
  case Nil
  then show ?case by (simp add: down_frame.frame_refl)
next
  case (Cons i "is")
  have i: "i < length (containers (cman s))" using Cons.prems(3) by simp
  obtain u k1 where u: "run_state (stop_running K n i) s = (Some (), u)"
    and rest: "run_state (stop_counting K n is k1) u = (Some k', t)"
    using Cons.prems(1) by (auto simp: stop_running_def split: if_splits prod.splits option.splits)
  have su: "winds_down s u" using stop_running_down u by (rule state_ret_relD)
  then have wf: "wf_cm (cman u)" "ids (cman u) = ids (cman s)" using Cons.prems(2) by (simp_all add: winds_down_def)
  have len: "length (containers (cman u)) = length (containers (cman s))" using wf(2) by (rule ids_length)
  have ih: "winds_down u t" "\<forall>i\<in>set is. state_at (cman t) i \<noteq> CONTAINER_RUNNING"
    "\<forall>j<length (containers (cman u)). state_at (cman u) j \<noteq> CONTAINER_RUNNING \<longrightarrow>
      containers (cman t) ! j = containers (cman u) ! j"
    using Cons.IH [OF rest wf(1)] Cons.prems(3) len by simp_all
  have keep: "containers (cman u) ! j = containers (cman s) ! j" if "state_at (cman s) j \<noteq> CONTAINER_RUNNING" for j
    using u Cons.prems(2) i that by (rule stop_running_stops)
  then have "containers (cman t) ! j = containers (cman s) ! j"
    if "j < length (containers (cman s))" "state_at (cman s) j \<noteq> CONTAINER_RUNNING" for j
    using ih(3) that len by (simp add: state_at_def)
  moreover
  have "state_at (cman u) i \<noteq> CONTAINER_RUNNING" using u Cons.prems(2) i by (rule stop_running_stops)
  then have "state_at (cman t) i \<noteq> CONTAINER_RUNNING" using ih(1) wf(1) i len by (auto simp: winds_down_def)
  ultimately show ?case using su ih(1,2) by (auto intro: down_frame.frame_trans)
qed

lemma stop_counting_returns:
  assumes "tree_ranked K rank n"
  shows "returns (stop_counting K n is k)"
  by (induction "is" arbitrary: k) (auto intro!: returns_rules stop_returns [OF assms])

section \<open>Properties\<close>

text \<open>
  Property C25. Splitting a command: words typed plain, without blanks or quotes, or between quotes of either
  kind, with blanks and the other quote inside, and separated by blanks, are split into exactly these
  words.
\<close>
theorem split_command_roundtrip:
  assumes "list_all typable xs"
  shows "split_command (spaced (map typed xs)) = map snd xs"
  unfolding split_command_def using assms by (rule split_spaced) simp

theorem split_command_roundtrip_witness:
  "split_command (spaced [''sh'', ''-c'', [CHR 0x27] @ ''while true; do :; done'' @ [CHR 0x27]]) =
     [''sh'', ''-c'', ''while true; do :; done'']"
proof -
  have "list_all typable [(None, ''sh''), (None, ''-c''), (Some (CHR 0x27), ''while true; do :; done'')]"
    by (simp add: typable_def is_quote_def)
  from split_command_roundtrip [OF this] show ?thesis by (simp add: typed_def)
qed



text \<open>
  Property C29. Leaving the menu: on a well-formed manager and a finite process tree the entry \<open>0\<close> returns, ends
  the loop of the menu, leaves no container running and keeps every other container as it was.
\<close>
theorem menu_exit_stops_running:
  fixes s :: "('w, 'z) app_scheme"
  assumes "tree_ranked K rank n" and "wf_cm (cman s)"
  shows "\<exists>t. run_state (menu_action K H n junk (CHR ''0'')) s = (Some (), t) \<and> \<not> running t \<and>
    map info_id (containers (cman t)) = map info_id (containers (cman s)) \<and>
    (\<forall>i<length (containers (cman s)).
       if cstate (containers (cman s) ! i) = CONTAINER_RUNNING
       then cstate (containers (cman t) ! i) = CONTAINER_STOPPED
       else containers (cman t) ! i = containers (cman s) ! i)"
proof -
  obtain k u where run: "run_state (stop_counting K n [0..<length (containers (cman s))] 0) s = (Some k, u)"
    using stop_counting_returns [OF assms(1)] by (rule returnsE)
  have o: "winds_down s u" "\<forall>i<length (containers (cman s)). state_at (cman u) i \<noteq> CONTAINER_RUNNING"
    "\<forall>j<length (containers (cman s)). state_at (cman s) j \<noteq> CONTAINER_RUNNING \<longrightarrow>
      containers (cman u) ! j = containers (cman s) ! j"
    using stop_counting_outcome [OF run assms(2)] by simp_all
  have st: "\<forall>i<length (containers (cman s)).
       if cstate (containers (cman s) ! i) = CONTAINER_RUNNING
       then cstate (containers (cman u) ! i) = CONTAINER_STOPPED
       else containers (cman u) ! i = containers (cman s) ! i"
    using o assms(2) by (auto simp: winds_down_def state_at_def)
  have ids: "map info_id (containers (cman u)) = map info_id (containers (cman s))"
    using o(1) assms(2) by (simp add: winds_down_def ids_def)
  obtain c w where "h_getchar H (kst u) = (c, w)" by fastforce
  then obtain t where "run_state (menu_action K H n junk (CHR ''0'')) s = (Some (), t)" "cman t = cman u" "\<not> running t"
    using run by (cases "k = 0") (simp_all add: menu_action_def menu_exit_def)
  then show ?thesis using st ids by auto
qed

theorem menu_exit_stops_running_witness:
  "\<exists>t. run_state (menu_action calm_kernel calm_host (Suc 0) blank_config (CHR ''0''))
      (example_app (example_cm [example_info ''1'' 100 CONTAINER_RUNNING] 10)) = (Some (), t) \<and> \<not> running t \<and>
    cstate (containers (cman t) ! 0) = CONTAINER_STOPPED"
proof -
  have wf: "wf_cm (cman (example_app (example_cm [example_info ''1'' 100 CONTAINER_RUNNING] 10)))"
    by (simp add: wf_cm_def ids_distinct_def ids_def running_pids_def example_cm_def example_info_def)
  from menu_exit_stops_running [OF calm_tree_ranked wf, of calm_host blank_config] show ?thesis
    by (auto simp: example_cm_def example_info_def)
qed

end
