(* ===== verification/Main_Program.thy ===== *)
theory Main_Program
  imports Interactive
begin

text \<open>
  The two programs: \<open>main\<close> of \<open>src/src/main.cpp\<close>, which loads the table, starts the web server and runs one
  command or the menu, and \<open>main\<close> of \<open>src/src/web_server_main.cpp\<close>, which only serves. A process that
  \<open>exec\<close> forked does not come back to \<open>main\<close>: its outcome \<open>In_child\<close> is passed through. What goes to the
  standard error stream (the warning for users other than root, error messages) is not recorded.
\<close>

section \<open>Model: the command line program\<close>

definition returned :: "('w, 'z, int option) pio \<Rightarrow> ('w, 'z, exec_result option) pio" where
  "returned m = obind m (\<lambda>r. oret (Returned r))"

definition show_help :: "string \<Rightarrow> ('w, 'z, unit) io" where
  "show_help program_name = do {
     _ \<leftarrow> print_usage program_name;
     _ \<leftarrow> c_print ([NL] @ ''Interactive Mode:'' @ [NL]);
     _ \<leftarrow> c_print (''  Run without arguments or use '' @ APOS @ ''interactive'' @ APOS @ '' command to enter interactive menu'' @ [NL]);
     c_print (''  Use '' @ APOS @ ''monitor'' @ APOS @ '' or '' @ APOS @ ''htop'' @ APOS @ '' command to view htop-like monitor'' @ [NL])
   }"

definition run_command ::
  "'w kernel \<Rightarrow> 'w host \<Rightarrow> nat \<Rightarrow> nat \<Rightarrow> container_config \<Rightarrow> string list \<Rightarrow> ('w, 'z, exec_result option) aio" where
  \<comment> \<open>\<open>argv\<close> is the whole vector; the handlers get it from the command on\<close>
  "run_command K H n rounds junk argv =
     (let command = argv ! 1; args = drop 1 argv in
      if command = ''run'' then returned (handle_run K n junk args)
      else if command = ''start'' then returned (olift (handle_start K args))
      else if command = ''stop'' then returned (handle_stop K n args)
      else if command = ''list'' then returned (olift (handle_list H))
      else if command = ''exec'' then olift (handle_exec K args)
      else if command = ''destroy'' then returned (handle_destroy K n args)
      else if command = ''info'' then returned (olift (handle_info K H args))
      else if command = ''monitor'' \<or> command = ''htop'' then do {
        _ \<leftarrow> set_app (\<lambda>s. s\<lparr>monitor_mode := True\<rparr>);
        obind (display_monitor K H rounds) (\<lambda>_. oret (Returned EXIT_SUCCESS))
      }
      else if command = ''interactive'' \<or> command = ''menu''
      then obind (interactive_menu K H n junk rounds) (\<lambda>_. oret (Returned EXIT_SUCCESS))
      else if command = ''help'' \<or> command = ''-h'' \<or> command = ''--help'' then do {
        _ \<leftarrow> show_help (argv ! 0);
        oret (Returned EXIT_SUCCESS)
      }
      else do { _ \<leftarrow> print_usage (argv ! 0); oret (Returned EXIT_FAILURE) })"

definition wind_up :: "'w kernel \<Rightarrow> ('w, 'z, unit) aio" where
  \<comment> \<open>what the program does last, unless the command is \<open>run\<close>\<close>
  "wind_up K = do { _ \<leftarrow> delete_web K; container_manager_cleanup K }"

definition main ::
  "'w kernel \<Rightarrow> 'w host \<Rightarrow> nat \<Rightarrow> nat \<Rightarrow> container_config \<Rightarrow> string list \<Rightarrow> ('w, 'z, exec_result option) aio" where
  "main K H n rounds junk argv = do {
     r \<leftarrow> container_manager_init K 10000;
     if r \<noteq> 0 then oret (Returned EXIT_FAILURE)
     else do {
       _ \<leftarrow> ask (h_getuid H);
       _ \<leftarrow> set_app (\<lambda>s. s\<lparr>web := Some (new_web_server 808)\<rparr>);
       _ \<leftarrow> web_start;
       if length argv < 2
       then obind (interactive_menu K H n junk rounds) (\<lambda>_. do {
         _ \<leftarrow> wind_up K;
         oret (Returned EXIT_SUCCESS)
       })
       else obind (run_command K H n rounds junk argv) (\<lambda>result.
         case result of
           In_child _ \<Rightarrow> oret result
         | Returned _ \<Rightarrow>
             if argv ! 1 = ''run'' then oret result
             else do { _ \<leftarrow> wind_up K; oret result })
     }
   }"

section \<open>Model: the web server program\<close>

definition web_signal_handler :: "'w kernel \<Rightarrow> ('w, 'z, unit) aio" where
  "web_signal_handler K = do {
     _ \<leftarrow> c_print ([NL] @ ''Shutting down web server...'' @ [NL]);
     _ \<leftarrow> set_app (\<lambda>s. s\<lparr>running := False\<rparr>);
     w \<leftarrow> get_app web;
     if w = None then State_Monad.return () else web_stop K
   }"

primrec web_wait :: "'w kernel \<Rightarrow> (nat \<Rightarrow> bool) \<Rightarrow> nat \<Rightarrow> nat \<Rightarrow> ('w, 'z, unit option) aio" where
  \<comment> \<open>\<open>while (running) sleep(1)\<close>, from second \<open>k\<close> on; \<open>sig k\<close> tells whether a signal comes in second \<open>k\<close>\<close>
  "web_wait K sig k 0 = State_Monad.return None"
| "web_wait K sig k (Suc n) = do {
     go \<leftarrow> get_app running;
     if \<not> go then oret ()
     else do {
       _ \<leftarrow> c_sleep K 1;
       _ \<leftarrow> (if sig k then web_signal_handler K else State_Monad.return ());
       web_wait K sig (Suc k) n
     }
   }"

definition web_end :: "'w kernel \<Rightarrow> ('w, 'z, int option) aio" where
  \<comment> \<open>the end of \<open>main\<close>, after the waiting loop\<close>
  "web_end K = do {
     _ \<leftarrow> wind_up K;
     _ \<leftarrow> c_print (''Web server stopped'' @ [NL]);
     oret EXIT_SUCCESS
   }"

definition web_main ::
  "'w kernel \<Rightarrow> 'w host \<Rightarrow> (nat \<Rightarrow> bool) \<Rightarrow> nat \<Rightarrow> string list \<Rightarrow> ('w, 'z, int option) aio" where
  "web_main K H sig n argv = do {
     let port = (if length argv > 1 then atoi (argv ! 1) else 808);
     r \<leftarrow> container_manager_init K 10000;
     if r \<noteq> 0 then oret EXIT_FAILURE
     else do {
       uid \<leftarrow> ask (h_getuid H);
       _ \<leftarrow> (if uid \<noteq> 0
             then c_print (''Warning: Container operations typically require root privileges'' @ [NL])
             else State_Monad.return ());
       _ \<leftarrow> set_app (\<lambda>s. s\<lparr>web := Some (new_web_server port)\<rparr>);
       _ \<leftarrow> web_start;
       _ \<leftarrow> c_print (''Web server started on port '' @ show_int port @ [NL]);
       _ \<leftarrow> c_print (''Open http://localhost:'' @ show_int port @ '' in your browser'' @ [NL]);
       _ \<leftarrow> c_print (''Press Ctrl+C to stop'' @ [NL]);
       obind (web_wait K sig 0 n) (\<lambda>_. web_end K)
     }
   }"

section \<open>Lemmas: winding up\<close>

definition housekeeping :: "event \<Rightarrow> bool" where
  \<comment> \<open>printing, reading files, closing, making the directory of the state file\<close>
  "housekeeping e \<longleftrightarrow> is_file_read e \<or> state_dir_event e \<or> (\<exists>txt. e = EPrint txt)"

lemma housekeeping_simps [simp]: "housekeeping (EPrint x)" "housekeeping (EClose fd)"
  by (simp_all add: housekeeping_def is_file_read_def)

lemma housekeeping_signal: "housekeeping e \<Longrightarrow> signal_ok e"
  by (auto simp: housekeeping_def is_file_read_def state_dir_event_def signal_ok_def split: event.splits)

lemma wind_up_saves:
  fixes s :: "('w, 'z) app_scheme"
  obtains t p ok es where "run_state (wind_up K) s = ((), t)" and "web t = None" and "running t = running s"
    and "containers (cman t) = []"
    and "trace t = trace s @ es @ [ESave p (concat (state_lines (containers (cman s)))) ok]"
    and "list_all housekeeping es"
proof -
  obtain u where dw: "run_state (delete_web K) s = ((), u)" "cman u = cman s" "running u = running s" "web u = None"
    "only (\<lambda>e. \<exists>fd. e = EClose fd) s u"
    by (rule delete_web_cases)
  obtain t p ok es where cl: "run_state (container_manager_cleanup K) u = ((), t)" "same_front u t"
    "containers (cman t) = []" "trace t = trace u @ es @ [ESave p (concat (state_lines (containers (cman u)))) ok]"
    "list_all state_dir_event es"
    by (rule cleanup_saves)
  have "list_all housekeeping es" using cl(5) by (simp add: list_all_iff housekeeping_def)
  moreover have "only housekeeping s u" using dw(5) by (rule only_mono) auto
  then obtain es' where "trace u = trace s @ es'" "list_all housekeeping es'" by (auto simp: only_def)
  ultimately show thesis
    using dw cl by (intro that [of t "es' @ es" p ok]) (simp_all add: wind_up_def front_app)
qed

lemma init_front: "state_io_rel same_front (container_manager_init K m)"
proof -
  have le: "state_io_rel same_front (load_entry K v)" for v
    unfolding load_entry_def is_pid_alive_def add_container_def by (intro front_rules quiet_front [OF quiet_sys]) (simp add: signal_ok_def)
  have ll: "state_io_rel same_front (load_line K l v)" for l v
    unfolding load_line_def Let_def by (intro front_rules le)
  have "state_io_rel same_front (load_lines K ls v)" for ls v
    by (induction ls arbitrary: v) (auto intro!: front_rules ll)
  then show ?thesis
    unfolding container_manager_init_def load_state_def
    by (intro front_rules quiet_front [OF quiet_get_state_file_path] quiet_front [OF quiet_resource_manager_init])
qed

section \<open>Lemmas: looking only\<close>

text \<open>Commands that only look: they print, read files and leave the whole state of the program alone.\<close>

definition looks :: "('w, 'z) app_scheme \<Rightarrow> ('w, 'z) app_scheme \<Rightarrow> bool" where
  "looks s t \<longleftrightarrow> cman t = cman s \<and> running t = running s \<and> only housekeeping s t"

interpretation looks_frame: io_frame looks
proof
  show "looks s s" for s :: "('a, 'b) app_scheme"
    by (simp add: looks_def only_frame.frame_refl)
  show "looks s u" if "looks s t" "looks t u" for s t u :: "('a, 'b) app_scheme"
    using that by (auto simp: looks_def intro: only_frame.frame_trans)
qed

lemma looks_ask: "state_io_rel looks (ask f)"
  by (simp add: state_io_rel_def looks_def only_def split: prod.split)

lemma looks_print: "state_io_rel looks (c_print x)"
  by (simp add: state_io_rel_def looks_def only_def)

lemma looks_get: "state_io_rel looks get_cm" "state_io_rel looks (get_app f)"
  by (simp_all add: state_io_rel_def looks_def only_def)

lemma looks_stats:
  fixes K :: "'w kernel"
  shows "state_io_rel looks (stats K m cid)"
proof (rule state_io_relI)
  fix a and s t :: "('w, 'z) app_scheme"
  assume "run_state (stats K m cid :: ('w, 'z, ulong \<times> ulong) aio) s = (a, t)"
  with reader_stats have r: "reader s t" by (rule state_io_relD)
  then have "only housekeeping s t" unfolding reader_def by (auto intro: only_mono simp: housekeeping_def)
  with r show "looks s t" by (cases s; cases t) (simp add: looks_def reader_def)
qed

lemmas looks_rules = looks_frame.frame_combinators state_io_rel_cases looks_ask looks_print looks_get looks_stats

lemma looks_list: "state_io_rel looks (handle_list H :: ('w, 'z, int) aio)"
  unfolding handle_list_def print_row_def clock_text_def by (intro looks_rules)

lemma looks_info: "state_io_rel looks (handle_info K H argv :: ('w, 'z, int) aio)"
  unfolding handle_info_def print_info_def print_time_def by (intro looks_rules)

lemma list_code: "fst (run_state (handle_list H) s) = EXIT_SUCCESS"
  by (simp add: handle_list_def split: prod.split)

lemma info_code:
  "fst (run_state (handle_info K H argv) s) =
     (if 2 \<le> length argv \<and> container_manager_get_info (cman s) (argv ! 1) \<noteq> None
      then EXIT_SUCCESS else EXIT_FAILURE)"
  by (auto simp: handle_info_def split: prod.split option.split)

definition changing_commands :: "string list" where
  "changing_commands = [''run'', ''start'', ''stop'', ''exec'', ''destroy'', ''monitor'', ''htop'', ''interactive'', ''menu'']"

definition looking_code :: "container_manager \<Rightarrow> string list \<Rightarrow> int" where
  "looking_code c argv =
     (if argv ! 1 \<in> {''list'', ''help'', ''-h'', ''--help''} \<or>
         argv ! 1 = ''info'' \<and> 3 \<le> length argv \<and> container_manager_get_info c (argv ! 2) \<noteq> None
      then EXIT_SUCCESS else EXIT_FAILURE)"

lemma run_command_looking:
  assumes "argv ! 1 \<notin> set changing_commands"
  shows "run_command K H n rounds junk argv =
     (if argv ! 1 = ''list'' then returned (olift (handle_list H))
      else if argv ! 1 = ''info'' then returned (olift (handle_info K H (drop 1 argv)))
      else if argv ! 1 \<in> {''help'', ''-h'', ''--help''}
      then do { _ \<leftarrow> show_help (argv ! 0); oret (Returned EXIT_SUCCESS) }
      else do { _ \<leftarrow> print_usage (argv ! 0); oret (Returned EXIT_FAILURE) })"
  using assms by (simp add: run_command_def changing_commands_def Let_def)

lemma looking_command:
  fixes s :: "('w, 'z) app_scheme"
  assumes "argv ! 1 \<notin> set changing_commands" and "2 \<le> length argv"
  obtains t where "run_state (run_command K H n rounds junk argv) s =
    (Some (Returned (looking_code (cman s) argv)), t)" and "looks s t"
proof -
  have "state_io_rel looks (run_command K H n rounds junk argv :: ('w, 'z, exec_result option) aio)"
    unfolding run_command_looking [OF assms(1)] returned_def show_help_def print_usage_def
    by (intro looks_rules looks_list looks_info)
  moreover have "3 \<le> length argv \<longleftrightarrow> 2 \<le> length (drop 1 argv)" "drop 1 argv ! 1 = argv ! 2"
    using assms(2) by (auto simp: numeral_2_eq_2)
  then have info: "fst (run_state (handle_info K H (drop 1 argv)) s) =
      (if 3 \<le> length argv \<and> container_manager_get_info (cman s) (argv ! 2) \<noteq> None then EXIT_SUCCESS else EXIT_FAILURE)"
    by (simp only: info_code)
  moreover have "fst (run_state (run_command K H n rounds junk argv) s) = Some (Returned (looking_code (cman s) argv))"
    using list_code [of H s] info
    by (auto simp: run_command_looking [OF assms(1)] returned_def looking_code_def show_help_def print_usage_def
        split: prod.split)
  ultimately show thesis by (intro that [of "snd (run_state (run_command K H n rounds junk argv) s)"])
    (simp_all add: prod_eq_iff state_io_rel_run)
qed

section \<open>Lemmas: commands refine the life cycle\<close>

lemma handle_run_refines:
  fixes K :: "'w kernel"
  assumes "clone_positive K"
  shows "state_ret_rel refines (handle_run K n junk argv :: ('w, 'z, int option) aio)"
proof -
  have "state_ret_rel refines (wait_while_running K k :: ('w, 'z, unit option) aio)" for k
    by (induction k) (auto simp: c_sleep_def intro!: returning quiet_refines [OF quiet_get_app])
  then show ?thesis
    unfolding handle_run_def await_container_def
    by (intro returning run_refines [OF assms] quiet_refines [OF quiet_parse_run_options]
        quiet_refines [OF quiet_sys]) (simp_all add: signal_ok_def)
qed

lemma run_command_refines:
  fixes K :: "'w kernel"
  assumes "clone_positive K"
  shows "state_ret_rel refines (run_command K H n rounds junk argv :: ('w, 'z, exec_result option) aio)"
proof -
  have app: "state_io_rel refines (set_app (\<lambda>s. s\<lparr>monitor_mode := b\<rparr>) :: ('w, 'z, unit) aio)" for b
    by (rule refines_app) simp_all
  have exec: "state_io_rel refines (handle_exec K args)" for args
    unfolding handle_exec_def by (intro quiet_refines quiet_rules quiet_exec)
  show ?thesis
    unfolding run_command_def returned_def show_help_def print_usage_def Let_def
    by (intro returning app exec handle_run_refines [OF assms] handlers_refine [OF assms]
        display_monitor_refines interactive_menu_refines [OF assms])
qed

text \<open>What \<open>main\<close> does between loading the table and winding up.\<close>

definition served :: "int \<Rightarrow> ('w, 'z) app_scheme \<Rightarrow> ('w, 'z) app_scheme" where
  \<comment> \<open>the web server made and started\<close>
  "served port s = s\<lparr>web := Some \<lparr>server_port = port, server_running = True, server_socket = - 1, joinable = True\<rparr>\<rparr>"

lemma served_simps [simp]:
  "cman (served port s) = cman s" "running (served port s) = running s" "trace (served port s) = trace s"
  by (simp_all add: served_def)

lemma main_run:
  assumes "run_state (container_manager_init K 10000) s = (0, s1)"
    and "run_state (run_command K H n rounds junk argv) (served 808 (s1\<lparr>kst := snd (h_getuid H (kst s1))\<rparr>)) =
      (Some (Returned r), u)"
    and "2 \<le> length argv" and "argv ! 1 \<noteq> ''run''"
  obtains t where "run_state (main K H n rounds junk argv) s = (Some (Returned r), t)"
    and "run_state (wind_up K) u = ((), t)"
proof -
  obtain t where "run_state (wind_up K) u = ((), t)" by (metis (full_types) old.unit.exhaust surj_pair)
  moreover have "run_state (ask (h_getuid H)) s1 = (fst (h_getuid H (kst s1)), s1\<lparr>kst := snd (h_getuid H (kst s1))\<rparr>)"
    by (simp split: prod.split)
  ultimately show thesis
    using assms by (intro that [of t]) (simp_all add: main_def web_start_def new_web_server_def served_def)
qed

section \<open>Lemmas: the web server program\<close>

lemma web_signal_handler_cases:
  fixes s :: "('w, 'z) app_scheme"
  obtains t where "run_state (web_signal_handler K) s = ((), t)" and "cman t = cman s" and "\<not> running t"
    and "only housekeeping s t"
proof -
  obtain t where "run_state (web_signal_handler K) s = ((), t)" by (metis (full_types) old.unit.exhaust surj_pair)
  moreover from this have "cman t = cman s" "\<not> running t" "only housekeeping s t"
    by (auto simp: web_signal_handler_def web_stop_def get_web_def set_socket_def only_def split: if_splits prod.splits)
  ultimately show thesis by (rule that)
qed

lemma web_wait_goes_on:
  fixes s :: "('w, 'z) app_scheme"
  assumes "running s" and "\<forall>j. k \<le> j \<and> j < k + n \<longrightarrow> \<not> sig j"
  shows "fst (run_state (web_wait K sig k n) s) = None"
  using assms
proof (induction n arbitrary: k s)
  case (Suc n)
  obtain w where "k_usleep K 1000000 (kst s) = ((), w)" by (metis (full_types) old.unit.exhaust surj_pair)
  moreover have "\<not> sig k" using Suc.prems(2) by simp
  ultimately show ?case
    using Suc.IH [of "s\<lparr>kst := w\<rparr>" "Suc k"] Suc.prems by (simp add: c_sleep_def)
qed simp

lemma web_wait_ends:
  fixes s :: "('w, 'z) app_scheme"
  assumes "running s" and "sig j" and "k \<le> j" and "Suc j < k + n"
  shows "\<exists>t. run_state (web_wait K sig k n) s = (Some (), t) \<and> cman t = cman s \<and> \<not> running t \<and> only housekeeping s t"
  using assms
proof (induction n arbitrary: k s)
  case (Suc n)
  define s' where "s' = s\<lparr>kst := snd (k_usleep K 1000000 (kst s))\<rparr>"
  have slp: "run_state (c_sleep K 1) s = (fst (k_usleep K 1000000 (kst s)), s')"
    by (simp add: c_sleep_def s'_def split: prod.split)
  show ?case
  proof (cases "sig k")
    case True
    obtain t where t: "run_state (web_signal_handler K) s' = ((), t)" "cman t = cman s'" "\<not> running t"
      "only housekeeping s' t"
      by (rule web_signal_handler_cases)
    moreover obtain m where "n = Suc m" using Suc.prems(3,4) by (cases n) auto
    ultimately show ?thesis using True Suc.prems(1) slp by (simp add: s'_def only_def)
  next
    case False
    then have "Suc k \<le> j" using Suc.prems(2,3) by (metis Suc_leI le_neq_implies_less)
    then obtain t where "run_state (web_wait K sig (Suc k) n) s' = (Some (), t)" "cman t = cman s'" "\<not> running t"
      "only housekeeping s' t"
      using Suc.IH [of s' "Suc k"] Suc.prems by (auto simp: s'_def)
    then show ?thesis using False Suc.prems(1) slp by (simp add: s'_def only_def)
  qed
qed simp

definition greetings :: "int \<Rightarrow> int \<Rightarrow> event list" where
  "greetings uid port =
     (if uid \<noteq> 0 then [EPrint (''Warning: Container operations typically require root privileges'' @ [NL])] else []) @
     [EPrint (''Web server started on port '' @ show_int port @ [NL]),
      EPrint (''Open http://localhost:'' @ show_int port @ '' in your browser'' @ [NL]),
      EPrint (''Press Ctrl+C to stop'' @ [NL])]"

lemma web_main_run:
  assumes "run_state (container_manager_init K 10000) s = (0, s1)"
  obtains u where "cman u = cman s1" and "running u = running s1" and "only housekeeping s1 u"
    and "run_state (web_main K H sig n argv) s = run_state (obind (web_wait K sig 0 n) (\<lambda>_. web_end K)) u"
proof -
  define port where "port = (if length argv > 1 then atoi (argv ! 1) else 808)"
  obtain uid w where uid: "h_getuid H (kst s1) = (uid, w)" by fastforce
  define u where "u = (served port (s1\<lparr>kst := w\<rparr>))\<lparr>trace := trace s1 @ greetings uid port\<rparr>"
  have "list_all housekeeping (greetings uid port)" by (simp add: greetings_def)
  then have "only housekeeping s1 u" by (simp add: u_def only_def)
  moreover have "cman u = cman s1" "running u = running s1" by (simp_all add: u_def)
  moreover have "run_state (web_main K H sig n argv) s = run_state (obind (web_wait K sig 0 n) (\<lambda>_. web_end K)) u"
    using assms uid
    unfolding web_main_def Let_def port_def [symmetric]
    by (simp add: web_start_def new_web_server_def u_def served_def greetings_def)
  ultimately show thesis by (intro that)
qed

section \<open>Instances\<close>

lemma calm_init: "fst (run_state (container_manager_init calm_kernel 10000) (example_app (example_cm [] 10))) = 0 \<and>
   containers (cman (snd (run_state (container_manager_init calm_kernel 10000) (example_app (example_cm [] 10))))) = []"
  by (simp add: container_manager_init_def resource_manager_init_def detect_cgroup_version_def load_state_def read_file_def
      Let_def calm_simps calm_kernel_def example_app_def)

lemma calm_init_run:
  obtains s1 where "run_state (container_manager_init calm_kernel 10000) (example_app (example_cm [] 10)) = (0, s1)"
    and "containers (cman s1) = []"
  using calm_init by (metis prod.collapse)

lemma list_looks: "2 \<le> length [''mini-container'', ''list'']" "[''mini-container'', ''list''] ! 1 \<notin> set changing_commands"
  by (simp_all add: changing_commands_def)

section \<open>Properties\<close>







end
