(* ===== verification/Spec2Isabelle.thy ===== *)
theory Spec2Isabelle
  imports Main_Program
begin

text \<open>
  \<^bold>\<open>Mini-container: a verification development.\<close>

  Mini-container (\<open>src/\<close>) is a small container runtime for Linux, written in C++. Its parts:

  \<^item> the filesystem manager (\<open>src/src/filesystem_manager.cpp\<close>) makes a minimal root filesystem,
    populates it, changes root, mounts and unmounts the virtual filesystems;
  \<^item> the namespace handler (\<open>src/src/namespace_handler.cpp\<close>) clones a process into new namespaces,
    prepares it and joins the namespaces of a running container;
  \<^item> the resource manager (\<open>src/src/resource_manager.cpp\<close>) keeps one cgroup per container, sets its
    limits, places processes into it and reads its statistics;
  \<^item> the container manager (\<open>src/src/container_manager.cpp\<close>) keeps the table of containers, creates,
    starts, stops, destroys and runs them through the three parts above, and saves the table to a
    state file which it loads when it is initialised;
  \<^item> the command line, the interactive menu with its monitors, the ready-made workloads and the
    signal handler (\<open>src/src/main.cpp\<close>) and the web server (\<open>src/src/web_server_simple.cpp\<close>,
    \<open>src/src/web_server_main.cpp\<close>) are front ends of the container manager. They share one
    manager object; the command line program loads the table, starts the web server, runs one
    command or the menu, stops the server and saves the table.

  \<^bold>\<open>Theories.\<close>

  \<^item> \<open>Prelude\<close>: operations that may not return (fuel, \<^typ>\<open>'a option\<close>), loops over lists, the frame
    locale \<open>io_frame\<close>, lists with pointers as indices.
  \<^item> \<open>C_Library\<close>: widths of integers, printing and scanning of numbers (locale \<open>decimal_format\<close>),
    \<open>snprintf\<close> with truncation, \<open>strstr\<close>, \<open>dirname\<close>.
  \<^item> \<open>Kernel\<close>: the operating system as a parameter, a record of calls over an arbitrary type of kernel
    states; the program state with its trace of calls; frames over the trace. \<open>Mem_Kernel\<close> has two
    concrete kernels on which hypotheses are shown to be satisfiable.
  \<^item> \<open>Filesystem_Manager\<close>, \<open>Namespace_Handler\<close>, \<open>Resource_Manager\<close>: one definition per function of
    the file of the same name, and its properties.
  \<^item> \<open>Container_Table\<close>: the structures of \<open>src/include/container_manager.hpp\<close> and the table of
    containers (\<open>find_container\<close>, \<open>add_container\<close>, \<open>remove_container\<close>, \<open>generate_container_id\<close>,
    \<open>container_manager_get_info\<close>); the locale \<open>keyed_table\<close> states what the manager relies on, and
    the table is an interpretation of it.
  \<^item> \<open>State_File\<close>: \<open>save_state\<close> and \<open>load_state\<close>, with their round trip.
  \<^item> \<open>Container_Manager\<close>: the operations \<open>container_manager_init\<close>, \<open>_create\<close>, \<open>_start\<close>, \<open>_stop\<close>,
    \<open>_destroy\<close>, \<open>_exec\<close>, \<open>_run\<close>, \<open>_cleanup\<close> and what they call, and the possible outcomes of each.
    The locale \<open>manager_frame\<close> extends \<open>io_frame\<close> to relations that every operation keeps which leaves
    the program's own state alone; the refinement and the frames of the front ends are instances.
  \<^item> \<open>Lifecycle\<close>: the abstract life cycle of containers, the refinement of every operation to it and
    the invariant of the manager over arbitrary sequences of operations.
  \<^item> \<open>Manager_Properties\<close>: termination and functional properties of the single operations.
  \<^item> \<open>Floating\<close>: \<open>double\<close> as rationals rounded to 53 binary digits, and printing with a fixed number of
    decimals. \<open>Front_End\<close>: the globals of the front ends, the calls they make, formatting of sizes,
    durations and CPU shares.
  \<^item> \<open>Web_Page\<close> and \<open>Web_Server\<close>: the page, requests, JSON answers and the accept loop; requests only
    read, routing, completeness of the list, bounds of percentages, the exception of an unlimited
    container.
  \<^item> \<open>Command_Line\<close>: \<open>getopt_long\<close> as \<open>parse_run_options\<close> uses it and the handlers of the commands; round
    trip of the options, overflow of the memory limit, \<open>handle_run\<close> returns only on failure.
  \<^item> \<open>Shutdown\<close>: the signal handler; after it nothing runs. \<open>Monitor\<close>: both monitors.
  \<^item> \<open>Scenarios\<close>: \<open>run_tests\<close>, \<open>run_memory_cpu_test\<close>, \<open>init_containers\<close>. \<open>Interactive\<close>: the dialogue, the
    splitting of a command and the menu, with its refinement of the life cycle.
  \<^item> \<open>Main_Program\<close>: both \<open>main\<close> functions; a whole run refines the life cycle from the table it loads to
    the table it saves.

  \<^bold>\<open>How the code is represented.\<close> An operation is a value of the library's state monad over the
  program state: kernel state, trace of system calls with their results, and, from
  \<open>Container_Table\<close> on, the manager object. A call asks the kernel parameter, so every theorem holds
  for every kernel that satisfies its named hypotheses; error returns are the branches of the source.
  Return codes are integers as in the source; a pointer that may be null is an option, a pointer
  into the table an index, the pointer array a list. \<open>int\<close>, \<open>pid_t\<close>, \<open>long\<close> and \<open>time_t\<close> are integers
  with the conversions between their widths written out, \<open>unsigned long\<close> is \<^typ>\<open>64 word\<close>. The child
  processes made by \<open>clone\<close> and \<open>fork\<close> have memory of their own; their code is a separate definition
  (\<open>container_child\<close>, \<open>exec_child\<close>).

  Standard output is recorded in the trace. Memory that the code reads before writing it is a
  parameter (\<open>junk\<close>): the configuration the front ends build on the stack, the variables of a scan.
  Calls of the C library on the terminal, the clock and sockets are the parameter \<open>host\<close>, as is
  \<open>std::sort\<close> where the order of equal elements is not specified. A C++ exception is a value.

  \<^bold>\<open>Fuel.\<close> Three recursions of the manager are not bounded by the code: \<open>mkdir_p\<close>, the copy loop and
  \<open>kill_process_tree\<close>. They take fuel, and the operations that use them answer \<^const>\<open>None\<close> when it is
  used up. Enough fuel is shown to exist: the length of the path for \<open>mkdir_p\<close> on a kernel where the
  top directories exist, the number of reads for the copy loop on files of finite length, the depth
  of the process tree for \<open>kill_process_tree\<close>. The loops of the front ends (menu, monitor, accept loop, the
  waiting loops of \<open>handle_run\<close> and of the stand-alone server) go on until the user or a signal ends
  them, and carry fuel for their rounds; that \<open>handle_run\<close> does not come back from its loop, and that the
  stand-alone server comes back exactly after a signal, are theorems.

  \<^bold>\<open>Not modelled.\<close> Messages on standard error, debug output, and the \<open>access\<close> probes made only for
  them; escape sequences and terminal modes; releasing memory; null checks of the manager object,
  which is part of the state; the result of the one \<open>strdup\<close> whose failure \<open>load_state\<close> does not check.
  The server thread is a program of its own over the same state: its interleaving with the main
  thread, and the waiting of \<open>join\<close>, are not modelled. The signal handler is run from the state in which
  the signal finds the program, not inside the operation it interrupts.
\<close>

end
